(* ===== verification/Prelude.thy ===== *)
theory Prelude
  imports
    "HOL-Library.Word"
    "HOL-Library.State_Monad"
    "HOL-Library.Monad_Syntax"
begin

text \<open>
  The shared vocabulary of the development: the widths of the C types, a weakest
  precondition calculus for the state monad in which the stateful code is written,
  preservation and frame rules for that monad, and the generic facts on words, lists
  and linked chains that more than one component uses.
\<close>

unbundle bit_operations_syntax

section \<open>Types of the C program\<close>

type_synonym uint8 = "8 word"
type_synonym uint32 = "32 word"
type_synonym uint64 = "64 word"
type_synonym dword = "32 word"
type_synonym ntstatus = "32 word"
type_synonym handle = "64 word"
type_synonym sock_fd = "64 word"
type_synonym addr = nat

abbreviation (input) INVALID_SOCKET :: sock_fd where
  "INVALID_SOCKET \<equiv> - 1"

abbreviation (input) INVALID_HANDLE_VALUE :: handle where
  "INVALID_HANDLE_VALUE \<equiv> - 1"

abbreviation (input) NULL_HANDLE :: handle where
  "NULL_HANDLE \<equiv> 0"

section \<open>Named collections\<close>

named_theorems wp_simps "equations that compute the weakest precondition of a monadic program"
named_theorems keeps_intros "rules for programs that leave a projection of the state unchanged"
named_theorems preserves_intros "rules for programs that preserve a state predicate"

section \<open>The state monad\<close>

definition gets :: "('s \<Rightarrow> 'a) \<Rightarrow> ('s, 'a) state" where
  "gets f = State (\<lambda>s. (f s, s))"

definition modify :: "('s \<Rightarrow> 's) \<Rightarrow> ('s, unit) state" where
  "modify f = State (\<lambda>s. ((), f s))"

definition exec :: "('s, 'a) state \<Rightarrow> 's \<Rightarrow> 's" where
  "exec m s = snd (run_state m s)"

definition result_of :: "('s, 'a) state \<Rightarrow> 's \<Rightarrow> 'a" where
  "result_of m s = fst (run_state m s)"

definition when_do :: "bool \<Rightarrow> ('s, unit) state \<Rightarrow> ('s, unit) state" where
  "when_do b m = (if b then m else State_Monad.return ())"

abbreviation return :: "'a \<Rightarrow> ('s, 'a) state" where
  "return \<equiv> State_Monad.return"

abbreviation skip :: "('s, unit) state" where
  "skip \<equiv> State_Monad.return ()"

lemma run_state_gets [simp]: "run_state (gets f) s = (f s, s)"
  by (simp add: gets_def)

lemma run_state_modify [simp]: "run_state (modify f) s = ((), f s)"
  by (simp add: modify_def)

lemma run_state_if [simp]:
  "run_state (if b then m else n) s = (if b then run_state m s else run_state n s)"
  by simp

lemma run_state_when [simp]:
  "run_state (when_do b m) s = (if b then run_state m s else ((), s))"
  by (simp add: when_do_def)

lemma exec_simps [simp]:
  "exec (return x) s = s"
  "exec (gets f) s = s"
  "exec (modify g) s = g s"
  "exec (State_Monad.bind m k) s = exec (k (result_of m s)) (exec m s)"
  "exec (when_do b n) s = (if b then exec n s else s)"
  by (simp_all add: exec_def result_of_def split: prod.splits)

lemma result_of_simps [simp]:
  "result_of (return x) s = x"
  "result_of (gets f) s = f s"
  "result_of (modify g) s = ()"
  "result_of (State_Monad.bind m k) s = result_of (k (result_of m s)) (exec m s)"
  by (simp_all add: exec_def result_of_def split: prod.splits)

lemma run_state_result_exec: "run_state m s = (result_of m s, exec m s)"
  by (simp add: result_of_def exec_def)

subsection \<open>Weakest preconditions\<close>

definition wp :: "('s, 'a) state \<Rightarrow> ('a \<Rightarrow> 's \<Rightarrow> bool) \<Rightarrow> 's \<Rightarrow> bool" where
  "wp m Q s = Q (result_of m s) (exec m s)"

lemma wp_return [wp_simps]: "wp (return x) Q s = Q x s"
  by (simp add: wp_def)

lemma wp_gets [wp_simps]: "wp (gets f) Q s = Q (f s) s"
  by (simp add: wp_def)

lemma wp_modify [wp_simps]: "wp (modify g) Q s = Q () (g s)"
  by (simp add: wp_def)

lemma wp_bind [wp_simps]: "wp (State_Monad.bind m k) Q s = wp m (\<lambda>x. wp (k x) Q) s"
  by (simp add: wp_def)

lemma wp_if [wp_simps]:
  "wp (if b then m else n) Q s = (if b then wp m Q s else wp n Q s)"
  by (simp add: wp_def)

lemma wp_when [wp_simps]:
  "wp (when_do b n) Q s = (if b then wp n Q s else Q () s)"
  by (simp add: wp_def when_do_def)

lemma wp_case_option [wp_simps]:
  "wp (case v of None \<Rightarrow> m | Some x \<Rightarrow> k x) Q s =
     (case v of None \<Rightarrow> wp m Q s | Some x \<Rightarrow> wp (k x) Q s)"
  by (simp split: option.splits)

lemma wp_case_prod [wp_simps]:
  "wp (case v of (x, y) \<Rightarrow> k x y) Q s = (case v of (x, y) \<Rightarrow> wp (k x y) Q s)"
  by (simp split: prod.splits)

lemma wp_let [wp_simps]:
  "wp (Let v k) Q s = (let x = v in wp (k x) Q s)"
  by (simp add: Let_def)

lemma wp_mono:
  assumes "wp m P s" and "\<And>r s'. P r s' \<Longrightarrow> Q r s'"
  shows "wp m Q s"
  using assms by (simp add: wp_def)

lemma wp_conj: "wp m (\<lambda>r s'. P r s' \<and> Q r s') s \<longleftrightarrow> wp m P s \<and> wp m Q s"
  by (simp add: wp_def)

lemma wp_execD: "wp m (\<lambda>_. P) s \<Longrightarrow> P (exec m s)"
  by (simp add: wp_def)

subsection \<open>Frames and preservation\<close>

definition keeps :: "('s \<Rightarrow> 'b) \<Rightarrow> ('s, 'a) state \<Rightarrow> bool" where
  "keeps f m \<longleftrightarrow> (\<forall>s. f (exec m s) = f s)"

definition preserves :: "('s \<Rightarrow> bool) \<Rightarrow> ('s, 'a) state \<Rightarrow> bool" where
  "preserves P m \<longleftrightarrow> (\<forall>s. P s \<longrightarrow> P (exec m s))"

lemma keepsD: "keeps f m \<Longrightarrow> f (exec m s) = f s"
  by (simp add: keeps_def)

lemma preservesD: "preserves P m \<Longrightarrow> P s \<Longrightarrow> P (exec m s)"
  by (simp add: preserves_def)

lemma keeps_preserves: "keeps f m \<Longrightarrow> preserves (\<lambda>s. P (f s)) m"
  by (simp add: keeps_def preserves_def)

lemma keeps_return [keeps_intros]: "keeps f (return x)"
  by (simp add: keeps_def)

lemma keeps_gets [keeps_intros]: "keeps f (gets g)"
  by (simp add: keeps_def)

lemma keeps_modify [keeps_intros]: "(\<And>s. f (g s) = f s) \<Longrightarrow> keeps f (modify g)"
  by (simp add: keeps_def)

lemma keeps_bind [keeps_intros]:
  "keeps f m \<Longrightarrow> (\<And>x. keeps f (k x)) \<Longrightarrow> keeps f (State_Monad.bind m k)"
  by (simp add: keeps_def)

lemma keeps_if [keeps_intros]:
  "(b \<Longrightarrow> keeps f m) \<Longrightarrow> (\<not> b \<Longrightarrow> keeps f n) \<Longrightarrow> keeps f (if b then m else n)"
  by simp

lemma keeps_when [keeps_intros]: "(b \<Longrightarrow> keeps f m) \<Longrightarrow> keeps f (when_do b m)"
  by (simp add: keeps_def)

lemma keeps_option [keeps_intros]:
  "keeps f m \<Longrightarrow> (\<And>x. keeps f (k x)) \<Longrightarrow> keeps f (case v of None \<Rightarrow> m | Some x \<Rightarrow> k x)"
  by (cases v) simp_all

lemma keeps_prod [keeps_intros]:
  "(\<And>x y. keeps f (k x y)) \<Longrightarrow> keeps f (case v of (x, y) \<Rightarrow> k x y)"
  by (cases v) simp

lemma keeps_let [keeps_intros]: "(\<And>x. keeps f (k x)) \<Longrightarrow> keeps f (Let v k)"
  by (simp add: Let_def)

lemma preserves_return [preserves_intros]: "preserves P (return x)"
  by (simp add: preserves_def)

lemma preserves_gets [preserves_intros]: "preserves P (gets g)"
  by (simp add: preserves_def)

lemma preserves_bind [preserves_intros]:
  "preserves P m \<Longrightarrow> (\<And>x. preserves P (k x)) \<Longrightarrow> preserves P (State_Monad.bind m k)"
  by (simp add: preserves_def)

lemma preserves_if [preserves_intros]:
  "(b \<Longrightarrow> preserves P m) \<Longrightarrow> (\<not> b \<Longrightarrow> preserves P n) \<Longrightarrow>
   preserves P (if b then m else n)"
  by simp

lemma preserves_when [preserves_intros]: "(b \<Longrightarrow> preserves P m) \<Longrightarrow> preserves P (when_do b m)"
  by (simp add: preserves_def)

lemma preserves_option [preserves_intros]:
  "preserves P m \<Longrightarrow> (\<And>x. preserves P (k x)) \<Longrightarrow>
   preserves P (case v of None \<Rightarrow> m | Some x \<Rightarrow> k x)"
  by (cases v) simp_all

lemma preserves_let [preserves_intros]: "(\<And>x. preserves P (k x)) \<Longrightarrow> preserves P (Let v k)"
  by (simp add: Let_def)

section \<open>Words\<close>

lemma of_nat_word_eq_iff:
  "n < 2 ^ LENGTH('a) \<Longrightarrow> (of_nat n :: 'a::len word) = w \<longleftrightarrow> n = unat w"
  by (auto simp: unsigned_of_nat take_bit_nat_eq_self)

text \<open>
  Tests of a word against a mask, bit by bit.  With a numeral mask the right-hand sides reduce to
  propositional formulas over the bits of the word.
\<close>

named_theorems mask_simps "reduction of mask tests to single bits"

lemma word_and_eq_0:
  "(w :: 'a::len word) AND m = 0 \<longleftrightarrow> (\<forall>n < LENGTH('a). bit m n \<longrightarrow> \<not> bit w n)"
  by (auto simp: bit_eq_iff bit_and_iff dest: bit_imp_le_length)

lemma all_less_numeral:
  "(\<forall>n < numeral k. P n) \<longleftrightarrow> (\<forall>n < pred_numeral k. P n) \<and> P (pred_numeral k)"
  by (auto simp: numeral_eq_Suc less_Suc_eq)

lemma uint8_and_eq_0 [mask_simps]:
  "(w :: uint8) AND m = 0 \<longleftrightarrow>
     list_all (\<lambda>n. bit m n \<longrightarrow> \<not> bit w n) [0, 1, 2, 3, 4, 5, 6, 7]"
  unfolding word_and_eq_0 by (simp add: all_less_numeral)

lemma uint32_and_eq_0 [mask_simps]:
  "(w :: uint32) AND m = 0 \<longleftrightarrow>
     list_all (\<lambda>n. bit m n \<longrightarrow> \<not> bit w n)
       [0, 1, 2, 3, 4, 5, 6, 7, 8, 9, 10, 11, 12, 13, 14, 15, 16, 17, 18, 19, 20, 21, 22, 23, 24,
        25, 26, 27, 28, 29, 30, 31]"
  unfolding word_and_eq_0 by (simp add: all_less_numeral)

lemma uint8_eqI:
  "list_all (\<lambda>n. bit (v :: uint8) n = bit w n) [0, 1, 2, 3, 4, 5, 6, 7] \<Longrightarrow> v = w"
  by (rule bit_word_eqI) (simp add: less_Suc_eq numeral_eq_Suc, elim disjE; simp)

lemma bit_if [mask_simps]: "bit (if b then v else w) n = (if b then bit v n else bit w n)"
  by simp

lemmas mask_bits [mask_simps] = bit_or_iff bit_and_iff bit_not_iff_eq

section \<open>Linked chains\<close>

text \<open>
  \<open>chain nxt p xs\<close>: the nodes reached from the pointer \<open>p\<close> along \<open>nxt\<close> are exactly \<open>xs\<close>,
  and the last one points nowhere.  \<open>walk\<close> computes that list with a bound on its length.
\<close>

fun chain :: "('a \<Rightarrow> 'a option) \<Rightarrow> 'a option \<Rightarrow> 'a list \<Rightarrow> bool" where
  "chain nxt p [] \<longleftrightarrow> p = None"
| "chain nxt p (x # xs) \<longleftrightarrow> p = Some x \<and> chain nxt (nxt x) xs"

fun walk :: "nat \<Rightarrow> ('a \<Rightarrow> 'a option) \<Rightarrow> 'a option \<Rightarrow> 'a list" where
  "walk 0 nxt p = []"
| "walk (Suc n) nxt None = []"
| "walk (Suc n) nxt (Some x) = x # walk n nxt (nxt x)"

lemma chain_cong:
  "(\<And>x. x \<in> set xs \<Longrightarrow> f x = g x) \<Longrightarrow> chain f p xs = chain g p xs"
  by (induction xs arbitrary: p) auto

lemma chain_upd [simp]: "x \<notin> set xs \<Longrightarrow> chain (f(x := v)) p xs = chain f p xs"
  by (rule chain_cong) auto

lemma chain_unique: "chain f p xs \<Longrightarrow> chain f p ys \<Longrightarrow> xs = ys"
proof (induction xs arbitrary: p ys)
  case Nil
  then show ?case by (cases ys) auto
next
  case (Cons x xs)
  then show ?case by (cases ys) auto
qed

lemma chain_suffix: "chain f p (xs @ x # ys) \<Longrightarrow> chain f (Some x) (x # ys)"
  by (induction xs arbitrary: p) auto

lemma chain_distinct: "chain f p xs \<Longrightarrow> distinct xs"
proof (induction xs arbitrary: p)
  case (Cons x xs)
  then have "chain f (f x) xs" "distinct xs" by auto
  moreover have "x \<notin> set xs"
  proof
    assume "x \<in> set xs"
    then obtain us vs where "xs = us @ x # vs" by (metis split_list)
    with \<open>chain f (f x) xs\<close> have "chain f (f x) vs"
      using chain_suffix [of f "f x" us x vs] by simp
    with \<open>chain f (f x) xs\<close> have "xs = vs" by (rule chain_unique)
    with \<open>xs = us @ x # vs\<close> show False by (metis length_append length_Cons
      not_add_less2 lessI less_add_Suc2)
  qed
  ultimately show ?case by simp
qed simp

lemma walk_chain: "chain f p xs \<Longrightarrow> length xs \<le> n \<Longrightarrow> walk n f p = xs"
proof (induction xs arbitrary: p n)
  case Nil
  then show ?case by (cases n) auto
next
  case (Cons x xs)
  then show ?case by (cases n) auto
qed

lemma bounded_distinct_length:
  "distinct xs \<Longrightarrow> (\<And>x. x \<in> set xs \<Longrightarrow> x < n) \<Longrightarrow> length xs \<le> (n::nat)"
  by (metis card_lessThan card_mono distinct_card finite_lessThan lessThan_iff subsetI)

end
