(* ===== verification/Ep_Codes.thy ===== *)
theory Ep_Codes
  imports Prelude
begin

text \<open>
  The numeric codes the program shares with its platform: the errno values of the
  Universal C Runtime (with the fallbacks of \<^verbatim>\<open>src/src/wepoll_ex_errno.c\<close> for the names
  the MinGW header does not define), the Win32 and Winsock error codes it translates,
  and the NTSTATUS values of \<^verbatim>\<open>src/src/wepoll_ex_internal.h\<close>.
\<close>

section \<open>errno\<close>

abbreviation (input) EINTR :: int where
  "EINTR \<equiv> 4"

abbreviation (input) ENOENT :: int where
  "ENOENT \<equiv> 2"

abbreviation (input) EIO :: int where
  "EIO \<equiv> 5"

abbreviation (input) EBADF :: int where
  "EBADF \<equiv> 9"

abbreviation (input) EAGAIN :: int where
  "EAGAIN \<equiv> 11"

abbreviation (input) ENOMEM :: int where
  "ENOMEM \<equiv> 12"

abbreviation (input) EACCES :: int where
  "EACCES \<equiv> 13"

abbreviation (input) EFAULT :: int where
  "EFAULT \<equiv> 14"

abbreviation (input) EBUSY :: int where
  "EBUSY \<equiv> 16"

abbreviation (input) EEXIST :: int where
  "EEXIST \<equiv> 17"

abbreviation (input) EINVAL :: int where
  "EINVAL \<equiv> 22"

abbreviation (input) EMFILE :: int where
  "EMFILE \<equiv> 24"

abbreviation (input) ENOSPC :: int where
  "ENOSPC \<equiv> 28"

abbreviation (input) EPIPE :: int where
  "EPIPE \<equiv> 32"

abbreviation (input) ENAMETOOLONG :: int where
  "ENAMETOOLONG \<equiv> 38"

abbreviation (input) ENOSYS :: int where
  "ENOSYS \<equiv> 40"

abbreviation (input) ENOTEMPTY :: int where
  "ENOTEMPTY \<equiv> 41"

abbreviation (input) EADDRINUSE :: int where
  "EADDRINUSE \<equiv> 100"

abbreviation (input) EADDRNOTAVAIL :: int where
  "EADDRNOTAVAIL \<equiv> 101"

abbreviation (input) EAFNOSUPPORT :: int where
  "EAFNOSUPPORT \<equiv> 102"

abbreviation (input) EALREADY :: int where
  "EALREADY \<equiv> 103"

abbreviation (input) ECANCELED :: int where
  "ECANCELED \<equiv> 105"

abbreviation (input) ECONNABORTED :: int where
  "ECONNABORTED \<equiv> 106"

abbreviation (input) ECONNREFUSED :: int where
  "ECONNREFUSED \<equiv> 107"

abbreviation (input) ECONNRESET :: int where
  "ECONNRESET \<equiv> 108"

abbreviation (input) EDESTADDRREQ :: int where
  "EDESTADDRREQ \<equiv> 109"

abbreviation (input) EHOSTUNREACH :: int where
  "EHOSTUNREACH \<equiv> 110"

abbreviation (input) EINPROGRESS :: int where
  "EINPROGRESS \<equiv> 112"

abbreviation (input) EISCONN :: int where
  "EISCONN \<equiv> 113"

abbreviation (input) ELOOP :: int where
  "ELOOP \<equiv> 114"

abbreviation (input) EMSGSIZE :: int where
  "EMSGSIZE \<equiv> 115"

abbreviation (input) ENETDOWN :: int where
  "ENETDOWN \<equiv> 116"

abbreviation (input) ENETRESET :: int where
  "ENETRESET \<equiv> 117"

abbreviation (input) ENETUNREACH :: int where
  "ENETUNREACH \<equiv> 118"

abbreviation (input) ENOBUFS :: int where
  "ENOBUFS \<equiv> 119"

abbreviation (input) ENOPROTOOPT :: int where
  "ENOPROTOOPT \<equiv> 123"

abbreviation (input) ENOTCONN :: int where
  "ENOTCONN \<equiv> 126"

abbreviation (input) ENOTSOCK :: int where
  "ENOTSOCK \<equiv> 128"

abbreviation (input) ENOTSUP :: int where
  "ENOTSUP \<equiv> 129"

abbreviation (input) EOPNOTSUPP :: int where
  "EOPNOTSUPP \<equiv> 130"

abbreviation (input) EOVERFLOW :: int where
  "EOVERFLOW \<equiv> 132"

abbreviation (input) EPERM :: int where
  "EPERM \<equiv> 1"

abbreviation (input) EPROTO :: int where
  "EPROTO \<equiv> 134"

abbreviation (input) EPROTONOSUPPORT :: int where
  "EPROTONOSUPPORT \<equiv> 135"

abbreviation (input) EPROTOTYPE :: int where
  "EPROTOTYPE \<equiv> 136"

abbreviation (input) ETIMEDOUT :: int where
  "ETIMEDOUT \<equiv> 138"

text \<open>Names the MinGW header leaves out (errno.c, lines 27 to 50).\<close>

abbreviation (input) ESOCKTNOSUPPORT :: int where
  "ESOCKTNOSUPPORT \<equiv> EOPNOTSUPP"

abbreviation (input) EPFNOSUPPORT :: int where
  "EPFNOSUPPORT \<equiv> EAFNOSUPPORT"

abbreviation (input) ETOOMANYREFS :: int where
  "ETOOMANYREFS \<equiv> EAGAIN"

abbreviation (input) EHOSTDOWN :: int where
  "EHOSTDOWN \<equiv> EHOSTUNREACH"

abbreviation (input) EUSERS :: int where
  "EUSERS \<equiv> EAGAIN"

abbreviation (input) EDQUOT :: int where
  "EDQUOT \<equiv> ENOSPC"

abbreviation (input) ESTALE :: int where
  "ESTALE \<equiv> EINVAL"

abbreviation (input) EREMOTE :: int where
  "EREMOTE \<equiv> EINVAL"

section \<open>Win32 and Winsock error codes\<close>

abbreviation (input) ERROR_INVALID_FUNCTION :: dword where
  "ERROR_INVALID_FUNCTION \<equiv> 1"

abbreviation (input) ERROR_FILE_NOT_FOUND :: dword where
  "ERROR_FILE_NOT_FOUND \<equiv> 2"

abbreviation (input) ERROR_PATH_NOT_FOUND :: dword where
  "ERROR_PATH_NOT_FOUND \<equiv> 3"

abbreviation (input) ERROR_TOO_MANY_OPEN_FILES :: dword where
  "ERROR_TOO_MANY_OPEN_FILES \<equiv> 4"

abbreviation (input) ERROR_ACCESS_DENIED :: dword where
  "ERROR_ACCESS_DENIED \<equiv> 5"

abbreviation (input) ERROR_INVALID_HANDLE :: dword where
  "ERROR_INVALID_HANDLE \<equiv> 6"

abbreviation (input) ERROR_NOT_ENOUGH_MEMORY :: dword where
  "ERROR_NOT_ENOUGH_MEMORY \<equiv> 8"

abbreviation (input) ERROR_INVALID_DATA :: dword where
  "ERROR_INVALID_DATA \<equiv> 13"

abbreviation (input) ERROR_OUTOFMEMORY :: dword where
  "ERROR_OUTOFMEMORY \<equiv> 14"

abbreviation (input) ERROR_NOT_READY :: dword where
  "ERROR_NOT_READY \<equiv> 21"

abbreviation (input) ERROR_GEN_FAILURE :: dword where
  "ERROR_GEN_FAILURE \<equiv> 31"

abbreviation (input) ERROR_SHARING_VIOLATION :: dword where
  "ERROR_SHARING_VIOLATION \<equiv> 32"

abbreviation (input) ERROR_NOT_SUPPORTED :: dword where
  "ERROR_NOT_SUPPORTED \<equiv> 50"

abbreviation (input) ERROR_FILE_EXISTS :: dword where
  "ERROR_FILE_EXISTS \<equiv> 80"

abbreviation (input) ERROR_INVALID_PARAMETER :: dword where
  "ERROR_INVALID_PARAMETER \<equiv> 87"

abbreviation (input) ERROR_BROKEN_PIPE :: dword where
  "ERROR_BROKEN_PIPE \<equiv> 109"

abbreviation (input) ERROR_CALL_NOT_IMPLEMENTED :: dword where
  "ERROR_CALL_NOT_IMPLEMENTED \<equiv> 120"

abbreviation (input) ERROR_SEM_TIMEOUT :: dword where
  "ERROR_SEM_TIMEOUT \<equiv> 121"

abbreviation (input) ERROR_BUSY :: dword where
  "ERROR_BUSY \<equiv> 170"

abbreviation (input) ERROR_ALREADY_EXISTS :: dword where
  "ERROR_ALREADY_EXISTS \<equiv> 183"

abbreviation (input) ERROR_NO_DATA :: dword where
  "ERROR_NO_DATA \<equiv> 232"

abbreviation (input) ERROR_PIPE_NOT_CONNECTED :: dword where
  "ERROR_PIPE_NOT_CONNECTED \<equiv> 233"

abbreviation (input) WAIT_TIMEOUT :: dword where
  "WAIT_TIMEOUT \<equiv> 258"

abbreviation (input) ERROR_INVALID_ADDRESS :: dword where
  "ERROR_INVALID_ADDRESS \<equiv> 487"

abbreviation (input) ERROR_ABANDONED_WAIT_0 :: dword where
  "ERROR_ABANDONED_WAIT_0 \<equiv> 735"

abbreviation (input) ERROR_OPERATION_ABORTED :: dword where
  "ERROR_OPERATION_ABORTED \<equiv> 995"

abbreviation (input) ERROR_IO_PENDING :: dword where
  "ERROR_IO_PENDING \<equiv> 997"

abbreviation (input) ERROR_NOT_FOUND :: dword where
  "ERROR_NOT_FOUND \<equiv> 1168"

abbreviation (input) ERROR_CANCELLED :: dword where
  "ERROR_CANCELLED \<equiv> 1223"

abbreviation (input) ERROR_NO_SYSTEM_RESOURCES :: dword where
  "ERROR_NO_SYSTEM_RESOURCES \<equiv> 1450"

abbreviation (input) ERROR_TIMEOUT :: dword where
  "ERROR_TIMEOUT \<equiv> 1460"

abbreviation (input) WSAEBADF :: dword where
  "WSAEBADF \<equiv> 10009"

abbreviation (input) WSAEACCES :: dword where
  "WSAEACCES \<equiv> 10013"

abbreviation (input) WSAEFAULT :: dword where
  "WSAEFAULT \<equiv> 10014"

abbreviation (input) WSAEINVAL :: dword where
  "WSAEINVAL \<equiv> 10022"

abbreviation (input) WSAEMFILE :: dword where
  "WSAEMFILE \<equiv> 10024"

abbreviation (input) WSAEWOULDBLOCK :: dword where
  "WSAEWOULDBLOCK \<equiv> 10035"

abbreviation (input) WSAEINPROGRESS :: dword where
  "WSAEINPROGRESS \<equiv> 10036"

abbreviation (input) WSAEALREADY :: dword where
  "WSAEALREADY \<equiv> 10037"

abbreviation (input) WSAENOTSOCK :: dword where
  "WSAENOTSOCK \<equiv> 10038"

abbreviation (input) WSAEDESTADDRREQ :: dword where
  "WSAEDESTADDRREQ \<equiv> 10039"

abbreviation (input) WSAEMSGSIZE :: dword where
  "WSAEMSGSIZE \<equiv> 10040"

abbreviation (input) WSAEPROTOTYPE :: dword where
  "WSAEPROTOTYPE \<equiv> 10041"

abbreviation (input) WSAENOPROTOOPT :: dword where
  "WSAENOPROTOOPT \<equiv> 10042"

abbreviation (input) WSAEPROTONOSUPPORT :: dword where
  "WSAEPROTONOSUPPORT \<equiv> 10043"

abbreviation (input) WSAESOCKTNOSUPPORT :: dword where
  "WSAESOCKTNOSUPPORT \<equiv> 10044"

abbreviation (input) WSAEOPNOTSUPP :: dword where
  "WSAEOPNOTSUPP \<equiv> 10045"

abbreviation (input) WSAEPFNOSUPPORT :: dword where
  "WSAEPFNOSUPPORT \<equiv> 10046"

abbreviation (input) WSAEAFNOSUPPORT :: dword where
  "WSAEAFNOSUPPORT \<equiv> 10047"

abbreviation (input) WSAEADDRINUSE :: dword where
  "WSAEADDRINUSE \<equiv> 10048"

abbreviation (input) WSAEADDRNOTAVAIL :: dword where
  "WSAEADDRNOTAVAIL \<equiv> 10049"

abbreviation (input) WSAENETDOWN :: dword where
  "WSAENETDOWN \<equiv> 10050"

abbreviation (input) WSAENETUNREACH :: dword where
  "WSAENETUNREACH \<equiv> 10051"

abbreviation (input) WSAENETRESET :: dword where
  "WSAENETRESET \<equiv> 10052"

abbreviation (input) WSAECONNABORTED :: dword where
  "WSAECONNABORTED \<equiv> 10053"

abbreviation (input) WSAECONNRESET :: dword where
  "WSAECONNRESET \<equiv> 10054"

abbreviation (input) WSAENOBUFS :: dword where
  "WSAENOBUFS \<equiv> 10055"

abbreviation (input) WSAEISCONN :: dword where
  "WSAEISCONN \<equiv> 10056"

abbreviation (input) WSAENOTCONN :: dword where
  "WSAENOTCONN \<equiv> 10057"

abbreviation (input) WSAESHUTDOWN :: dword where
  "WSAESHUTDOWN \<equiv> 10058"

abbreviation (input) WSAETOOMANYREFS :: dword where
  "WSAETOOMANYREFS \<equiv> 10059"

abbreviation (input) WSAETIMEDOUT :: dword where
  "WSAETIMEDOUT \<equiv> 10060"

abbreviation (input) WSAECONNREFUSED :: dword where
  "WSAECONNREFUSED \<equiv> 10061"

abbreviation (input) WSAELOOP :: dword where
  "WSAELOOP \<equiv> 10062"

abbreviation (input) WSAENAMETOOLONG :: dword where
  "WSAENAMETOOLONG \<equiv> 10063"

abbreviation (input) WSAEHOSTDOWN :: dword where
  "WSAEHOSTDOWN \<equiv> 10064"

abbreviation (input) WSAEHOSTUNREACH :: dword where
  "WSAEHOSTUNREACH \<equiv> 10065"

abbreviation (input) WSAENOTEMPTY :: dword where
  "WSAENOTEMPTY \<equiv> 10066"

abbreviation (input) WSAEUSERS :: dword where
  "WSAEUSERS \<equiv> 10068"

abbreviation (input) WSAEDQUOT :: dword where
  "WSAEDQUOT \<equiv> 10069"

abbreviation (input) WSAESTALE :: dword where
  "WSAESTALE \<equiv> 10070"

abbreviation (input) WSAEREMOTE :: dword where
  "WSAEREMOTE \<equiv> 10071"

section \<open>NTSTATUS\<close>

abbreviation (input) STATUS_SUCCESS :: ntstatus where
  "STATUS_SUCCESS \<equiv> 0"

abbreviation (input) STATUS_PENDING :: ntstatus where
  "STATUS_PENDING \<equiv> 0x103"

abbreviation (input) STATUS_CANCELLED :: ntstatus where
  "STATUS_CANCELLED \<equiv> 0xC0000120"

abbreviation (input) STATUS_NOT_FOUND :: ntstatus where
  "STATUS_NOT_FOUND \<equiv> 0xC0000225"

end
