(* ===== verification/Ep_Errno.thy ===== *)
theory Ep_Errno
  imports Ep_Codes
begin

text \<open>
  \<^verbatim>\<open>src/src/wepoll_ex_errno.c\<close>: the per-thread error channel (\<open>errno\<close> together with the
  \<open>wepoll_ex_error_info\<close> record), and the translation of Win32, Winsock and NTSTATUS codes to
  errno values.  The state record \<open>ep_errno_env\<close> is the root of the extensible record that the
  later components extend, so every operation below is polymorphic in the rest of the state.
\<close>

section \<open>The error channel\<close>

datatype wepoll_ex_native_error_domain =
    WEPOLL_EX_NATIVE_ERROR_NONE
  | WEPOLL_EX_NATIVE_ERROR_WIN32
  | WEPOLL_EX_NATIVE_ERROR_WINSOCK
  | WEPOLL_EX_NATIVE_ERROR_NTSTATUS

record wepoll_ex_error_info =
  ei_version :: uint32
  ei_struct_size :: uint32
  ei_portable_error :: int
  ei_native_domain :: wepoll_ex_native_error_domain
  ei_native_code :: uint32
  ei_winsock_error :: uint32
  ei_flags :: uint32
  ei_reserved :: uint32

abbreviation (input) WEPOLL_EX_ERROR_INFO_VERSION :: uint32 where
  "WEPOLL_EX_ERROR_INFO_VERSION \<equiv> 1"

abbreviation (input) WEPOLL_EX_ERROR_NATIVE_EXACT :: uint32 where
  "WEPOLL_EX_ERROR_NATIVE_EXACT \<equiv> 1"

abbreviation (input) WEPOLL_EX_ERROR_WINSOCK_EQUIVALENT :: uint32 where
  "WEPOLL_EX_ERROR_WINSOCK_EQUIVALENT \<equiv> 2"

text \<open>Eight 32-bit members and no padding.\<close>

abbreviation (input) ERROR_INFO_SIZE :: uint32 where
  "ERROR_INFO_SIZE \<equiv> 32"

definition error_info_zero :: wepoll_ex_error_info where
  "error_info_zero = \<lparr> ei_version = 0, ei_struct_size = 0, ei_portable_error = 0,
     ei_native_domain = WEPOLL_EX_NATIVE_ERROR_NONE, ei_native_code = 0, ei_winsock_error = 0,
     ei_flags = 0, ei_reserved = 0 \<rparr>"

record ep_errno_env =
  ep_errno :: int
  g_last_error_info :: wepoll_ex_error_info

definition ep_errno_to_winsock :: "int \<Rightarrow> dword" where
  "ep_errno_to_winsock error =
    (if error = EAGAIN then WSAEWOULDBLOCK
     else if error = EACCES then WSAEACCES
     else if error = EAFNOSUPPORT then WSAEAFNOSUPPORT
     else if error = EALREADY then WSAEALREADY
     else if error = EBADF then WSAEBADF
     else if error = ECONNABORTED then WSAECONNABORTED
     else if error = ECONNREFUSED then WSAECONNREFUSED
     else if error = ECONNRESET then WSAECONNRESET
     else if error = EDESTADDRREQ then WSAEDESTADDRREQ
     else if error = EFAULT then WSAEFAULT
     else if error = EHOSTUNREACH then WSAEHOSTUNREACH
     else if error = EINPROGRESS then WSAEINPROGRESS
     else if error = EINVAL then WSAEINVAL
     else if error = EISCONN then WSAEISCONN
     else if error = EMFILE then WSAEMFILE
     else if error = EMSGSIZE then WSAEMSGSIZE
     else if error = ENETDOWN then WSAENETDOWN
     else if error = ENETRESET then WSAENETRESET
     else if error = ENETUNREACH then WSAENETUNREACH
     else if error = ENOBUFS \<or> error = ENOMEM then WSAENOBUFS
     else if error = ENOPROTOOPT then WSAENOPROTOOPT
     else if error = ENOTCONN then WSAENOTCONN
     else if error = ENOTSOCK then WSAENOTSOCK
     else if error = EOPNOTSUPP then WSAEOPNOTSUPP
     else if error = EPROTONOSUPPORT then WSAEPROTONOSUPPORT
     else if error = EPROTOTYPE then WSAEPROTOTYPE
     else if error = ETIMEDOUT then WSAETIMEDOUT
     else 0)"

definition ep_error_info_from_errno :: "int \<Rightarrow> wepoll_ex_error_info" where
  "ep_error_info_from_errno error =
    (let info = error_info_zero \<lparr> ei_version := WEPOLL_EX_ERROR_INFO_VERSION,
                                  ei_struct_size := ERROR_INFO_SIZE,
                                  ei_portable_error := error \<rparr>;
         winsock_error = ep_errno_to_winsock error
     in if winsock_error \<noteq> 0
        then info \<lparr> ei_winsock_error := winsock_error,
                     ei_flags := ei_flags info OR WEPOLL_EX_ERROR_WINSOCK_EQUIVALENT \<rparr>
        else info)"

definition ep_set_errno :: "int \<Rightarrow> ('z ep_errno_env_scheme, unit) state" where
  "ep_set_errno error = modify (\<lambda>s. s \<lparr> ep_errno := error,
     g_last_error_info := ep_error_info_from_errno error \<rparr>)"

definition ep_last_err :: "('z ep_errno_env_scheme, int) state" where
  "ep_last_err = gets ep_errno"

definition ep_set_native_error ::
  "int \<Rightarrow> wepoll_ex_native_error_domain \<Rightarrow> uint32 \<Rightarrow> ('z ep_errno_env_scheme, unit) state" where
  "ep_set_native_error portable_error native_domain native_code = do {
     ep_set_errno portable_error;
     modify (\<lambda>s. s \<lparr> g_last_error_info := (g_last_error_info s)
       \<lparr> ei_native_domain := native_domain,
         ei_native_code := native_code,
         ei_flags := ei_flags (g_last_error_info s) OR WEPOLL_EX_ERROR_NATIVE_EXACT \<rparr> \<rparr>)
   }"

section \<open>Translation of native codes\<close>

definition ep_winerr_to_errno :: "dword \<Rightarrow> int" where
  "ep_winerr_to_errno e =
    (if e = 0 then 0
     else if e = ERROR_FILE_NOT_FOUND \<or> e = ERROR_PATH_NOT_FOUND \<or> e = ERROR_NOT_FOUND then ENOENT
     else if e = ERROR_TOO_MANY_OPEN_FILES then EMFILE
     else if e = ERROR_ACCESS_DENIED then EACCES
     else if e = ERROR_INVALID_HANDLE \<or> e = ERROR_ABANDONED_WAIT_0 then EBADF
     else if e = ERROR_NOT_ENOUGH_MEMORY \<or> e = ERROR_OUTOFMEMORY \<or>
             e = ERROR_NO_SYSTEM_RESOURCES then ENOMEM
     else if e = ERROR_INVALID_DATA \<or> e = ERROR_INVALID_PARAMETER then EINVAL
     else if e = ERROR_INVALID_ADDRESS then EFAULT
     else if e = ERROR_NOT_READY \<or> e = ERROR_IO_PENDING then EAGAIN
     else if e = ERROR_BUSY \<or> e = ERROR_SHARING_VIOLATION then EBUSY
     else if e = ERROR_FILE_EXISTS \<or> e = ERROR_ALREADY_EXISTS then EEXIST
     else if e = ERROR_BROKEN_PIPE \<or> e = ERROR_NO_DATA then EPIPE
     else if e = ERROR_PIPE_NOT_CONNECTED then ENOTCONN
     else if e = ERROR_OPERATION_ABORTED \<or> e = ERROR_CANCELLED then ECANCELED
     else if e = ERROR_SEM_TIMEOUT \<or> e = ERROR_TIMEOUT \<or> e = WAIT_TIMEOUT then ETIMEDOUT
     else if e = ERROR_NOT_SUPPORTED \<or> e = ERROR_CALL_NOT_IMPLEMENTED then ENOTSUP
     else if e = ERROR_INVALID_FUNCTION then ENOSYS
     else if e = ERROR_GEN_FAILURE then EIO
     else if e = WSAEWOULDBLOCK then EAGAIN
     else if e = WSAEINPROGRESS then EAGAIN
     else if e = WSAEALREADY then EAGAIN
     else if e = WSAEINVAL then EINVAL
     else if e = WSAEBADF then EBADF
     else if e = WSAEACCES then EACCES
     else if e = WSAEFAULT then EFAULT
     else if e = WSAEMFILE then EMFILE
     else if e = WSAENOBUFS then ENOBUFS
     else if e = WSAENOTSOCK then ENOTSOCK
     else if e = WSAEDESTADDRREQ then EDESTADDRREQ
     else if e = WSAEMSGSIZE then EMSGSIZE
     else if e = WSAEPROTOTYPE then EPROTOTYPE
     else if e = WSAENOPROTOOPT then ENOPROTOOPT
     else if e = WSAEPROTONOSUPPORT then EPROTONOSUPPORT
     else if e = WSAESOCKTNOSUPPORT then ESOCKTNOSUPPORT
     else if e = WSAEOPNOTSUPP then EOPNOTSUPP
     else if e = WSAEPFNOSUPPORT then EPFNOSUPPORT
     else if e = WSAEAFNOSUPPORT then EAFNOSUPPORT
     else if e = WSAEADDRINUSE then EADDRINUSE
     else if e = WSAEADDRNOTAVAIL then EADDRNOTAVAIL
     else if e = WSAENETDOWN then ENETDOWN
     else if e = WSAENETUNREACH then ENETUNREACH
     else if e = WSAENETRESET then ENETRESET
     else if e = WSAECONNABORTED then ECONNABORTED
     else if e = WSAECONNRESET then ECONNRESET
     else if e = WSAENOTCONN then ENOTCONN
     else if e = WSAESHUTDOWN then EPIPE
     else if e = WSAETOOMANYREFS then ETOOMANYREFS
     else if e = WSAETIMEDOUT then ETIMEDOUT
     else if e = WSAECONNREFUSED then ECONNREFUSED
     else if e = WSAELOOP then ELOOP
     else if e = WSAENAMETOOLONG then ENAMETOOLONG
     else if e = WSAEHOSTDOWN then EHOSTDOWN
     else if e = WSAEHOSTUNREACH then EHOSTUNREACH
     else if e = WSAENOTEMPTY then ENOTEMPTY
     else if e = WSAEUSERS then EUSERS
     else if e = WSAEDQUOT then EDQUOT
     else if e = WSAESTALE then ESTALE
     else if e = WSAEREMOTE then EREMOTE
     else EINVAL)"

text \<open>
  \<open>RtlNtStatusToDosError\<close> is resolved from ntdll at start-up: \<open>rtl\<close> is the resolved pointer,
  \<open>None\<close> before the resolution (\<^verbatim>\<open>src/src/wepoll_ex_global.c\<close>).
\<close>

definition ep_ntstatus_to_winerr :: "(ntstatus \<Rightarrow> dword) option \<Rightarrow> ntstatus \<Rightarrow> dword" where
  "ep_ntstatus_to_winerr rtl status =
    (case rtl of None \<Rightarrow> status | Some p_RtlNtStatusToDosError \<Rightarrow> p_RtlNtStatusToDosError status)"

definition ep_status_to_errno :: "(ntstatus \<Rightarrow> dword) option \<Rightarrow> ntstatus \<Rightarrow> int" where
  "ep_status_to_errno rtl st = ep_winerr_to_errno (ep_ntstatus_to_winerr rtl st)"

definition ep_set_win32_error :: "dword \<Rightarrow> ('z ep_errno_env_scheme, unit) state" where
  "ep_set_win32_error error =
     ep_set_native_error (ep_winerr_to_errno error) WEPOLL_EX_NATIVE_ERROR_WIN32 error"

definition ep_set_winsock_error :: "dword \<Rightarrow> ('z ep_errno_env_scheme, unit) state" where
  "ep_set_winsock_error error = do {
     ep_set_native_error (ep_winerr_to_errno error) WEPOLL_EX_NATIVE_ERROR_WINSOCK error;
     modify (\<lambda>s. s \<lparr> g_last_error_info := (g_last_error_info s)
       \<lparr> ei_winsock_error := error,
         ei_flags := ei_flags (g_last_error_info s) OR WEPOLL_EX_ERROR_WINSOCK_EQUIVALENT \<rparr> \<rparr>)
   }"

definition ep_set_ntstatus_error ::
  "(ntstatus \<Rightarrow> dword) option \<Rightarrow> ntstatus \<Rightarrow> ('z ep_errno_env_scheme, unit) state" where
  "ep_set_ntstatus_error rtl status =
     ep_set_native_error (ep_status_to_errno rtl status) WEPOLL_EX_NATIVE_ERROR_NTSTATUS status"

definition ep_get_last_error_info :: "('z ep_errno_env_scheme, wepoll_ex_error_info) state" where
  "ep_get_last_error_info = gets (\<lambda>s.
     if ei_version (g_last_error_info s) \<noteq> WEPOLL_EX_ERROR_INFO_VERSION
     then ep_error_info_from_errno (ep_errno s)
     else g_last_error_info s)"

definition ep_restore_last_error_info ::
  "wepoll_ex_error_info \<Rightarrow> ('z ep_errno_env_scheme, unit) state" where
  "ep_restore_last_error_info error_info = modify (\<lambda>s. s \<lparr> g_last_error_info := error_info,
     ep_errno := ei_portable_error error_info \<rparr>)"

section \<open>Facts\<close>

lemmas ep_error_setters = ep_set_native_error_def ep_set_win32_error_def ep_set_winsock_error_def
  ep_set_ntstatus_error_def ep_restore_last_error_info_def

text \<open>Every error setter leaves the rest of the program state alone.\<close>

lemma ep_set_errno_more [keeps_intros]: "keeps ep_errno_env.more (ep_set_errno e)"
  by (simp add: keeps_def ep_set_errno_def)

lemma error_setters_more [keeps_intros]:
  "keeps ep_errno_env.more (ep_set_native_error e d c)"
  "keeps ep_errno_env.more (ep_set_win32_error w)"
  "keeps ep_errno_env.more (ep_set_winsock_error w)"
  "keeps ep_errno_env.more (ep_set_ntstatus_error rtl st)"
  "keeps ep_errno_env.more (ep_restore_last_error_info i)"
  by (simp_all add: keeps_def ep_error_setters ep_set_errno_def)

lemma wp_ep_set_errno [wp_simps]:
  "wp (ep_set_errno e) Q s =
     Q () (s \<lparr> ep_errno := e, g_last_error_info := ep_error_info_from_errno e \<rparr>)"
  by (simp add: ep_set_errno_def wp_simps)

lemma exec_ep_set_errno:
  "exec (ep_set_errno e) s =
     s \<lparr> ep_errno := e, g_last_error_info := ep_error_info_from_errno e \<rparr>"
  by (simp add: ep_set_errno_def)

lemma error_info_from_errno_fields [simp]:
  "ei_version (ep_error_info_from_errno e) = 1"
  "ei_struct_size (ep_error_info_from_errno e) = 32"
  "ei_portable_error (ep_error_info_from_errno e) = e"
  "ei_native_domain (ep_error_info_from_errno e) = WEPOLL_EX_NATIVE_ERROR_NONE"
  "ei_native_code (ep_error_info_from_errno e) = 0"
  by (simp_all add: ep_error_info_from_errno_def error_info_zero_def Let_def)

text \<open>
  The channel agrees with \<open>errno\<close>: either nothing was recorded yet, or the record carries the
  errno value of the failing call.
\<close>

definition error_channel_ok :: "'z ep_errno_env_scheme \<Rightarrow> bool" where
  "error_channel_ok s \<longleftrightarrow>
     ei_version (g_last_error_info s) = 1 \<longrightarrow>
       ei_portable_error (g_last_error_info s) = ep_errno s \<and>
       ei_struct_size (g_last_error_info s) = 32"

lemma error_setters_ok:
  "error_channel_ok (exec (ep_set_errno e) s)"
  "error_channel_ok (exec (ep_set_native_error e d c) s)"
  "error_channel_ok (exec (ep_set_win32_error w) s)"
  "error_channel_ok (exec (ep_set_winsock_error w) s)"
  "error_channel_ok (exec (ep_set_ntstatus_error rtl st) s)"
  by (simp_all add: error_channel_ok_def ep_error_setters ep_set_errno_def)

lemma get_last_error_info_portable:
  "error_channel_ok s \<Longrightarrow> ei_portable_error (result_of ep_get_last_error_info s) = ep_errno s"
  by (simp add: ep_get_last_error_info_def error_channel_ok_def)

text \<open>A failing native code is never reported as success, and success never as an error.\<close>

lemma winerr_to_errno_zero_iff: "ep_winerr_to_errno e = 0 \<longleftrightarrow> e = 0"
  by (simp add: ep_winerr_to_errno_def)

lemma winerr_to_errno_nonneg: "0 \<le> ep_winerr_to_errno e"
  by (simp add: ep_winerr_to_errno_def)

text \<open>The codes whose Winsock equivalent translates back to a coarser errno.\<close>

definition coarse_winsock :: "int list" where
  "coarse_winsock = [EALREADY, EINPROGRESS, EISCONN, ENOMEM]"

text \<open>
  (C22) Round trip of the two translations: an errno value that has a Winsock equivalent is what
  that equivalent translates back to, except for the four values whose equivalent is shared with,
  or coarser than, another code.
\<close>

theorem errno_winsock_roundtrip:
  "ep_errno_to_winsock e \<noteq> 0 \<Longrightarrow> e \<notin> set coarse_winsock \<Longrightarrow>
   ep_winerr_to_errno (ep_errno_to_winsock e) = e"
  unfolding ep_errno_to_winsock_def coarse_winsock_def
  by (simp add: ep_winerr_to_errno_def split: if_splits)

theorem errno_winsock_roundtrip_witness:
  "ep_errno_to_winsock ECONNRESET = WSAECONNRESET \<and> ep_winerr_to_errno WSAECONNRESET = ECONNRESET"
proof -
  have w: "ep_errno_to_winsock ECONNRESET = WSAECONNRESET"
    by (simp add: ep_errno_to_winsock_def)
  show ?thesis
    using errno_winsock_roundtrip [of ECONNRESET] w by (simp add: coarse_winsock_def)
qed

end
