(* ===== verification/Ep_Fault.thy ===== *)
theory Ep_Fault
  imports Ep_Errno
begin

text \<open>
  \<^verbatim>\<open>src/src/wepoll_ex_fault.c\<close>: the deterministic fault points.  The slot array and the mask of
  configured points extend the program state; a build without fault injection is the state in
  which no point is configured.  Points are C enumerators, hence integers whose range is checked.
\<close>

section \<open>Points and slots\<close>

abbreviation (input) EP_FAULT_POOL_INIT_ALLOC :: int where "EP_FAULT_POOL_INIT_ALLOC \<equiv> 0"
abbreviation (input) EP_FAULT_POOL_GROW :: int where "EP_FAULT_POOL_GROW \<equiv> 1"
abbreviation (input) EP_FAULT_AFD_OPEN :: int where "EP_FAULT_AFD_OPEN \<equiv> 2"
abbreviation (input) EP_FAULT_AFD_GROUP_ALLOC :: int where "EP_FAULT_AFD_GROUP_ALLOC \<equiv> 3"
abbreviation (input) EP_FAULT_AFD_SUBMIT :: int where "EP_FAULT_AFD_SUBMIT \<equiv> 4"
abbreviation (input) EP_FAULT_AFD_CANCEL :: int where "EP_FAULT_AFD_CANCEL \<equiv> 5"
abbreviation (input) EP_FAULT_AFD_KEY_RESERVATION :: int where "EP_FAULT_AFD_KEY_RESERVATION \<equiv> 6"
abbreviation (input) EP_FAULT_AFD_KEY_FORCE_COLLISION :: int where
  "EP_FAULT_AFD_KEY_FORCE_COLLISION \<equiv> 7"
abbreviation (input) EP_FAULT_AFD_KEY_COLLISION_GROW :: int where
  "EP_FAULT_AFD_KEY_COLLISION_GROW \<equiv> 8"
abbreviation (input) EP_FAULT_ENDPOINT_IDENTITY :: int where "EP_FAULT_ENDPOINT_IDENTITY \<equiv> 9"
abbreviation (input) EP_FAULT_ENDPOINT_UNAVAILABLE :: int where "EP_FAULT_ENDPOINT_UNAVAILABLE \<equiv> 10"
abbreviation (input) EP_FAULT_PROVIDER_BASE :: int where "EP_FAULT_PROVIDER_BASE \<equiv> 11"
abbreviation (input) EP_FAULT_READY_NODE_ALLOC :: int where "EP_FAULT_READY_NODE_ALLOC \<equiv> 12"
abbreviation (input) EP_FAULT_IOCP_CREATE :: int where "EP_FAULT_IOCP_CREATE \<equiv> 13"
abbreviation (input) EP_FAULT_IOCP_POST :: int where "EP_FAULT_IOCP_POST \<equiv> 14"
abbreviation (input) EP_FAULT_AUX_POST :: int where "EP_FAULT_AUX_POST \<equiv> 15"
abbreviation (input) EP_FAULT_IOCP_DEQUEUE :: int where "EP_FAULT_IOCP_DEQUEUE \<equiv> 16"
abbreviation (input) EP_FAULT_AUX_DISARM :: int where "EP_FAULT_AUX_DISARM \<equiv> 17"
abbreviation (input) EP_FAULT_TIMEOUT_INIT :: int where "EP_FAULT_TIMEOUT_INIT \<equiv> 18"
abbreviation (input) EP_FAULT_TIMEOUT_ARM :: int where "EP_FAULT_TIMEOUT_ARM \<equiv> 19"
abbreviation (input) EP_FAULT_TIMEOUT_POST :: int where "EP_FAULT_TIMEOUT_POST \<equiv> 20"
abbreviation (input) EP_FAULT_POINT_COUNT :: int where "EP_FAULT_POINT_COUNT \<equiv> 21"

record ep_fault_slot =
  fs_fail_at :: uint64
  fs_hits :: uint64
  fs_error :: int

record ep_fault_env = ep_errno_env +
  g_fault_mask :: uint64
  g_fault_slots :: "int \<Rightarrow> ep_fault_slot"

definition ep_fault_point_valid :: "int \<Rightarrow> bool" where
  "ep_fault_point_valid point \<longleftrightarrow> point \<ge> 0 \<and> point < EP_FAULT_POINT_COUNT"

definition fault_bit :: "int \<Rightarrow> uint64" where
  "fault_bit point = push_bit (nat point) 1"

definition update_slot ::
  "int \<Rightarrow> (ep_fault_slot \<Rightarrow> ep_fault_slot) \<Rightarrow> 'z ep_fault_env_scheme \<Rightarrow> 'z ep_fault_env_scheme" where
  "update_slot point f s =
     s \<lparr> g_fault_slots := (g_fault_slots s)(point := f (g_fault_slots s point)) \<rparr>"

definition ep_fault_configure ::
  "int \<Rightarrow> uint64 \<Rightarrow> int \<Rightarrow> ('z ep_fault_env_scheme, int) state" where
  "ep_fault_configure point fail_at error =
    (if \<not> ep_fault_point_valid point \<or> fail_at = 0 \<or> error \<le> 0
     then do { ep_set_errno EINVAL; return (- 1) }
     else do {
       modify (\<lambda>s. s \<lparr> g_fault_mask := g_fault_mask s AND NOT (fault_bit point) \<rparr>);
       modify (update_slot point (\<lambda>slot. slot \<lparr> fs_hits := 0 \<rparr>));
       modify (update_slot point (\<lambda>slot. slot \<lparr> fs_error := error \<rparr>));
       modify (update_slot point (\<lambda>slot. slot \<lparr> fs_fail_at := fail_at \<rparr>));
       modify (\<lambda>s. s \<lparr> g_fault_mask := g_fault_mask s OR fault_bit point \<rparr>);
       return 0
     })"

definition ep_fault_reset :: "('z ep_fault_env_scheme, unit) state" where
  "ep_fault_reset = do {
     modify (\<lambda>s. s \<lparr> g_fault_mask := 0 \<rparr>);
     modify (\<lambda>s. s \<lparr> g_fault_slots := (\<lambda>i. if 0 \<le> i \<and> i < EP_FAULT_POINT_COUNT
        then \<lparr> fs_fail_at = 0, fs_hits = 0, fs_error = 0 \<rparr> else g_fault_slots s i) \<rparr>)
   }"

text \<open>The ordinal of this hit: \<open>atomic_fetch_add\<close> returns the old value.\<close>

definition fault_next_ordinal :: "int \<Rightarrow> ('z ep_fault_env_scheme, uint64) state" where
  "fault_next_ordinal point = do {
     old \<leftarrow> gets (\<lambda>s. fs_hits (g_fault_slots s point));
     modify (update_slot point (\<lambda>slot. slot \<lparr> fs_hits := fs_hits slot + 1 \<rparr>));
     return (old + 1)
   }"

definition ep_fault_hit :: "int \<Rightarrow> ('z ep_fault_env_scheme, int) state" where
  "ep_fault_hit point =
    (if \<not> ep_fault_point_valid point then return 0
     else do {
       mask \<leftarrow> gets g_fault_mask;
       if mask AND fault_bit point = 0 then return 0
       else do {
         ordinal \<leftarrow> fault_next_ordinal point;
         fail_at \<leftarrow> gets (\<lambda>s. fs_fail_at (g_fault_slots s point));
         if ordinal \<noteq> fail_at then return 0
         else do {
           error \<leftarrow> gets (\<lambda>s. fs_error (g_fault_slots s point));
           ep_set_errno error;
           return (- 1)
         }
       }
     })"

definition ep_fault_hit_through :: "int \<Rightarrow> ('z ep_fault_env_scheme, int) state" where
  "ep_fault_hit_through point =
    (if \<not> ep_fault_point_valid point then return 0
     else do {
       mask \<leftarrow> gets g_fault_mask;
       if mask AND fault_bit point = 0 then return 0
       else do {
         ordinal \<leftarrow> fault_next_ordinal point;
         fail_at \<leftarrow> gets (\<lambda>s. fs_fail_at (g_fault_slots s point));
         if ordinal > fail_at then return 0
         else do {
           error \<leftarrow> gets (\<lambda>s. fs_error (g_fault_slots s point));
           ep_set_errno error;
           return (- 1)
         }
       }
     })"

definition ep_fault_hits :: "int \<Rightarrow> ('z ep_fault_env_scheme, uint64) state" where
  "ep_fault_hits point =
    (if \<not> ep_fault_point_valid point then do { ep_set_errno EINVAL; return 0 }
     else gets (\<lambda>s. fs_hits (g_fault_slots s point)))"

section \<open>Frames\<close>

lemmas fault_defs = ep_fault_configure_def ep_fault_reset_def ep_fault_hit_def
  ep_fault_hit_through_def ep_fault_hits_def fault_next_ordinal_def update_slot_def
  ep_set_errno_def

lemma fault_more [keeps_intros]:
  "keeps ep_fault_env.more (ep_set_errno e :: ('z ep_fault_env_scheme, unit) state)"
  "keeps ep_fault_env.more (ep_set_native_error e d c :: ('z ep_fault_env_scheme, unit) state)"
  "keeps ep_fault_env.more (ep_set_win32_error w :: ('z ep_fault_env_scheme, unit) state)"
  "keeps ep_fault_env.more (ep_set_winsock_error w :: ('z ep_fault_env_scheme, unit) state)"
  "keeps ep_fault_env.more (ep_set_ntstatus_error rtl st :: ('z ep_fault_env_scheme, unit) state)"
  "keeps ep_fault_env.more (ep_restore_last_error_info i :: ('z ep_fault_env_scheme, unit) state)"
  by (simp_all add: keeps_def ep_error_setters ep_set_errno_def)

lemma fault_ops_more [keeps_intros]:
  "keeps ep_fault_env.more (ep_fault_configure p n e)"
  "keeps ep_fault_env.more ep_fault_reset"
  "keeps ep_fault_env.more (ep_fault_hit p)"
  "keeps ep_fault_env.more (ep_fault_hit_through p)"
  by (simp_all add: keeps_def fault_defs)

section \<open>Hits\<close>

definition fault_armed :: "'z ep_fault_env_scheme \<Rightarrow> int \<Rightarrow> bool" where
  "fault_armed s point \<longleftrightarrow> ep_fault_point_valid point \<and> g_fault_mask s AND fault_bit point \<noteq> 0"

lemma fault_hit_disarmed: "\<not> fault_armed s p \<Longrightarrow> run_state (ep_fault_hit p) s = (0, s)"
  by (simp add: ep_fault_hit_def fault_armed_def)

lemma fault_hit_result:
  "result_of (ep_fault_hit p) s =
     (if fault_armed s p \<and> fs_hits (g_fault_slots s p) + 1 = fs_fail_at (g_fault_slots s p)
      then - 1 else 0)"
  by (simp add: fault_armed_def fault_defs)

lemma fault_hit_exec_slots:
  "g_fault_mask (exec (ep_fault_hit p) s) = g_fault_mask s"
  "g_fault_slots (exec (ep_fault_hit p) s) =
     (if fault_armed s p
      then (g_fault_slots s)(p := (g_fault_slots s p)
              \<lparr> fs_hits := fs_hits (g_fault_slots s p) + 1 \<rparr>)
      else g_fault_slots s)"
  by (simp_all add: fault_armed_def fault_defs)

lemma fault_armed_exec [simp]: "fault_armed (exec (ep_fault_hit p) s) q = fault_armed s q"
  by (simp add: fault_armed_def fault_hit_exec_slots)

text \<open>The effect of a hit as an update, for symbolic execution of the callers.\<close>

definition fault_errno :: "int \<Rightarrow> 'z ep_fault_env_scheme \<Rightarrow> int" where
  "fault_errno p s = ep_errno (exec (ep_fault_hit p) s)"

definition fault_info :: "int \<Rightarrow> 'z ep_fault_env_scheme \<Rightarrow> wepoll_ex_error_info" where
  "fault_info p s = g_last_error_info (exec (ep_fault_hit p) s)"

definition fault_slots :: "int \<Rightarrow> 'z ep_fault_env_scheme \<Rightarrow> int \<Rightarrow> ep_fault_slot" where
  "fault_slots p s = g_fault_slots (exec (ep_fault_hit p) s)"

definition fault_result :: "int \<Rightarrow> 'z ep_fault_env_scheme \<Rightarrow> int" where
  "fault_result p s = result_of (ep_fault_hit p) s"

lemma exec_fault_hit:
  "exec (ep_fault_hit p) s = s \<lparr> ep_errno := fault_errno p s, g_last_error_info := fault_info p s,
     g_fault_slots := fault_slots p s \<rparr>"
  unfolding fault_errno_def fault_info_def fault_slots_def by (simp add: fault_defs)

lemma wp_fault_hit [wp_simps]:
  "wp (ep_fault_hit p) Q s = Q (fault_result p s)
     (s \<lparr> ep_errno := fault_errno p s, g_last_error_info := fault_info p s,
          g_fault_slots := fault_slots p s \<rparr>)"
  unfolding wp_def fault_result_def by (simp only: exec_fault_hit)

text \<open>A program that hits the points of a list in turn, and what each hit answers.\<close>

fun fault_hit_all :: "int list \<Rightarrow> ('z ep_fault_env_scheme, int list) state" where
  "fault_hit_all [] = return []"
| "fault_hit_all (p # ps) = do {
     r \<leftarrow> ep_fault_hit p;
     rs \<leftarrow> fault_hit_all ps;
     return (r # rs)
   }"

lemma fault_hit_all_nth:
  "i < length ps \<Longrightarrow>
   result_of (fault_hit_all ps) s ! i =
     (if fault_armed s (ps ! i) \<and>
         fs_hits (g_fault_slots s (ps ! i)) + of_nat (count_list (take (Suc i) ps) (ps ! i))
           = fs_fail_at (g_fault_slots s (ps ! i))
      then - 1 else 0)"
proof (induction ps arbitrary: i s)
  case (Cons p ps)
  show ?case
  proof (cases i)
    case 0
    then show ?thesis by (simp add: fault_hit_result)
  next
    case (Suc j)
    with Cons.prems have "j < length ps" by simp
    from Cons.IH [OF this, of "exec (ep_fault_hit p) s"] Suc show ?thesis
      by (auto simp add: fault_hit_exec_slots algebra_simps)
  qed
qed simp

lemma fault_configure_armed:
  assumes "ep_fault_point_valid p" "n \<noteq> 0" "0 < e"
  shows "fault_armed (exec (ep_fault_configure p n e) s) p"
    and "g_fault_slots (exec (ep_fault_configure p n e) s) p =
           \<lparr> fs_fail_at = n, fs_hits = 0, fs_error = e \<rparr>"
proof -
  have "bit (fault_bit p) (nat p)"
    using assms(1) by (simp add: fault_bit_def ep_fault_point_valid_def bit_exp_iff nat_less_iff)
  then have "fault_bit p \<noteq> 0" by auto
  moreover have "(m OR b) AND b = b" for m b :: uint64
    by (simp add: bit_eq_iff bit_and_iff bit_or_iff)
  ultimately show "fault_armed (exec (ep_fault_configure p n e) s) p"
    using assms by (simp add: fault_armed_def fault_defs)
  show "g_fault_slots (exec (ep_fault_configure p n e) s) p =
           \<lparr> fs_fail_at = n, fs_hits = 0, fs_error = e \<rparr>"
    using assms by (simp add: fault_defs)
qed

section \<open>Properties\<close>

text \<open>
  (C21) A configured fault point fails exactly once.  After \<open>ep_fault_configure\<close> arms point \<open>p\<close>
  at its \<open>n\<close>-th hit, any interleaving \<open>ps\<close> of hits on any points makes a hit on \<open>p\<close> fail
  precisely when it is the \<open>n\<close>-th hit on \<open>p\<close>.
\<close>

theorem fault_fires_once:
  assumes "ep_fault_point_valid p" and "n \<noteq> 0" and "0 < e"
    and "length ps < 2 ^ 64" and "i < length ps" and "ps ! i = p"
  shows "result_of (do { _ \<leftarrow> ep_fault_configure p n e; fault_hit_all ps }) s ! i =
    (if count_list (take (Suc i) ps) p = unat n then - 1 else 0)"
proof -
  have "count_list (take (Suc i) ps) p < 2 ^ 64"
    using count_le_length [of "take (Suc i) ps" p] assms(4) by simp
  then have "of_nat (count_list (take (Suc i) ps) p) = n \<longleftrightarrow>
      count_list (take (Suc i) ps) p = unat n"
    by (simp add: of_nat_word_eq_iff)
  then show ?thesis
    using fault_configure_armed [OF assms(1-3), of s] assms(5,6)
    by (simp add: fault_hit_all_nth)
qed

theorem fault_fires_once_witness:
  "result_of (do { _ \<leftarrow> ep_fault_configure 1 2 12; fault_hit_all [1, 4, 1] })
     \<lparr> ep_errno = 0, g_last_error_info = error_info_zero, g_fault_mask = 0,
       g_fault_slots = (\<lambda>_. \<lparr> fs_fail_at = 0, fs_hits = 0, fs_error = 0 \<rparr>) \<rparr> ! 2 = - 1"
  using fault_fires_once [of 1 2 12 "[1, 4, 1]" 2]
  by (simp add: ep_fault_point_valid_def take_Cons')

end
