(* ===== verification/Ep_Env.thy ===== *)
theory Ep_Env
  imports Ep_Fault
begin

text \<open>
  The part of the state every stateful component shares: the opaque state of the operating
  system, and the flag \<open>ep_ub\<close> that records an access the C program must never make (a freed
  or null block, a failed assertion, a loop that outruns its bound).  The C library and POSIX
  thread calls whose outcome the program observes are a parameter: a record of functions on the
  opaque state.
\<close>

section \<open>The system interface\<close>

record 'os ep_sys =
  sys_malloc :: "uint64 \<Rightarrow> 'os \<Rightarrow> bool \<times> 'os"
  sys_mutex_init :: "'os \<Rightarrow> int \<times> 'os"
  sys_mutex_lock :: "'os \<Rightarrow> int \<times> 'os"

record 'os ep_env = ep_fault_env +
  os_state :: 'os
  ep_ub :: bool

definition syscall :: "('os \<Rightarrow> 'a \<times> 'os) \<Rightarrow> (('os, 'z) ep_env_scheme, 'a) state" where
  "syscall f = do {
     os \<leftarrow> gets os_state;
     modify (\<lambda>s. s \<lparr> os_state := snd (f os) \<rparr>);
     return (fst (f os))
   }"

definition bad_access :: "(('os, 'z) ep_env_scheme, unit) state" where
  "bad_access = modify (\<lambda>s. s \<lparr> ep_ub := True \<rparr>)"

lemma wp_syscall [wp_simps]:
  "wp (syscall f) Q s = Q (fst (f (os_state s))) (s \<lparr> os_state := snd (f (os_state s)) \<rparr>)"
  by (simp add: syscall_def wp_simps)

lemma wp_bad_access [wp_simps]: "wp bad_access Q s = Q () (s \<lparr> ep_ub := True \<rparr>)"
  by (simp add: bad_access_def wp_simps)

lemma env_more [keeps_intros]:
  "keeps ep_env.more (syscall f)"
  "keeps ep_env.more bad_access"
  "keeps ep_env.more (ep_set_errno e :: (('os, 'z) ep_env_scheme, unit) state)"
  "keeps ep_env.more (ep_set_native_error e d c :: (('os, 'z) ep_env_scheme, unit) state)"
  "keeps ep_env.more (ep_set_win32_error w :: (('os, 'z) ep_env_scheme, unit) state)"
  "keeps ep_env.more (ep_set_winsock_error w :: (('os, 'z) ep_env_scheme, unit) state)"
  "keeps ep_env.more (ep_set_ntstatus_error rtl st :: (('os, 'z) ep_env_scheme, unit) state)"
  "keeps ep_env.more (ep_restore_last_error_info i :: (('os, 'z) ep_env_scheme, unit) state)"
  by (simp_all add: keeps_def syscall_def bad_access_def ep_error_setters ep_set_errno_def)

lemma env_fault_more [keeps_intros]:
  "keeps ep_env.more (ep_fault_hit p :: (('os, 'z) ep_env_scheme, int) state)"
  "keeps ep_env.more (ep_fault_hit_through p :: (('os, 'z) ep_env_scheme, int) state)"
  by (simp_all add: keeps_def fault_defs)

lemma errno_keeps_ub [keeps_intros]:
  "keeps ep_ub (ep_set_errno e :: (('os, 'z) ep_env_scheme, unit) state)"
  "keeps ep_ub (ep_set_native_error e d c :: (('os, 'z) ep_env_scheme, unit) state)"
  "keeps ep_ub (ep_set_win32_error w :: (('os, 'z) ep_env_scheme, unit) state)"
  "keeps ep_ub (ep_set_winsock_error w :: (('os, 'z) ep_env_scheme, unit) state)"
  "keeps ep_ub (ep_set_ntstatus_error rtl st :: (('os, 'z) ep_env_scheme, unit) state)"
  "keeps ep_ub (ep_restore_last_error_info i :: (('os, 'z) ep_env_scheme, unit) state)"
  "keeps ep_ub (syscall f)"
  by (simp_all add: keeps_def ep_error_setters ep_set_errno_def syscall_def)

lemma fault_keeps_ub [keeps_intros]:
  "keeps ep_ub (ep_fault_hit p :: (('os, 'z) ep_env_scheme, int) state)"
  "keeps ep_ub (ep_fault_hit_through p :: (('os, 'z) ep_env_scheme, int) state)"
  by (simp_all add: keeps_def fault_defs)

end
