(* ===== verification/Pool_Spec.thy ===== *)
theory Pool_Spec
  imports Prelude
begin

text \<open>
  The contract a buffer pool offers to the code that borrows from it: the laws of \<open>take\<close> and
  \<open>give\<close> over the free list and the set of buffers in use, and what a borrower may conclude from
  them for any sequence of calls.  The implementation of \<^verbatim>\<open>src/src/wepoll_ex_pool.c\<close> is shown to
  satisfy it in theory \<open>Ep_Pool\<close>.
\<close>

datatype 'b pool_op = Take | Give 'b

datatype 'b pool_event = Took 'b | Exhausted | Gave 'b

fun pool_trace ::
  "('s \<Rightarrow> 'b option \<times> 's) \<Rightarrow> ('b \<Rightarrow> 's \<Rightarrow> 's) \<Rightarrow> 'b pool_op list \<Rightarrow> 's \<Rightarrow> 'b pool_event list" where
  "pool_trace tk gv [] s = []"
| "pool_trace tk gv (Take # ops) s =
     (case tk s of
        (None, s') \<Rightarrow> Exhausted # pool_trace tk gv ops s'
      | (Some b, s') \<Rightarrow> Took b # pool_trace tk gv ops s')"
| "pool_trace tk gv (Give b # ops) s = Gave b # pool_trace tk gv ops (gv b s)"

fun pool_run ::
  "('s \<Rightarrow> 'b option \<times> 's) \<Rightarrow> ('b \<Rightarrow> 's \<Rightarrow> 's) \<Rightarrow> 'b pool_op list \<Rightarrow> 's \<Rightarrow> 's" where
  "pool_run tk gv [] s = s"
| "pool_run tk gv (Take # ops) s = pool_run tk gv ops (snd (tk s))"
| "pool_run tk gv (Give b # ops) s = pool_run tk gv ops (gv b s)"

locale buffer_pool =
  fixes inv :: "'s \<Rightarrow> bool"
    and free_list :: "'s \<Rightarrow> 'b list"
    and in_use :: "'s \<Rightarrow> 'b set"
    and take_buf :: "'s \<Rightarrow> 'b option \<times> 's"
    and give_buf :: "'b \<Rightarrow> 's \<Rightarrow> 's"
  assumes take_inv: "inv s \<Longrightarrow> inv (snd (take_buf s))"
    and take_some: "inv s \<Longrightarrow> take_buf s = (Some b, s') \<Longrightarrow>
      b \<notin> in_use s \<and> in_use s' = insert b (in_use s) \<and>
      (free_list s = b # free_list s' \<or> free_list s = [] \<and> free_list s' = [])"
    and take_none: "inv s \<Longrightarrow> take_buf s = (None, s') \<Longrightarrow>
      in_use s' = in_use s \<and> free_list s' = free_list s"
    and give_inv: "inv s \<Longrightarrow> inv (give_buf b s)"
    and give_step: "inv s \<Longrightarrow>
      in_use (give_buf b s) = in_use s \<and> free_list (give_buf b s) = free_list s \<or>
      b \<in> in_use s \<and> in_use (give_buf b s) = in_use s - {b} \<and>
      free_list (give_buf b s) = b # free_list s"
begin

lemma run_inv: "inv s \<Longrightarrow> inv (pool_run take_buf give_buf ops s)"
proof (induction ops arbitrary: s)
  case (Cons op ops)
  then show ?case by (cases op) (simp_all add: take_inv give_inv)
qed simp

text \<open>One call: the event it records, and what it does to the set of buffers in use.\<close>

lemma trace_step:
  assumes "inv s"
  obtains e s' where
    "pool_trace take_buf give_buf (op # ops) s = e # pool_trace take_buf give_buf ops s'"
    and "inv s'"
    and "\<And>b. e = Took b \<Longrightarrow> b \<notin> in_use s \<and> b \<in> in_use s'"
    and "\<And>b. b \<in> in_use s \<Longrightarrow> e \<noteq> Gave b \<Longrightarrow> b \<in> in_use s'"
proof (cases op)
  case Take
  obtain r t where t: "take_buf s = (r, t)" by fastforce
  have i: "inv t" using take_inv [OF assms] t by simp
  show ?thesis
  proof (cases r)
    case None
    with take_none [OF assms, of t] t have "in_use t = in_use s" by simp
    with None t i Take show ?thesis by (intro that [of Exhausted t]) simp_all
  next
    case (Some b)
    with take_some [OF assms, of b t] t have "b \<notin> in_use s" "in_use t = insert b (in_use s)" by simp_all
    with Some t i Take show ?thesis by (intro that [of "Took b" t]) simp_all
  qed
next
  case (Give c)
  have "b \<in> in_use s \<Longrightarrow> b \<noteq> c \<Longrightarrow> b \<in> in_use (give_buf c s)" for b
    using give_step [OF assms, of c] by auto
  then show ?thesis using Give give_inv [OF assms, of c] by (intro that [of "Gave c" "give_buf c s"]) auto
qed

text \<open>A buffer in use is not handed out before it is given back.\<close>

lemma held_not_taken:
  assumes "inv s" "b \<in> in_use s" "j < length (pool_trace take_buf give_buf ops s)"
    and "pool_trace take_buf give_buf ops s ! j = Took b"
  shows "\<exists>k < j. pool_trace take_buf give_buf ops s ! k = Gave b"
  using assms
proof (induction ops arbitrary: s j)
  case (Cons op ops)
  obtain e s' where st: "pool_trace take_buf give_buf (op # ops) s =
      e # pool_trace take_buf give_buf ops s'" and i: "inv s'"
    and tk: "e = Took b \<Longrightarrow> b \<notin> in_use s" and u: "e \<noteq> Gave b \<Longrightarrow> b \<in> in_use s'"
    by (rule trace_step [OF Cons.prems(1), of op ops]) (rule that, assumption, assumption, use Cons.prems(2) in auto)
  from tk Cons.prems(2,4) st obtain i' where j: "j = Suc i'" by (cases j) auto
  show ?case
  proof (cases "e = Gave b")
    case True
    with st j show ?thesis by (intro exI [of _ 0]) simp
  next
    case False
    from Cons.prems(3,4) st j have "i' < length (pool_trace take_buf give_buf ops s')"
      "pool_trace take_buf give_buf ops s' ! i' = Took b" by simp_all
    from Cons.IH [OF i u [OF False] this] obtain k where
      "k < i'" "pool_trace take_buf give_buf ops s' ! k = Gave b" by blast
    then show ?thesis using st j by (intro exI [of _ "Suc k"]) simp
  qed
qed simp

lemma no_double_handout:
  assumes "inv s" "i < j" "j < length (pool_trace take_buf give_buf ops s)"
    and "pool_trace take_buf give_buf ops s ! i = Took b"
    and "pool_trace take_buf give_buf ops s ! j = Took b"
  shows "\<exists>k. i < k \<and> k < j \<and> pool_trace take_buf give_buf ops s ! k = Gave b"
  using assms
proof (induction ops arbitrary: s i j)
  case (Cons op ops)
  obtain e s' where step: "pool_trace take_buf give_buf (op # ops) s =
      e # pool_trace take_buf give_buf ops s'" and i': "inv s'"
    and taken: "e = Took b \<Longrightarrow> b \<in> in_use s'"
    by (rule trace_step [OF Cons.prems(1), of op ops]) (rule that, assumption, assumption, auto)
  from Cons.prems(2) obtain j' where j: "j = Suc j'" by (cases j) auto
  with Cons.prems(3,5) step have tj: "j' < length (pool_trace take_buf give_buf ops s')"
    "pool_trace take_buf give_buf ops s' ! j' = Took b" by simp_all
  show ?case
  proof (cases i)
    case 0
    with Cons.prems(4) step taken have "b \<in> in_use s'" by simp
    from held_not_taken [OF i' this tj] obtain k where "k < j'"
      "pool_trace take_buf give_buf ops s' ! k = Gave b" by blast
    then show ?thesis using 0 j step by (intro exI [of _ "Suc k"]) simp
  next
    case (Suc i'')
    with Cons.prems j step have "i'' < j'" "pool_trace take_buf give_buf ops s' ! i'' = Took b"
      by simp_all
    from Cons.IH [OF i' this(1) tj(1) this(2) tj(2)] obtain k where
      "i'' < k" "k < j'" "pool_trace take_buf give_buf ops s' ! k = Gave b" by blast
    then show ?thesis using Suc j step by (intro exI [of _ "Suc k"]) simp
  qed
qed simp

text \<open>Last in, first out: the buffer given back last is the next one handed out.\<close>

lemma give_then_take:
  assumes "inv s" "in_use (give_buf b s) \<noteq> in_use s" "take_buf (give_buf b s) = (Some c, s')"
  shows "c = b \<and> in_use s' = in_use s \<and> free_list s' = free_list s"
proof -
  from give_step [OF assms(1), of b] assms(2) have g: "b \<in> in_use s"
    "in_use (give_buf b s) = in_use s - {b}" "free_list (give_buf b s) = b # free_list s"
    by blast+
  from take_some [OF give_inv [OF assms(1)] assms(3)]
  have "in_use s' = insert c (in_use s - {b})" "b # free_list s = c # free_list s'"
    unfolding g by blast+
  with g(1) show ?thesis by auto
qed

end

end
