(* ===== verification/Ep_Pool.thy ===== *)
theory Ep_Pool
  imports Ep_Env Pool_Spec
begin

text \<open>
  The buffer pool of \<^verbatim>\<open>src/src/wepoll_ex_pool.c\<close>: a mutex-protected LIFO free list of
  pre-allocated entries that grows on demand.  Entries live in a heap of blocks; the free list and
  the list of all entries are linked through the entries as in the code.  Each operation runs
  under the pool's lock and is one atomic step.
\<close>

section \<open>Data\<close>

abbreviation (input) SIZE_MAX :: uint64 where "SIZE_MAX \<equiv> - 1"

abbreviation (input) EP_POOL_ENTRY_MAGIC :: uint64 where
  "EP_POOL_ENTRY_MAGIC \<equiv> 0x4550504f4f4c4558"

text \<open>\<open>offsetof (ep_pool_entry_t, data)\<close> on x86-64.\<close>

abbreviation (input) POOL_HEADER_SIZE :: uint64 where "POOL_HEADER_SIZE \<equiv> 80"

text \<open>The two pools embedded in a port, by the address of the port.\<close>

datatype pool_ref = Afd_Info_Pool addr | Ready_Node_Pool addr

record ep_pool_entry =
  pe_next :: "addr option"
  pe_all_next :: "addr option"
  pe_owner :: "pool_ref option"
  pe_magic :: uint64
  pe_in_pool :: bool

record ep_afd_pool =
  ap_stack :: "addr option"
  ap_all_entries :: "addr option"
  ap_buf_size :: uint64
  ap_capacity :: nat
  ap_allocated :: nat
  ap_in_use :: nat
  ap_peak :: nat
  ap_initialized :: bool

definition ep_afd_pool_zero :: ep_afd_pool where
  "ep_afd_pool_zero = \<lparr> ap_stack = None, ap_all_entries = None, ap_buf_size = 0, ap_capacity = 0,
     ap_allocated = 0, ap_in_use = 0, ap_peak = 0, ap_initialized = False \<rparr>"

record 'os ep_pool_env = "'os ep_env" +
  pools :: "pool_ref \<Rightarrow> ep_afd_pool"
  pool_heap :: "addr \<Rightarrow> ep_pool_entry option"
  pool_next_addr :: addr

text \<open>A buffer is addressed by its entry: \<open>ep_pool_entry_buf\<close> and \<open>ep_pool_buf_entry\<close> add and
  subtract the constant offset of the data member.\<close>

definition pool_upd ::
  "pool_ref \<Rightarrow> (ep_afd_pool \<Rightarrow> ep_afd_pool) \<Rightarrow> (('os, 'z) ep_pool_env_scheme, unit) state" where
  "pool_upd p f = modify (\<lambda>s. s \<lparr> pools := (pools s)(p := f (pools s p)) \<rparr>)"

definition entry_upd ::
  "addr \<Rightarrow> (ep_pool_entry \<Rightarrow> ep_pool_entry) \<Rightarrow> (('os, 'z) ep_pool_env_scheme, unit) state" where
  "entry_upd a f = modify (\<lambda>s. case pool_heap s a of
      None \<Rightarrow> s \<lparr> ep_ub := True \<rparr>
    | Some e \<Rightarrow> s \<lparr> pool_heap := (pool_heap s)(a \<mapsto> f e) \<rparr>)"

definition entry_get :: "addr \<Rightarrow> (('os, 'z) ep_pool_env_scheme, ep_pool_entry option) state" where
  "entry_get a = do {
     e \<leftarrow> gets (\<lambda>s. pool_heap s a);
     when_do (e = None) bad_access;
     return e
   }"

section \<open>Operations\<close>

definition ep_pool_entry_alloc ::
  "('os, 'y) ep_sys_scheme \<Rightarrow> pool_ref \<Rightarrow> bool \<Rightarrow> (('os, 'z) ep_pool_env_scheme, addr option) state" where
  "ep_pool_entry_alloc sys p in_pool = do {
     buf_size \<leftarrow> gets (\<lambda>s. ap_buf_size (pools s p));
     if buf_size > SIZE_MAX - POOL_HEADER_SIZE then do { ep_set_errno ENOMEM; return None }
     else do {
       hit \<leftarrow> ep_fault_hit (if in_pool then EP_FAULT_POOL_INIT_ALLOC else EP_FAULT_POOL_GROW);
       if hit \<noteq> 0 then return None
       else do {
         ok \<leftarrow> syscall (sys_malloc sys (POOL_HEADER_SIZE + buf_size));
         if \<not> ok then do { ep_set_errno ENOMEM; return None }
         else do {
           entry \<leftarrow> gets pool_next_addr;
           modify (\<lambda>s. s \<lparr> pool_next_addr := Suc entry,
             pool_heap := (pool_heap s)(entry \<mapsto> \<lparr> pe_next = None, pe_all_next = None,
               pe_owner = Some p, pe_magic = EP_POOL_ENTRY_MAGIC, pe_in_pool = in_pool \<rparr>) \<rparr>);
           return (Some entry)
         }
       }
     }
   }"

text \<open>The loop of \<open>ep_pool_entries_free\<close>; the fuel is the number of addresses handed out so far.\<close>

primrec pool_entries_free_loop :: "nat \<Rightarrow> addr option \<Rightarrow> (('os, 'z) ep_pool_env_scheme, unit) state" where
  "pool_entries_free_loop 0 entry = when_do (entry \<noteq> None) bad_access"
| "pool_entries_free_loop (Suc n) entry =
    (case entry of
       None \<Rightarrow> skip
     | Some a \<Rightarrow> do {
         e \<leftarrow> entry_get a;
         case e of
           None \<Rightarrow> skip
         | Some e \<Rightarrow> do {
             entry_upd a (\<lambda>e. e \<lparr> pe_magic := 0 \<rparr>);
             entry_upd a (\<lambda>e. e \<lparr> pe_owner := None \<rparr>);
             modify (\<lambda>s. s \<lparr> pool_heap := (pool_heap s)(a := None) \<rparr>);
             pool_entries_free_loop n (pe_all_next e)
           }
       })"

definition ep_pool_entries_free :: "addr option \<Rightarrow> (('os, 'z) ep_pool_env_scheme, unit) state" where
  "ep_pool_entries_free entry = do {
     n \<leftarrow> gets pool_next_addr;
     pool_entries_free_loop n entry
   }"

definition pool_init_unwind :: "pool_ref \<Rightarrow> (('os, 'z) ep_pool_env_scheme, int) state" where
  "pool_init_unwind p = do {
     all_entries \<leftarrow> gets (\<lambda>s. ap_all_entries (pools s p));
     ep_pool_entries_free all_entries;
     pool_upd p (\<lambda>q. q \<lparr> ap_stack := None, ap_all_entries := None, ap_allocated := 0,
                         ap_initialized := False \<rparr>);
     return (- 1)
   }"

definition pool_init_push :: "pool_ref \<Rightarrow> addr \<Rightarrow> (('os, 'z) ep_pool_env_scheme, unit) state" where
  "pool_init_push p a = do {
     q \<leftarrow> gets (\<lambda>s. pools s p);
     entry_upd a (\<lambda>e. e \<lparr> pe_next := ap_stack q \<rparr>);
     pool_upd p (\<lambda>q. q \<lparr> ap_stack := Some a \<rparr>);
     entry_upd a (\<lambda>e. e \<lparr> pe_all_next := ap_all_entries q \<rparr>);
     pool_upd p (\<lambda>q. q \<lparr> ap_all_entries := Some a, ap_allocated := ap_allocated q + 1 \<rparr>)
   }"

primrec pool_init_loop ::
  "('os, 'y) ep_sys_scheme \<Rightarrow> pool_ref \<Rightarrow> nat \<Rightarrow> (('os, 'z) ep_pool_env_scheme, int) state" where
  "pool_init_loop sys p 0 = return 0"
| "pool_init_loop sys p (Suc n) = do {
     entry \<leftarrow> ep_pool_entry_alloc sys p True;
     case entry of
       None \<Rightarrow> pool_init_unwind p
     | Some a \<Rightarrow> do { pool_init_push p a; pool_init_loop sys p n }
   }"

definition ep_afd_pool_init ::
  "('os, 'y) ep_sys_scheme \<Rightarrow> pool_ref option \<Rightarrow> uint64 \<Rightarrow> nat \<Rightarrow>
   (('os, 'z) ep_pool_env_scheme, int) state" where
  "ep_afd_pool_init sys p buf_size capacity =
    (case p of
       None \<Rightarrow> do { ep_set_errno EINVAL; return (- 1) }
     | Some p \<Rightarrow>
         if buf_size = 0 \<or> capacity = 0 then do { ep_set_errno EINVAL; return (- 1) }
         else do {
           pool_upd p (\<lambda>_. ep_afd_pool_zero);
           rc \<leftarrow> syscall (sys_mutex_init sys);
           if rc \<noteq> 0 then do { ep_set_errno rc; return (- 1) }
           else do {
             pool_upd p (\<lambda>q. q \<lparr> ap_buf_size := buf_size, ap_capacity := capacity, ap_in_use := 0,
                                 ap_peak := 0, ap_initialized := True \<rparr>);
             pool_init_loop sys p capacity
           }
         })"

definition ep_afd_pool_destroy ::
  "('os, 'y) ep_sys_scheme \<Rightarrow> pool_ref option \<Rightarrow> (('os, 'z) ep_pool_env_scheme, unit) state" where
  "ep_afd_pool_destroy sys p =
    (case p of
       None \<Rightarrow> skip
     | Some p \<Rightarrow> do {
         q \<leftarrow> gets (\<lambda>s. pools s p);
         if \<not> ap_initialized q then skip
         else do {
           rc \<leftarrow> syscall (sys_mutex_lock sys);
           if rc \<noteq> 0 then ep_set_errno rc
           else if ap_in_use q \<noteq> 0 then ep_set_errno EBUSY
           else do {
             pool_upd p (\<lambda>q. q \<lparr> ap_stack := None, ap_all_entries := None, ap_allocated := 0,
                                 ap_initialized := False \<rparr>);
             ep_pool_entries_free (ap_all_entries q)
           }
         }
       })"

text \<open>The part of \<open>ep_afd_pool_take\<close> after an entry was obtained: detach it and account.\<close>

definition pool_take_account :: "pool_ref \<Rightarrow> addr \<Rightarrow> (('os, 'z) ep_pool_env_scheme, addr option) state" where
  "pool_take_account p a = do {
     entry_upd a (\<lambda>e. e \<lparr> pe_next := None, pe_in_pool := False \<rparr>);
     q \<leftarrow> gets (\<lambda>s. pools s p);
     let now = ap_in_use q + 1;
     pool_upd p (\<lambda>q. q \<lparr> ap_in_use := now \<rparr>);
     when_do (now > ap_peak q) (pool_upd p (\<lambda>q. q \<lparr> ap_peak := now \<rparr>));
     return (Some a)
   }"

definition ep_afd_pool_take ::
  "('os, 'y) ep_sys_scheme \<Rightarrow> pool_ref option \<Rightarrow> (('os, 'z) ep_pool_env_scheme, addr option) state" where
  "ep_afd_pool_take sys p =
    (case p of
       None \<Rightarrow> do { ep_set_errno EFAULT; return None }
     | Some p \<Rightarrow> do {
         q \<leftarrow> gets (\<lambda>s. pools s p);
         if \<not> ap_initialized q then do { ep_set_errno EFAULT; return None }
         else do {
           rc \<leftarrow> syscall (sys_mutex_lock sys);
           if rc \<noteq> 0 then do { ep_set_errno rc; return None }
           else if \<not> ap_initialized q then do { ep_set_errno EFAULT; return None }
           else
             (case ap_stack q of
                Some a \<Rightarrow> do {
                  e \<leftarrow> entry_get a;
                  case e of
                    None \<Rightarrow> return None
                  | Some e \<Rightarrow> do {
                      pool_upd p (\<lambda>q. q \<lparr> ap_stack := pe_next e \<rparr>);
                      pool_take_account p a
                    }
                }
              | None \<Rightarrow> do {
                  entry \<leftarrow> ep_pool_entry_alloc sys p False;
                  case entry of
                    None \<Rightarrow> return None
                  | Some a \<Rightarrow> do {
                      entry_upd a (\<lambda>e. e \<lparr> pe_all_next := ap_all_entries q \<rparr>);
                      pool_upd p (\<lambda>q. q \<lparr> ap_all_entries := Some a,
                                          ap_allocated := ap_allocated q + 1 \<rparr>);
                      pool_take_account p a
                    }
                })
         }
       })"

definition ep_afd_pool_give ::
  "('os, 'y) ep_sys_scheme \<Rightarrow> pool_ref option \<Rightarrow> addr option \<Rightarrow>
   (('os, 'z) ep_pool_env_scheme, unit) state" where
  "ep_afd_pool_give sys p buf =
    (case (p, buf) of
       (Some p, Some a) \<Rightarrow> do {
         e \<leftarrow> entry_get a;
         q \<leftarrow> gets (\<lambda>s. pools s p);
         case e of
           None \<Rightarrow> skip
         | Some e \<Rightarrow>
             if pe_magic e \<noteq> EP_POOL_ENTRY_MAGIC \<or> pe_owner e \<noteq> Some p \<or> \<not> ap_initialized q
             then ep_set_errno EINVAL
             else do {
               rc \<leftarrow> syscall (sys_mutex_lock sys);
               if rc \<noteq> 0 then ep_set_errno rc
               else if \<not> ap_initialized q \<or> pe_in_pool e then ep_set_errno EINVAL
               else do {
                 entry_upd a (\<lambda>e. e \<lparr> pe_in_pool := True, pe_next := ap_stack q \<rparr>);
                 pool_upd p (\<lambda>q. q \<lparr> ap_stack := Some a \<rparr>);
                 if ap_in_use q > 0
                 then pool_upd p (\<lambda>q'. q' \<lparr> ap_in_use := ap_in_use q - 1 \<rparr>)
                 else ep_set_errno EINVAL
               }
             }
       }
     | _ \<Rightarrow> skip)"

section \<open>Representation\<close>

definition next_of :: "(addr \<Rightarrow> ep_pool_entry option) \<Rightarrow> addr \<Rightarrow> addr option" where
  "next_of h a = (case h a of None \<Rightarrow> None | Some e \<Rightarrow> pe_next e)"

definition all_next_of :: "(addr \<Rightarrow> ep_pool_entry option) \<Rightarrow> addr \<Rightarrow> addr option" where
  "all_next_of h a = (case h a of None \<Rightarrow> None | Some e \<Rightarrow> pe_all_next e)"

text \<open>
  The heap and the pool record represent the free list \<open>xs\<close> and the list \<open>ys\<close> of all entries.
\<close>

definition entry_ok :: "pool_ref \<Rightarrow> addr list \<Rightarrow> addr \<Rightarrow> ep_pool_entry \<Rightarrow> bool" where
  "entry_ok p xs a e \<longleftrightarrow> pe_magic e = EP_POOL_ENTRY_MAGIC \<and> pe_owner e = Some p \<and>
     (pe_in_pool e \<longleftrightarrow> a \<in> set xs)"

definition pool_rep ::
  "(addr \<Rightarrow> ep_pool_entry option) \<Rightarrow> ep_afd_pool \<Rightarrow> pool_ref \<Rightarrow> addr list \<Rightarrow> addr list \<Rightarrow> bool" where
  "pool_rep h q p xs ys \<longleftrightarrow>
     chain (next_of h) (ap_stack q) xs \<and> chain (all_next_of h) (ap_all_entries q) ys \<and>
     set xs \<subseteq> set ys \<and> (\<forall>a \<in> set ys. \<exists>e. h a = Some e \<and> entry_ok p xs a e) \<and>
     (\<forall>a e. h a = Some e \<and> pe_owner e = Some p \<longrightarrow> a \<in> set ys) \<and>
     ap_allocated q = length ys \<and> ap_in_use q + length xs = length ys \<and>
     ap_in_use q \<le> ap_peak q \<and> ap_peak q \<le> length ys \<and> ap_initialized q"

definition pool_ok :: "(addr \<Rightarrow> ep_pool_entry option) \<Rightarrow> ep_afd_pool \<Rightarrow> pool_ref \<Rightarrow> bool" where
  "pool_ok h q p \<longleftrightarrow>
     (if ap_initialized q then \<exists>xs ys. pool_rep h q p xs ys
      else ap_stack q = None \<and> ap_all_entries q = None \<and> ap_allocated q = 0 \<and> ap_in_use q = 0 \<and>
        (\<forall>a e. h a = Some e \<longrightarrow> pe_owner e \<noteq> Some p))"

definition pools_ok :: "('os, 'z) ep_pool_env_scheme \<Rightarrow> bool" where
  "pools_ok s \<longleftrightarrow> (\<forall>a. pool_heap s a \<noteq> None \<longrightarrow> a < pool_next_addr s) \<and>
     (\<forall>p. pool_ok (pool_heap s) (pools s p) p)"

lemma next_of_upd [simp]:
  "next_of (h(a \<mapsto> e)) = (next_of h)(a := pe_next e)"
  "all_next_of (h(a \<mapsto> e)) = (all_next_of h)(a := pe_all_next e)"
  by (auto simp: next_of_def all_next_of_def fun_eq_iff)

lemma all_next_upd_same [simp]:
  "h a = Some e \<Longrightarrow> (all_next_of h)(a := pe_all_next e) = all_next_of h"
  by (auto simp: all_next_of_def fun_eq_iff)

lemma pool_repD:
  assumes "pool_rep h q p xs ys"
  shows "distinct xs" "distinct ys" "set xs \<subseteq> set ys"
    "\<And>a. a \<in> set ys \<Longrightarrow> \<exists>e. h a = Some e \<and> entry_ok p xs a e"
    "\<And>a e. h a = Some e \<Longrightarrow> pe_owner e = Some p \<Longrightarrow> a \<in> set ys"
  using assms by (auto simp: pool_rep_def dest: chain_distinct)

text \<open>Blocks of other owners may change without touching the representation.\<close>

definition foreign :: "pool_ref \<Rightarrow> ep_pool_entry option \<Rightarrow> bool" where
  "foreign p b \<longleftrightarrow> (\<forall>e. b = Some e \<longrightarrow> pe_owner e \<noteq> Some p)"

lemma pool_rep_frame:
  assumes "pool_rep h q p xs ys"
    and "\<And>a. h' a = h a \<or> foreign p (h a) \<and> foreign p (h' a)"
  shows "pool_rep h' q p xs ys"
proof -
  have same: "h' a = h a" if "a \<in> set ys" for a
    using pool_repD(4) [OF assms(1) that] assms(2) [of a] by (auto simp: foreign_def entry_ok_def)
  have "chain (next_of h') (ap_stack q) xs = chain (next_of h) (ap_stack q) xs"
    using same pool_repD(3) [OF assms(1)] by (intro chain_cong) (auto simp: next_of_def)
  moreover have "chain (all_next_of h') (ap_all_entries q) ys =
      chain (all_next_of h) (ap_all_entries q) ys"
    using same by (intro chain_cong) (auto simp: all_next_of_def)
  moreover have "a \<in> set ys" if "h' a = Some e" "pe_owner e = Some p" for a e
    using that pool_repD(5) [OF assms(1)] assms(2) [of a] by (metis foreign_def)
  ultimately show ?thesis using assms(1) same by (auto simp: pool_rep_def)
qed

lemma pool_ok_frame:
  assumes "pool_ok h q p"
    and fr: "\<And>a. h' a = h a \<or> foreign p (h a) \<and> foreign p (h' a)"
  shows "pool_ok h' q p"
proof (cases "ap_initialized q")
  case True
  with assms(1) obtain xs ys where "pool_rep h q p xs ys" by (auto simp: pool_ok_def)
  from pool_rep_frame [OF this, of h'] fr True show ?thesis by (auto simp: pool_ok_def)
next
  case False
  have "pe_owner e \<noteq> Some p" if "h' a = Some e" for a e
    using that fr [of a] assms(1) False by (auto simp: pool_ok_def foreign_def)
  with False assms(1) show ?thesis by (auto simp: pool_ok_def)
qed

subsection \<open>The three moves of the pool\<close>

lemma pool_rep_pop:
  assumes "pool_rep h q p (a # xs) ys" and "h a = Some e"
  shows "pool_rep (h(a \<mapsto> e \<lparr> pe_next := None, pe_in_pool := False \<rparr>))
     (q \<lparr> ap_stack := pe_next e, ap_in_use := ap_in_use q + 1,
          ap_peak := max (ap_peak q) (ap_in_use q + 1) \<rparr>) p xs ys"
  using assms pool_repD [OF assms(1)]
  by (auto simp: pool_rep_def entry_ok_def next_of_def)

lemma pool_rep_grow:
  assumes "pool_rep h q p [] ys" and "h a = None"
  shows "pool_rep (h(a \<mapsto> \<lparr> pe_next = None, pe_all_next = ap_all_entries q, pe_owner = Some p,
        pe_magic = EP_POOL_ENTRY_MAGIC, pe_in_pool = False \<rparr>))
     (q \<lparr> ap_all_entries := Some a, ap_allocated := ap_allocated q + 1, ap_in_use := ap_in_use q + 1,
          ap_peak := max (ap_peak q) (ap_in_use q + 1) \<rparr>) p [] (a # ys)"
proof -
  have "a \<notin> set ys" using assms pool_repD(4) [OF assms(1)] by force
  with assms show ?thesis by (auto simp: pool_rep_def entry_ok_def)
qed

lemma pool_rep_push:
  assumes "pool_rep h q p xs ys" and "h a = Some e" "a \<in> set ys" "a \<notin> set xs"
  shows "pool_rep (h(a \<mapsto> e \<lparr> pe_in_pool := True, pe_next := ap_stack q \<rparr>))
     (q \<lparr> ap_stack := Some a, ap_in_use := ap_in_use q - 1 \<rparr>) p (a # xs) ys"
    and "0 < ap_in_use q"
proof -
  have "length (a # xs) \<le> length ys"
    using assms pool_repD [OF assms(1)] distinct_card [of "a # xs"] distinct_card [of ys]
    by (metis card_mono distinct.simps(2) finite_set insert_subset list.simps(15))
  with assms show "0 < ap_in_use q" by (simp add: pool_rep_def)
  with assms pool_repD [OF assms(1)] show
    "pool_rep (h(a \<mapsto> e \<lparr> pe_in_pool := True, pe_next := ap_stack q \<rparr>))
     (q \<lparr> ap_stack := Some a, ap_in_use := ap_in_use q - 1 \<rparr>) p (a # xs) ys"
    by (auto simp: pool_rep_def entry_ok_def)
qed

lemma pool_rep_init_push:
  assumes "pool_rep h q p xs ys" and "h a = None"
  shows "pool_rep (h(a \<mapsto> \<lparr> pe_next = ap_stack q, pe_all_next = ap_all_entries q, pe_owner = Some p,
        pe_magic = EP_POOL_ENTRY_MAGIC, pe_in_pool = True \<rparr>))
     (q \<lparr> ap_stack := Some a, ap_all_entries := Some a, ap_allocated := ap_allocated q + 1 \<rparr>)
     p (a # xs) (a # ys)"
proof -
  have "a \<notin> set ys" using assms pool_repD(4) [OF assms(1)] by force
  moreover from this have "a \<notin> set xs" using pool_repD(3) [OF assms(1)] by auto
  ultimately show ?thesis using assms
    by (auto simp: pool_rep_def entry_ok_def)
qed

subsection \<open>Symbolic execution\<close>

lemma wp_pool_upd [wp_simps]:
  "wp (pool_upd p f) Q s = Q () (s \<lparr> pools := (pools s)(p := f (pools s p)) \<rparr>)"
  by (simp add: pool_upd_def wp_simps)

lemma wp_entry_upd [wp_simps]:
  "wp (entry_upd a f) Q s =
     (case pool_heap s a of None \<Rightarrow> Q () (s \<lparr> ep_ub := True \<rparr>)
      | Some e \<Rightarrow> Q () (s \<lparr> pool_heap := (pool_heap s)(a \<mapsto> f e) \<rparr>))"
  by (simp add: entry_upd_def wp_simps split: option.splits)

lemma wp_entry_get [wp_simps]:
  "wp (entry_get a) Q s =
     (case pool_heap s a of None \<Rightarrow> Q None (s \<lparr> ep_ub := True \<rparr>) | Some e \<Rightarrow> Q (Some e) s)"
  by (simp add: entry_get_def wp_simps split: option.splits)

definition pool_free :: "pool_ref \<Rightarrow> ('os, 'z) ep_pool_env_scheme \<Rightarrow> addr list" where
  "pool_free p s = walk (pool_next_addr s) (next_of (pool_heap s)) (ap_stack (pools s p))"

definition pool_all :: "pool_ref \<Rightarrow> ('os, 'z) ep_pool_env_scheme \<Rightarrow> addr list" where
  "pool_all p s = walk (pool_next_addr s) (all_next_of (pool_heap s)) (ap_all_entries (pools s p))"

definition pool_used :: "pool_ref \<Rightarrow> ('os, 'z) ep_pool_env_scheme \<Rightarrow> addr set" where
  "pool_used p s = set (pool_all p s) - set (pool_free p s)"

abbreviation pool_live :: "pool_ref \<Rightarrow> ('os, 'z) ep_pool_env_scheme \<Rightarrow> bool" where
  "pool_live p s \<equiv> pools_ok s \<and> ap_initialized (pools s p)"

lemma pool_rep_walk:
  assumes "pools_ok s" and "pool_rep (pool_heap s) (pools s p) p xs ys"
  shows "pool_free p s = xs" "pool_all p s = ys"
proof -
  note d = pool_repD [OF assms(2)]
  have "a < pool_next_addr s" if "a \<in> set ys" for a
    using d(4) [OF that] assms(1) by (auto simp: pools_ok_def)
  then have "length ys \<le> pool_next_addr s" "length xs \<le> pool_next_addr s"
    using d(1-3) by (auto intro!: bounded_distinct_length)
  then show "pool_free p s = xs" "pool_all p s = ys"
    using assms(2) by (auto simp: pool_free_def pool_all_def pool_rep_def walk_chain)
qed

lemma pool_live_rep:
  assumes "pool_live p s"
  shows "pool_rep (pool_heap s) (pools s p) p (pool_free p s) (pool_all p s)"
proof -
  from assms obtain xs ys where r: "pool_rep (pool_heap s) (pools s p) p xs ys"
    unfolding pools_ok_def pool_ok_def by metis
  with pool_rep_walk [OF _ r] assms show ?thesis by simp
qed

definition owned_by :: "pool_ref \<Rightarrow> ep_pool_entry option \<Rightarrow> bool" where
  "owned_by p b \<longleftrightarrow> (\<forall>e. b = Some e \<longrightarrow> pe_owner e = Some p)"

text \<open>Replacing the pool \<open>p\<close> and blocks that only \<open>p\<close> owns keeps the invariant.\<close>

lemma pools_ok_update:
  assumes "pools_ok s" and "pool_ok h' q' p"
    and "\<And>a. h' a \<noteq> None \<Longrightarrow> a < n'"
    and "\<And>a. h' a = pool_heap s a \<or> owned_by p (pool_heap s a) \<and> owned_by p (h' a)"
  shows "pools_ok (s \<lparr> pools := (pools s)(p := q'), pool_heap := h', pool_next_addr := n' \<rparr>)"
proof -
  have "pool_ok h' (pools s p') p'" if "p' \<noteq> p" for p'
  proof (rule pool_ok_frame)
    show "pool_ok (pool_heap s) (pools s p') p'" using assms(1) by (simp add: pools_ok_def)
    show "h' a = pool_heap s a \<or> foreign p' (pool_heap s a) \<and> foreign p' (h' a)" for a
      using assms(4) [of a] that by (auto simp: owned_by_def foreign_def)
  qed
  with assms show ?thesis by (simp add: pools_ok_def)
qed

lemma pools_ok_cong:
  "pools s' = pools s \<Longrightarrow> pool_heap s' = pool_heap s \<Longrightarrow> pool_next_addr s' = pool_next_addr s \<Longrightarrow>
   pools_ok s' = pools_ok s"
  by (simp add: pools_ok_def)

definition pool_view ::
  "('os, 'z) ep_pool_env_scheme \<Rightarrow>
   (pool_ref \<Rightarrow> ep_afd_pool) \<times> (addr \<Rightarrow> ep_pool_entry option) \<times> addr" where
  "pool_view s = (pools s, pool_heap s, pool_next_addr s)"

lemma pool_view_cong:
  assumes "pool_view s' = pool_view s"
  shows "pools_ok s' = pools_ok s" "pool_free p s' = pool_free p s" "pool_all p s' = pool_all p s"
    "pool_used p s' = pool_used p s" "pool_live p s' = pool_live p s"
  using assms by (simp_all add: pool_view_def pools_ok_def pool_free_def pool_all_def pool_used_def)

lemma entry_alloc_spec:
  assumes "pools_ok s"
    and "\<And>s'. pool_view s' = pool_view s \<Longrightarrow> ep_ub s' = ep_ub s \<Longrightarrow>
      ep_pool_env.more s' = ep_pool_env.more s \<Longrightarrow> Q None s'"
    and "\<And>s' a. a = pool_next_addr s \<Longrightarrow> ep_ub s' = ep_ub s \<Longrightarrow>
      ep_pool_env.more s' = ep_pool_env.more s \<Longrightarrow> pool_heap s a = None \<Longrightarrow>
      pool_view s' = (pools s, (pool_heap s)(a \<mapsto> \<lparr> pe_next = None, pe_all_next = None,
        pe_owner = Some p, pe_magic = EP_POOL_ENTRY_MAGIC, pe_in_pool = b \<rparr>), Suc a) \<Longrightarrow> Q (Some a) s'"
  shows "wp (ep_pool_entry_alloc sys p b) Q s"
proof -
  have "pool_heap s (pool_next_addr s) = None"
    using assms(1) unfolding pools_ok_def by (metis less_irrefl)
  then show ?thesis
    unfolding ep_pool_entry_alloc_def
    by (simp add: wp_simps) (auto intro!: assms(2,3) simp: pool_view_def)
qed

lemma live_update:
  assumes "pools_ok s" and "pool_rep h' q' p xs' ys'"
    and "pool_view s' = ((pools s)(p := q'), h', n')"
    and "\<And>a. h' a \<noteq> None \<Longrightarrow> a < n'"
    and "\<And>a. h' a = pool_heap s a \<or> owned_by p (pool_heap s a) \<and> owned_by p (h' a)"
  shows "pool_live p s'" "pool_free p s' = xs'" "pool_all p s' = ys'"
    "pool_used p s' = set ys' - set xs'"
proof -
  have init: "ap_initialized q'" using assms(2) by (simp add: pool_rep_def)
  with assms(2) have "pool_ok h' q' p" by (auto simp: pool_ok_def)
  from pools_ok_update [OF assms(1) this assms(4,5)]
  have ok: "pools_ok s'" using assms(3) by (simp add: pools_ok_def pool_view_def)
  then show "pool_live p s'" using init assms(3) by (simp add: pool_view_def)
  have "pool_rep (pool_heap s') (pools s' p) p xs' ys'"
    using assms(2,3) by (simp add: pool_view_def)
  from pool_rep_walk [OF ok this] show "pool_free p s' = xs'" "pool_all p s' = ys'" by simp_all
  then show "pool_used p s' = set ys' - set xs'" by (simp add: pool_used_def)
qed

lemma take_account_simp:
  "pool_heap s a = Some e \<Longrightarrow>
   wp (pool_take_account p a) Q s =
     Q (Some a) (s \<lparr> pool_heap := (pool_heap s)(a \<mapsto> e \<lparr> pe_next := None, pe_in_pool := False \<rparr>),
       pools := (pools s)(p := (pools s p) \<lparr> ap_in_use := ap_in_use (pools s p) + 1,
         ap_peak := max (ap_peak (pools s p)) (ap_in_use (pools s p) + 1) \<rparr>) \<rparr>)"
  unfolding pool_take_account_def
  by (simp add: wp_simps Let_def max_def not_less)

lemma take_rule:
  assumes live: "pool_live p s"
    and none: "\<And>s'. pool_view s' = pool_view s \<Longrightarrow> ep_ub s' = ep_ub s \<Longrightarrow>
      ep_pool_env.more s' = ep_pool_env.more s \<Longrightarrow> Q None s'"
    and some: "\<And>a s'. pool_live p s' \<Longrightarrow> ep_ub s' = ep_ub s \<Longrightarrow>
      ep_pool_env.more s' = ep_pool_env.more s \<Longrightarrow> a \<notin> pool_used p s \<Longrightarrow>
      pool_used p s' = insert a (pool_used p s) \<Longrightarrow>
      pool_free p s = a # pool_free p s' \<or> pool_free p s = [] \<and> pool_free p s' = [] \<Longrightarrow>
      (\<And>p'. p' \<noteq> p \<Longrightarrow> pools s' p' = pools s p') \<Longrightarrow> Q (Some a) s'"
  shows "wp (ep_afd_pool_take sys (Some p)) Q s"
proof -
  let ?h = "pool_heap s" and ?q = "pools s p" and ?xs = "pool_free p s" and ?ys = "pool_all p s"
  let ?qp = "\<lambda>e. ?q \<lparr> ap_stack := pe_next e, ap_in_use := ap_in_use ?q + 1,
      ap_peak := max (ap_peak ?q) (ap_in_use ?q + 1) \<rparr>"
  note r = pool_live_rep [OF live]
  have init: "ap_initialized ?q" and ok: "pools_ok s" using live by simp_all
  have bound: "a < pool_next_addr s" if "?h a \<noteq> None" for a
    using ok that by (simp add: pools_ok_def)
  show ?thesis
  proof (cases ?xs)
    case (Cons a xs')
    with r have st: "ap_stack ?q = Some a" by (simp add: pool_rep_def)
    obtain e where e: "?h a = Some e" and own: "pe_owner e = Some p"
      using pool_repD(3,4) [OF r] Cons by (auto simp: entry_ok_def)
    have pop: "Q (Some a) s'"
      if v: "pool_view s' = ((pools s)(p := ?qp e),
            ?h(a \<mapsto> e \<lparr> pe_next := None, pe_in_pool := False \<rparr>), pool_next_addr s)"
        and "ep_ub s' = ep_ub s" "ep_pool_env.more s' = ep_pool_env.more s" for s'
    proof -
      have "pool_rep (?h(a \<mapsto> e \<lparr> pe_next := None, pe_in_pool := False \<rparr>)) (?qp e) p xs' ?ys"
        using pool_rep_pop [OF r [unfolded Cons] e] by simp
      note u = live_update [OF ok this v]
      have "pool_live p s'" "pool_free p s' = xs'" "pool_used p s' = set ?ys - set xs'"
        by (rule u; use e own bound in \<open>auto simp: owned_by_def split: if_splits\<close>)+
      moreover have "a \<in> set ?ys" "a \<notin> set xs'" using pool_repD(1,3) [OF r] Cons by auto
      ultimately show ?thesis using that Cons
        by (intro some) (auto simp: pool_used_def pool_view_def)
    qed
    show ?thesis
      unfolding ep_afd_pool_take_def using init st e
      by (simp add: wp_simps take_account_simp)
        (intro conjI impI pop none; simp add: pool_view_def)
  next
    case Nil
    with r have st: "ap_stack ?q = None" by (simp add: pool_rep_def)
    let ?a = "pool_next_addr s"
    let ?e = "\<lparr> pe_next = None, pe_all_next = ap_all_entries ?q, pe_owner = Some p,
        pe_magic = EP_POOL_ENTRY_MAGIC, pe_in_pool = False \<rparr>"
    let ?qg = "?q \<lparr> ap_all_entries := Some ?a, ap_allocated := ap_allocated ?q + 1,
      ap_in_use := ap_in_use ?q + 1, ap_peak := max (ap_peak ?q) (ap_in_use ?q + 1) \<rparr>"
    have grow: "Q (Some ?a) s'"
      if v: "pool_view s' = ((pools s)(p := ?qg), ?h(?a \<mapsto> ?e), Suc ?a)" and n: "?h ?a = None"
        and "ep_ub s' = ep_ub s" "ep_pool_env.more s' = ep_pool_env.more s" for s'
    proof -
      have "pool_rep (?h(?a \<mapsto> ?e)) ?qg p [] (?a # ?ys)"
        using pool_rep_grow [OF r [unfolded Nil] n] by simp
      note u = live_update [OF ok this v]
      have "pool_live p s'" "pool_free p s' = []" "pool_used p s' = set (?a # ?ys) - set []"
        by (rule u; use bound n in \<open>auto simp: owned_by_def less_Suc_eq split: if_splits\<close>)+
      moreover have "?a \<notin> set ?ys" using pool_repD(4) [OF r, of ?a] n by auto
      ultimately show ?thesis using that Nil
        by (intro some) (auto simp: pool_used_def pool_view_def)
    qed
    show ?thesis
      unfolding ep_afd_pool_take_def using init st
      by (simp add: wp_simps)
        (intro conjI impI none entry_alloc_spec;
         simp add: pool_view_def ok pools_ok_cong wp_simps take_account_simp none grow)
  qed
qed


lemma give_rule:
  assumes live: "pool_live p s" and blk: "pool_heap s a \<noteq> None"
    and same: "\<And>s'. pool_view s' = pool_view s \<Longrightarrow> ep_ub s' = ep_ub s \<Longrightarrow>
      ep_pool_env.more s' = ep_pool_env.more s \<Longrightarrow>
      (a \<in> pool_used p s \<Longrightarrow> fst (sys_mutex_lock sys (os_state s)) \<noteq> 0) \<Longrightarrow> Q () s'"
    and given: "\<And>s'. a \<in> pool_used p s \<Longrightarrow> pool_live p s' \<Longrightarrow> ep_ub s' = ep_ub s \<Longrightarrow>
      ep_pool_env.more s' = ep_pool_env.more s \<Longrightarrow> pool_free p s' = a # pool_free p s \<Longrightarrow>
      pool_used p s' = pool_used p s - {a} \<Longrightarrow>
      (\<And>p'. p' \<noteq> p \<Longrightarrow> pools s' p' = pools s p') \<Longrightarrow> Q () s'"
  shows "wp (ep_afd_pool_give sys (Some p) (Some a)) Q s"
proof -
  let ?h = "pool_heap s" and ?q = "pools s p" and ?xs = "pool_free p s" and ?ys = "pool_all p s"
  note r = pool_live_rep [OF live]
  have init: "ap_initialized ?q" and ok: "pools_ok s" using live by simp_all
  from blk obtain e where e: "?h a = Some e" by auto
  show ?thesis
  proof (cases "a \<in> pool_used p s")
    case False
    then have nu: "pe_magic e \<noteq> EP_POOL_ENTRY_MAGIC \<or> pe_owner e \<noteq> Some p \<or> pe_in_pool e"
      using r e unfolding pool_used_def pool_rep_def entry_ok_def by fastforce
    show ?thesis
      unfolding ep_afd_pool_give_def using e init nu False
      by (simp add: wp_simps) (intro conjI impI same; simp add: pool_view_def)
  next
    case True
    then have a: "a \<in> set ?ys" "a \<notin> set ?xs" by (simp_all add: pool_used_def)
    with pool_repD(4) [OF r a(1)] e have ent: "entry_ok p ?xs a e" by simp
    let ?q' = "?q \<lparr> ap_stack := Some a, ap_in_use := ap_in_use ?q - 1 \<rparr>"
    let ?h' = "?h(a \<mapsto> e \<lparr> pe_in_pool := True, pe_next := ap_stack ?q \<rparr>)"
    have push: "Q () s'"
      if v: "pool_view s' = ((pools s)(p := ?q'), ?h', pool_next_addr s)"
        and "ep_ub s' = ep_ub s" "ep_pool_env.more s' = ep_pool_env.more s" for s'
    proof -
      note u = live_update [OF ok pool_rep_push(1) [OF r e a] v]
      have "pool_live p s'" "pool_free p s' = a # ?xs" "pool_used p s' = set ?ys - set (a # ?xs)"
        by (rule u; use e ent ok in
          \<open>auto simp: owned_by_def entry_ok_def pools_ok_def split: if_splits\<close>)+
      then show ?thesis using that True
        by (intro given) (auto simp: pool_used_def pool_view_def)
    qed
    show ?thesis
      unfolding ep_afd_pool_give_def using e init ent a pool_rep_push(2) [OF r e a]
      by (simp add: wp_simps entry_ok_def)
        (intro conjI impI same push; simp add: pool_view_def)
  qed
qed

lemma free_loop_wp:
  assumes "chain (all_next_of (pool_heap s)) entry ys" "length ys \<le> n"
    and "\<And>a. a \<in> set ys \<Longrightarrow> pool_heap s a \<noteq> None"
    and "Q () (s \<lparr> pool_heap := (\<lambda>a. if a \<in> set ys then None else pool_heap s a) \<rparr>)"
  shows "wp (pool_entries_free_loop n entry) Q s"
  using assms
proof (induction ys arbitrary: n entry s)
  case Nil
  then show ?case by (cases n) (simp_all add: wp_simps)
next
  case (Cons y ys)
  then obtain m where n: "n = Suc m" and m: "length ys \<le> m" by (cases n) auto
  from Cons.prems obtain e where e: "pool_heap s y = Some e" by auto
  from Cons.prems(1) have y: "entry = Some y" "y \<notin> set ys"
    using chain_distinct [OF Cons.prems(1)] by auto
  have "all_next_of (pool_heap s) y = pe_all_next e" using e by (simp add: all_next_of_def)
  with Cons.prems(1) have c: "chain (all_next_of (pool_heap s)) (pe_all_next e) ys" by simp
  have h: "all_next_of ((pool_heap s)(y := None)) = (all_next_of (pool_heap s))(y := None)"
    by (auto simp: all_next_of_def fun_eq_iff)
  have "wp (pool_entries_free_loop m (pe_all_next e)) Q
      (s \<lparr> pool_heap := (pool_heap s)(y := None) \<rparr>)"
  proof (rule Cons.IH [OF _ m])
    show "chain (all_next_of (pool_heap (s \<lparr> pool_heap := (pool_heap s)(y := None) \<rparr>)))
        (pe_all_next e) ys"
      using c y by (simp add: h)
    have eq: "(\<lambda>a. if a \<in> set ys then None else ((pool_heap s)(y := None)) a) =
        (\<lambda>a. if a \<in> set (y # ys) then None else pool_heap s a)" by auto
    show "Q () (s \<lparr> pool_heap := (pool_heap s)(y := None),
        pool_heap := \<lambda>a. if a \<in> set ys then None
          else pool_heap (s \<lparr> pool_heap := (pool_heap s)(y := None) \<rparr>) a \<rparr>)"
      using Cons.prems(4) eq by (simp cong: if_cong)
  qed (use Cons.prems(3) y in auto)
  then show ?case using n y e by (simp add: wp_simps)
qed

lemma wp_entries_free [wp_simps]:
  "wp (ep_pool_entries_free entry) Q s =
     wp (pool_entries_free_loop (pool_next_addr s) entry) Q s"
  by (simp add: ep_pool_entries_free_def wp_simps)

text \<open>Releasing every entry of a pool leaves the other pools intact.\<close>

definition heap_without :: "addr list \<Rightarrow> (addr \<Rightarrow> ep_pool_entry option) \<Rightarrow> addr \<Rightarrow> ep_pool_entry option" where
  "heap_without ys h = (\<lambda>a. if a \<in> set ys then None else h a)"

lemma live_bound:
  "pool_live p s \<Longrightarrow> pool_heap s a \<noteq> None \<Longrightarrow> a < pool_next_addr s"
  by (simp add: pools_ok_def)

lemma free_all_wp:
  assumes live: "pool_live p s"
    and s': "pool_heap s' = pool_heap s" "pool_next_addr s' = pool_next_addr s"
    and Q: "Q () (s' \<lparr> pool_heap := heap_without (pool_all p s) (pool_heap s) \<rparr>)"
  shows "wp (ep_pool_entries_free (ap_all_entries (pools s p))) Q s'"
proof -
  note r = pool_live_rep [OF live]
  have len: "length (pool_all p s) \<le> pool_next_addr s"
    using pool_repD(2,4) [OF r] live_bound [OF live] by (intro bounded_distinct_length) force+
  show ?thesis
    unfolding wp_entries_free s'(2)
  proof (rule free_loop_wp [where ys = "pool_all p s"])
    show "chain (all_next_of (pool_heap s')) (ap_all_entries (pools s p)) (pool_all p s)"
      using r s' by (simp add: pool_rep_def)
    show "Q () (s' \<lparr> pool_heap := \<lambda>a. if a \<in> set (pool_all p s) then None else pool_heap s' a \<rparr>)"
      using Q unfolding s'(1) by (simp add: heap_without_def)
  qed (use len s' pool_repD(4) [OF r] in auto)
qed

lemma pools_ok_freed:
  assumes live: "pool_live p s"
    and q': "ap_stack q' = None" "ap_all_entries q' = None" "ap_allocated q' = 0"
      "ap_in_use q' = 0" "\<not> ap_initialized q'"
    and s': "pool_view s' = ((pools s)(p := q'), heap_without (pool_all p s) (pool_heap s),
      pool_next_addr s)"
  shows "pools_ok s'"
proof -
  let ?h = "heap_without (pool_all p s) (pool_heap s)"
  note r = pool_live_rep [OF live]
  have "foreign p (?h a)" for a
    using pool_repD(5) [OF r] by (auto simp: foreign_def heap_without_def)
  then have "pool_ok ?h q' p" using q' by (auto simp: pool_ok_def foreign_def)
  moreover have "?h a = pool_heap s a \<or> owned_by p (pool_heap s a) \<and> owned_by p (?h a)" for a
    using pool_repD(4) [OF r, of a] by (auto simp: owned_by_def entry_ok_def heap_without_def)
  moreover have "?h a \<noteq> None \<Longrightarrow> a < pool_next_addr s" for a
    using live_bound [OF live] by (auto simp: heap_without_def split: if_splits)
  ultimately have "pools_ok (s \<lparr> pools := (pools s)(p := q'), pool_heap := ?h,
      pool_next_addr := pool_next_addr s \<rparr>)"
    using live by (intro pools_ok_update) auto
  then show ?thesis using s' by (simp add: pools_ok_def pool_view_def)
qed

lemma in_use_card:
  assumes "pool_live p s"
  shows "ap_in_use (pools s p) = card (pool_used p s)"
proof -
  note r = pool_live_rep [OF assms]
  have "card (pool_used p s) = length (pool_all p s) - length (pool_free p s)"
    using pool_repD(1-3) [OF r] by (simp add: pool_used_def card_Diff_subset distinct_card)
  then show ?thesis using r by (auto simp: pool_rep_def)
qed

lemma destroy_rule:
  assumes live: "pool_live p s"
    and same: "\<And>s'. pool_view s' = pool_view s \<Longrightarrow> ep_ub s' = ep_ub s \<Longrightarrow>
      ep_pool_env.more s' = ep_pool_env.more s \<Longrightarrow>
      fst (sys_mutex_lock sys (os_state s)) \<noteq> 0 \<or> pool_used p s \<noteq> {} \<and> ep_errno s' = EBUSY \<Longrightarrow>
      Q () s'"
    and gone: "\<And>s'. pool_used p s = {} \<Longrightarrow> pools_ok s' \<Longrightarrow> ep_ub s' = ep_ub s \<Longrightarrow>
      ep_pool_env.more s' = ep_pool_env.more s \<Longrightarrow> \<not> ap_initialized (pools s' p) \<Longrightarrow>
      (\<And>p'. p' \<noteq> p \<Longrightarrow> pools s' p' = pools s p') \<Longrightarrow>
      pool_heap s' = heap_without (pool_all p s) (pool_heap s) \<Longrightarrow> Q () s'"
  shows "wp (ep_afd_pool_destroy sys (Some p)) Q s"
proof -
  let ?q = "pools s p"
  have fin: "finite (pool_used p s)" by (simp add: pool_used_def)
  show ?thesis
  proof (cases "pool_used p s = {}")
    case False
    with in_use_card [OF live] fin have "ap_in_use ?q \<noteq> 0" by simp
    with live False show ?thesis
      unfolding ep_afd_pool_destroy_def
      by (simp add: wp_simps) (intro conjI impI same; simp add: pool_view_def)
  next
    case True
    with in_use_card [OF live] have iu: "ap_in_use ?q = 0" by simp
    let ?q' = "?q \<lparr> ap_stack := None, ap_all_entries := None, ap_allocated := 0,
        ap_initialized := False \<rparr>"
    have "wp (ep_pool_entries_free (ap_all_entries ?q)) Q s'"
      if "pool_view s' = ((pools s)(p := ?q'), pool_heap s, pool_next_addr s)"
        "ep_ub s' = ep_ub s" "ep_pool_env.more s' = ep_pool_env.more s" for s'
    proof (rule free_all_wp [OF live])
      let ?s = "s' \<lparr> pool_heap := heap_without (pool_all p s) (pool_heap s) \<rparr>"
      have "pools_ok ?s"
        by (rule pools_ok_freed [OF live, where q' = ?q']) (use that iu in \<open>simp_all add: pool_view_def\<close>)
      then show "Q () ?s" using that True by (intro gone) (auto simp: pool_view_def)
    qed (use that in \<open>simp_all add: pool_view_def\<close>)
    moreover have "wp (ep_set_errno (fst (sys_mutex_lock sys (os_state s)))) Q
        (s \<lparr> os_state := snd (sys_mutex_lock sys (os_state s)) \<rparr>)"
      if "fst (sys_mutex_lock sys (os_state s)) \<noteq> 0"
      using that by (simp add: wp_simps) (rule same; simp add: pool_view_def)
    ultimately show ?thesis
      unfolding ep_afd_pool_destroy_def using live iu
      by (simp add: wp_bind wp_gets wp_if wp_syscall wp_pool_upd pool_view_def wp_case_option)
  qed
qed

lemma init_loop_rule:
  fixes s :: "('os, 'z) ep_pool_env_scheme"
  assumes "pool_live p s" and "pool_used p s = {}"
    and ok: "\<And>s'. pool_live p s' \<Longrightarrow> pool_used p s' = {} \<Longrightarrow>
      length (pool_free p s') = length (pool_free p s) + n \<Longrightarrow> ep_ub s' = ep_ub s \<Longrightarrow>
      ep_pool_env.more s' = ep_pool_env.more s \<Longrightarrow>
      (\<And>p'. p' \<noteq> p \<Longrightarrow> pools s' p' = pools s p') \<Longrightarrow> Q 0 s'"
    and fail: "\<And>s'. pools_ok s' \<Longrightarrow> \<not> ap_initialized (pools s' p) \<Longrightarrow> ep_ub s' = ep_ub s \<Longrightarrow>
      ep_pool_env.more s' = ep_pool_env.more s \<Longrightarrow>
      (\<And>p'. p' \<noteq> p \<Longrightarrow> pools s' p' = pools s p') \<Longrightarrow> Q (- 1) s'"
  shows "wp (pool_init_loop sys p n) Q s"
  using assms
proof (induction n arbitrary: s)
  case 0
  then show ?case by (simp add: wp_simps)
next
  case (Suc n)
  let ?q = "pools s p" and ?h = "pool_heap s"
  note live = Suc.prems(1)
  note r = pool_live_rep [OF live]
  have iu: "ap_in_use ?q = 0" using in_use_card [OF live] Suc.prems(2) by simp
  show ?case
    unfolding pool_init_loop.simps wp_bind
  proof (rule entry_alloc_spec)
    show "pools_ok s" using live by simp
  next
    fix s' :: "('os, 'z) ep_pool_env_scheme"
    assume v: "pool_view s' = pool_view s" and u: "ep_ub s' = ep_ub s"
      "ep_pool_env.more s' = ep_pool_env.more s"
    let ?q' = "?q \<lparr> ap_stack := None, ap_all_entries := None, ap_allocated := 0,
        ap_initialized := False \<rparr>"
    let ?s = "s' \<lparr> pool_heap := heap_without (pool_all p s) ?h, pools := (pools s)(p := ?q') \<rparr>"
    have "pools_ok ?s"
      by (rule pools_ok_freed [OF live, where q' = ?q']) (use v iu in \<open>simp_all add: pool_view_def\<close>)
    then have "Q (- 1) ?s" using u by (intro Suc.prems(4)) auto
    then have "wp (ep_pool_entries_free (ap_all_entries ?q)) (\<lambda>_. wp (do {
         pool_upd p (\<lambda>q. q \<lparr> ap_stack := None, ap_all_entries := None, ap_allocated := 0,
                         ap_initialized := False \<rparr>);
         return (- 1) }) Q) s'"
      by (intro free_all_wp [OF live]) (use v in \<open>simp_all add: pool_view_def wp_simps\<close>)
    then show "wp (case None of None \<Rightarrow> pool_init_unwind p
        | Some a \<Rightarrow> do { pool_init_push p a; pool_init_loop sys p n }) Q s'"
      using v by (simp add: pool_init_unwind_def wp_bind wp_gets pool_view_def)
  next
    fix s' :: "('os, 'z) ep_pool_env_scheme" and a
    assume a: "a = pool_next_addr s" and u: "ep_ub s' = ep_ub s"
      "ep_pool_env.more s' = ep_pool_env.more s" and n: "?h a = None"
      and v: "pool_view s' = (pools s, ?h(a \<mapsto> \<lparr> pe_next = None, pe_all_next = None,
        pe_owner = Some p, pe_magic = EP_POOL_ENTRY_MAGIC, pe_in_pool = True \<rparr>), Suc a)"
    let ?e = "\<lparr> pe_next = ap_stack ?q, pe_all_next = ap_all_entries ?q, pe_owner = Some p,
        pe_magic = EP_POOL_ENTRY_MAGIC, pe_in_pool = True \<rparr>"
    let ?q' = "?q \<lparr> ap_stack := Some a, ap_all_entries := Some a,
        ap_allocated := ap_allocated ?q + 1 \<rparr>"
    let ?s = "s' \<lparr> pool_heap := ?h(a \<mapsto> ?e), pools := (pools s)(p := ?q') \<rparr>"
    have vs: "pool_view ?s = ((pools s)(p := ?q'), ?h(a \<mapsto> ?e), Suc a)"
      using v by (simp add: pool_view_def)
    note up = live_update [OF _ pool_rep_init_push [OF r n] vs]
    have live': "pool_live p ?s" "pool_free p ?s = a # pool_free p s"
      "pool_used p ?s = set (a # pool_all p s) - set (a # pool_free p s)"
      by (rule up; use live live_bound [OF live] a n in
        \<open>force simp: owned_by_def less_Suc_eq split: if_splits\<close>)+
    have "wp (pool_init_loop sys p n) Q ?s"
      by (rule Suc.IH [OF live'(1)])
        (use live' Suc.prems(2-4) u in \<open>auto simp: pool_used_def\<close>)
    then show "wp (case Some a of None \<Rightarrow> pool_init_unwind p
        | Some a \<Rightarrow> do { pool_init_push p a; pool_init_loop sys p n }) Q s'"
      using v by (simp add: pool_init_push_def wp_simps pool_view_def)
  qed
qed

lemma fresh_pool_live:
  assumes "pools_ok s" "\<not> ap_initialized (pools s p)"
    and "pool_view s' = ((pools s)(p := ep_afd_pool_zero \<lparr> ap_buf_size := bs, ap_capacity := cap,
      ap_in_use := 0, ap_peak := 0, ap_initialized := True \<rparr>), pool_heap s, pool_next_addr s)"
  shows "pool_live p s'" "pool_free p s' = []" "pool_used p s' = {}"
proof -
  have "pool_rep (pool_heap s) (ep_afd_pool_zero \<lparr> ap_buf_size := bs, ap_capacity := cap,
      ap_in_use := 0, ap_peak := 0, ap_initialized := True \<rparr>) p [] []"
    using assms(1,2) by (auto simp: pools_ok_def pool_ok_def pool_rep_def ep_afd_pool_zero_def)
  note up = live_update [OF assms(1) this assms(3)]
  have "pool_live p s'" "pool_free p s' = []" "pool_used p s' = set [] - set []"
    by (rule up; use assms(1) in \<open>auto simp: pools_ok_def\<close>)+
  then show "pool_live p s'" "pool_free p s' = []" "pool_used p s' = {}" by simp_all
qed

lemma init_rule:
  fixes s :: "('os, 'z) ep_pool_env_scheme"
  assumes "pools_ok s" "\<not> ap_initialized (pools s p)" "buf_size \<noteq> 0" "capacity \<noteq> 0"
    and ok: "\<And>s'. pool_live p s' \<Longrightarrow> pool_used p s' = {} \<Longrightarrow>
      length (pool_free p s') = capacity \<Longrightarrow> ep_ub s' = ep_ub s \<Longrightarrow>
      ep_pool_env.more s' = ep_pool_env.more s \<Longrightarrow>
      (\<And>p'. p' \<noteq> p \<Longrightarrow> pools s' p' = pools s p') \<Longrightarrow> Q 0 s'"
    and fail: "\<And>s'. pools_ok s' \<Longrightarrow> \<not> ap_initialized (pools s' p) \<Longrightarrow> ep_ub s' = ep_ub s \<Longrightarrow>
      ep_pool_env.more s' = ep_pool_env.more s \<Longrightarrow>
      (\<And>p'. p' \<noteq> p \<Longrightarrow> pools s' p' = pools s p') \<Longrightarrow> Q (- 1) s'"
  shows "wp (ep_afd_pool_init sys (Some p) buf_size capacity) Q s"
proof -
  let ?q = "ep_afd_pool_zero \<lparr> ap_buf_size := buf_size, ap_capacity := capacity,
      ap_in_use := 0, ap_peak := 0, ap_initialized := True \<rparr>"
  have loop: "wp (pool_init_loop sys p capacity) Q s'"
    if v: "pool_view s' = ((pools s)(p := ?q), pool_heap s, pool_next_addr s)"
      and u: "ep_ub s' = ep_ub s" "ep_pool_env.more s' = ep_pool_env.more s"
    for s' :: "('os, 'z) ep_pool_env_scheme"
    by (rule init_loop_rule [OF fresh_pool_live(1,3) [OF assms(1,2) v]];
        use v u fresh_pool_live(2) [OF assms(1,2) v] in \<open>auto simp: pool_view_def intro!: ok fail\<close>)
  have zero: "pools_ok s'" if "pools s' = (pools s)(p := ep_afd_pool_zero)"
    "pool_heap s' = pool_heap s" "pool_next_addr s' = pool_next_addr s"
    for s' :: "('os, 'z) ep_pool_env_scheme"
    using assms(1,2) that by (auto simp: pools_ok_def pool_ok_def ep_afd_pool_zero_def)
  show ?thesis
    unfolding ep_afd_pool_init_def using assms(3,4)
    apply (simp add: wp_bind wp_case_option wp_if wp_pool_upd wp_syscall wp_return
        wp_ep_set_errno)
    apply (intro conjI impI loop fail zero)
          apply (simp_all add: pool_view_def ep_afd_pool_zero_def)
    done
qed

interpretation afd_pool: buffer_pool
  "\<lambda>s :: ('os, 'z) ep_pool_env_scheme. pool_live p s" "pool_free p" "pool_used p"
  "run_state (ep_afd_pool_take sys (Some p))"
  "\<lambda>b. exec (ep_afd_pool_give sys (Some p) (Some b))"
  for p and sys :: "('os, 'y) ep_sys_scheme"
proof
  fix s :: "('os, 'z) ep_pool_env_scheme" and b s'
  let ?tk = "ep_afd_pool_take sys (Some p)" and ?gv = "ep_afd_pool_give sys (Some p) (Some b)"
  assume live: "pool_live p s"
  have "wp ?tk (\<lambda>_. pool_live p) s"
    by (rule take_rule [OF live]) (use live pool_view_cong(5) [of _ s p] in blast)+
  then show "pool_live p (snd (run_state ?tk s))" by (simp add: wp_def exec_def)
  have "wp ?gv (\<lambda>_ s'. pool_live p s' \<and>
      (pool_used p s' = pool_used p s \<and> pool_free p s' = pool_free p s \<or>
       b \<in> pool_used p s \<and> pool_used p s' = pool_used p s - {b} \<and> pool_free p s' = b # pool_free p s)) s"
  proof (cases "pool_heap s b")
    case None
    then have "exec ?gv s = s \<lparr> ep_ub := True \<rparr>"
      by (simp add: ep_afd_pool_give_def entry_get_def bad_access_def)
    then have v: "pool_view (exec ?gv s) = pool_view s" by (simp add: pool_view_def)
    show ?thesis
      unfolding wp_def using pool_view_cong(2,4,5) [OF v] live by blast
  next
    case (Some e)
    then show ?thesis
      by (intro give_rule [OF live])
        (use live pool_view_cong(2,4,5) [of _ s p] in \<open>simp, blast, blast\<close>)
  qed
  then show "pool_live p (exec ?gv s)"
    "pool_used p (exec ?gv s) = pool_used p s \<and> pool_free p (exec ?gv s) = pool_free p s \<or>
       b \<in> pool_used p s \<and> pool_used p (exec ?gv s) = pool_used p s - {b} \<and>
       pool_free p (exec ?gv s) = b # pool_free p s"
    by (simp_all add: wp_def)
  have "wp ?tk (\<lambda>r s'. case r of None \<Rightarrow> pool_used p s' = pool_used p s \<and> pool_free p s' = pool_free p s
      | Some b \<Rightarrow> b \<notin> pool_used p s \<and> pool_used p s' = insert b (pool_used p s) \<and>
          (pool_free p s = b # pool_free p s' \<or> pool_free p s = [] \<and> pool_free p s' = [])) s"
    by (rule take_rule [OF live]) (simp, blast dest: pool_view_cong(2,4), simp)
  then show "run_state ?tk s = (Some b, s') \<Longrightarrow> b \<notin> pool_used p s \<and>
      pool_used p s' = insert b (pool_used p s) \<and>
      (pool_free p s = b # pool_free p s' \<or> pool_free p s = [] \<and> pool_free p s' = [])"
    "run_state ?tk s = (None, s') \<Longrightarrow>
      pool_used p s' = pool_used p s \<and> pool_free p s' = pool_free p s"
    by (simp_all add: wp_def exec_def result_of_def)
qed

section \<open>Properties\<close>

text \<open>
  (C17) No buffer has two holders: in any sequence of takes and gives on a live pool, between two
  hand-outs of the same buffer there is a return of that buffer.
\<close>

theorem pool_no_double_handout:
  fixes s :: "('os, 'z) ep_pool_env_scheme" and sys :: "('os, 'y) ep_sys_scheme"
  assumes "tk = run_state (ep_afd_pool_take sys (Some p))"
    and "gv = (\<lambda>b. exec (ep_afd_pool_give sys (Some p) (Some b)))"
    and "pool_live p s" and "i < j" and "j < length (pool_trace tk gv ops s)"
    and "pool_trace tk gv ops s ! i = Took b" and "pool_trace tk gv ops s ! j = Took b"
  shows "\<exists>k. i < k \<and> k < j \<and> pool_trace tk gv ops s ! k = Gave b"
  using assms(3-) unfolding assms(1,2) by (rule afd_pool.no_double_handout)

text \<open>
  (C18) The accounting is exact: after any sequence of takes and gives on a live pool, \<open>in_use\<close>
  counts the buffers in use, it never exceeds \<open>peak\<close>, \<open>peak\<close> never exceeds \<open>allocated\<close>, and
  \<open>allocated\<close> is the number of entries of the pool.
\<close>

theorem pool_accounting:
  fixes s :: "('os, 'z) ep_pool_env_scheme" and sys :: "('os, 'y) ep_sys_scheme"
  assumes "pool_live p s"
    and "s' = pool_run (run_state (ep_afd_pool_take sys (Some p)))
          (\<lambda>b. exec (ep_afd_pool_give sys (Some p) (Some b))) ops s"
  shows "ap_in_use (pools s' p) = card (pool_used p s') \<and>
    ap_in_use (pools s' p) \<le> ap_peak (pools s' p) \<and>
    ap_peak (pools s' p) \<le> ap_allocated (pools s' p) \<and>
    ap_allocated (pools s' p) = length (pool_all p s')"
proof -
  have live: "pool_live p s'" using afd_pool.run_inv [OF assms(1)] assms(2) by simp
  show ?thesis using in_use_card [OF live] pool_live_rep [OF live] by (simp add: pool_rep_def)
qed


text \<open>
  (C20) Destruction is refused with EBUSY and changes nothing while a buffer is in use; otherwise
  it releases every entry of the pool and no other block.
\<close>

theorem pool_destroy_busy:
  fixes s :: "('os, 'z) ep_pool_env_scheme" and sys :: "('os, 'y) ep_sys_scheme"
  assumes "pool_live p s" and "fst (sys_mutex_lock sys (os_state s)) = 0"
  shows "wp (ep_afd_pool_destroy sys (Some p))
    (\<lambda>_ s'. pools_ok s' \<and> ep_ub s' = ep_ub s \<and>
      (if pool_used p s \<noteq> {}
       then pool_view s' = pool_view s \<and> ep_errno s' = EBUSY
       else \<not> ap_initialized (pools s' p) \<and>
            pool_heap s' = heap_without (pool_all p s) (pool_heap s))) s"
  by (rule destroy_rule [OF assms(1)]) (use assms pool_view_cong(1) [of _ s] in force, simp)

section \<open>Witnesses\<close>

text \<open>A system on which every call succeeds, and the state before any pool exists.\<close>

definition sys_ok :: "unit ep_sys" where
  "sys_ok = \<lparr> sys_malloc = (\<lambda>_ os. (True, os)), sys_mutex_init = (\<lambda>os. (0, os)),
     sys_mutex_lock = (\<lambda>os. (0, os)) \<rparr>"

definition pool_env_start :: "unit ep_pool_env" where
  "pool_env_start = \<lparr> ep_errno = 0, g_last_error_info = error_info_zero, g_fault_mask = 0,
     g_fault_slots = (\<lambda>_. \<lparr> fs_fail_at = 0, fs_hits = 0, fs_error = 0 \<rparr>), os_state = (),
     ep_ub = False, pools = (\<lambda>_. ep_afd_pool_zero), pool_heap = (\<lambda>_. None), pool_next_addr = 0 \<rparr>"

lemma pool_env_start_ok: "pools_ok pool_env_start"
  by (simp add: pools_ok_def pool_ok_def pool_env_start_def ep_afd_pool_zero_def)

text \<open>The state after a pool of two entries was built.\<close>

definition pool_env_two :: "unit ep_pool_env" where
  "pool_env_two = pool_env_start \<lparr>
     pools := (\<lambda>_. ep_afd_pool_zero)(Afd_Info_Pool 0 := \<lparr> ap_stack = Some 1, ap_all_entries = Some 1,
       ap_buf_size = 16, ap_capacity = 2, ap_allocated = 2, ap_in_use = 0, ap_peak = 0,
       ap_initialized = True \<rparr>),
     pool_heap := [0 \<mapsto> \<lparr> pe_next = None, pe_all_next = None, pe_owner = Some (Afd_Info_Pool 0),
                        pe_magic = EP_POOL_ENTRY_MAGIC, pe_in_pool = True \<rparr>,
                   1 \<mapsto> \<lparr> pe_next = Some 0, pe_all_next = Some 0,
                        pe_owner = Some (Afd_Info_Pool 0),
                        pe_magic = EP_POOL_ENTRY_MAGIC, pe_in_pool = True \<rparr>],
     pool_next_addr := 2 \<rparr>"

lemmas pool_eval = pool_env_two_def pool_env_start_def sys_ok_def ep_afd_pool_zero_def
  ep_afd_pool_take_def ep_afd_pool_give_def pool_take_account_def entry_get_def entry_upd_def
  pool_upd_def syscall_def bad_access_def Let_def

lemma pool_env_two_live: "pool_live (Afd_Info_Pool 0) pool_env_two"
proof -
  have "pool_rep (pool_heap pool_env_two) (pools pool_env_two (Afd_Info_Pool 0))
      (Afd_Info_Pool 0) [1, 0] [1, 0]"
    by (simp add: pool_rep_def pool_env_two_def next_of_def all_next_of_def entry_ok_def)
  then have rep: "pool_ok (pool_heap pool_env_two) (pools pool_env_two (Afd_Info_Pool 0))
      (Afd_Info_Pool 0)"
    unfolding pool_ok_def by (auto simp: pool_env_two_def)
  have "pool_ok (pool_heap pool_env_two) (pools pool_env_two p) p" for p
  proof (cases "p = Afd_Info_Pool 0")
    case False
    then show ?thesis
      by (auto simp: pool_ok_def pool_env_two_def ep_afd_pool_zero_def split: if_splits)
  qed (use rep in simp)
  moreover have "pool_heap pool_env_two a \<noteq> None \<Longrightarrow> a < pool_next_addr pool_env_two" for a
    by (simp add: pool_env_two_def split: if_splits)
  moreover have "ap_initialized (pools pool_env_two (Afd_Info_Pool 0))"
    by (simp add: pool_env_two_def)
  ultimately show ?thesis by (simp add: pools_ok_def)
qed

theorem pool_no_double_handout_witness:
  "pool_trace (run_state (ep_afd_pool_take sys_ok (Some (Afd_Info_Pool 0))))
      (\<lambda>b. exec (ep_afd_pool_give sys_ok (Some (Afd_Info_Pool 0)) (Some b)))
      [Take, Give 1, Take] pool_env_two = [Took 1, Gave 1, Took 1] \<and>
   (\<exists>k. 0 < k \<and> k < 2 \<and>
     pool_trace (run_state (ep_afd_pool_take sys_ok (Some (Afd_Info_Pool 0))))
      (\<lambda>b. exec (ep_afd_pool_give sys_ok (Some (Afd_Info_Pool 0)) (Some b)))
      [Take, Give 1, Take] pool_env_two ! k = Gave 1)"
proof -
  have tr: "pool_trace (run_state (ep_afd_pool_take sys_ok (Some (Afd_Info_Pool 0))))
      (\<lambda>b. exec (ep_afd_pool_give sys_ok (Some (Afd_Info_Pool 0)) (Some b)))
      [Take, Give 1, Take] pool_env_two = [Took 1, Gave 1, Took 1]"
    by (simp add: pool_eval)
  show ?thesis
    using pool_no_double_handout [OF refl refl pool_env_two_live, of 0 2 sys_ok
      "[Take, Give 1, Take]" 1] unfolding tr by simp
qed

theorem pool_accounting_witness:
  "ap_in_use (pools (pool_run (run_state (ep_afd_pool_take sys_ok (Some (Afd_Info_Pool 0))))
      (\<lambda>b. exec (ep_afd_pool_give sys_ok (Some (Afd_Info_Pool 0)) (Some b)))
      [Take, Take] pool_env_two) (Afd_Info_Pool 0)) = 2 \<and>
   2 \<le> ap_peak (pools (pool_run (run_state (ep_afd_pool_take sys_ok (Some (Afd_Info_Pool 0))))
      (\<lambda>b. exec (ep_afd_pool_give sys_ok (Some (Afd_Info_Pool 0)) (Some b)))
      [Take, Take] pool_env_two) (Afd_Info_Pool 0))"
proof -
  have "ap_in_use (pools (pool_run (run_state (ep_afd_pool_take sys_ok (Some (Afd_Info_Pool 0))))
      (\<lambda>b. exec (ep_afd_pool_give sys_ok (Some (Afd_Info_Pool 0)) (Some b)))
      [Take, Take] pool_env_two) (Afd_Info_Pool 0)) = 2"
    by (simp add: pool_eval)
  with pool_accounting [OF pool_env_two_live refl, of sys_ok "[Take, Take]"] show ?thesis
    by simp
qed


theorem pool_destroy_busy_witness:
  "wp (ep_afd_pool_destroy sys_ok (Some (Afd_Info_Pool 0)))
    (\<lambda>_ s'. ep_errno s' = EBUSY)
    (exec (ep_afd_pool_take sys_ok (Some (Afd_Info_Pool 0))) pool_env_two)"
proof -
  let ?s = "exec (ep_afd_pool_take sys_ok (Some (Afd_Info_Pool 0))) pool_env_two"
  have live: "pool_live (Afd_Info_Pool 0) ?s"
    using afd_pool.take_inv [OF pool_env_two_live, of sys_ok] by (simp add: exec_def)
  have "ap_in_use (pools ?s (Afd_Info_Pool 0)) = 1"
    by (simp add: pool_eval)
  with in_use_card [OF live] have "pool_used (Afd_Info_Pool 0) ?s \<noteq> {}" by auto
  with pool_destroy_busy [OF live, of sys_ok] show ?thesis
    by (simp add: wp_def sys_ok_def)
qed

end
