(* ===== verification/Queue_Contract.thy ===== *)
theory Queue_Contract
  imports Prelude
begin

text \<open>
  The contract of a first-in first-out queue of nodes as its single consumer sees it, and the
  loop a consumer runs over it: pop until a bound is reached or the queue answers empty.  The
  ready queue of \<^verbatim>\<open>src/src/wepoll_ex_pool.c\<close> satisfies it (theory \<open>Ep_Ready\<close>).
\<close>

fun pop_many :: "('q \<Rightarrow> 'b option \<times> 'q) \<Rightarrow> nat \<Rightarrow> 'q \<Rightarrow> 'b list \<times> 'q" where
  "pop_many pop 0 q = ([], q)"
| "pop_many pop (Suc n) q =
     (case pop q of
        (None, q') \<Rightarrow> ([], q')
      | (Some b, q') \<Rightarrow> (b # fst (pop_many pop n q'), snd (pop_many pop n q')))"

locale fifo_queue =
  fixes inv :: "'q \<Rightarrow> bool"
    and contents :: "'q \<Rightarrow> 'b list"
    and admissible :: "'b \<Rightarrow> 'q \<Rightarrow> bool"
    and push :: "'b \<Rightarrow> 'q \<Rightarrow> 'q"
    and pop :: "'q \<Rightarrow> 'b option \<times> 'q"
  assumes push_inv: "inv q \<Longrightarrow> admissible b q \<Longrightarrow> inv (push b q)"
    and push_contents: "inv q \<Longrightarrow> admissible b q \<Longrightarrow> contents (push b q) = contents q @ [b]"
    and pop_inv: "inv q \<Longrightarrow> inv (snd (pop q))"
    and pop_result: "inv q \<Longrightarrow> fst (pop q) = (case contents q of [] \<Rightarrow> None | b # _ \<Rightarrow> Some b)"
    and pop_contents: "inv q \<Longrightarrow> contents (snd (pop q)) = tl (contents q)"
begin

lemma pop_many_inv: "inv q \<Longrightarrow> inv (snd (pop_many pop n q))"
proof (induction n arbitrary: q)
  case (Suc n)
  obtain r q' where p: "pop q = (r, q')" by fastforce
  with pop_inv [OF Suc.prems] have "inv q'" by simp
  with Suc.IH [OF this] p show ?case by (cases r) simp_all
qed simp

lemma pop_many_take: "inv q \<Longrightarrow> fst (pop_many pop n q) = take n (contents q)"
proof (induction n arbitrary: q)
  case (Suc n)
  obtain r q' where p: "pop q = (r, q')" by fastforce
  have r: "r = (case contents q of [] \<Rightarrow> None | b # _ \<Rightarrow> Some b)" and "inv q'"
    and c: "contents q' = tl (contents q)"
    using pop_result [OF Suc.prems] pop_inv [OF Suc.prems] pop_contents [OF Suc.prems] p by simp_all
  from Suc.IH [OF \<open>inv q'\<close>] show ?case
    using p r c by (cases "contents q") simp_all
qed simp

lemma pop_many_rest: "inv q \<Longrightarrow> contents (snd (pop_many pop n q)) = drop n (contents q)"
proof (induction n arbitrary: q)
  case (Suc n)
  obtain r q' where p: "pop q = (r, q')" by fastforce
  have r: "r = (case contents q of [] \<Rightarrow> None | b # _ \<Rightarrow> Some b)" and "inv q'"
    and c: "contents q' = tl (contents q)"
    using pop_result [OF Suc.prems] pop_inv [OF Suc.prems] pop_contents [OF Suc.prems] p by simp_all
  from Suc.IH [OF \<open>inv q'\<close>] show ?case
    using p r c by (cases "contents q") simp_all
qed simp

end

end
