(* ===== verification/Ep_Ready.thy ===== *)
theory Ep_Ready
  imports Ep_Pool Queue_Contract
begin

text \<open>
  The ready queue of \<^verbatim>\<open>src/src/wepoll_ex_pool.c\<close>: an intrusive queue with many producers and one
  consumer.  The first part is the code of each operation, built from the atomic accesses it
  makes.  The second part runs any number of producers and the consumer with their atomic
  accesses interleaved, as a step relation over the same accesses.
\<close>

section \<open>The queue and its atomic accesses\<close>

record ep_ready_queue =
  rq_head :: "addr option"
  rq_tail :: "addr option"
  rq_stub :: "addr option"
  rq_queued :: nat
  rq_initialized :: bool
  rq_next :: "addr \<Rightarrow> addr option"

definition ep_ready_queue_zero :: ep_ready_queue where
  "ep_ready_queue_zero = \<lparr> rq_head = None, rq_tail = None, rq_stub = None, rq_queued = 0,
     rq_initialized = False, rq_next = (\<lambda>_. None) \<rparr>"

definition set_next :: "addr \<Rightarrow> addr option \<Rightarrow> ep_ready_queue \<Rightarrow> ep_ready_queue" where
  "set_next a v q = q \<lparr> rq_next := (rq_next q)(a := v) \<rparr>"

text \<open>The three accesses of \<open>ep_ready_link\<close>: prepare the node, exchange the head, publish.\<close>

definition link_prepare :: "addr \<Rightarrow> bool \<Rightarrow> ep_ready_queue \<Rightarrow> ep_ready_queue" where
  "link_prepare node account q =
    (let q = set_next node None q
     in if account then q \<lparr> rq_queued := rq_queued q + 1 \<rparr> else q)"

definition link_exchange :: "addr \<Rightarrow> ep_ready_queue \<Rightarrow> addr option \<times> ep_ready_queue" where
  "link_exchange node q = (rq_head q, q \<lparr> rq_head := Some node \<rparr>)"

definition link_publish :: "addr option \<Rightarrow> addr \<Rightarrow> ep_ready_queue \<Rightarrow> ep_ready_queue" where
  "link_publish prev node q = (case prev of None \<Rightarrow> q | Some p \<Rightarrow> set_next p (Some node) q)"

definition ep_ready_link :: "addr \<Rightarrow> bool \<Rightarrow> ep_ready_queue \<Rightarrow> ep_ready_queue" where
  "ep_ready_link node account q =
    (let (prev, q) = link_exchange node (link_prepare node account q)
     in link_publish prev node q)"

text \<open>The compare-and-swap loop decrements the counter unless it is zero.\<close>

definition ep_ready_account_pop :: "ep_ready_queue \<Rightarrow> ep_ready_queue" where
  "ep_ready_account_pop q =
    (if rq_queued q > 0 then q \<lparr> rq_queued := rq_queued q - 1 \<rparr> else q)"

definition tail_advance :: "addr \<Rightarrow> addr \<Rightarrow> ep_ready_queue \<Rightarrow> ep_ready_queue" where
  "tail_advance tail nxt q = set_next tail None (q \<lparr> rq_tail := Some nxt \<rparr>)"

section \<open>Operations\<close>

text \<open>\<open>ep_ready_pop_one\<close> after the stub was skipped.\<close>

definition ready_pop_real :: "addr \<Rightarrow> ep_ready_queue \<Rightarrow> addr option \<times> ep_ready_queue" where
  "ready_pop_real tail q =
    (case rq_next q tail of
       Some nxt \<Rightarrow> (Some tail, ep_ready_account_pop (tail_advance tail nxt q))
     | None \<Rightarrow>
         if Some tail \<noteq> rq_head q then (None, q)
         else
           (case rq_stub q of
              None \<Rightarrow> (None, q)
            | Some stub \<Rightarrow>
                let q = ep_ready_link stub False q
                in (case rq_next q tail of
                      None \<Rightarrow> (None, q)
                    | Some nxt \<Rightarrow> (Some tail, ep_ready_account_pop (tail_advance tail nxt q)))))"

definition ep_ready_pop_one :: "ep_ready_queue \<Rightarrow> addr option \<times> ep_ready_queue" where
  "ep_ready_pop_one q =
    (case rq_tail q of
       None \<Rightarrow> (None, q)
     | Some tail \<Rightarrow>
         if rq_tail q = rq_stub q
         then (case rq_next q tail of
                 None \<Rightarrow> (None, q)
               | Some nxt \<Rightarrow> ready_pop_real nxt (q \<lparr> rq_tail := Some nxt \<rparr>))
         else ready_pop_real tail q)"

definition ep_ready_push :: "addr option \<Rightarrow> ep_ready_queue \<Rightarrow> ep_ready_queue" where
  "ep_ready_push node q =
    (case node of
       None \<Rightarrow> q
     | Some n \<Rightarrow> if \<not> rq_initialized q then q else ep_ready_link n True q)"

text \<open>The loop of \<open>ep_ready_drain\<close>: \<open>out_tail\<close> is the last node of the chain built so far.\<close>

fun ready_drain_loop ::
  "nat \<Rightarrow> addr option \<Rightarrow> addr option \<Rightarrow> ep_ready_queue \<Rightarrow> addr option \<times> ep_ready_queue" where
  "ready_drain_loop 0 out_head out_tail q = (out_head, q)"
| "ready_drain_loop (Suc n) out_head out_tail q =
    (case ep_ready_pop_one q of
       (None, q) \<Rightarrow> (out_head, q)
     | (Some node, q) \<Rightarrow>
         (case out_tail of
            None \<Rightarrow> ready_drain_loop n (Some node) (Some node) q
          | Some t \<Rightarrow> ready_drain_loop n out_head (Some node) (set_next t (Some node) q)))"

definition ep_ready_drain :: "int \<Rightarrow> ep_ready_queue \<Rightarrow> addr option \<times> ep_ready_queue" where
  "ep_ready_drain maxevents q =
    (if maxevents \<le> 0 \<or> \<not> rq_initialized q then (None, q)
     else ready_drain_loop (nat maxevents) None None q)"

text \<open>\<open>stub\<close> is the block \<open>calloc\<close> returned, \<open>None\<close> when it failed.\<close>

definition ready_init_with :: "addr option \<Rightarrow> ep_ready_queue" where
  "ready_init_with stub =
    (case stub of
       None \<Rightarrow> ep_ready_queue_zero
     | Some a \<Rightarrow> ep_ready_queue_zero \<lparr> rq_stub := Some a, rq_head := Some a, rq_tail := Some a,
                                          rq_initialized := True \<rparr>)"

definition ep_ready_init ::
  "('os, 'y) ep_sys_scheme \<Rightarrow> (('os, 'z) ep_pool_env_scheme, ep_ready_queue) state" where
  "ep_ready_init sys = do {
     ok \<leftarrow> syscall (sys_malloc sys 72);
     if \<not> ok then do { ep_set_errno ENOMEM; return (ready_init_with None) }
     else do {
       stub \<leftarrow> gets pool_next_addr;
       modify (\<lambda>s. s \<lparr> pool_next_addr := Suc stub \<rparr>);
       return (ready_init_with (Some stub))
     }
   }"

definition ep_ready_destroy :: "ep_ready_queue \<Rightarrow> ('z ep_errno_env_scheme, ep_ready_queue) state" where
  "ep_ready_destroy q =
    (if \<not> rq_initialized q then return q
     else if rq_queued q \<noteq> 0 then do { ep_set_errno EBUSY; return q }
     else return (q \<lparr> rq_initialized := False, rq_head := None, rq_tail := None, rq_queued := 0,
                       rq_stub := None \<rparr>))"

section \<open>Representation\<close>

text \<open>
  \<open>links nxt P L\<close>: consecutive nodes of \<open>L\<close> are linked, except where the link is still owed by a
  pending publication of \<open>P\<close>; the last node has no successor.
\<close>

fun links :: "(addr \<Rightarrow> addr option) \<Rightarrow> (addr \<times> addr) set \<Rightarrow> addr list \<Rightarrow> bool" where
  "links nxt P [] \<longleftrightarrow> True"
| "links nxt P [x] \<longleftrightarrow> nxt x = None"
| "links nxt P (x # y # L) \<longleftrightarrow>
     (nxt x = Some y \<and> x \<notin> fst ` P \<or> nxt x = None \<and> (x, y) \<in> P) \<and> links nxt P (y # L)"

lemma links_cong:
  "(\<And>x. x \<in> set L \<Longrightarrow> f x = g x) \<Longrightarrow> links f P L = links g P L"
  by (induction f P L rule: links.induct) auto

lemma links_upd [simp]: "x \<notin> set L \<Longrightarrow> links (f(x := v)) P L = links f P L"
  by (rule links_cong) auto

lemma links_tl: "links f P (x # L) \<Longrightarrow> links f P L"
  by (cases L) auto

lemma links_pending_mono:
  "links f P L \<Longrightarrow> P \<subseteq> P' \<Longrightarrow> fst ` (P' - P) \<inter> set (butlast L) = {} \<Longrightarrow> links f P' L"
  by (induction f P L rule: links.induct) (auto simp: image_iff)

lemma links_append:
  assumes "links f P L" "L \<noteq> []" "distinct L" "n \<notin> set L" "f n = None"
  shows "links f (insert (last L, n) P) (L @ [n])"
  using assms
proof (induction f P L rule: links.induct)
  case (3 nxt P x y L)
  have "last (y # L) \<in> set (y # L)" by (rule last_in_set) simp
  moreover have "x \<notin> set (y # L)" using "3.prems"(3) by simp
  ultimately have "x \<noteq> last (y # L)" by metis
  moreover have "links nxt (insert (last (y # L), n) P) ((y # L) @ [n])"
    using "3.prems" by (intro "3.IH") simp_all
  ultimately show ?case using "3.prems"(1) by auto
qed simp_all

lemma links_drop_pending:
  "links f P L \<Longrightarrow> x \<notin> set L \<Longrightarrow> links f (P - {(x, y)}) L"
  by (induction f P L rule: links.induct) auto

lemma links_publish:
  assumes "links f P L" "(x, y) \<in> P" "P `` {x} \<subseteq> {y}" "x \<in> set (butlast L)" "distinct L"
  shows "links (f(x := Some y)) (P - {(x, y)}) L"
  using assms
proof (induction f P L rule: links.induct)
  case (3 nxt P a b L)
  show ?case
  proof (cases "a = x")
    case True
    have "x \<in> fst ` P" using "3.prems"(2) by force
    with True "3.prems"(1) have "(x, b) \<in> P" by simp
    then have "b = y" using "3.prems"(3) by blast
    have x: "x \<notin> set (b # L)" using True "3.prems"(5) by simp
    have "links (nxt(x := Some y)) (P - {(x, y)}) (b # L)"
      using "3.prems"(1) x by (simp add: links_drop_pending)
    moreover have "x \<notin> fst ` (P - {(x, y)})" using "3.prems"(3) by auto
    ultimately show ?thesis unfolding True \<open>b = y\<close> links.simps(3) fun_upd_same by blast
  next
    case False
    have "links nxt P (b # L)" "x \<in> set (butlast (b # L))" "distinct (b # L)"
      using False "3.prems"(1,4,5) by simp_all
    from "3.IH" [OF this(1) "3.prems"(2,3) this(2,3)]
    have "links (nxt(x := Some y)) (P - {(x, y)}) (b # L)" .
    moreover have "(a, b) \<in> P \<Longrightarrow> (a, b) \<in> P - {(x, y)}" using False by simp
    moreover have "a \<notin> fst ` P \<Longrightarrow> a \<notin> fst ` (P - {(x, y)})" by auto
    ultimately show ?thesis
      using False "3.prems"(1) unfolding links.simps(3) fun_upd_other [OF False] by metis
  qed
qed simp_all

definition ready_nodes :: "ep_ready_queue \<Rightarrow> addr list" where
  "ready_nodes q = walk (Suc (rq_queued q)) (rq_next q) (rq_tail q)"

definition ready_contents :: "ep_ready_queue \<Rightarrow> addr list" where
  "ready_contents q = filter (\<lambda>a. Some a \<noteq> rq_stub q) (ready_nodes q)"

definition ready_rep :: "ep_ready_queue \<Rightarrow> addr list \<Rightarrow> bool" where
  "ready_rep q L \<longleftrightarrow> rq_initialized q \<and> rq_stub q \<noteq> None \<and> L \<noteq> [] \<and> distinct L \<and>
     rq_tail q = Some (hd L) \<and> rq_head q = Some (last L) \<and> links (rq_next q) {} L \<and>
     rq_queued q = length (filter (\<lambda>a. Some a \<noteq> rq_stub q) L)"

definition ready_inv :: "ep_ready_queue \<Rightarrow> bool" where
  "ready_inv q \<longleftrightarrow> ready_rep q (ready_nodes q)"

definition ready_admissible :: "addr \<Rightarrow> ep_ready_queue \<Rightarrow> bool" where
  "ready_admissible a q \<longleftrightarrow> a \<notin> set (ready_nodes q) \<and> Some a \<noteq> rq_stub q"

lemma links_chain: "links f {} L \<Longrightarrow> L \<noteq> [] \<Longrightarrow> chain f (Some (hd L)) L"
  by (induction f "{} :: (addr \<times> addr) set" L rule: links.induct) simp_all

lemma filter_but_one_length:
  "distinct L \<Longrightarrow> length L \<le> Suc (length (filter (\<lambda>a. Some a \<noteq> s) L))"
proof (induction L)
  case (Cons x L)
  show ?case
  proof (cases "Some x = s")
    case True
    with Cons.prems have "filter (\<lambda>a. Some a \<noteq> s) L = L" by (auto simp: filter_id_conv)
    with True show ?thesis by simp
  qed (use Cons in simp)
qed simp

lemma ready_rep_nodes: "ready_rep q L \<Longrightarrow> ready_nodes q = L"
  using links_chain [of "rq_next q" L] filter_but_one_length [of L "rq_stub q"]
  by (simp add: ready_rep_def ready_nodes_def walk_chain del: walk.simps)

lemma ready_repI: "ready_rep q L \<Longrightarrow> ready_inv q"
  using ready_rep_nodes [of q L] by (simp add: ready_inv_def)

text \<open>Linking a node that is not in the queue appends it.\<close>

lemma link_rep:
  assumes "ready_rep q L" "n \<notin> set L" "b \<longleftrightarrow> Some n \<noteq> rq_stub q"
  shows "ready_rep (ep_ready_link n b q) (L @ [n])"
proof -
  let ?f = "(rq_next q)(n := None)"
  have L: "L \<noteq> []" "distinct L" "links ?f {} L" using assms by (simp_all add: ready_rep_def)
  from links_append [OF L(3,1,2) assms(2)] have l: "links ?f {(last L, n)} (L @ [n])" by simp
  have "links (?f(last L := Some n)) ({(last L, n)} - {(last L, n)}) (L @ [n])"
    by (rule links_publish [OF l]) (use L assms(2) in \<open>auto simp: butlast_append\<close>)
  then show ?thesis using assms L
    by (auto simp: ready_rep_def ep_ready_link_def link_prepare_def link_exchange_def
      link_publish_def set_next_def Let_def)
qed

lemma pop_real_rep:
  assumes "ready_rep q (t # M)" "Some t \<noteq> rq_stub q"
  shows "fst (ready_pop_real t q) = Some t"
    and "ready_rep (snd (ready_pop_real t q)) (if M = [] then [the (rq_stub q)] else M)"
proof -
  obtain stub where stub: "rq_stub q = Some stub" using assms(1) by (auto simp: ready_rep_def)
  have adv: "fst (Some t, ep_ready_account_pop (tail_advance t y p)) = Some t \<and>
      ready_rep (ep_ready_account_pop (tail_advance t y p)) (y # N)"
    if "ready_rep p (t # y # N)" "Some t \<noteq> rq_stub p" for p y N
    using that by (auto simp: ready_rep_def ep_ready_account_pop_def tail_advance_def set_next_def)
  show "fst (ready_pop_real t q) = Some t"
    "ready_rep (snd (ready_pop_real t q)) (if M = [] then [the (rq_stub q)] else M)"
  proof (atomize (full), cases M)
    case (Cons y N)
    with assms(1) have "rq_next q t = Some y" by (simp add: ready_rep_def)
    then show "fst (ready_pop_real t q) = Some t \<and>
        ready_rep (snd (ready_pop_real t q)) (if M = [] then [the (rq_stub q)] else M)"
      using adv [OF assms(1) [unfolded Cons] assms(2)] Cons by (simp add: ready_pop_real_def)
  next
    case Nil
    with assms(1) have n: "rq_next q t = None" "rq_head q = Some t" by (simp_all add: ready_rep_def)
    let ?q = "ep_ready_link stub False q"
    have r: "ready_rep ?q (t # [stub])"
      using link_rep [OF assms(1), of stub False] assms(2) stub Nil by simp
    then have "rq_next ?q t = Some stub" "rq_stub ?q = Some stub"
      using stub by (simp_all add: ready_rep_def ep_ready_link_def link_prepare_def
        link_exchange_def link_publish_def set_next_def Let_def split: option.splits)
    then show "fst (ready_pop_real t q) = Some t \<and>
        ready_rep (snd (ready_pop_real t q)) (if M = [] then [the (rq_stub q)] else M)"
      using adv [OF r] assms(2) stub n Nil by (simp add: ready_pop_real_def Let_def)
  qed
qed

lemma link_stub [simp]: "rq_stub (ep_ready_link n b q) = rq_stub q"
  by (simp add: ep_ready_link_def link_prepare_def link_exchange_def link_publish_def set_next_def
    Let_def split: option.splits)

lemma advance_stub [simp]:
  "rq_stub (ep_ready_account_pop (tail_advance t y q)) = rq_stub q"
  by (simp add: ep_ready_account_pop_def tail_advance_def set_next_def)

lemma pop_real_stub [simp]: "rq_stub (snd (ready_pop_real t q)) = rq_stub q"
  by (simp add: ready_pop_real_def Let_def split: option.splits)

lemma pop_one_stub [simp]: "rq_stub (snd (ep_ready_pop_one q)) = rq_stub q"
  by (simp add: ep_ready_pop_one_def split: option.splits)

lemma pop_one_empty:
  assumes "ready_rep q [stub]" "rq_stub q = Some stub"
  shows "ep_ready_pop_one q = (None, q)"
  using assms by (simp add: ep_ready_pop_one_def ready_rep_def)

lemma pop_one_real:
  assumes "ready_rep q L" "filter (\<lambda>a. Some a \<noteq> rq_stub q) L = x # xs"
  shows "fst (ep_ready_pop_one q) = Some x \<and>
    (\<exists>L'. ready_rep (snd (ep_ready_pop_one q)) L' \<and> filter (\<lambda>a. Some a \<noteq> rq_stub q) L' = xs)"
proof -
  obtain stub where stub: "rq_stub q = Some stub" using assms(1) by (auto simp: ready_rep_def)
  have real: "fst (ready_pop_real x p) = Some x \<and>
      (\<exists>L'. ready_rep (snd (ready_pop_real x p)) L' \<and> filter (\<lambda>a. Some a \<noteq> rq_stub q) L' = xs)"
    if r: "ready_rep p (x # M)" "rq_stub p = rq_stub q" and
      f: "filter (\<lambda>a. Some a \<noteq> rq_stub q) (x # M) = x # xs" for p M
  proof -
    from f have x: "Some x \<noteq> rq_stub p"
      using r(2) by (auto dest!: arg_cong [where f = set] simp: set_eq_iff split: if_splits)
    show ?thesis using pop_real_rep [OF r(1) x] r(2) f stub x
      by (intro conjI exI [of _ "if M = [] then [the (rq_stub p)] else M"]) auto
  qed
  from assms(1) obtain t M where L: "L = t # M" by (cases L) (auto simp: ready_rep_def)
  show ?thesis
  proof (cases "t = stub")
    case False
    with assms L stub have "t = x" by simp
    with real [of q M] assms L False stub show ?thesis
      by (simp add: ep_ready_pop_one_def ready_rep_def)
  next
    case True
    with assms(2) L stub obtain y N where M: "M = y # N" by (cases M) auto
    with True assms L stub have y: "y = x" "rq_next q stub = Some x" "rq_tail q = Some stub"
      by (auto simp: ready_rep_def split: if_splits)
    have "ready_rep (q \<lparr> rq_tail := Some x \<rparr>) (x # N)"
      using assms(1) L M True y stub by (auto simp: ready_rep_def)
    from real [OF this] assms(2) L M True y stub show ?thesis
      by (simp add: ep_ready_pop_one_def)
  qed
qed

interpretation ready: fifo_queue ready_inv ready_contents ready_admissible
  "\<lambda>n. ep_ready_push (Some n)" ep_ready_pop_one
proof
  fix q :: ep_ready_queue and b
  assume inv: "ready_inv q"
  then have r: "ready_rep q (ready_nodes q)" by (simp add: ready_inv_def)
  obtain stub where stub: "rq_stub q = Some stub" using r by (auto simp: ready_rep_def)
  have cont: "ready_contents p = filter (\<lambda>a. Some a \<noteq> rq_stub p) L" if "ready_rep p L" for p L
    using ready_rep_nodes [OF that] by (simp add: ready_contents_def)
  have pop: "ready_inv (snd (ep_ready_pop_one q)) \<and>
      fst (ep_ready_pop_one q) = (case ready_contents q of [] \<Rightarrow> None | b # _ \<Rightarrow> Some b) \<and>
      ready_contents (snd (ep_ready_pop_one q)) = tl (ready_contents q)"
  proof (cases "ready_contents q")
    case Nil
    have "ready_nodes q = [stub]"
      using r Nil stub cont [OF r]
      by (cases "ready_nodes q"; cases "tl (ready_nodes q)")
        (auto simp: ready_rep_def filter_empty_conv split: if_splits)
    with r stub pop_one_empty [of q stub] have "ep_ready_pop_one q = (None, q)" by simp
    with inv Nil show ?thesis by simp
  next
    case (Cons x xs)
    with cont [OF r] have "filter (\<lambda>a. Some a \<noteq> rq_stub q) (ready_nodes q) = x # xs" by simp
    from pop_one_real [OF r this] obtain L' where
      "fst (ep_ready_pop_one q) = Some x" "ready_rep (snd (ep_ready_pop_one q)) L'"
      "filter (\<lambda>a. Some a \<noteq> rq_stub q) L' = xs" by blast
    with cont [of "snd (ep_ready_pop_one q)" L'] Cons show ?thesis
      by (auto intro: ready_repI)
  qed
  then show "ready_inv (snd (ep_ready_pop_one q))"
    "fst (ep_ready_pop_one q) = (case ready_contents q of [] \<Rightarrow> None | b # _ \<Rightarrow> Some b)"
    "ready_contents (snd (ep_ready_pop_one q)) = tl (ready_contents q)" by simp_all
  assume adm: "ready_admissible b q"
  have p: "ep_ready_push (Some b) q = ep_ready_link b True q"
    using r by (simp add: ep_ready_push_def ready_rep_def)
  have l: "ready_rep (ep_ready_push (Some b) q) (ready_nodes q @ [b])"
    unfolding p using adm by (intro link_rep [OF r]) (auto simp: ready_admissible_def)
  then show "ready_inv (ep_ready_push (Some b) q)" by (rule ready_repI)
  show "ready_contents (ep_ready_push (Some b) q) = ready_contents q @ [b]"
    using cont [OF l] cont [OF r] adm p by (simp add: ready_admissible_def)
qed

text \<open>A pop writes only to nodes of the queue and to the stub.\<close>

lemma link_next_other:
  "a \<noteq> n \<Longrightarrow> rq_head q \<noteq> Some a \<Longrightarrow> rq_next (ep_ready_link n b q) a = rq_next q a"
  by (auto simp: ep_ready_link_def link_prepare_def link_exchange_def link_publish_def set_next_def
    Let_def split: option.splits)

lemma advance_next [simp]:
  "rq_next (ep_ready_account_pop (tail_advance t y q)) = (rq_next q)(t := None)"
  by (simp add: ep_ready_account_pop_def tail_advance_def set_next_def)

lemma pop_real_next:
  "fst (ready_pop_real t q) = Some x \<Longrightarrow> rq_next (snd (ready_pop_real t q)) x = None \<and> x = t"
  "a \<noteq> t \<Longrightarrow> Some a \<noteq> rq_stub q \<Longrightarrow> rq_head q \<noteq> Some a \<Longrightarrow>
   rq_next (snd (ready_pop_real t q)) a = rq_next q a"
  by (auto simp: ready_pop_real_def Let_def link_next_other split: option.splits if_splits)

lemma pop_one_next:
  assumes "ready_inv q"
  shows "fst (ep_ready_pop_one q) = Some x \<Longrightarrow> rq_next (snd (ep_ready_pop_one q)) x = None"
    and "a \<notin> set (ready_nodes q) \<Longrightarrow> Some a \<noteq> rq_stub q \<Longrightarrow>
      rq_next (snd (ep_ready_pop_one q)) a = rq_next q a"
proof -
  have r: "ready_rep q (ready_nodes q)" using assms by (simp add: ready_inv_def)
  obtain t' where "rq_tail q = Some t'" using r by (auto simp: ready_rep_def)
  then show "fst (ep_ready_pop_one q) = Some x \<Longrightarrow> rq_next (snd (ep_ready_pop_one q)) x = None"
    using pop_real_next(1) by (cases "rq_next q t'") (auto simp: ep_ready_pop_one_def split: if_splits)
  assume a: "a \<notin> set (ready_nodes q)" "Some a \<noteq> rq_stub q"
  obtain t M where L: "ready_nodes q = t # M" using r by (cases "ready_nodes q") (auto simp: ready_rep_def)
  have h: "rq_head q \<noteq> Some a" using r a last_in_set [of "ready_nodes q"] by (auto simp: ready_rep_def)
  have t: "rq_tail q = Some t" "a \<noteq> t" using r L a by (auto simp: ready_rep_def)
  have n: "rq_next q t \<noteq> Some a"
    using r L a by (cases M) (auto simp: ready_rep_def)
  show "rq_next (snd (ep_ready_pop_one q)) a = rq_next q a"
    using t h n a(2) pop_real_next(2) [of a _ "q \<lparr> rq_tail := _ \<rparr>"] pop_real_next(2) [of a t q]
    by (auto simp: ep_ready_pop_one_def split: option.splits)
qed

lemma ready_admissible_iff:
  "ready_admissible a q \<longleftrightarrow> a \<notin> set (ready_contents q) \<and> Some a \<noteq> rq_stub q"
  by (auto simp: ready_admissible_def ready_contents_def)

lemma ready_contents_distinct: "ready_inv q \<Longrightarrow> distinct (ready_contents q)"
  by (simp add: ready_inv_def ready_rep_def ready_contents_def)

lemma set_next_outside:
  assumes "ready_inv q" "ready_admissible t q"
  shows "ready_inv (set_next t v q)" "ready_nodes (set_next t v q) = ready_nodes q"
    "ready_contents (set_next t v q) = ready_contents q"
proof -
  have "ready_rep (set_next t v q) (ready_nodes q)"
    using assms by (simp add: ready_inv_def ready_rep_def set_next_def ready_admissible_def)
  then show "ready_inv (set_next t v q)" "ready_nodes (set_next t v q) = ready_nodes q"
    using ready_repI ready_rep_nodes by blast+
  then show "ready_contents (set_next t v q) = ready_contents q"
    by (simp add: ready_contents_def set_next_def)
qed

lemma chain_snoc:
  assumes "chain f p ys" "ys \<noteq> []" "x \<notin> set ys" "f x = None"
  shows "chain (f(last ys := Some x)) p (ys @ [x])"
  using assms
proof (induction ys arbitrary: p)
  case (Cons y ys)
  show ?case
  proof (cases "ys = []")
    case False
    with Cons.prems chain_distinct [OF Cons.prems(1)] have "y \<noteq> last ys" by auto
    with Cons.IH [of "f y"] Cons.prems False show ?thesis by simp
  qed (use Cons.prems in simp)
qed simp

lemma pop_one_admissible:
  assumes "ready_inv q" "ep_ready_pop_one q = (r, p)"
  shows "ready_admissible a q \<Longrightarrow> ready_admissible a p"
    and "r = Some a \<Longrightarrow> ready_admissible a p"
proof -
  have p: "ready_contents p = tl (ready_contents q)" "rq_stub p = rq_stub q"
    "r = (case ready_contents q of [] \<Rightarrow> None | b # _ \<Rightarrow> Some b)"
    using ready.pop_contents [OF assms(1)] ready.pop_result [OF assms(1)] pop_one_stub [of q] assms(2)
    by simp_all
  show "ready_admissible a q \<Longrightarrow> ready_admissible a p"
    using p by (cases "ready_contents q") (auto simp: ready_admissible_iff)
  show "ready_admissible a p" if "r = Some a"
  proof (cases "ready_contents q")
    case (Cons x xs)
    have "a \<in> set (ready_contents q)" using Cons p(3) that by simp
    then have "Some a \<noteq> rq_stub q" by (simp add: ready_contents_def)
    then show ?thesis
      using p Cons that ready_contents_distinct [OF assms(1)] by (auto simp: ready_admissible_iff)
  qed (use that p in simp)
qed

lemma drain_loop_spec:
  assumes "ready_inv q" "chain (rq_next q) h ys" "t = (if ys = [] then None else Some (last ys))"
    and "\<And>a. a \<in> set ys \<Longrightarrow> ready_admissible a q"
    and "ready_drain_loop n h t q = (h', q')"
  shows "ready_inv q' \<and> ready_contents q' = drop n (ready_contents q) \<and>
    chain (rq_next q') h' (ys @ take n (ready_contents q))"
  using assms
proof (induction n arbitrary: q h t ys)
  case 0
  then show ?case by simp
next
  case (Suc n)
  note inv = Suc.prems(1)
  obtain r p where pop: "ep_ready_pop_one q = (r, p)" by fastforce
  note adm = pop_one_admissible [OF inv pop]
  have p: "ready_inv p" "ready_contents p = tl (ready_contents q)" "rq_stub p = rq_stub q"
    "r = (case ready_contents q of [] \<Rightarrow> None | b # _ \<Rightarrow> Some b)"
    using ready.pop_inv [OF inv] ready.pop_contents [OF inv] ready.pop_result [OF inv]
      pop_one_stub [of q] pop by simp_all
  have same: "rq_next p a = rq_next q a" if "a \<in> set ys" for a
    using pop_one_next(2) [OF inv, of a] Suc.prems(4) [OF that] pop
    by (simp add: ready_admissible_def)
  then have ch: "chain (rq_next p) h ys" using Suc.prems(2) chain_cong by metis
  show ?case
  proof (cases "ready_contents q")
    case Nil
    then show ?thesis using pop p ch Suc.prems(5) by simp
  next
    case (Cons x xs)
    then have r: "r = Some x" "ready_contents p = xs" using p by simp_all
    have xp: "rq_next p x = None" using pop_one_next(1) [OF inv, of x] pop r by simp
    have ax: "ready_admissible x p" by (rule adm(2)) (rule r(1))
    have "x \<notin> set ys" using Suc.prems(4) [of x] Cons by (auto simp: ready_admissible_iff)
    show ?thesis
    proof (cases "ys = []")
      case True
      have "ready_drain_loop n (Some x) (Some x) p = (h', q')" using Suc.prems(3,5) True pop r by simp
      have "ready_inv q' \<and> ready_contents q' = drop n (ready_contents p) \<and>
          chain (rq_next q') h' ([x] @ take n (ready_contents p))"
      proof (rule Suc.IH [OF p(1)])
        show "chain (rq_next p) (Some x) [x]" using xp by simp
        show "Some x = (if [x] = [] then None else Some (last [x]))" by simp
        show "\<And>a. a \<in> set [x] \<Longrightarrow> ready_admissible a p" using ax by simp
        show "ready_drain_loop n (Some x) (Some x) p = (h', q')" by fact
      qed
      then show ?thesis using r(2) Cons True by simp
    next
      case False
      let ?l = "last ys" and ?p = "set_next (last ys) (Some x) p"
      have l: "ready_admissible ?l p" using Suc.prems(4) [of ?l] False adm(1) by simp
      note sn = set_next_outside [OF p(1) l, of "Some x"]
      have a: "ready_admissible a ?p" if "a \<in> set (ys @ [x])" for a
      proof -
        have "ready_admissible a p"
          using that ax adm(1) [OF Suc.prems(4)] by (cases "a = x") auto
        then show ?thesis using sn(2) by (simp add: ready_admissible_def set_next_def)
      qed
      have "chain (rq_next ?p) h (ys @ [x])"
        using chain_snoc [OF ch False \<open>x \<notin> set ys\<close> xp] by (simp add: set_next_def)
      moreover have "ready_drain_loop n h (Some x) ?p = (h', q')"
        using Suc.prems(3,5) False pop r by simp
      ultimately have "ready_inv q' \<and> ready_contents q' = drop n (ready_contents ?p) \<and>
          chain (rq_next q') h' ((ys @ [x]) @ take n (ready_contents ?p))"
        by (intro Suc.IH [OF sn(1)]) (assumption, simp, rule a, assumption+)
      then show ?thesis using sn(3) r(2) Cons by simp
    qed
  qed
qed

section \<open>Interleaved producers and consumer\<close>

text \<open>
  Where a producer is inside \<open>ep_ready_push\<close> and the consumer inside \<open>ep_ready_pop_one\<close>.
  \<open>P_Exchanged prev node\<close>: the head was exchanged and \<open>prev->next\<close> is still to be written.
\<close>

datatype producer_pc = P_Idle | P_Prepared addr | P_Exchanged addr addr

datatype consumer_pc =
    C_Idle | C_Reload addr | C_Head addr | C_Prepare addr | C_Exchange addr
  | C_Publish addr addr | C_Final addr | C_Account addr

record ready_conc =
  cq :: ep_ready_queue
  prods :: "producer_pc list"
  cons :: consumer_pc
  enq_log :: "addr list"
  deq_log :: "addr list"

text \<open>The nodes pushed and not yet returned by a pop.\<close>

definition in_flight :: "ready_conc \<Rightarrow> addr list" where
  "in_flight c = drop (length (deq_log c)) (enq_log c)"

inductive ready_step :: "ready_conc \<Rightarrow> ready_conc \<Rightarrow> bool" where
  push_prepare: "i < length (prods c) \<Longrightarrow> prods c ! i = P_Idle \<Longrightarrow> Some n \<noteq> rq_stub (cq c) \<Longrightarrow>
    n \<notin> set (in_flight c) \<Longrightarrow> P_Prepared n \<notin> set (prods c) \<Longrightarrow>
    ready_step c (c \<lparr> cq := link_prepare n True (cq c), prods := (prods c)[i := P_Prepared n] \<rparr>)"
| push_exchange: "i < length (prods c) \<Longrightarrow> prods c ! i = P_Prepared n \<Longrightarrow>
    link_exchange n (cq c) = (Some prev, q) \<Longrightarrow>
    ready_step c (c \<lparr> cq := q, prods := (prods c)[i := P_Exchanged prev n],
                      enq_log := enq_log c @ [n] \<rparr>)"
| push_publish: "i < length (prods c) \<Longrightarrow> prods c ! i = P_Exchanged prev n \<Longrightarrow>
    ready_step c (c \<lparr> cq := link_publish (Some prev) n (cq c), prods := (prods c)[i := P_Idle] \<rparr>)"
| pop_skip_stub: "cons c = C_Idle \<Longrightarrow> rq_tail (cq c) = Some t \<Longrightarrow> rq_stub (cq c) = Some t \<Longrightarrow>
    rq_next (cq c) t = Some n \<Longrightarrow>
    ready_step c (c \<lparr> cq := (cq c) \<lparr> rq_tail := Some n \<rparr>, cons := C_Reload n \<rparr>)"
| pop_start: "cons c = C_Idle \<Longrightarrow> rq_tail (cq c) = Some t \<Longrightarrow> rq_stub (cq c) \<noteq> Some t \<Longrightarrow>
    ready_step c (c \<lparr> cons := C_Reload t \<rparr>)"
| pop_linked: "cons c = C_Reload t \<Longrightarrow> rq_next (cq c) t = Some n \<Longrightarrow>
    ready_step c (c \<lparr> cq := tail_advance t n (cq c), cons := C_Account t \<rparr>)"
| pop_unlinked: "cons c = C_Reload t \<Longrightarrow> rq_next (cq c) t = None \<Longrightarrow>
    ready_step c (c \<lparr> cons := C_Head t \<rparr>)"
| pop_in_flight: "cons c = C_Head t \<Longrightarrow> rq_head (cq c) \<noteq> Some t \<Longrightarrow>
    ready_step c (c \<lparr> cons := C_Idle \<rparr>)"
| pop_last: "cons c = C_Head t \<Longrightarrow> rq_head (cq c) = Some t \<Longrightarrow>
    ready_step c (c \<lparr> cons := C_Prepare t \<rparr>)"
| stub_prepare: "cons c = C_Prepare t \<Longrightarrow> rq_stub (cq c) = Some stub \<Longrightarrow>
    ready_step c (c \<lparr> cq := link_prepare stub False (cq c), cons := C_Exchange t \<rparr>)"
| stub_exchange: "cons c = C_Exchange t \<Longrightarrow> rq_stub (cq c) = Some stub \<Longrightarrow>
    link_exchange stub (cq c) = (Some prev, q) \<Longrightarrow>
    ready_step c (c \<lparr> cq := q, cons := C_Publish t prev \<rparr>)"
| stub_publish: "cons c = C_Publish t prev \<Longrightarrow> rq_stub (cq c) = Some stub \<Longrightarrow>
    ready_step c (c \<lparr> cq := link_publish (Some prev) stub (cq c), cons := C_Final t \<rparr>)"
| pop_final_none: "cons c = C_Final t \<Longrightarrow> rq_next (cq c) t = None \<Longrightarrow>
    ready_step c (c \<lparr> cons := C_Idle \<rparr>)"
| pop_final: "cons c = C_Final t \<Longrightarrow> rq_next (cq c) t = Some n \<Longrightarrow>
    ready_step c (c \<lparr> cq := tail_advance t n (cq c), cons := C_Account t \<rparr>)"
| pop_account: "cons c = C_Account t \<Longrightarrow>
    ready_step c (c \<lparr> cq := ep_ready_account_pop (cq c), cons := C_Idle,
                      deq_log := deq_log c @ [t] \<rparr>)"

definition conc_start :: "nat \<Rightarrow> addr \<Rightarrow> ready_conc" where
  "conc_start k stub = \<lparr> cq = ready_init_with (Some stub), prods = replicate k P_Idle, cons = C_Idle,
     enq_log = [], deq_log = [] \<rparr>"

inductive ready_reach :: "nat \<Rightarrow> addr \<Rightarrow> ready_conc \<Rightarrow> bool" for k stub where
  start: "ready_reach k stub (conc_start k stub)"
| step: "ready_reach k stub c \<Longrightarrow> ready_step c c' \<Longrightarrow> ready_reach k stub c'"

subsection \<open>Pending publications\<close>

definition inj_some :: "('a \<Rightarrow> 'b option) \<Rightarrow> 'a list \<Rightarrow> bool" where
  "inj_some f xs \<longleftrightarrow> (\<forall>i < length xs. \<forall>j < length xs. i \<noteq> j \<longrightarrow> f (xs ! i) \<noteq> None \<longrightarrow> f (xs ! i) \<noteq> f (xs ! j))"

fun prev_of :: "producer_pc \<Rightarrow> addr option" where
  "prev_of (P_Exchanged p n) = Some p"
| "prev_of _ = None"

fun prepared_of :: "producer_pc \<Rightarrow> addr option" where
  "prepared_of (P_Prepared n) = Some n"
| "prepared_of _ = None"

definition pending :: "producer_pc list \<Rightarrow> (addr \<times> addr) set" where
  "pending ps = {(p, n). P_Exchanged p n \<in> set ps}"

lemma inj_some_update:
  assumes "inj_some f xs" "f v = None \<or> f v \<notin> f ` set xs"
  shows "inj_some f (xs[i := v])"
  unfolding inj_some_def
proof (intro allI impI)
  fix a b
  assume a: "a < length (xs[i := v])" and b: "b < length (xs[i := v])" and "a \<noteq> b"
    and "f (xs[i := v] ! a) \<noteq> None"
  moreover have "xs[i := v] ! k = (if k = i then v else xs ! k)" if "k < length xs" for k
    using that by simp
  moreover have "xs ! k \<in> set xs" if "k < length xs" for k using that by simp
  ultimately show "f (xs[i := v] ! a) \<noteq> f (xs[i := v] ! b)"
    using assms unfolding inj_some_def by (metis image_eqI length_list_update)
qed

lemma set_update_eq:
  assumes "i < length xs" "xs ! i = x" "x \<notin> set (xs[i := v]) \<or> x = v"
  shows "set (xs[i := v]) = insert v (set xs - {x})"
proof -
  have "set (xs[i := v]) \<subseteq> insert v (set xs)" by (rule set_update_subset_insert)
  moreover have "y \<in> set (xs[i := v])" if y: "y \<in> set xs" "y \<noteq> x" for y
  proof -
    obtain j where "j < length xs" "xs ! j = y" using y(1) by (auto simp: in_set_conv_nth)
    with y assms have "j \<noteq> i" by auto
    with \<open>j < length xs\<close> \<open>xs ! j = y\<close> show ?thesis
      by (metis length_list_update nth_list_update_neq nth_mem)
  qed
  moreover have "v \<in> set (xs[i := v])" using assms(1) by (rule set_update_memI)
  ultimately show ?thesis using assms(3) by auto
qed

lemma inj_some_gone:
  assumes "inj_some f xs" "i < length xs" "xs ! i = x" "f x \<noteq> None" "x \<noteq> v"
  shows "x \<notin> set (xs[i := v])"
proof
  assume "x \<in> set (xs[i := v])"
  then obtain j where "j < length xs" "xs[i := v] ! j = x" by (auto simp: in_set_conv_nth)
  with assms(5) assms(2) have "j \<noteq> i" "xs ! j = x" by (auto simp: nth_list_update split: if_splits)
  with assms \<open>j < length xs\<close> show False unfolding inj_some_def by metis
qed

lemma pending_add:
  assumes "i < length ps" "ps ! i = P_Prepared m"
  shows "pending (ps[i := P_Exchanged p n]) = insert (p, n) (pending ps)"
proof -
  have "x \<in> set ps \<Longrightarrow> x \<noteq> P_Prepared m \<Longrightarrow> x \<in> set (ps[i := P_Exchanged p n])" for x
    using assms by (metis in_set_conv_nth length_list_update nth_list_update_neq)
  moreover have "P_Exchanged p n \<in> set (ps[i := P_Exchanged p n])"
    using assms(1) by (rule set_update_memI)
  ultimately show ?thesis
    using set_update_subset_insert [of ps i "P_Exchanged p n"] by (auto simp: pending_def)
qed

lemma pending_prepare:
  assumes "i < length ps" "ps ! i = P_Idle"
  shows "pending (ps[i := P_Prepared n]) = pending ps"
proof -
  have "x \<in> set ps \<Longrightarrow> x \<noteq> P_Idle \<Longrightarrow> x \<in> set (ps[i := P_Prepared n])" for x
    using assms by (metis in_set_conv_nth length_list_update nth_list_update_neq)
  then show ?thesis
    using set_update_subset_insert [of ps i "P_Prepared n"] by (auto simp: pending_def)
qed

lemma pending_remove:
  assumes "i < length ps" "ps ! i = P_Exchanged p n" "inj_some prev_of ps"
  shows "pending (ps[i := P_Idle]) = pending ps - {(p, n)}"
proof -
  have "set (ps[i := P_Idle]) = insert P_Idle (set ps - {P_Exchanged p n})"
    by (rule set_update_eq [OF assms(1,2)]) (use inj_some_gone [OF assms(3,1,2)] in simp)
  then show ?thesis by (auto simp: pending_def)
qed

lemma pending_unique:
  assumes "inj_some prev_of ps" "(p, n) \<in> pending ps"
  shows "pending ps `` {p} \<subseteq> {n}"
proof
  fix m assume "m \<in> pending ps `` {p}"
  then obtain i j where "i < length ps" "ps ! i = P_Exchanged p m" "j < length ps" "ps ! j = P_Exchanged p n"
    using assms(2) by (auto simp: pending_def in_set_conv_nth)
  with assms(1) show "m \<in> {n}" unfolding inj_some_def
    by (metis option.discI prev_of.simps(1) producer_pc.inject(2) singletonI)
qed

subsection \<open>The invariant\<close>

definition conc_pending :: "ready_conc \<Rightarrow> (addr \<times> addr) set" where
  "conc_pending c = pending (prods c) \<union>
     (case cons c of C_Publish t p \<Rightarrow> {(p, the (rq_stub (cq c)))} | _ \<Rightarrow> {})"

definition holding :: "ready_conc \<Rightarrow> addr list" where
  "holding c = (case cons c of C_Account t \<Rightarrow> [t] | _ \<Rightarrow> [])"

definition consumer_ok :: "addr \<Rightarrow> addr list \<Rightarrow> ready_conc \<Rightarrow> bool" where
  "consumer_ok stub L c \<longleftrightarrow>
    (case cons c of
       C_Idle \<Rightarrow> True
     | C_Reload t \<Rightarrow> t = hd L \<and> t \<noteq> stub
     | C_Head t \<Rightarrow> t = hd L \<and> t \<noteq> stub
     | C_Prepare t \<Rightarrow> t = hd L \<and> t \<noteq> stub \<and> stub \<notin> set L
     | C_Exchange t \<Rightarrow> t = hd L \<and> t \<noteq> stub \<and> stub \<notin> set L \<and> rq_next (cq c) stub = None
     | C_Publish t p \<Rightarrow> t = hd L \<and> t \<noteq> stub \<and> p \<notin> fst ` pending (prods c)
     | C_Final t \<Rightarrow> t = hd L \<and> t \<noteq> stub
     | C_Account t \<Rightarrow> t \<notin> set L \<and> t \<noteq> stub)"

definition queue_ok :: "addr \<Rightarrow> addr list \<Rightarrow> ready_conc \<Rightarrow> bool" where
  "queue_ok stub L c \<longleftrightarrow> rq_initialized (cq c) \<and> rq_stub (cq c) = Some stub \<and> L \<noteq> [] \<and> distinct L \<and>
     rq_tail (cq c) = Some (hd L) \<and> rq_head (cq c) = Some (last L) \<and>
     links (rq_next (cq c)) (conc_pending c) L \<and> fst ` conc_pending c \<subseteq> set (butlast L)"

definition producers_ok :: "addr \<Rightarrow> addr list \<Rightarrow> ready_conc \<Rightarrow> bool" where
  "producers_ok stub L c \<longleftrightarrow> inj_some prev_of (prods c) \<and> inj_some prepared_of (prods c) \<and>
     (\<forall>n. P_Prepared n \<in> set (prods c) \<longrightarrow>
        n \<notin> set L \<and> n \<noteq> stub \<and> n \<notin> set (holding c) \<and> rq_next (cq c) n = None)"

definition logs_ok :: "addr \<Rightarrow> addr list \<Rightarrow> ready_conc \<Rightarrow> bool" where
  "logs_ok stub L c \<longleftrightarrow> enq_log c = deq_log c @ holding c @ filter (\<lambda>a. a \<noteq> stub) L \<and>
     rq_queued (cq c) = length (filter (\<lambda>p. prepared_of p \<noteq> None) (prods c)) +
       length (holding c) + length (filter (\<lambda>a. a \<noteq> stub) L)"

definition conc_inv :: "addr \<Rightarrow> addr list \<Rightarrow> ready_conc \<Rightarrow> bool" where
  "conc_inv stub L c \<longleftrightarrow> queue_ok stub L c \<and> producers_ok stub L c \<and> logs_ok stub L c \<and>
     consumer_ok stub L c"

lemmas conc_defs = conc_inv_def queue_ok_def producers_ok_def logs_ok_def consumer_ok_def
  conc_pending_def holding_def
lemmas access_defs = link_prepare_def link_exchange_def link_publish_def set_next_def
  tail_advance_def ep_ready_account_pop_def Let_def

lemma length_filter_update:
  "i < length xs \<Longrightarrow>
   length (filter Q (xs[i := v])) + (if Q (xs ! i) then 1 else 0) =
   length (filter Q xs) + (if Q v then 1 else 0)"
proof (induction xs arbitrary: i)
  case (Cons x xs)
  then show ?case by (cases i) auto
qed simp

lemma in_flight_eq: "logs_ok stub L c \<Longrightarrow> in_flight c = holding c @ filter (\<lambda>a. a \<noteq> stub) L"
  by (simp add: logs_ok_def in_flight_def)

lemma conc_inv_start: "conc_inv stub [stub] (conc_start k stub)"
  by (auto simp: conc_defs conc_start_def ready_init_with_def ep_ready_queue_zero_def inj_some_def
    pending_def)

lemma inv_push_prepare:
  assumes inv: "conc_inv stub L c" and i: "i < length (prods c)" "prods c ! i = P_Idle"
    and n: "Some n \<noteq> rq_stub (cq c)" "n \<notin> set (in_flight c)" "P_Prepared n \<notin> set (prods c)"
  shows "conc_inv stub L (c \<lparr> cq := link_prepare n True (cq c), prods := (prods c)[i := P_Prepared n] \<rparr>)"
proof -
  have ns: "n \<noteq> stub" "n \<notin> set (holding c)" "n \<notin> set L"
    using inv n in_flight_eq [of stub L c] by (auto simp: conc_inv_def queue_ok_def)
  have 1: "inj_some prev_of ((prods c)[i := P_Prepared n])"
    using inv by (intro inj_some_update) (simp_all add: conc_defs)
  have "Some n \<notin> prepared_of ` set (prods c)"
  proof
    assume "Some n \<in> prepared_of ` set (prods c)"
    then obtain x where "x \<in> set (prods c)" "prepared_of x = Some n" by auto
    with n(3) show False by (cases x) auto
  qed
  then have 2: "inj_some prepared_of ((prods c)[i := P_Prepared n])"
    using inv by (intro inj_some_update) (simp_all add: conc_defs)
  have 3: "P_Prepared m \<in> set ((prods c)[i := P_Prepared n]) \<Longrightarrow>
      m = n \<or> P_Prepared m \<in> set (prods c)" for m
    using set_update_subset_insert [of "prods c" i "P_Prepared n"] by auto
  have 4: "length (filter (\<lambda>p. prepared_of p \<noteq> None) ((prods c)[i := P_Prepared n])) =
      Suc (length (filter (\<lambda>p. prepared_of p \<noteq> None) (prods c)))"
    using length_filter_update [OF i(1), of "\<lambda>p. prepared_of p \<noteq> None" "P_Prepared n"] i(2) by simp
  let ?c = "c \<lparr> cq := link_prepare n True (cq c), prods := (prods c)[i := P_Prepared n] \<rparr>"
  have h: "holding ?c = holding c" "conc_pending ?c = conc_pending c"
    using pending_prepare [OF i, of n]
    by (simp_all add: holding_def conc_pending_def access_defs split: consumer_pc.splits)
  have "queue_ok stub L ?c" using inv ns h by (simp add: conc_inv_def queue_ok_def access_defs)
  moreover have "producers_ok stub L ?c"
    using inv ns h 1 2 3 by (fastforce simp: conc_inv_def producers_ok_def access_defs)
  moreover have "logs_ok stub L ?c" using inv h 4 by (simp add: conc_inv_def logs_ok_def access_defs)
  moreover have "consumer_ok stub L ?c"
    using inv ns pending_prepare [OF i, of n]
    by (simp add: conc_inv_def consumer_ok_def access_defs split: consumer_pc.splits)
  ultimately show ?thesis by (simp add: conc_inv_def)
qed

lemma inv_push_exchange:
  assumes inv: "conc_inv stub L c" and i: "i < length (prods c)" "prods c ! i = P_Prepared n"
    and x: "link_exchange n (cq c) = (Some prev, q)"
  shows "conc_inv stub (L @ [n]) (c \<lparr> cq := q, prods := (prods c)[i := P_Exchanged prev n],
    enq_log := enq_log c @ [n] \<rparr>)"
proof -
  let ?c = "c \<lparr> cq := q, prods := (prods c)[i := P_Exchanged prev n], enq_log := enq_log c @ [n] \<rparr>"
  have mem: "P_Prepared n \<in> set (prods c)" using i by (metis nth_mem)
  have n: "n \<noteq> stub" "n \<notin> set (holding c)" "n \<notin> set L" "rq_next (cq c) n = None"
    using inv mem by (auto simp: conc_inv_def producers_ok_def)
  have L: "L \<noteq> []" "distinct L" "links (rq_next (cq c)) (conc_pending c) L"
    "fst ` conc_pending c \<subseteq> set (butlast L)"
    using inv by (auto simp: conc_inv_def queue_ok_def)
  have q: "prev = last L" "q = (cq c) \<lparr> rq_head := Some n \<rparr>"
    using x inv by (auto simp: link_exchange_def conc_inv_def queue_ok_def)
  have lb: "last L \<notin> set (butlast L)"
    using L(1,2) by (metis append_butlast_last_id distinct_append disjoint_insert(1) list.set(2) not_distinct_conv_prefix)
  have p: "pending ((prods c)[i := P_Exchanged prev n]) = insert (prev, n) (pending (prods c))"
    by (rule pending_add [OF i])
  have h: "holding ?c = holding c" "conc_pending ?c = insert (prev, n) (conc_pending c)"
    using p q by (auto simp: holding_def conc_pending_def split: consumer_pc.splits)
  have np: "prev \<notin> fst ` pending (prods c)"
    using L(4) lb q(1) by (auto simp: conc_pending_def)
  have "Some prev \<notin> prev_of ` set (prods c)"
  proof
    assume "Some prev \<in> prev_of ` set (prods c)"
    then obtain y where y: "y \<in> set (prods c)" "prev_of y = Some prev" by auto
    from y(2) obtain m where "y = P_Exchanged prev m" by (cases y) auto
    with y np show False by (force simp: pending_def)
  qed
  then have 1: "inj_some prev_of ((prods c)[i := P_Exchanged prev n])"
    using inv by (intro inj_some_update) (simp_all add: conc_inv_def producers_ok_def)
  have 2: "inj_some prepared_of ((prods c)[i := P_Exchanged prev n])"
    using inv by (intro inj_some_update) (simp_all add: conc_inv_def producers_ok_def)
  have gone: "P_Prepared n \<notin> set ((prods c)[i := P_Exchanged prev n])"
    using inv by (intro inj_some_gone [OF _ i, of prepared_of])
      (simp_all add: conc_inv_def producers_ok_def)
  have 3: "P_Prepared m \<in> set ((prods c)[i := P_Exchanged prev n]) \<Longrightarrow>
      m \<noteq> n \<and> P_Prepared m \<in> set (prods c)" for m
    using set_update_subset_insert [of "prods c" i "P_Exchanged prev n"] gone by auto
  have 4: "Suc (length (filter (\<lambda>p. prepared_of p \<noteq> None) ((prods c)[i := P_Exchanged prev n]))) =
      length (filter (\<lambda>p. prepared_of p \<noteq> None) (prods c))"
    using length_filter_update [OF i(1), of "\<lambda>p. prepared_of p \<noteq> None" "P_Exchanged prev n"] i(2)
    by simp
  have "queue_ok stub (L @ [n]) ?c"
    using inv n L h q links_append [OF L(3,1,2) n(3,4)]
    by (auto simp: conc_inv_def queue_ok_def butlast_append dest: in_set_butlastD)
  moreover have "producers_ok stub (L @ [n]) ?c"
    using inv h 1 2 3 q by (fastforce simp: conc_inv_def producers_ok_def)
  moreover have "logs_ok stub (L @ [n]) ?c"
    using inv h 4 n q by (simp add: conc_inv_def logs_ok_def)
  moreover have "consumer_ok stub (L @ [n]) ?c"
    using inv n L(1,4) lb q p np
    by (auto simp: conc_inv_def consumer_ok_def conc_pending_def holding_def split: consumer_pc.splits)
  ultimately show ?thesis by (simp add: conc_inv_def)
qed


lemma inv_push_publish:
  assumes inv: "conc_inv stub L c" and i: "i < length (prods c)" "prods c ! i = P_Exchanged prev n"
  shows "conc_inv stub L (c \<lparr> cq := link_publish (Some prev) n (cq c), prods := (prods c)[i := P_Idle] \<rparr>)"
proof -
  let ?c = "c \<lparr> cq := link_publish (Some prev) n (cq c), prods := (prods c)[i := P_Idle] \<rparr>"
  have mem: "(prev, n) \<in> pending (prods c)" using i by (auto simp: pending_def) (metis nth_mem)
  have inj: "inj_some prev_of (prods c)" using inv by (simp add: conc_inv_def producers_ok_def)
  have L: "L \<noteq> []" "distinct L" "links (rq_next (cq c)) (conc_pending c) L"
    "fst ` conc_pending c \<subseteq> set (butlast L)"
    using inv by (auto simp: conc_inv_def queue_ok_def)
  have pb: "prev \<in> set (butlast L)" using mem L(4) by (force simp: conc_pending_def)
  have p: "pending ((prods c)[i := P_Idle]) = pending (prods c) - {(prev, n)}"
    by (rule pending_remove [OF i inj])
  have other: "p \<noteq> prev" if "cons c = C_Publish t p" for t p
  proof -
    from that inv have "p \<notin> fst ` pending (prods c)" by (simp add: conc_inv_def consumer_ok_def)
    with mem show ?thesis by force
  qed
  have h: "holding ?c = holding c" "conc_pending ?c = conc_pending c - {(prev, n)}"
    using p other by (auto simp: holding_def conc_pending_def access_defs split: consumer_pc.splits)
  have u: "conc_pending c `` {prev} \<subseteq> {n}"
    using pending_unique [OF inj mem] other
    by (auto simp: conc_pending_def split: consumer_pc.splits)
  have "links ((rq_next (cq c))(prev := Some n)) (conc_pending c - {(prev, n)}) L"
    by (rule links_publish [OF L(3) _ u pb L(2)]) (use mem in \<open>simp add: conc_pending_def\<close>)
  then have "queue_ok stub L ?c"
    using inv L h by (auto simp: conc_inv_def queue_ok_def access_defs)
  moreover have 3: "P_Prepared m \<in> set ((prods c)[i := P_Idle]) \<Longrightarrow> P_Prepared m \<in> set (prods c)" for m
    using set_update_subset_insert [of "prods c" i P_Idle] by auto
  moreover have "inj_some f ((prods c)[i := P_Idle])"
    if "inj_some f (prods c)" "f P_Idle = None" for f :: "producer_pc \<Rightarrow> addr option"
    using that by (intro inj_some_update) simp_all
  then have "producers_ok stub L ?c"
    using inv h 3 in_set_butlastD [OF pb] by (fastforce simp: conc_inv_def producers_ok_def access_defs)
  moreover have "length (filter (\<lambda>p. prepared_of p \<noteq> None) ((prods c)[i := P_Idle])) =
      length (filter (\<lambda>p. prepared_of p \<noteq> None) (prods c))"
    using length_filter_update [OF i(1), of "\<lambda>p. prepared_of p \<noteq> None" P_Idle] i(2) by simp
  then have "logs_ok stub L ?c" using inv h by (simp add: conc_inv_def logs_ok_def access_defs)
  moreover have "consumer_ok stub L ?c"
    using inv p in_set_butlastD [OF pb]
    by (auto simp: conc_inv_def consumer_ok_def access_defs split: consumer_pc.splits)
  ultimately show ?thesis by (simp add: conc_inv_def)
qed

text \<open>Steps of the consumer that only move its program counter.\<close>

lemma inv_consumer_pc:
  assumes inv: "conc_inv stub L c" and "holding c = []" and "\<And>t p. cons c \<noteq> C_Publish t p"
    and "pc = C_Idle \<or> pc = C_Reload t \<and> t = hd L \<and> t \<noteq> stub \<or> pc = C_Head t \<and> t = hd L \<and> t \<noteq> stub \<or>
      pc = C_Prepare t \<and> t = hd L \<and> t \<noteq> stub \<and> stub \<notin> set L"
  shows "conc_inv stub L (c \<lparr> cons := pc \<rparr>)"
proof -
  have "holding (c \<lparr> cons := pc \<rparr>) = holding c" "conc_pending (c \<lparr> cons := pc \<rparr>) = conc_pending c"
    using assms(2-4) by (auto simp: holding_def conc_pending_def split: consumer_pc.splits)
  then show ?thesis
    using inv assms(4)
    by (auto simp: conc_inv_def queue_ok_def producers_ok_def logs_ok_def consumer_ok_def)
qed

lemma inv_advance:
  assumes inv: "conc_inv stub L c" and k: "cons c = C_Reload t \<or> cons c = C_Final t"
    and n: "rq_next (cq c) t = Some n"
  shows "conc_inv stub (tl L) (c \<lparr> cq := tail_advance t n (cq c), cons := C_Account t \<rparr>)"
proof -
  let ?c = "c \<lparr> cq := tail_advance t n (cq c), cons := C_Account t \<rparr>"
  have t: "t = hd L" "t \<noteq> stub" using inv k by (auto simp: conc_inv_def consumer_ok_def)
  have L: "L \<noteq> []" "distinct L" "links (rq_next (cq c)) (conc_pending c) L"
    "fst ` conc_pending c \<subseteq> set (butlast L)"
    using inv by (auto simp: conc_inv_def queue_ok_def)
  obtain K where K: "L = t # K" using L(1) t(1) by (cases L) auto
  have "K \<noteq> []" using L(3) n unfolding K by auto
  then obtain y M where yM: "K = y # M" by (cases K) simp
  have "y = n" using L(3) n unfolding K yM by simp
  with K yM have LM: "L = t # n # M" by simp
  have np: "t \<notin> fst ` conc_pending c" using L(3) LM n by auto
  have P: "conc_pending ?c = conc_pending c" and H: "holding ?c = [t]" "holding c = []"
    using k by (auto simp: conc_pending_def holding_def access_defs)
  have "queue_ok stub (tl L) ?c"
    using inv L LM P np by (auto simp: conc_inv_def queue_ok_def access_defs)
  moreover have "producers_ok stub (tl L) ?c"
    using inv LM H by (auto simp: conc_inv_def producers_ok_def access_defs)
  moreover have "logs_ok stub (tl L) ?c"
    using inv LM H t(2) by (simp add: conc_inv_def logs_ok_def access_defs)
  moreover have "consumer_ok stub (tl L) ?c"
    using L(2) LM t(2) by (simp add: consumer_ok_def)
  ultimately show ?thesis by (simp add: conc_inv_def)
qed

lemma inv_skip_stub:
  assumes inv: "conc_inv stub L c" and k: "cons c = C_Idle" "rq_tail (cq c) = Some t"
    "rq_stub (cq c) = Some t" and n: "rq_next (cq c) t = Some n"
  shows "conc_inv stub (tl L) (c \<lparr> cq := (cq c) \<lparr> rq_tail := Some n \<rparr>, cons := C_Reload n \<rparr>)"
proof -
  let ?c = "c \<lparr> cq := (cq c) \<lparr> rq_tail := Some n \<rparr>, cons := C_Reload n \<rparr>"
  have t: "t = hd L" "t = stub" using inv k by (auto simp: conc_inv_def queue_ok_def)
  have L: "L \<noteq> []" "distinct L" "links (rq_next (cq c)) (conc_pending c) L"
    "fst ` conc_pending c \<subseteq> set (butlast L)"
    using inv by (auto simp: conc_inv_def queue_ok_def)
  obtain K where K: "L = t # K" using L(1) t(1) by (cases L) auto
  have "K \<noteq> []" using L(3) n unfolding K by auto
  then obtain y M where yM: "K = y # M" by (cases K) simp
  have "y = n" using L(3) n unfolding K yM by simp
  with K yM have LM: "L = t # n # M" by simp
  have np: "t \<notin> fst ` conc_pending c" using L(3) LM n by auto
  have P: "conc_pending ?c = conc_pending c" and H: "holding ?c = []" "holding c = []"
    using k by (auto simp: conc_pending_def holding_def)
  show ?thesis
    using inv L LM P H np t(2)
    by (auto simp: conc_inv_def queue_ok_def producers_ok_def logs_ok_def consumer_ok_def)
qed


lemma inv_stub_exchange:
  assumes inv: "conc_inv stub L c" and k: "cons c = C_Exchange t"
    and x: "link_exchange stub (cq c) = (Some prev, q)"
  shows "conc_inv stub (L @ [stub]) (c \<lparr> cq := q, cons := C_Publish t prev \<rparr>)"
proof -
  let ?c = "c \<lparr> cq := q, cons := C_Publish t prev \<rparr>"
  have L: "L \<noteq> []" "distinct L" "links (rq_next (cq c)) (conc_pending c) L"
    "fst ` conc_pending c \<subseteq> set (butlast L)"
    using inv by (auto simp: conc_inv_def queue_ok_def)
  have s: "stub \<notin> set L" "rq_next (cq c) stub = None" "t = hd L" "t \<noteq> stub"
    using inv k by (auto simp: conc_inv_def consumer_ok_def)
  have q: "prev = last L" "q = (cq c) \<lparr> rq_head := Some stub \<rparr>"
    using x inv by (auto simp: link_exchange_def conc_inv_def queue_ok_def)
  have lb: "last L \<notin> set (butlast L)"
    using L(1,2) by (metis append_butlast_last_id distinct_append disjoint_insert(1) list.set(2) not_distinct_conv_prefix)
  have h: "holding ?c = holding c" "conc_pending ?c = insert (prev, stub) (conc_pending c)"
    "conc_pending c = pending (prods c)"
    using k q inv by (auto simp: holding_def conc_pending_def conc_inv_def queue_ok_def)
  have "queue_ok stub (L @ [stub]) ?c"
    using inv L s(1,2) h q links_append [OF L(3,1,2) s(1,2)]
    by (auto simp: conc_inv_def queue_ok_def butlast_append dest: in_set_butlastD)
  moreover have "producers_ok stub (L @ [stub]) ?c"
    using inv h q by (fastforce simp: conc_inv_def producers_ok_def)
  moreover have "logs_ok stub (L @ [stub]) ?c"
    using inv h q by (simp add: conc_inv_def logs_ok_def)
  moreover have "prev \<notin> fst ` pending (prods c)" using L(4) lb q(1) h(3) by auto
  then have "consumer_ok stub (L @ [stub]) ?c"
    using L(1) s(3,4) by (simp add: consumer_ok_def)
  ultimately show ?thesis by (simp add: conc_inv_def)
qed

lemma inv_stub_publish:
  assumes inv: "conc_inv stub L c" and k: "cons c = C_Publish t prev"
  shows "conc_inv stub L (c \<lparr> cq := link_publish (Some prev) stub (cq c), cons := C_Final t \<rparr>)"
proof -
  let ?c = "c \<lparr> cq := link_publish (Some prev) stub (cq c), cons := C_Final t \<rparr>"
  have L: "L \<noteq> []" "distinct L" "links (rq_next (cq c)) (conc_pending c) L"
    "fst ` conc_pending c \<subseteq> set (butlast L)" "rq_stub (cq c) = Some stub"
    using inv by (auto simp: conc_inv_def queue_ok_def)
  have P: "conc_pending c = insert (prev, stub) (pending (prods c))"
    using k L(5) by (simp add: conc_pending_def)
  have np: "prev \<notin> fst ` pending (prods c)" "t = hd L" "t \<noteq> stub"
    using inv k by (auto simp: conc_inv_def consumer_ok_def)
  have pb: "prev \<in> set (butlast L)" using L(4) P by simp
  have h: "holding ?c = holding c" "conc_pending ?c = conc_pending c - {(prev, stub)}"
    using k np(1) P by (auto simp: holding_def conc_pending_def image_iff)
  have "links ((rq_next (cq c))(prev := Some stub)) (conc_pending c - {(prev, stub)}) L"
    by (rule links_publish [OF L(3) _ _ pb L(2)]) (use P np(1) in \<open>auto simp: image_iff\<close>)
  then have "queue_ok stub L ?c"
    using inv L h by (auto simp: conc_inv_def queue_ok_def access_defs)
  moreover have "producers_ok stub L ?c"
    using inv h in_set_butlastD [OF pb] by (fastforce simp: conc_inv_def producers_ok_def access_defs)
  moreover have "logs_ok stub L ?c" using inv h by (simp add: conc_inv_def logs_ok_def access_defs)
  moreover have "consumer_ok stub L ?c" using np by (simp add: consumer_ok_def)
  ultimately show ?thesis by (simp add: conc_inv_def)
qed

lemma inv_stub_prepare:
  assumes inv: "conc_inv stub L c" and k: "cons c = C_Prepare t"
  shows "conc_inv stub L (c \<lparr> cq := link_prepare stub False (cq c), cons := C_Exchange t \<rparr>)"
proof -
  let ?c = "c \<lparr> cq := link_prepare stub False (cq c), cons := C_Exchange t \<rparr>"
  have s: "stub \<notin> set L" "t = hd L" "t \<noteq> stub"
    using inv k by (auto simp: conc_inv_def consumer_ok_def)
  have "holding ?c = holding c" "conc_pending ?c = conc_pending c"
    using k by (auto simp: holding_def conc_pending_def)
  then show ?thesis
    using inv s
    by (auto simp: conc_inv_def queue_ok_def producers_ok_def logs_ok_def consumer_ok_def access_defs)
qed

lemma inv_account:
  assumes inv: "conc_inv stub L c" and k: "cons c = C_Account t"
  shows "conc_inv stub L (c \<lparr> cq := ep_ready_account_pop (cq c), cons := C_Idle,
    deq_log := deq_log c @ [t] \<rparr>)"
proof -
  let ?c = "c \<lparr> cq := ep_ready_account_pop (cq c), cons := C_Idle, deq_log := deq_log c @ [t] \<rparr>"
  have "holding ?c = []" "holding c = [t]" "conc_pending ?c = conc_pending c"
    using k by (auto simp: holding_def conc_pending_def)
  then show ?thesis
    using inv
    by (auto simp: conc_inv_def queue_ok_def producers_ok_def logs_ok_def consumer_ok_def access_defs)
qed

lemma conc_inv_step:
  assumes "ready_step c c'" and inv: "conc_inv stub L c"
  shows "\<exists>L'. conc_inv stub L' c'"
proof -
  have stub: "rq_stub (cq c) = Some stub" and tail: "rq_tail (cq c) = Some (hd L)"
    and L: "L \<noteq> []" "distinct L" "rq_head (cq c) = Some (last L)"
    using inv by (auto simp: conc_inv_def queue_ok_def)
  from assms(1) show ?thesis
  proof cases
    case (push_prepare i n)
    then show ?thesis using inv_push_prepare [OF inv] by blast
  next
    case (push_exchange i n prev q)
    then show ?thesis using inv_push_exchange [OF inv] by blast
  next
    case (push_publish i prev n)
    then show ?thesis using inv_push_publish [OF inv] by blast
  next
    case (pop_skip_stub t n)
    then show ?thesis using inv_skip_stub [OF inv] by blast
  next
    case (pop_start t)
    then have "conc_inv stub L (c \<lparr> cons := C_Reload t \<rparr>)"
      using stub tail by (intro inv_consumer_pc [OF inv, where t = t]) (auto simp: holding_def)
    with pop_start show ?thesis by blast
  next
    case (pop_linked t n)
    then show ?thesis using inv_advance [OF inv] by blast
  next
    case (pop_unlinked t)
    then have "conc_inv stub L (c \<lparr> cons := C_Head t \<rparr>)"
      using inv by (intro inv_consumer_pc [OF inv, where t = t])
        (auto simp: holding_def conc_inv_def consumer_ok_def)
    with pop_unlinked show ?thesis by blast
  next
    case (pop_in_flight t)
    then have "conc_inv stub L (c \<lparr> cons := C_Idle \<rparr>)"
      by (intro inv_consumer_pc [OF inv]) (auto simp: holding_def)
    with pop_in_flight show ?thesis by blast
  next
    case (pop_last t)
    have t: "t = hd L" "t \<noteq> stub" "hd L = last L"
      using inv pop_last L(3) by (auto simp: conc_inv_def consumer_ok_def)
    then have "L = [hd L]" using L(1,2) by (cases L; cases "tl L") (auto split: if_splits)
    then have "stub \<notin> set L" using t(1,2) by (metis empty_iff list.set(1) set_ConsD)
    then have "conc_inv stub L (c \<lparr> cons := C_Prepare t \<rparr>)"
      using pop_last t by (intro inv_consumer_pc [OF inv, where t = t]) (auto simp: holding_def)
    with pop_last show ?thesis by blast
  next
    case (stub_prepare t st)
    then show ?thesis using inv_stub_prepare [OF inv] stub by auto
  next
    case (stub_exchange t st prev q)
    then show ?thesis using inv_stub_exchange [OF inv] stub by auto
  next
    case (stub_publish t prev st)
    then show ?thesis using inv_stub_publish [OF inv] stub by auto
  next
    case (pop_final_none t)
    then have "conc_inv stub L (c \<lparr> cons := C_Idle \<rparr>)"
      by (intro inv_consumer_pc [OF inv]) (auto simp: holding_def)
    with pop_final_none show ?thesis by blast
  next
    case (pop_final t n)
    then show ?thesis using inv_advance [OF inv] by blast
  next
    case (pop_account t)
    then show ?thesis using inv_account [OF inv] by blast
  qed
qed

lemma reach_inv: "ready_reach k stub c \<Longrightarrow> \<exists>L. conc_inv stub L c"
proof (induction rule: ready_reach.induct)
  case start
  then show ?case using conc_inv_start by blast
next
  case (step c c')
  then show ?case using conc_inv_step by blast
qed

text \<open>An uninterrupted push or pop of the step relation is the code's operation.\<close>

lemma push_steps:
  assumes "i < length (prods c)" "prods c ! i = P_Idle" "Some n \<noteq> rq_stub (cq c)"
    "n \<notin> set (in_flight c)" "P_Prepared n \<notin> set (prods c)" "rq_initialized (cq c)"
    "rq_head (cq c) \<noteq> None"
  shows "ready_step\<^sup>*\<^sup>* c (c \<lparr> cq := ep_ready_push (Some n) (cq c), enq_log := enq_log c @ [n] \<rparr>)"
proof -
  let ?c1 = "c \<lparr> cq := link_prepare n True (cq c), prods := (prods c)[i := P_Prepared n] \<rparr>"
  obtain prev where prev: "rq_head (cq c) = Some prev" using assms(7) by auto
  let ?q2 = "(link_prepare n True (cq c)) \<lparr> rq_head := Some n \<rparr>"
  let ?c2 = "?c1 \<lparr> cq := ?q2, prods := (prods ?c1)[i := P_Exchanged prev n],
      enq_log := enq_log ?c1 @ [n] \<rparr>"
  let ?c3 = "?c2 \<lparr> cq := link_publish (Some prev) n (cq ?c2), prods := (prods ?c2)[i := P_Idle] \<rparr>"
  have x: "link_exchange n (link_prepare n True (cq c)) = (Some prev, ?q2)"
    using prev by (simp add: link_exchange_def link_prepare_def set_next_def Let_def)
  have "ready_step c ?c1" by (rule ready_step.push_prepare [OF assms(1-5)])
  moreover have "ready_step ?c1 ?c2"
    by (rule ready_step.push_exchange) (use assms(1) x in simp_all)
  moreover have "ready_step ?c2 ?c3"
    by (rule ready_step.push_publish) (use assms(1) in simp_all)
  moreover have "?c3 = c \<lparr> cq := ep_ready_push (Some n) (cq c), enq_log := enq_log c @ [n] \<rparr>"
    using assms(1,2,6) x by (simp add: ep_ready_push_def ep_ready_link_def list_update_same_conv)
  ultimately show ?thesis by (metis (no_types, lifting) converse_rtranclp_into_rtranclp rtranclp.rtrancl_refl)
qed

lemma pop_account_steps:
  assumes "cons c = C_Reload t \<or> cons c = C_Final t" "rq_next (cq c) t = Some n"
  shows "ready_step\<^sup>*\<^sup>* c (c \<lparr> cq := ep_ready_account_pop (tail_advance t n (cq c)), cons := C_Idle,
    deq_log := deq_log c @ [t] \<rparr>)"
proof -
  let ?c1 = "c \<lparr> cq := tail_advance t n (cq c), cons := C_Account t \<rparr>"
  have "ready_step c ?c1"
    using assms(1)
  proof
    assume "cons c = C_Reload t"
    then show ?thesis using assms(2) by (rule ready_step.pop_linked)
  next
    assume "cons c = C_Final t"
    then show ?thesis using assms(2) by (rule ready_step.pop_final)
  qed
  moreover have "ready_step ?c1 (?c1 \<lparr> cq := ep_ready_account_pop (cq ?c1), cons := C_Idle,
      deq_log := deq_log ?c1 @ [t] \<rparr>)"
    by (rule ready_step.pop_account) simp
  ultimately have "ready_step\<^sup>*\<^sup>* c (?c1 \<lparr> cq := ep_ready_account_pop (cq ?c1), cons := C_Idle,
      deq_log := deq_log ?c1 @ [t] \<rparr>)" by simp
  then show ?thesis by simp
qed

lemma pop_real_steps:
  assumes "cons c = C_Reload t" "rq_stub (cq c) \<noteq> None" "rq_head (cq c) \<noteq> None"
    "ready_pop_real t (cq c) = (r, q')"
  shows "ready_step\<^sup>*\<^sup>* c (c \<lparr> cq := q', cons := C_Idle,
    deq_log := deq_log c @ (case r of None \<Rightarrow> [] | Some x \<Rightarrow> [x]) \<rparr>)"
proof (cases "rq_next (cq c) t")
  case (Some n)
  with assms(4) pop_account_steps [OF disjI1 [OF assms(1)] Some] show ?thesis
    by (auto simp: ready_pop_real_def)
next
  case None
  let ?c1 = "c \<lparr> cons := C_Head t \<rparr>"
  have s1: "ready_step c ?c1" using assms(1) None by (rule ready_step.pop_unlinked)
  show ?thesis
  proof (cases "rq_head (cq c) = Some t")
    case False
    then have "ready_step ?c1 (?c1 \<lparr> cons := C_Idle \<rparr>)" by (intro ready_step.pop_in_flight) simp_all
    with s1 have "ready_step\<^sup>*\<^sup>* c (?c1 \<lparr> cons := C_Idle \<rparr>)" by simp
    with assms(4) None False show ?thesis by (auto simp: ready_pop_real_def)
  next
    case True
    obtain stub where stub: "rq_stub (cq c) = Some stub" using assms(2) by auto
    let ?q2 = "link_prepare stub False (cq c)"
    let ?c2 = "?c1 \<lparr> cons := C_Prepare t \<rparr>"
    let ?c3 = "?c2 \<lparr> cq := ?q2, cons := C_Exchange t \<rparr>"
    let ?q3 = "?q2 \<lparr> rq_head := Some stub \<rparr>"
    let ?c4 = "?c3 \<lparr> cq := ?q3, cons := C_Publish t t \<rparr>"
    let ?q4 = "link_publish (Some t) stub ?q3"
    let ?c5 = "?c4 \<lparr> cq := ?q4, cons := C_Final t \<rparr>"
    have h2: "rq_head ?q2 = Some t" "rq_stub ?q2 = Some stub"
      using True stub by (simp_all add: link_prepare_def set_next_def Let_def)
    have "ready_step ?c1 ?c2" using True by (intro ready_step.pop_last) simp_all
    moreover have "ready_step ?c2 ?c3"
      using ready_step.stub_prepare [of ?c2 t stub] stub by simp
    moreover have "ready_step ?c3 ?c4"
      using ready_step.stub_exchange [of ?c3 t stub t ?q3] h2 by (simp add: link_exchange_def)
    moreover have "ready_step ?c4 ?c5"
      using ready_step.stub_publish [of ?c4 t t stub] h2 by simp
    ultimately have s5: "ready_step\<^sup>*\<^sup>* c ?c5"
      using s1 by (meson converse_rtranclp_into_rtranclp rtranclp.rtrancl_refl)
    have l: "ep_ready_link stub False (cq c) = ?q4"
      using h2 by (simp add: ep_ready_link_def link_exchange_def)
    have n: "rq_next ?q4 t = Some stub" by (simp add: link_publish_def set_next_def)
    then have "ready_step\<^sup>*\<^sup>* ?c5 (?c5 \<lparr> cq := ep_ready_account_pop (tail_advance t stub (cq ?c5)),
        cons := C_Idle, deq_log := deq_log ?c5 @ [t] \<rparr>)"
      by (intro pop_account_steps) simp_all
    moreover have "r = Some t" "q' = ep_ready_account_pop (tail_advance t stub ?q4)"
      using assms(4) None True stub l n by (auto simp: ready_pop_real_def Let_def)
    ultimately show ?thesis using s5 by simp
  qed
qed

lemma cons_unchanged:
  "cons c = C_Idle \<Longrightarrow> c \<lparr> cq := q, cons := C_Idle, deq_log := d \<rparr> = c \<lparr> cq := q, deq_log := d \<rparr>"
  by (cases c) simp

lemma pop_one_steps:
  assumes "cons c = C_Idle" "rq_stub (cq c) \<noteq> None" "rq_head (cq c) \<noteq> None"
    "ep_ready_pop_one (cq c) = (r, q')"
  shows "ready_step\<^sup>*\<^sup>* c (c \<lparr> cq := q',
    deq_log := deq_log c @ (case r of None \<Rightarrow> [] | Some x \<Rightarrow> [x]) \<rparr>)"
proof (cases "rq_tail (cq c)")
  case None
  with assms show ?thesis by (auto simp: ep_ready_pop_one_def)
next
  case (Some t)
  show ?thesis
  proof (cases "rq_stub (cq c) = Some t")
    case False
    let ?c1 = "c \<lparr> cons := C_Reload t \<rparr>"
    have "ready_step c ?c1" using assms(1) Some False by (rule ready_step.pop_start)
    moreover have "ready_step\<^sup>*\<^sup>* ?c1 (?c1 \<lparr> cq := q', cons := C_Idle,
        deq_log := deq_log ?c1 @ (case r of None \<Rightarrow> [] | Some x \<Rightarrow> [x]) \<rparr>)"
      by (rule pop_real_steps) (use assms Some False in \<open>auto simp: ep_ready_pop_one_def\<close>)
    ultimately show ?thesis
      using cons_unchanged [OF assms(1)] by (simp add: converse_rtranclp_into_rtranclp)
  next
    case True
    show ?thesis
    proof (cases "rq_next (cq c) t")
      case None
      with assms Some True show ?thesis by (auto simp: ep_ready_pop_one_def)
    next
      case n: (Some n)
      let ?c1 = "c \<lparr> cq := (cq c) \<lparr> rq_tail := Some n \<rparr>, cons := C_Reload n \<rparr>"
      have "ready_step c ?c1" by (rule ready_step.pop_skip_stub [OF assms(1) Some True n])
      moreover have "ready_step\<^sup>*\<^sup>* ?c1 (?c1 \<lparr> cq := q', cons := C_Idle,
          deq_log := deq_log ?c1 @ (case r of None \<Rightarrow> [] | Some x \<Rightarrow> [x]) \<rparr>)"
        by (rule pop_real_steps) (use assms Some True n in \<open>auto simp: ep_ready_pop_one_def\<close>)
      ultimately show ?thesis
        using cons_unchanged [OF assms(1)] by (simp add: converse_rtranclp_into_rtranclp)
    qed
  qed
qed

section \<open>Properties\<close>

text \<open>
  (C5) First in, first out, under every interleaving of any number of producers with the consumer:
  the nodes returned by pops are, in order, the first nodes whose push exchanged the head; none is
  lost, duplicated or reordered.
\<close>

theorem ready_queue_fifo:
  assumes "ready_reach k stub c"
  shows "enq_log c = deq_log c @ in_flight c"
  using reach_inv [OF assms] by (auto simp: conc_inv_def logs_ok_def in_flight_def)

text \<open>
  (C13) A node handed to the consumer is never written by a producer again: the predecessor that an
  unfinished push still has to link is the stub or a node that no pop has returned.
\<close>

theorem ready_queue_no_late_write:
  assumes "ready_reach k stub c" and "P_Exchanged prev n \<in> set (prods c)"
  shows "prev = stub \<or> prev \<in> set (in_flight c)"
proof -
  obtain L where inv: "conc_inv stub L c" using reach_inv [OF assms(1)] by blast
  have "(prev, n) \<in> conc_pending c" using assms(2) by (simp add: conc_pending_def pending_def)
  then have "prev \<in> set (butlast L)" using inv by (force simp: conc_inv_def queue_ok_def)
  then have "prev \<in> set L" by (rule in_set_butlastD)
  then show ?thesis using inv in_flight_eq [of stub L c] by (auto simp: conc_inv_def)
qed

text \<open>
  (C15) Once the producers and the consumer are quiescent, the counter is exact and the queue is a
  well-formed sequential queue whose contents are the nodes pushed and not yet popped.
\<close>

theorem ready_queue_quiescent:
  assumes "ready_reach k stub c" and "set (prods c) \<subseteq> {P_Idle}" and "cons c = C_Idle"
  shows "ready_inv (cq c) \<and> ready_contents (cq c) = in_flight c \<and>
    rq_queued (cq c) = length (in_flight c)"
proof -
  obtain L where inv: "conc_inv stub L c" using reach_inv [OF assms(1)] by blast
  have "pending (prods c) = {}" using assms(2) by (auto simp: pending_def)
  then have p: "conc_pending c = {}" "holding c = []"
    using assms(3) by (simp_all add: conc_pending_def holding_def)
  have "filter (\<lambda>p. prepared_of p \<noteq> None) (prods c) = []"
    using assms(2) by (auto simp: filter_empty_conv)
  then have q: "rq_queued (cq c) = length (filter (\<lambda>a. a \<noteq> stub) L)"
    using inv p by (simp add: conc_inv_def logs_ok_def)
  have fl: "in_flight c = filter (\<lambda>a. a \<noteq> stub) L"
    using inv in_flight_eq [of stub L c] p by (simp add: conc_inv_def)
  have r: "ready_rep (cq c) L"
    using inv p q by (simp add: conc_inv_def queue_ok_def ready_rep_def)
  then have "ready_contents (cq c) = in_flight c"
    using ready_rep_nodes [OF r] fl inv by (simp add: ready_contents_def conc_inv_def queue_ok_def)
  then show ?thesis using ready_repI [OF r] q fl by simp
qed

text \<open>
  (C16) Draining takes at most \<open>maxevents\<close> nodes from the front of the queue, in order, and returns
  them as one linked chain, leaving the rest of the queue intact.
\<close>

theorem ready_drain_takes_front:
  assumes "ready_inv q" and "ep_ready_drain maxevents q = (h, q')"
  shows "ready_inv q' \<and> ready_contents q' = drop (nat maxevents) (ready_contents q) \<and>
    chain (rq_next q') h (take (nat maxevents) (ready_contents q))"
proof (cases "maxevents \<le> 0")
  case True
  with assms show ?thesis by (simp add: ep_ready_drain_def)
next
  case False
  have "rq_initialized q" using assms(1) by (simp add: ready_inv_def ready_rep_def)
  with assms(2) False have "ready_drain_loop (nat maxevents) None None q = (h, q')"
    by (simp add: ep_ready_drain_def)
  from drain_loop_spec [OF assms(1) _ _ _ this, of "[]"] show ?thesis by simp
qed

section \<open>Witnesses\<close>

text \<open>One producer pushed node 5 on the queue with stub 0 and has not published the link yet.\<close>

definition conc_one :: ready_conc where
  "conc_one = \<lparr> cq = (link_prepare 5 True (ready_init_with (Some 0))) \<lparr> rq_head := Some 5 \<rparr>,
     prods = [P_Exchanged 0 5], cons = C_Idle, enq_log = [5], deq_log = [] \<rparr>"

definition conc_done :: ready_conc where
  "conc_done = conc_one \<lparr> cq := link_publish (Some 0) 5 (cq conc_one), prods := [P_Idle] \<rparr>"

lemma conc_one_reach: "ready_reach 1 0 conc_one"
proof -
  let ?c0 = "conc_start 1 0"
  let ?c1 = "?c0 \<lparr> cq := link_prepare 5 True (cq ?c0), prods := (prods ?c0)[0 := P_Prepared 5] \<rparr>"
  have "ready_step ?c0 ?c1"
    by (rule ready_step.push_prepare) (simp_all add: conc_start_def ready_init_with_def in_flight_def)
  then have r: "ready_reach 1 0 ?c1" by (rule ready_reach.step [OF ready_reach.start])
  have "ready_step ?c1 (?c1 \<lparr> cq := (cq ?c1) \<lparr> rq_head := Some 5 \<rparr>,
      prods := (prods ?c1)[0 := P_Exchanged 0 5], enq_log := enq_log ?c1 @ [5] \<rparr>)"
    by (rule ready_step.push_exchange [where n = 5])
      (simp_all add: conc_start_def ready_init_with_def link_exchange_def link_prepare_def
        set_next_def Let_def)
  from ready_reach.step [OF r this] show ?thesis
    by (simp add: conc_one_def conc_start_def)
qed

lemma conc_done_reach: "ready_reach 1 0 conc_done"
proof -
  have "ready_step conc_one (conc_one \<lparr> cq := link_publish (Some 0) 5 (cq conc_one),
      prods := (prods conc_one)[0 := P_Idle] \<rparr>)"
    by (rule ready_step.push_publish) (simp_all add: conc_one_def)
  then have "ready_step conc_one conc_done" by (simp add: conc_done_def conc_one_def)
  with conc_one_reach show ?thesis by (rule ready_reach.step)
qed

theorem ready_queue_fifo_witness: "[5] = [] @ in_flight conc_one"
  using ready_queue_fifo [OF conc_one_reach] by (simp add: conc_one_def)

theorem ready_queue_no_late_write_witness:
  "P_Exchanged 0 5 \<in> set (prods conc_one) \<and> ((0 :: addr) = 0 \<or> 0 \<in> set (in_flight conc_one))"
  using ready_queue_no_late_write [OF conc_one_reach, of 0 5] by (simp add: conc_one_def)

theorem ready_queue_quiescent_witness:
  "ready_contents (cq conc_done) = [5] \<and> rq_queued (cq conc_done) = 1"
proof -
  have "in_flight conc_done = [5]" by (simp add: in_flight_def conc_done_def conc_one_def)
  with ready_queue_quiescent [OF conc_done_reach] show ?thesis
    by (simp add: conc_done_def conc_one_def)
qed

theorem ready_drain_takes_front_witness:
  "chain (rq_next (snd (ep_ready_drain 3 (cq conc_done)))) (fst (ep_ready_drain 3 (cq conc_done))) [5]"
proof -
  have "in_flight conc_done = [5]" by (simp add: in_flight_def conc_done_def conc_one_def)
  moreover have "ready_inv (cq conc_done) \<and> ready_contents (cq conc_done) = in_flight conc_done"
  proof -
    have "ready_rep (cq conc_done) [0, 5]"
      by (simp add: ready_rep_def conc_done_def conc_one_def ready_init_with_def
        ep_ready_queue_zero_def link_prepare_def link_publish_def set_next_def Let_def)
    with ready_repI [OF this] ready_rep_nodes [OF this] calculation show ?thesis
      by (simp add: ready_contents_def) (simp add: conc_done_def conc_one_def ready_init_with_def
        link_prepare_def link_publish_def set_next_def Let_def)
  qed
  ultimately show ?thesis
    using ready_drain_takes_front [of "cq conc_done" 3 "fst (ep_ready_drain 3 (cq conc_done))"
      "snd (ep_ready_drain 3 (cq conc_done))"] by simp
qed

end
