(* ===== verification/Ep_Events.thy ===== *)
theory Ep_Events
  imports Ep_Errno
begin

text \<open>
  Event masks: the epoll bits of \<^verbatim>\<open>src/include/wepoll_ex.h\<close>, the AFD bits of
  \<^verbatim>\<open>src/src/wepoll_ex_internal.h\<close>, the translations between them in \<^verbatim>\<open>src/src/wepoll_ex_afd.c\<close>,
  and the readiness classes of \<^verbatim>\<open>src/src/wepoll_ex_port.c\<close>.
\<close>

section \<open>Bits\<close>

abbreviation (input) EPOLLIN :: uint32 where "EPOLLIN \<equiv> 0x1"
abbreviation (input) EPOLLPRI :: uint32 where "EPOLLPRI \<equiv> 0x2"
abbreviation (input) EPOLLOUT :: uint32 where "EPOLLOUT \<equiv> 0x4"
abbreviation (input) EPOLLERR :: uint32 where "EPOLLERR \<equiv> 0x8"
abbreviation (input) EPOLLHUP :: uint32 where "EPOLLHUP \<equiv> 0x10"
abbreviation (input) EPOLLRDNORM :: uint32 where "EPOLLRDNORM \<equiv> 0x40"
abbreviation (input) EPOLLRDBAND :: uint32 where "EPOLLRDBAND \<equiv> 0x80"
abbreviation (input) EPOLLWRNORM :: uint32 where "EPOLLWRNORM \<equiv> 0x100"
abbreviation (input) EPOLLWRBAND :: uint32 where "EPOLLWRBAND \<equiv> 0x200"
abbreviation (input) EPOLLMSG :: uint32 where "EPOLLMSG \<equiv> 0x400"
abbreviation (input) EPOLLRDHUP :: uint32 where "EPOLLRDHUP \<equiv> 0x2000"
abbreviation (input) EPOLLEXCLUSIVE :: uint32 where "EPOLLEXCLUSIVE \<equiv> 0x10000000"
abbreviation (input) EPOLLWAKEUP :: uint32 where "EPOLLWAKEUP \<equiv> 0x20000000"
abbreviation (input) EPOLLONESHOT :: uint32 where "EPOLLONESHOT \<equiv> 0x40000000"
abbreviation (input) EPOLLET :: uint32 where "EPOLLET \<equiv> 0x80000000"

abbreviation (input) AFD_POLL_RECEIVE :: uint32 where "AFD_POLL_RECEIVE \<equiv> 0x1"
abbreviation (input) AFD_POLL_RECEIVE_EXPEDITED :: uint32 where "AFD_POLL_RECEIVE_EXPEDITED \<equiv> 0x2"
abbreviation (input) AFD_POLL_SEND :: uint32 where "AFD_POLL_SEND \<equiv> 0x4"
abbreviation (input) AFD_POLL_DISCONNECT :: uint32 where "AFD_POLL_DISCONNECT \<equiv> 0x8"
abbreviation (input) AFD_POLL_ABORT :: uint32 where "AFD_POLL_ABORT \<equiv> 0x10"
abbreviation (input) AFD_POLL_LOCAL_CLOSE :: uint32 where "AFD_POLL_LOCAL_CLOSE \<equiv> 0x20"
abbreviation (input) AFD_POLL_ACCEPT :: uint32 where "AFD_POLL_ACCEPT \<equiv> 0x80"
abbreviation (input) AFD_POLL_CONNECT_FAIL :: uint32 where "AFD_POLL_CONNECT_FAIL \<equiv> 0x100"

abbreviation (input) EP_READINESS_CLASS_READ :: uint8 where "EP_READINESS_CLASS_READ \<equiv> 1"
abbreviation (input) EP_READINESS_CLASS_WRITE :: uint8 where "EP_READINESS_CLASS_WRITE \<equiv> 2"
abbreviation (input) EP_READINESS_CLASS_TERMINAL :: uint8 where "EP_READINESS_CLASS_TERMINAL \<equiv> 4"

datatype ep_socket_protocol =
    EP_SOCKET_PROTOCOL_UNKNOWN | EP_SOCKET_PROTOCOL_UDP | EP_SOCKET_PROTOCOL_TCP

text \<open>A C condition \<open>if (w & m)\<close>.\<close>

definition tests :: "uint32 \<Rightarrow> uint32 \<Rightarrow> bool" where
  "tests w m \<longleftrightarrow> w AND m \<noteq> 0"

definition has_class :: "uint8 \<Rightarrow> uint8 \<Rightarrow> bool" where
  "has_class w m \<longleftrightarrow> w AND m \<noteq> 0"

section \<open>AFD and epoll\<close>

definition ep_afd_to_epoll_events :: "uint32 \<Rightarrow> ntstatus \<Rightarrow> ep_socket_protocol \<Rightarrow> uint32" where
  "ep_afd_to_epoll_events afd_events afd_status socket_protocol =
    (let out = (if sint afd_status < 0 then EPOLLERR else 0);
         out = (if tests afd_events (AFD_POLL_RECEIVE OR AFD_POLL_ACCEPT)
                then out OR EPOLLIN OR EPOLLRDNORM else out);
         out = (if tests afd_events AFD_POLL_RECEIVE_EXPEDITED then out OR EPOLLPRI else out);
         out = (if tests afd_events AFD_POLL_SEND then out OR EPOLLOUT OR EPOLLWRNORM else out);
         out = (if tests afd_events AFD_POLL_DISCONNECT
                then out OR EPOLLIN OR EPOLLRDNORM OR EPOLLRDHUP else out);
         out = (if tests afd_events AFD_POLL_ABORT
                then (if socket_protocol \<noteq> EP_SOCKET_PROTOCOL_UDP then out OR EPOLLERR OR EPOLLHUP
                      else out OR EPOLLERR)
                else out);
         out = (if tests afd_events AFD_POLL_CONNECT_FAIL
                then out OR EPOLLIN OR EPOLLOUT OR EPOLLERR OR EPOLLHUP OR EPOLLRDNORM OR
                     EPOLLWRNORM OR EPOLLRDHUP
                else out);
         out = (if tests afd_events AFD_POLL_LOCAL_CLOSE then out OR EPOLLHUP else out)
     in out)"

definition ep_epoll_to_afd_events :: "uint32 \<Rightarrow> uint32" where
  "ep_epoll_to_afd_events epoll_events =
    (let afd = AFD_POLL_ABORT OR AFD_POLL_CONNECT_FAIL OR AFD_POLL_LOCAL_CLOSE;
         afd = (if tests epoll_events (EPOLLIN OR EPOLLRDNORM)
                then afd OR AFD_POLL_RECEIVE OR AFD_POLL_ACCEPT OR AFD_POLL_DISCONNECT
                else if tests epoll_events EPOLLRDHUP then afd OR AFD_POLL_DISCONNECT
                else afd);
         afd = (if tests epoll_events EPOLLPRI then afd OR AFD_POLL_RECEIVE_EXPEDITED else afd);
         afd = (if tests epoll_events (EPOLLOUT OR EPOLLWRNORM) then afd OR AFD_POLL_SEND else afd)
     in afd)"

section \<open>Readiness classes\<close>

abbreviation (input) READ_EVENTS :: uint32 where
  "READ_EVENTS \<equiv> EPOLLIN OR EPOLLRDNORM OR EPOLLRDHUP OR EPOLLPRI"

abbreviation (input) WRITE_EVENTS :: uint32 where "WRITE_EVENTS \<equiv> EPOLLOUT OR EPOLLWRNORM"

abbreviation (input) TERMINAL_EVENTS :: uint32 where "TERMINAL_EVENTS \<equiv> EPOLLERR OR EPOLLHUP"

definition ep_readiness_classes :: "uint32 \<Rightarrow> uint8" where
  "ep_readiness_classes delivered =
    (let classes = 0;
         classes = (if tests delivered READ_EVENTS then classes OR EP_READINESS_CLASS_READ else classes);
         classes = (if tests delivered WRITE_EVENTS then classes OR EP_READINESS_CLASS_WRITE else classes);
         classes = (if tests delivered TERMINAL_EVENTS then classes OR EP_READINESS_CLASS_TERMINAL
                    else classes)
     in classes)"

definition ep_readiness_class_afd_events :: "uint8 \<Rightarrow> uint32" where
  "ep_readiness_class_afd_events readiness_class =
    (if readiness_class = EP_READINESS_CLASS_READ
     then AFD_POLL_RECEIVE OR AFD_POLL_RECEIVE_EXPEDITED OR AFD_POLL_ACCEPT OR AFD_POLL_DISCONNECT
     else if readiness_class = EP_READINESS_CLASS_WRITE then AFD_POLL_SEND
     else if readiness_class = EP_READINESS_CLASS_TERMINAL
     then AFD_POLL_ABORT OR AFD_POLL_CONNECT_FAIL OR AFD_POLL_LOCAL_CLOSE
     else 0)"

definition ep_readiness_filter_classes :: "uint32 \<Rightarrow> uint8 \<Rightarrow> uint32" where
  "ep_readiness_filter_classes delivered denied_classes =
    (let delivered = (if has_class denied_classes EP_READINESS_CLASS_READ
                      then delivered AND NOT READ_EVENTS else delivered);
         delivered = (if has_class denied_classes EP_READINESS_CLASS_WRITE
                      then delivered AND NOT WRITE_EVENTS else delivered);
         delivered = (if has_class denied_classes EP_READINESS_CLASS_TERMINAL
                      then delivered AND NOT TERMINAL_EVENTS else delivered)
     in delivered)"

text \<open>The loops over the class bits READ, WRITE, TERMINAL.\<close>

definition class_bits :: "uint8 list" where
  "class_bits = [EP_READINESS_CLASS_READ, EP_READINESS_CLASS_WRITE, EP_READINESS_CLASS_TERMINAL]"

definition ep_readiness_classes_afd_events :: "uint8 \<Rightarrow> uint32" where
  "ep_readiness_classes_afd_events classes =
     foldl (\<lambda>afd_events b. if has_class classes b
                           then afd_events OR ep_readiness_class_afd_events b else afd_events)
       0 class_bits"

definition ep_explicit_delivery_classes :: "uint32 \<Rightarrow> uint8" where
  "ep_explicit_delivery_classes delivered =
    (let classes = ep_readiness_classes delivered
     in if has_class classes EP_READINESS_CLASS_TERMINAL
        then classes OR EP_READINESS_CLASS_READ OR EP_READINESS_CLASS_WRITE
        else classes)"

definition ep_exclusive_quiescent_classes :: "uint32 \<Rightarrow> uint8" where
  "ep_exclusive_quiescent_classes submitted_afd_events =
     foldl (\<lambda>classes b.
       let class_events = ep_readiness_class_afd_events b;
           class_events = (if b = EP_READINESS_CLASS_READ
                           then class_events AND NOT AFD_POLL_RECEIVE_EXPEDITED else class_events)
       in if class_events AND NOT submitted_afd_events = 0 then classes OR b else classes)
     0 class_bits"

section \<open>Mask algebra\<close>

text \<open>Tests distribute over the unions and conditionals the masks are built from.\<close>

lemma word_or_eq_0: "(v :: 'a::len word) OR w = 0 \<longleftrightarrow> v = 0 \<and> w = 0"
  by (auto simp: bit_eq_iff bit_or_iff)

lemma tests_commute: "tests v w = tests w v"
  by (simp add: tests_def and.commute)

lemma tests_or_right: "tests w (x OR y) \<longleftrightarrow> tests w x \<or> tests w y"
  by (simp add: tests_def bit.conj_disj_distrib word_or_eq_0)

lemma tests_or_left: "tests (x OR y) w \<longleftrightarrow> tests x w \<or> tests y w"
  using tests_or_right tests_commute by metis

lemma tests_if: "tests w (if b then x else y) = (if b then tests w x else tests w y)"
  by simp

lemma tests_zero [simp]: "\<not> tests w 0" "\<not> tests 0 w"
  by (simp_all add: tests_def)

lemma tests_numerals [simp]:
  "tests (numeral k) (numeral m) \<longleftrightarrow> (numeral k :: uint32) AND numeral m \<noteq> 0"
  "tests 1 (numeral m) \<longleftrightarrow> (1 :: uint32) AND numeral m \<noteq> 0"
  "tests (numeral k) 1 \<longleftrightarrow> (numeral k :: uint32) AND 1 \<noteq> 0"
  "tests 1 1"
  by (simp_all add: tests_def)

lemmas mask_algebra = Let_def tests_or_right tests_or_left tests_if

section \<open>Facts\<close>

text \<open>
  (C23) What AFD completes is what the caller can be told: for a successful poll status, an AFD event
  set meets the mask requested for an interest exactly when its translation contains an event of
  that interest, or one of the always-reported EPOLLERR and EPOLLHUP.
\<close>

theorem afd_mask_exact:
  assumes "0 \<le> sint st"
  shows "tests a (ep_epoll_to_afd_events u) \<longleftrightarrow>
    tests (u OR EPOLLERR OR EPOLLHUP) (ep_afd_to_epoll_events a st p)"
proof -
  have st: "(sint st < 0) = False" using assms by simp
  show ?thesis
    unfolding ep_epoll_to_afd_events_def ep_afd_to_epoll_events_def st
    by (simp only: mask_algebra) auto
qed

theorem afd_mask_exact_witness:
  "tests AFD_POLL_RECEIVE (ep_epoll_to_afd_events EPOLLIN) \<and>
   tests (EPOLLIN OR EPOLLERR OR EPOLLHUP)
     (ep_afd_to_epoll_events AFD_POLL_RECEIVE 0 EP_SOCKET_PROTOCOL_TCP)"
proof -
  have "tests AFD_POLL_RECEIVE (ep_epoll_to_afd_events EPOLLIN)"
    by (simp add: ep_epoll_to_afd_events_def tests_def)
  then show ?thesis
    using afd_mask_exact [of 0 AFD_POLL_RECEIVE EPOLLIN EP_SOCKET_PROTOCOL_TCP] by simp
qed

text \<open>Every delivered event belongs to exactly the classes its bits name.\<close>

lemma tests_and: "tests (d AND x) m = tests d (x AND m)"
  by (simp add: tests_def and.assoc)

lemma has_class_algebra [simp]:
  "has_class (x OR y) k \<longleftrightarrow> has_class x k \<or> has_class y k"
  "has_class (if b then x else y) k = (if b then has_class x k else has_class y k)"
  "\<not> has_class 0 k"
  by (simp_all add: has_class_def bit.conj_disj_distrib2 word_or_eq_0)

lemma has_class_not [simp]:
  "has_class (NOT y) 1 \<longleftrightarrow> \<not> has_class y 1"
  "has_class (NOT y) 2 \<longleftrightarrow> \<not> has_class y 2"
  "has_class (NOT y) 4 \<longleftrightarrow> \<not> has_class y 4"
  by (simp_all add: has_class_def mask_simps)

lemma has_class_and [simp]:
  "has_class (x AND y) 1 \<longleftrightarrow> has_class x 1 \<and> has_class y 1"
  "has_class (x AND y) 2 \<longleftrightarrow> has_class x 2 \<and> has_class y 2"
  "has_class (x AND y) 4 \<longleftrightarrow> has_class x 4 \<and> has_class y 4"
  by (simp_all add: has_class_def mask_simps)

lemma has_class_bits [simp]:
  "has_class 1 1" "\<not> has_class 1 2" "\<not> has_class 1 4"
  "\<not> has_class 2 1" "has_class 2 2" "\<not> has_class 2 4"
  "\<not> has_class 4 1" "\<not> has_class 4 2" "has_class 4 4"
  by (simp_all add: has_class_def)

lemma readiness_classes_iff [simp]:
  "has_class (ep_readiness_classes d) 1 \<longleftrightarrow> tests d READ_EVENTS"
  "has_class (ep_readiness_classes d) 2 \<longleftrightarrow> tests d WRITE_EVENTS"
  "has_class (ep_readiness_classes d) 4 \<longleftrightarrow> tests d TERMINAL_EVENTS"
  by (simp_all add: ep_readiness_classes_def Let_def)

text \<open>Class masks, words whose bits are among the three classes, are equal when they agree on them.\<close>

definition class_mask :: "uint8 \<Rightarrow> bool" where
  "class_mask k \<longleftrightarrow> k AND NOT 7 = 0"

lemma class_mask_eqI:
  assumes "class_mask x" "class_mask y"
    and "has_class x 1 = has_class y 1" "has_class x 2 = has_class y 2" "has_class x 4 = has_class y 4"
  shows "x = y"
  using assms by (intro uint8_eqI) (simp add: class_mask_def has_class_def mask_simps)

lemma class_mask_simps [simp]:
  "class_mask 0" "class_mask 1" "class_mask 2" "class_mask 4"
  "class_mask x \<Longrightarrow> class_mask y \<Longrightarrow> class_mask (x OR y)"
  "class_mask x \<Longrightarrow> class_mask (x AND y)"
  "class_mask y \<Longrightarrow> class_mask (x AND y)"
  by (simp_all add: class_mask_def mask_simps)

lemma class_mask_classes [simp]: "class_mask (ep_readiness_classes d)"
  by (simp add: ep_readiness_classes_def Let_def)

lemma class_mask_zero_iff:
  "class_mask k \<Longrightarrow> k = 0 \<longleftrightarrow> \<not> has_class k 1 \<and> \<not> has_class k 2 \<and> \<not> has_class k 4"
  using class_mask_eqI [of k 0] by auto

text \<open>Filtering removes the denied classes and nothing else.\<close>

lemma filter_classes_events:
  "tests (ep_readiness_filter_classes d k) READ_EVENTS \<longleftrightarrow> tests d READ_EVENTS \<and> \<not> has_class k 1"
  "tests (ep_readiness_filter_classes d k) WRITE_EVENTS \<longleftrightarrow> tests d WRITE_EVENTS \<and> \<not> has_class k 2"
  "tests (ep_readiness_filter_classes d k) TERMINAL_EVENTS \<longleftrightarrow>
     tests d TERMINAL_EVENTS \<and> \<not> has_class k 4"
  by (simp_all add: ep_readiness_filter_classes_def Let_def tests_and)

lemma filter_classes_exact:
  "ep_readiness_classes (ep_readiness_filter_classes d k) = ep_readiness_classes d AND NOT k"
  by (rule class_mask_eqI) (simp_all add: filter_classes_events [simplified])

end
