(* ===== verification/Ep_Types.thy ===== *)
theory Ep_Types
  imports Ep_Ready Ep_Events
begin

text \<open>
  The data of \<^verbatim>\<open>src/src/wepoll_ex_internal.h\<close>: the registration \<open>ep_sock\<close>, the epoll instance
  \<open>ep_port\<close>, AFD groups, and the ready node, as records with the fields of the structures (grouped
  as the header groups them), and the program state that holds them.  Blocks are addressed by
  numbers; a pointer is an optional address.  Mutexes are not data of the model: an operation that
  runs under a lock is one step.  The build is the default one, with the endpoint identity checks
  and without the large AFD index.
\<close>

section \<open>Enumerations\<close>

datatype ep_sock_state =
    EP_SOCK_INVALID | EP_SOCK_REGISTERED | EP_SOCK_POLLING | EP_SOCK_READY | EP_SOCK_DELETED

datatype ep_poll_status = EP_POLL_IDLE | EP_POLL_PENDING | EP_POLL_CANCELLED

datatype ep_socket_identity_state =
    EP_SOCKET_ID_UNAVAILABLE | EP_SOCKET_ID_TRANSITIONAL | EP_SOCKET_ID_STABLE

datatype ep_reg_kind = EP_REG_SOCKET | EP_REG_WAITABLE | EP_REG_PIPE

datatype ep_socket_async_read_capability =
    EP_SOCKET_ASYNC_READ_UNKNOWN | EP_SOCKET_ASYNC_READ_SAFE | EP_SOCKET_ASYNC_READ_UNSAFE

datatype ep_waitable_semantics =
    EP_WAITABLE_NONE | EP_WAITABLE_PERSISTENT | EP_WAITABLE_TERMINAL | EP_WAITABLE_CONSUMPTIVE
  | EP_WAITABLE_ET_UNSUPPORTED

datatype ep_timeout_capability =
    EP_TIMEOUT_CAPABILITY_UNKNOWN | EP_TIMEOUT_CAPABILITY_AVAILABLE
  | EP_TIMEOUT_CAPABILITY_UNAVAILABLE

abbreviation (input) EP_LOCAL_SHUTDOWN_READ :: uint8 where "EP_LOCAL_SHUTDOWN_READ \<equiv> 1"
abbreviation (input) EP_LOCAL_SHUTDOWN_WRITE :: uint8 where "EP_LOCAL_SHUTDOWN_WRITE \<equiv> 2"

abbreviation (input) WEPOLL_INITIAL_FDS :: nat where "WEPOLL_INITIAL_FDS \<equiv> 256"
abbreviation (input) WEPOLL_AFD_POOL_SIZE :: nat where "WEPOLL_AFD_POOL_SIZE \<equiv> 64"
abbreviation (input) WEPOLL_AFD_GROUP_SIZE :: nat where "WEPOLL_AFD_GROUP_SIZE \<equiv> 128"

abbreviation (input) WEPOLL_FLAG_ONESHOT_FIRED :: uint32 where "WEPOLL_FLAG_ONESHOT_FIRED \<equiv> 1"

section \<open>Small structures\<close>

type_synonym epoll_data = uint64

record epoll_event =
  ev_events :: uint32
  ev_data :: epoll_data

record ep_ready_node =
  rn_data :: epoll_data
  rn_user_ctx :: uint64
  rn_fd :: sock_fd
  rn_sock_generation :: uint64
  rn_events :: uint32
  rn_flags :: uint32
  rn_timestamp :: uint64

record afd_poll_info =
  api_timeout :: uint64
  api_number_of_handles :: uint32
  api_exclusive :: uint32
  api_handle :: handle
  api_events :: uint32
  api_status :: ntstatus

record ep_afd_group =
  ag_afd :: handle
  ag_socket_count :: nat
  ag_next :: "addr option"
  ag_prev :: "addr option"
  ag_available_next :: "addr option"
  ag_available_prev :: "addr option"

section \<open>The registration\<close>

text \<open>Linkage, descriptor and kind.\<close>

record ep_sock_base =
  sk_next :: "addr option"
  sk_prev :: "addr option"
  sk_fd :: sock_fd
  sk_base_socket :: sock_fd
  sk_kind :: ep_reg_kind
  sk_waitable_semantics :: ep_waitable_semantics
  sk_pipe_access :: uint8
  sk_pipe_synchronous_io :: bool
  sk_socket_protocol :: ep_socket_protocol
  sk_udp_afd_qualifier_eligible :: bool
  sk_async_read_capability :: ep_socket_async_read_capability
  sk_udp_readless_receive_parked :: bool
  sk_local_shutdown :: uint8

text \<open>Endpoint identity.\<close>

record ep_sock_identity = ep_sock_base +
  sk_endpoint_id :: uint64
  sk_endpoint_id_state :: ep_socket_identity_state
  sk_identity_checked_epoch :: uint64
  sk_identity_checked_result :: int
  sk_base_socket_identity :: uint64
  sk_base_socket_cached :: bool

text \<open>The caller's event mask, the state machine and the event latches.\<close>

record ep_sock_events = ep_sock_identity +
  sk_user_events :: uint32
  sk_user_flags :: uint32
  sk_user_data :: epoll_data
  sk_user_ctx :: uint64
  sk_state :: ep_sock_state
  sk_pending_events :: uint32
  sk_submitted_afd_events :: uint32
  sk_submitted_wait_epoch :: uint64
  sk_observed_events :: uint32
  sk_explicit_disarmed_classes :: uint8

text \<open>The poll lifecycle.\<close>

record ep_sock_poll = ep_sock_events +
  sk_poll_status :: ep_poll_status
  sk_delete_pending :: bool
  sk_ready_queued :: bool
  sk_callback_active :: bool
  sk_completion_posted :: bool
  sk_waitable_notification_owned :: bool
  sk_oneshot_fired :: bool
  sk_needs_rearm :: bool
  sk_pipe_terminal_delivered :: bool
  sk_et_holdoff :: bool

text \<open>Index memberships, work lists and owned resources.\<close>

record ep_sock = ep_sock_poll +
  sk_afd_poll_target :: handle
  sk_afd_poll_key_reservation :: handle
  sk_afd_poll_key_next :: "addr option"
  sk_afd_poll_key_owned :: bool
  sk_exclusive_next :: "addr option"
  sk_exclusive_prev :: "addr option"
  sk_exclusive_claim_base :: sock_fd
  sk_exclusive_claim_classes :: uint8
  sk_rearm_next :: "addr option"
  sk_rearm_prev :: "addr option"
  sk_oneshot_next :: "addr option"
  sk_oneshot_prev :: "addr option"
  sk_iosb_status :: ntstatus
  sk_generation :: uint64
  sk_afd_info :: "addr option"
  sk_afd_group :: "addr option"
  sk_wait_registration :: handle
  sk_port :: addr

section \<open>The epoll instance\<close>

text \<open>IOCP, groups, fd table and ready queue.  The two pools are the pools of the port's address.\<close>

record ep_port_core =
  pt_iocp :: handle
  pt_iocp_post_handle :: handle
  pt_afd_group :: addr
  pt_afd_available :: "addr option"
  pt_udp_probe_event :: handle
  pt_fd_table :: "addr option list"
  pt_fd_table_count :: nat
  pt_sock_list_head :: "addr option"
  pt_ready_queue :: ep_ready_queue
  pt_iocp_batch_size :: nat
  pt_close_on_exec :: bool
  pt_explicit_rearm :: bool

text \<open>Waiting, waking and closing.\<close>

record ep_port_wait = ep_port_core +
  pt_waiter_active :: bool
  pt_active_wait_epoch :: uint64
  pt_next_wait_epoch :: uint64
  pt_waiter_coalescing :: bool
  pt_wake_pending :: int
  pt_wake_event :: epoll_event
  pt_wake_requests :: uint64
  pt_wake_coalesced :: uint64
  pt_wake_returns :: uint64
  pt_closing :: bool
  pt_iocp_closed :: bool
  pt_iocp_post_error :: int
  pt_iocp_post_failures :: uint64
  pt_pending_poll_count :: nat

text \<open>Deferred work, counters and configuration.\<close>

record ep_port = ep_port_wait +
  pt_rearm_head :: "addr option"
  pt_rearm_tail :: "addr option"
  pt_oneshot_head :: "addr option"
  pt_oneshot_tail :: "addr option"
  pt_needs_rearm_count :: nat
  pt_oneshot_fired_count :: nat
  pt_rearm_work_visits :: uint64
  pt_oneshot_probe_visits :: uint64
  pt_stale_events_dropped :: uint64
  pt_identity_failures :: uint64
  pt_asynchronous_errors :: uint64
  pt_zero_timeout_budget_hits :: uint64
  pt_tcp_current_level_probes :: uint64
  pt_tcp_current_level_fallbacks :: uint64
  pt_async_error :: int
  pt_close_drain_timeout_ms :: uint64
  pt_quarantine_drain_timeout_ms :: uint64
  pt_next_sock_generation :: uint64
  pt_qpc_frequency :: int
  pt_generation :: uint64
  pt_precise_timeout_capability :: ep_timeout_capability
  pt_precise_timeout_timer :: handle
  pt_precise_timeout_wait :: handle
  pt_precise_timeout_generation :: uint64
  pt_precise_timeout_active_generation :: uint64
  pt_precise_timeout_armed :: bool
  pt_precise_timeout_post_failures :: uint64

text \<open>Zero-initialised blocks, as \<open>calloc\<close> returns them.\<close>

definition ep_sock_zero :: ep_sock where
  "ep_sock_zero = \<lparr> sk_next = None, sk_prev = None, sk_fd = 0, sk_base_socket = 0,
     sk_kind = EP_REG_SOCKET, sk_waitable_semantics = EP_WAITABLE_NONE, sk_pipe_access = 0,
     sk_pipe_synchronous_io = False, sk_socket_protocol = EP_SOCKET_PROTOCOL_UNKNOWN,
     sk_udp_afd_qualifier_eligible = False,
     sk_async_read_capability = EP_SOCKET_ASYNC_READ_UNKNOWN,
     sk_udp_readless_receive_parked = False, sk_local_shutdown = 0, sk_endpoint_id = 0,
     sk_endpoint_id_state = EP_SOCKET_ID_UNAVAILABLE, sk_identity_checked_epoch = 0,
     sk_identity_checked_result = 0, sk_base_socket_identity = 0, sk_base_socket_cached = False,
     sk_user_events = 0, sk_user_flags = 0, sk_user_data = 0, sk_user_ctx = 0,
     sk_state = EP_SOCK_INVALID, sk_pending_events = 0, sk_submitted_afd_events = 0,
     sk_submitted_wait_epoch = 0, sk_observed_events = 0, sk_explicit_disarmed_classes = 0,
     sk_poll_status = EP_POLL_IDLE, sk_delete_pending = False, sk_ready_queued = False,
     sk_callback_active = False, sk_completion_posted = False,
     sk_waitable_notification_owned = False, sk_oneshot_fired = False, sk_needs_rearm = False,
     sk_pipe_terminal_delivered = False, sk_et_holdoff = False, sk_afd_poll_target = 0,
     sk_afd_poll_key_reservation = 0, sk_afd_poll_key_next = None, sk_afd_poll_key_owned = False,
     sk_exclusive_next = None, sk_exclusive_prev = None, sk_exclusive_claim_base = 0,
     sk_exclusive_claim_classes = 0, sk_rearm_next = None, sk_rearm_prev = None,
     sk_oneshot_next = None, sk_oneshot_prev = None, sk_iosb_status = 0, sk_generation = 0,
     sk_afd_info = None, sk_afd_group = None, sk_wait_registration = 0, sk_port = 0 \<rparr>"

definition ep_port_zero :: ep_port where
  "ep_port_zero = \<lparr> pt_iocp = 0, pt_iocp_post_handle = 0, pt_afd_group = 0,
     pt_afd_available = None, pt_udp_probe_event = 0, pt_fd_table = [], pt_fd_table_count = 0,
     pt_sock_list_head = None, pt_ready_queue = ep_ready_queue_zero, pt_iocp_batch_size = 0,
     pt_close_on_exec = False, pt_explicit_rearm = False, pt_waiter_active = False,
     pt_active_wait_epoch = 0, pt_next_wait_epoch = 0, pt_waiter_coalescing = False,
     pt_wake_pending = 0, pt_wake_event = \<lparr> ev_events = 0, ev_data = 0 \<rparr>,
     pt_wake_requests = 0, pt_wake_coalesced = 0, pt_wake_returns = 0, pt_closing = False,
     pt_iocp_closed = False, pt_iocp_post_error = 0, pt_iocp_post_failures = 0,
     pt_pending_poll_count = 0, pt_rearm_head = None, pt_rearm_tail = None,
     pt_oneshot_head = None, pt_oneshot_tail = None, pt_needs_rearm_count = 0,
     pt_oneshot_fired_count = 0, pt_rearm_work_visits = 0, pt_oneshot_probe_visits = 0,
     pt_stale_events_dropped = 0, pt_identity_failures = 0, pt_asynchronous_errors = 0,
     pt_zero_timeout_budget_hits = 0, pt_tcp_current_level_probes = 0,
     pt_tcp_current_level_fallbacks = 0, pt_async_error = 0, pt_close_drain_timeout_ms = 0,
     pt_quarantine_drain_timeout_ms = 0, pt_next_sock_generation = 0, pt_qpc_frequency = 0,
     pt_generation = 0, pt_precise_timeout_capability = EP_TIMEOUT_CAPABILITY_UNKNOWN,
     pt_precise_timeout_timer = 0, pt_precise_timeout_wait = 0, pt_precise_timeout_generation = 0,
     pt_precise_timeout_active_generation = 0, pt_precise_timeout_armed = False,
     pt_precise_timeout_post_failures = 0 \<rparr>"

definition ep_afd_group_zero :: ep_afd_group where
  "ep_afd_group_zero = \<lparr> ag_afd = 0, ag_socket_count = 0, ag_next = None, ag_prev = None,
     ag_available_next = None, ag_available_prev = None \<rparr>"

section \<open>The program state\<close>

record 'os ep_world = "'os ep_pool_env" +
  socks :: "addr \<Rightarrow> ep_sock option"
  ports :: "addr \<Rightarrow> ep_port option"
  groups :: "addr \<Rightarrow> ep_afd_group option"
  ready_nodes_mem :: "addr \<Rightarrow> ep_ready_node"
  afd_infos :: "addr \<Rightarrow> afd_poll_info"
  g_exclusive_claim_buckets :: "nat \<Rightarrow> addr option"
  g_afd_poll_key_buckets :: "nat \<Rightarrow> addr option"

text \<open>The state before any block is allocated.\<close>

definition ep_world_zero :: "'os \<Rightarrow> 'os ep_world" where
  "ep_world_zero os = \<lparr> ep_errno = 0, g_last_error_info = error_info_zero, g_fault_mask = 0,
     g_fault_slots = (\<lambda>_. \<lparr> fs_fail_at = 0, fs_hits = 0, fs_error = 0 \<rparr>), os_state = os, ep_ub = False,
     pools = (\<lambda>_. ep_afd_pool_zero), pool_heap = Map.empty, pool_next_addr = 0, socks = Map.empty,
     ports = Map.empty, groups = Map.empty,
     ready_nodes_mem = (\<lambda>_. \<lparr> rn_data = 0, rn_user_ctx = 0, rn_fd = 0, rn_sock_generation = 0,
       rn_events = 0, rn_flags = 0, rn_timestamp = 0 \<rparr>),
     afd_infos = (\<lambda>_. \<lparr> api_timeout = 0, api_number_of_handles = 0, api_exclusive = 0,
       api_handle = 0, api_events = 0, api_status = 0 \<rparr>),
     g_exclusive_claim_buckets = (\<lambda>_. None), g_afd_poll_key_buckets = (\<lambda>_. None) \<rparr>"

section \<open>Access to the program state\<close>

text \<open>Reads and writes through a pointer; one that does not point to a live block is recorded as
  a bad access.\<close>

definition port_read :: "addr \<Rightarrow> (ep_port \<Rightarrow> 'a) \<Rightarrow> (('os, 'z) ep_world_scheme, 'a) state" where
  "port_read p f = do {
     ok \<leftarrow> gets (\<lambda>s. ports s p \<noteq> None);
     when_do (\<not> ok) bad_access;
     gets (\<lambda>s. f (the (ports s p)))
   }"

definition port_upd :: "addr \<Rightarrow> (ep_port \<Rightarrow> ep_port) \<Rightarrow> (('os, 'z) ep_world_scheme, unit) state" where
  "port_upd p f = modify (\<lambda>s. case ports s p of
      None \<Rightarrow> s \<lparr> ep_ub := True \<rparr>
    | Some q \<Rightarrow> s \<lparr> ports := (ports s)(p \<mapsto> f q) \<rparr>)"

definition sock_read :: "addr \<Rightarrow> (ep_sock \<Rightarrow> 'a) \<Rightarrow> (('os, 'z) ep_world_scheme, 'a) state" where
  "sock_read a f = do {
     ok \<leftarrow> gets (\<lambda>s. socks s a \<noteq> None);
     when_do (\<not> ok) bad_access;
     gets (\<lambda>s. f (the (socks s a)))
   }"

definition sock_upd :: "addr \<Rightarrow> (ep_sock \<Rightarrow> ep_sock) \<Rightarrow> (('os, 'z) ep_world_scheme, unit) state" where
  "sock_upd a f = modify (\<lambda>s. case socks s a of
      None \<Rightarrow> s \<lparr> ep_ub := True \<rparr>
    | Some k \<Rightarrow> s \<lparr> socks := (socks s)(a \<mapsto> f k) \<rparr>)"

definition assert_that :: "bool \<Rightarrow> (('os, 'z) ep_env_scheme, unit) state" where
  "assert_that b = when_do (\<not> b) bad_access"

lemma wp_port_read [wp_simps]: "ports s p = Some q \<Longrightarrow> wp (port_read p f) Q s = Q (f q) s"
  by (simp add: port_read_def wp_simps)

lemma wp_port_upd [wp_simps]:
  "ports s p = Some q \<Longrightarrow> wp (port_upd p f) Q s = Q () (s \<lparr> ports := (ports s)(p \<mapsto> f q) \<rparr>)"
  by (simp add: port_upd_def wp_simps)

lemma wp_sock_read [wp_simps]: "socks s a = Some k \<Longrightarrow> wp (sock_read a f) Q s = Q (f k) s"
  by (simp add: sock_read_def wp_simps)

lemma wp_sock_upd [wp_simps]:
  "socks s a = Some k \<Longrightarrow> wp (sock_upd a f) Q s = Q () (s \<lparr> socks := (socks s)(a \<mapsto> f k) \<rparr>)"
  by (simp add: sock_upd_def wp_simps)

lemma wp_assert_that [wp_simps]: "b \<Longrightarrow> wp (assert_that b) Q s = Q () s"
  by (simp add: assert_that_def wp_simps)

end
