(* ===== verification/Fd_Contract.thy ===== *)
theory Fd_Contract
  imports Prelude
begin

text \<open>
  What the port relies on in its descriptor index: a finite set of registrations with distinct
  descriptors, looked up by descriptor.  The client lemmas say how the lookup function, as a map,
  changes under insertion and removal.
\<close>

locale fd_index =
  fixes inv :: "'t \<Rightarrow> bool"
    and contents :: "'t \<Rightarrow> 'a set"
    and key :: "'a \<Rightarrow> 'k"
    and lookup :: "'t \<Rightarrow> 'k \<Rightarrow> 'a option"
    and ins :: "bool \<Rightarrow> 't \<Rightarrow> 'a \<Rightarrow> 't option"
    and del :: "'t \<Rightarrow> 'a \<Rightarrow> 't"
  assumes lookup_iff: "inv t \<Longrightarrow> lookup t k = Some a \<longleftrightarrow> a \<in> contents t \<and> key a = k"
    and ins_ok: "inv t \<Longrightarrow> lookup t (key a) = None \<Longrightarrow> ins room t a = Some t' \<Longrightarrow>
      inv t' \<and> contents t' = insert a (contents t)"
    and del_ok: "inv t \<Longrightarrow> inv (del t a) \<and> contents (del t a) = contents t - {a}"

context fd_index
begin

lemma lookup_eqI:
  assumes "inv t" "inv t'" "\<And>a. a \<in> contents t \<and> key a = k \<longleftrightarrow> a \<in> contents t' \<and> key a = k'"
  shows "lookup t k = lookup t' k'"
  using lookup_iff [OF assms(1)] lookup_iff [OF assms(2)] assms(3) by (metis option.exhaust)

lemma lookup_ins:
  assumes "inv t" "lookup t (key a) = None" "ins room t a = Some t'"
  shows "lookup t' = (lookup t)(key a \<mapsto> a)"
proof
  fix k
  have t': "inv t'" "contents t' = insert a (contents t)" using ins_ok [OF assms] by auto
  show "lookup t' k = ((lookup t)(key a \<mapsto> a)) k"
  proof (cases "k = key a")
    case True
    then show ?thesis using t' lookup_iff [OF t'(1), of k a] by simp
  next
    case False
    then show ?thesis using t' assms(1) lookup_eqI [of t' t k k] by auto
  qed
qed

lemma lookup_del:
  assumes "inv t" "lookup t k = Some a"
  shows "lookup (del t a) = (lookup t)(k := None)"
proof
  fix k'
  have t': "inv (del t a)" "contents (del t a) = contents t - {a}" using del_ok [OF assms(1)] by auto
  have a: "a \<in> contents t" "key a = k" using assms lookup_iff by auto
  have u: "b = a" if "b \<in> contents t" "key b = k" for b
    using that lookup_iff [OF assms(1), of k b] assms(2) by simp
  show "lookup (del t a) k' = ((lookup t)(k := None)) k'"
  proof (cases "k' = k")
    case True
    have "lookup (del t a) k \<noteq> Some b" for b
      using lookup_iff [OF t'(1), of k b] t'(2) u by auto
    then show ?thesis using True by (cases "lookup (del t a) k") auto
  next
    case False
    then show ?thesis using t' a assms(1) lookup_eqI [of "del t a" t k' k'] by auto
  qed
qed

end

end
