(* ===== verification/Ep_Fd_Table.thy ===== *)
theory Ep_Fd_Table
  imports Ep_Types Fd_Contract
begin

text \<open>
  The fd table of a port, \<^verbatim>\<open>src/src/wepoll_ex_port.c\<close>: open addressing with linear probing,
  growth at three quarters, and deletion that re-seats the rest of the probe cluster.  The
  functions on the slot array take the map from registrations to descriptors as an argument; the
  operations on the port, at the end, read it from the registrations.
\<close>

section \<open>Slot arrays\<close>

definition fd_hash :: "sock_fd \<Rightarrow> nat \<Rightarrow> nat" where
  "fd_hash fd table_size = unat fd mod table_size"

text \<open>The probing loops.  The fuel is the number of slots; the result None means that a loop
  without a bound of its own visited every slot and is going round.\<close>

primrec free_slot :: "nat \<Rightarrow> addr option list \<Rightarrow> nat \<Rightarrow> nat option" where
  "free_slot 0 tbl slot = None"
| "free_slot (Suc n) tbl slot =
    (if tbl ! slot \<noteq> None then free_slot n tbl ((slot + 1) mod length tbl) else Some slot)"

definition fd_place :: "(addr \<Rightarrow> sock_fd) \<Rightarrow> addr \<Rightarrow> addr option list \<Rightarrow> addr option list option" where
  "fd_place fd_of sock tbl =
    (case free_slot (length tbl) tbl (fd_hash (fd_of sock) (length tbl)) of
       None \<Rightarrow> None
     | Some slot \<Rightarrow> Some (tbl[slot := Some sock]))"

fun fd_rehash :: "(addr \<Rightarrow> sock_fd) \<Rightarrow> addr option list \<Rightarrow> addr option list \<Rightarrow> addr option list option" where
  "fd_rehash fd_of [] new_table = Some new_table"
| "fd_rehash fd_of (None # rest) new_table = fd_rehash fd_of rest new_table"
| "fd_rehash fd_of (Some sock # rest) new_table =
    (case fd_place fd_of sock new_table of
       None \<Rightarrow> None
     | Some t \<Rightarrow> fd_rehash fd_of rest t)"

primrec fd_probe :: "nat \<Rightarrow> (addr \<Rightarrow> sock_fd) \<Rightarrow> sock_fd \<Rightarrow> addr option list \<Rightarrow> nat \<Rightarrow> addr option" where
  "fd_probe 0 fd_of fd tbl slot = None"
| "fd_probe (Suc n) fd_of fd tbl slot =
    (case tbl ! slot of
       None \<Rightarrow> None
     | Some sock \<Rightarrow>
         if fd_of sock = fd then Some sock
         else fd_probe n fd_of fd tbl ((slot + 1) mod length tbl))"

definition fd_find :: "(addr \<Rightarrow> sock_fd) \<Rightarrow> addr option list \<Rightarrow> sock_fd \<Rightarrow> addr option" where
  "fd_find fd_of tbl fd =
    (if length tbl = 0 then None else fd_probe (length tbl) fd_of fd tbl (fd_hash fd (length tbl)))"

datatype slot_search = Found nat | Absent | Unbounded

primrec slot_of :: "nat \<Rightarrow> addr option list \<Rightarrow> addr \<Rightarrow> nat \<Rightarrow> slot_search" where
  "slot_of 0 tbl sock slot = Unbounded"
| "slot_of (Suc n) tbl sock slot =
    (if tbl ! slot = Some sock then Found slot
     else if tbl ! slot = None then Absent
     else slot_of n tbl sock ((slot + 1) mod length tbl))"

text \<open>The re-seating loop of the deletion: every member of the cluster after \<open>slot\<close> is taken out
  and placed again.\<close>

primrec reseat :: "nat \<Rightarrow> (addr \<Rightarrow> sock_fd) \<Rightarrow> addr option list \<Rightarrow> nat \<Rightarrow> addr option list option" where
  "reseat 0 fd_of tbl slot = None"
| "reseat (Suc n) fd_of tbl slot =
    (let scan = (slot + 1) mod length tbl in
     case tbl ! scan of
       None \<Rightarrow> Some tbl
     | Some moved \<Rightarrow>
         (case fd_place fd_of moved (tbl[scan := None]) of
            None \<Rightarrow> None
          | Some t \<Rightarrow> reseat n fd_of t scan))"

datatype fd_removal = Removed "addr option list" | Not_There | Diverges

definition fd_delete :: "(addr \<Rightarrow> sock_fd) \<Rightarrow> addr option list \<Rightarrow> addr \<Rightarrow> fd_removal" where
  "fd_delete fd_of tbl sock =
    (case slot_of (length tbl) tbl sock (fd_hash (fd_of sock) (length tbl)) of
       Found slot \<Rightarrow>
         (case reseat (length tbl) fd_of (tbl[slot := None]) slot of
            None \<Rightarrow> Diverges
          | Some t \<Rightarrow> Removed t)
     | Absent \<Rightarrow> Not_There
     | Unbounded \<Rightarrow> Diverges)"

section \<open>Circular distance\<close>

definition cdist :: "nat \<Rightarrow> nat \<Rightarrow> nat \<Rightarrow> nat" where
  "cdist n a b = (if a \<le> b then b - a else n - a + b)"

lemma step_mod: "(a::nat) < n \<Longrightarrow> k \<le> n \<Longrightarrow> (a + k) mod n = (if a + k < n then a + k else a + k - n)"
  using le_mod_geq [of n "a + k"] by (cases "a + k < n") auto

lemma cdist_less: "a < n \<Longrightarrow> b < n \<Longrightarrow> cdist n a b < n"
  by (auto simp: cdist_def)

lemma cdist_pos: "a < n \<Longrightarrow> b < n \<Longrightarrow> (a + cdist n a b) mod n = b"
  by (subst step_mod) (auto simp: cdist_def)

lemma cdist_at: "a < n \<Longrightarrow> k < n \<Longrightarrow> cdist n a ((a + k) mod n) = k"
  by (subst step_mod) (auto simp: cdist_def)

lemma cdist_self [simp]: "cdist n a a = 0"
  by (simp add: cdist_def)

lemma cdist_0: "a < n \<Longrightarrow> b < n \<Longrightarrow> cdist n a b = 0 \<longleftrightarrow> a = b"
  by (auto simp: cdist_def)

lemma cdist_next:
  "a < n \<Longrightarrow> b < n \<Longrightarrow> a \<noteq> b \<Longrightarrow> cdist n a b = Suc (cdist n ((a + 1) mod n) b)"
  by (subst step_mod) (auto simp: cdist_def)

lemma cdist_split:
  "a < n \<Longrightarrow> p < n \<Longrightarrow> b < n \<Longrightarrow> cdist n a p \<le> cdist n a b \<Longrightarrow>
   cdist n a b = cdist n a p + cdist n p b"
  by (auto simp: cdist_def split: if_splits)

lemma next_less [simp]: "(a::nat) < n \<Longrightarrow> Suc a mod n < n"
  by (rule mod_less_divisor) simp

lemma next_pos: "(a::nat) < n \<Longrightarrow> ((a + 1) mod n + k) mod n = (a + Suc k) mod n"
  by (simp add: mod_simps)

lemma later_pos: "a < n \<Longrightarrow> p < n \<Longrightarrow> (a + (cdist n a p + k)) mod n = (p + k) mod n"
  by (metis add.assoc cdist_pos mod_add_left_eq)

section \<open>Probe runs\<close>

text \<open>\<open>run tbl h i\<close>: every slot from \<open>h\<close> up to \<open>i\<close>, exclusive, is occupied.\<close>

definition run :: "addr option list \<Rightarrow> nat \<Rightarrow> nat \<Rightarrow> bool" where
  "run tbl h i \<longleftrightarrow> (\<forall>k < cdist (length tbl) h i. tbl ! ((h + k) mod length tbl) \<noteq> None)"

definition run_but :: "nat \<Rightarrow> addr option list \<Rightarrow> nat \<Rightarrow> nat \<Rightarrow> bool" where
  "run_but g tbl h i \<longleftrightarrow> (\<forall>k < cdist (length tbl) h i.
     (h + k) mod length tbl \<noteq> g \<longrightarrow> tbl ! ((h + k) mod length tbl) \<noteq> None)"

definition home :: "(addr \<Rightarrow> sock_fd) \<Rightarrow> addr option list \<Rightarrow> addr \<Rightarrow> nat" where
  "home fd_of tbl a = fd_hash (fd_of a) (length tbl)"

definition entries :: "addr option list \<Rightarrow> addr set" where
  "entries tbl = {a. Some a \<in> set tbl}"

definition slots_ok :: "(addr \<Rightarrow> sock_fd) \<Rightarrow> addr option list \<Rightarrow> bool" where
  "slots_ok fd_of tbl \<longleftrightarrow>
     (\<forall>i < length tbl. \<forall>j < length tbl. \<forall>a b. tbl ! i = Some a \<longrightarrow> tbl ! j = Some b \<longrightarrow>
        fd_of a = fd_of b \<longrightarrow> i = j) \<and>
     (\<forall>i < length tbl. \<forall>a. tbl ! i = Some a \<longrightarrow> run tbl (home fd_of tbl a) i)"

definition has_room :: "addr option list \<Rightarrow> bool" where
  "has_room tbl \<longleftrightarrow> (\<exists>f < length tbl. tbl ! f = None)"

lemma home_less: "tbl \<noteq> [] \<Longrightarrow> home fd_of tbl a < length tbl"
  by (simp add: home_def fd_hash_def)

lemma home_in: "i < length tbl \<Longrightarrow> home fd_of tbl a < length tbl"
  by (rule home_less) auto

lemma home_update [simp]: "home fd_of (tbl[i := v]) a = home fd_of tbl a"
  by (simp add: home_def)

lemma entries_iff: "a \<in> entries tbl \<longleftrightarrow> (\<exists>i < length tbl. tbl ! i = Some a)"
  by (auto simp: entries_def in_set_conv_nth)

lemma run_at: "run tbl h i \<Longrightarrow> k < cdist (length tbl) h i \<Longrightarrow> \<exists>b. tbl ! ((h + k) mod length tbl) = Some b"
  by (auto simp: run_def)

lemma run_next:
  assumes "h < length tbl" "i < length tbl" "h \<noteq> i" "run tbl h i"
  shows "run tbl ((h + 1) mod length tbl) i"
  unfolding run_def
proof (intro allI impI)
  fix k assume "k < cdist (length tbl) ((h + 1) mod length tbl) i"
  then have "Suc k < cdist (length tbl) h i" using assms cdist_next by simp
  then show "tbl ! (((h + 1) mod length tbl + k) mod length tbl) \<noteq> None"
    using run_at [OF assms(4), of "Suc k"] by (auto simp: mod_simps)
qed

text \<open>The three probing loops, from any slot.\<close>

lemma free_slot_some:
  assumes "s < length tbl" "f < length tbl" "tbl ! f = None" "cdist (length tbl) s f < n"
  shows "\<exists>t. free_slot n tbl s = Some t \<and> t < length tbl \<and> tbl ! t = None \<and> run tbl s t \<and>
    cdist (length tbl) s t \<le> cdist (length tbl) s f"
  using assms
proof (induction n arbitrary: s)
  case (Suc n)
  show ?case
  proof (cases "tbl ! s = None")
    case True
    then show ?thesis using Suc.prems by (simp add: run_def)
  next
    case False
    with Suc.prems have "s \<noteq> f" by auto
    let ?s = "(s + 1) mod length tbl"
    have s': "?s < length tbl" using Suc.prems by simp
    have d: "cdist (length tbl) s f = Suc (cdist (length tbl) ?s f)"
      using Suc.prems \<open>s \<noteq> f\<close> by (intro cdist_next)
    obtain t where t: "free_slot n tbl ?s = Some t" "t < length tbl" "tbl ! t = None" "run tbl ?s t"
      "cdist (length tbl) ?s t \<le> cdist (length tbl) ?s f"
      using Suc.IH [OF s' Suc.prems(2,3)] Suc.prems(4) d by auto
    have "s \<noteq> t" using False t(3) by auto
    then have d': "cdist (length tbl) s t = Suc (cdist (length tbl) ?s t)"
      using Suc.prems(1) t(2) by (intro cdist_next)
    have "run tbl s t"
      unfolding run_def
    proof (intro allI impI)
      fix k assume "k < cdist (length tbl) s t"
      then show "tbl ! ((s + k) mod length tbl) \<noteq> None"
      proof (cases k)
        case 0
        then show ?thesis using False Suc.prems(1) by simp
      next
        case (Suc k')
        then show ?thesis using \<open>k < _\<close> d' run_at [OF t(4), of k'] by (auto simp: mod_simps)
      qed
    qed
    moreover have "cdist (length tbl) s t \<le> cdist (length tbl) s f"
      using t(5) d d' by simp
    moreover have "free_slot (Suc n) tbl s = Some t" using False t(1) by simp
    ultimately show ?thesis using t(2,3) by blast
  qed
qed simp

lemma fd_probe_found:
  assumes "s < length tbl" "i < length tbl" "tbl ! i = Some a" "fd_of a = fd" "run tbl s i"
    and "\<And>j b. j < length tbl \<Longrightarrow> tbl ! j = Some b \<Longrightarrow> fd_of b = fd \<Longrightarrow> j = i"
    and "cdist (length tbl) s i < n"
  shows "fd_probe n fd_of fd tbl s = Some a"
  using assms
proof (induction n arbitrary: s)
  case (Suc n)
  show ?case
  proof (cases "s = i")
    case True
    then show ?thesis using Suc.prems(3,4) by simp
  next
    case False
    let ?s = "(s + 1) mod length tbl"
    have d: "cdist (length tbl) s i = Suc (cdist (length tbl) ?s i)"
      using Suc.prems(1,2) False by (intro cdist_next)
    obtain b where b: "tbl ! s = Some b"
      using run_at [OF Suc.prems(5), of 0] d Suc.prems(1) by auto
    have "fd_of b \<noteq> fd" using Suc.prems(6) [OF Suc.prems(1) b] False by blast
    moreover have "fd_probe n fd_of fd tbl ?s = Some a"
    proof (rule Suc.IH)
      show "run tbl ?s i" using Suc.prems(1,2,5) False by (intro run_next)
      show "cdist (length tbl) ?s i < n" using Suc.prems(7) d by simp
    qed (use Suc.prems(1-4) in simp, (fact Suc.prems)+)
    ultimately show ?thesis using b by simp
  qed
qed (simp only: not_less_zero)

lemma fd_probe_sound:
  "s < length tbl \<Longrightarrow> fd_probe n fd_of fd tbl s = Some a \<Longrightarrow> a \<in> entries tbl \<and> fd_of a = fd"
proof (induction n arbitrary: s)
  case (Suc n)
  have "(s + 1) mod length tbl < length tbl" using Suc.prems(1) by simp
  then show ?case
    using Suc.prems Suc.IH [of "(s + 1) mod length tbl"]
    by (auto simp: entries_iff split: option.splits if_splits)
qed simp

lemma slot_of_found:
  assumes "s < length tbl" "i < length tbl" "tbl ! i = Some a" "run tbl s i"
    and "\<And>j. j < length tbl \<Longrightarrow> tbl ! j = Some a \<Longrightarrow> j = i"
    and "cdist (length tbl) s i < n"
  shows "slot_of n tbl a s = Found i"
  using assms
proof (induction n arbitrary: s)
  case (Suc n)
  show ?case
  proof (cases "s = i")
    case False
    let ?s = "(s + 1) mod length tbl"
    have d: "cdist (length tbl) s i = Suc (cdist (length tbl) ?s i)"
      using Suc.prems(1,2) False by (intro cdist_next)
    obtain b where b: "tbl ! s = Some b"
      using run_at [OF Suc.prems(4), of 0] d Suc.prems(1) by auto
    have "b \<noteq> a" using Suc.prems(5) [OF Suc.prems(1)] b False by blast
    moreover have "slot_of n tbl a ?s = Found i"
    proof (rule Suc.IH)
      show "run tbl ?s i" using Suc.prems(1,2,4) False by (intro run_next)
      show "cdist (length tbl) ?s i < n" using Suc.prems(6) d by simp
    qed (use Suc.prems(1-3) in simp, (fact Suc.prems)+)
    ultimately show ?thesis using b by simp
  qed (use Suc.prems(3) in simp)
qed (simp only: not_less_zero)

lemma slot_of_absent:
  assumes "s < length tbl" "f < length tbl" "tbl ! f = None" "a \<notin> entries tbl"
    and "cdist (length tbl) s f < n"
  shows "slot_of n tbl a s = Absent"
  using assms
proof (induction n arbitrary: s)
  case (Suc n)
  have "tbl ! s \<noteq> Some a" using Suc.prems by (auto simp: entries_iff)
  moreover have "slot_of n tbl a ((s + 1) mod length tbl) = Absent" if "tbl ! s \<noteq> None"
  proof (rule Suc.IH)
    show "cdist (length tbl) ((s + 1) mod length tbl) f < n"
      using Suc.prems that cdist_next [of s "length tbl" f] by (cases "s = f") auto
  qed (use Suc.prems in auto)
  ultimately show ?case by simp
qed simp

section \<open>Placing and finding\<close>

lemma entries_take:
  assumes "i < length tbl" "tbl ! i = Some a"
    and "\<And>j. j < length tbl \<Longrightarrow> tbl ! j = Some a \<Longrightarrow> j = i"
  shows "entries (tbl[i := None]) = entries tbl - {a}"
proof (rule set_eqI)
  fix b
  have *: "(tbl[i := None]) ! j = Some b \<longleftrightarrow> j \<noteq> i \<and> tbl ! j = Some b" if "j < length tbl" for j
    using that assms(1) by (cases "j = i") auto
  have "(\<exists>j < length tbl. j \<noteq> i \<and> tbl ! j = Some b) \<longleftrightarrow> (\<exists>j < length tbl. tbl ! j = Some b) \<and> b \<noteq> a"
    using assms(2) assms(3) by (metis option.inject)
  then show "b \<in> entries (tbl[i := None]) \<longleftrightarrow> b \<in> entries tbl - {a}"
    by (simp add: entries_iff * cong: conj_cong)
qed

lemma entries_put:
  assumes "i < length tbl" "tbl ! i = None"
  shows "entries (tbl[i := Some a]) = insert a (entries tbl)"
proof (rule set_eqI)
  fix b
  have *: "(tbl[i := Some a]) ! j = Some b \<longleftrightarrow> j = i \<and> b = a \<or> tbl ! j = Some b" if "j < length tbl" for j
    using that assms by (cases "j = i") auto
  show "b \<in> entries (tbl[i := Some a]) \<longleftrightarrow> b \<in> insert a (entries tbl)"
    using assms(1) by (auto simp: entries_iff * cong: conj_cong)
qed

lemma entries_empty [simp]: "entries [] = {}" "entries (replicate n None) = {}"
  by (auto simp: entries_def)

lemma finite_entries [simp]: "finite (entries tbl)"
proof (rule finite_subset)
  show "entries tbl \<subseteq> the ` set tbl" by (force simp: entries_def)
qed simp

definition keys_distinct :: "(addr \<Rightarrow> sock_fd) \<Rightarrow> addr option list \<Rightarrow> bool" where
  "keys_distinct fd_of tbl \<longleftrightarrow>
     (\<forall>i < length tbl. \<forall>j < length tbl. \<forall>a b. tbl ! i = Some a \<longrightarrow> tbl ! j = Some b \<longrightarrow>
        fd_of a = fd_of b \<longrightarrow> i = j)"

definition runs_ok :: "(addr \<Rightarrow> sock_fd) \<Rightarrow> addr option list \<Rightarrow> bool" where
  "runs_ok fd_of tbl \<longleftrightarrow>
     (\<forall>i < length tbl. \<forall>a. tbl ! i = Some a \<longrightarrow> run tbl (home fd_of tbl a) i)"

lemma slots_ok_iff: "slots_ok fd_of tbl \<longleftrightarrow> keys_distinct fd_of tbl \<and> runs_ok fd_of tbl"
  by (simp add: slots_ok_def keys_distinct_def runs_ok_def)

lemma slot_unique:
  "keys_distinct fd_of tbl \<Longrightarrow> i < length tbl \<Longrightarrow> tbl ! i = Some a \<Longrightarrow>
   j < length tbl \<Longrightarrow> tbl ! j = Some b \<Longrightarrow> fd_of b = fd_of a \<Longrightarrow> j = i"
  unfolding keys_distinct_def by metis

lemma keys_inj: "keys_distinct fd_of tbl \<Longrightarrow> inj_on fd_of (entries tbl)"
proof (rule inj_onI)
  fix a b assume k: "keys_distinct fd_of tbl" and ab: "a \<in> entries tbl" "b \<in> entries tbl" "fd_of a = fd_of b"
  then obtain i j where ij: "i < length tbl" "tbl ! i = Some a" "j < length tbl" "tbl ! j = Some b"
    by (auto simp: entries_iff)
  then have "j = i" using slot_unique [OF k ij] ab(3) by simp
  with ij show "a = b" by simp
qed

lemma keys_put:
  assumes "keys_distinct fd_of tbl" "\<And>b. b \<in> entries tbl \<Longrightarrow> fd_of b \<noteq> fd_of a"
  shows "keys_distinct fd_of (tbl[i := Some a])"
  unfolding keys_distinct_def
proof (intro allI impI)
  fix j k b c
  assume h: "j < length (tbl[i := Some a])" "k < length (tbl[i := Some a])"
    "tbl[i := Some a] ! j = Some b" "tbl[i := Some a] ! k = Some c" "fd_of b = fd_of c"
  have "b \<in> entries tbl" if "j \<noteq> i" using that h by (auto simp: entries_iff)
  moreover have "c \<in> entries tbl" if "k \<noteq> i" using that h by (auto simp: entries_iff)
  ultimately show "j = k"
    using h assms(2) [of b] assms(2) [of c] slot_unique [OF assms(1), of j b k c]
    by (cases "j = i"; cases "k = i") auto
qed

lemma keys_take: "keys_distinct fd_of tbl \<Longrightarrow> keys_distinct fd_of (tbl[i := None])"
  unfolding keys_distinct_def
proof (intro allI impI)
  fix j k b c
  assume "\<forall>i<length tbl. \<forall>j<length tbl. \<forall>a b. tbl ! i = Some a \<longrightarrow> tbl ! j = Some b \<longrightarrow>
    fd_of a = fd_of b \<longrightarrow> i = j"
    and "j < length (tbl[i := None])" "k < length (tbl[i := None])"
    "tbl[i := None] ! j = Some b" "tbl[i := None] ! k = Some c" "fd_of b = fd_of c"
  then show "j = k" by (cases "j = i"; cases "k = i") simp_all
qed

lemma run_more:
  assumes "run tbl h i" "length tbl' = length tbl"
    and "\<And>k. k < cdist (length tbl) h i \<Longrightarrow> tbl ! ((h + k) mod length tbl) \<noteq> None \<Longrightarrow>
      tbl' ! ((h + k) mod length tbl) \<noteq> None"
  shows "run tbl' h i"
  using assms unfolding run_def by auto

lemma run_put:
  assumes "run tbl h i" "tbl \<noteq> []"
  shows "run (tbl[j := Some a]) h i"
proof (rule run_more [OF assms(1)])
  fix k assume "tbl ! ((h + k) mod length tbl) \<noteq> None"
  moreover have "(h + k) mod length tbl < length tbl" using assms(2) by simp
  ultimately show "tbl[j := Some a] ! ((h + k) mod length tbl) \<noteq> None"
    by (cases "j = (h + k) mod length tbl") simp_all
qed simp

lemma room_if:
  assumes "keys_distinct fd_of tbl" "card (entries tbl) < length tbl"
  shows "has_room tbl"
proof (rule ccontr)
  assume "\<not> has_room tbl"
  then have full: "\<exists>a. tbl ! i = Some a" if "i < length tbl" for i
    using that by (auto simp: has_room_def)
  have "inj_on (\<lambda>i. the (tbl ! i)) {..<length tbl}"
  proof (rule inj_onI)
    fix i j assume ij: "i \<in> {..<length tbl}" "j \<in> {..<length tbl}" "the (tbl ! i) = the (tbl ! j)"
    then obtain a b where "tbl ! i = Some a" "tbl ! j = Some b"
      using full [of i] full [of j] by auto
    then show "i = j" using ij slot_unique [OF assms(1), of j b i a] by simp
  qed
  moreover have "(\<lambda>i. the (tbl ! i)) ` {..<length tbl} \<subseteq> entries tbl"
    using full by (fastforce simp: entries_iff)
  ultimately have "length tbl \<le> card (entries tbl)"
    using card_inj_on_le by fastforce
  then show False using assms(2) by simp
qed

lemma fd_place_some:
  assumes "has_room tbl"
  obtains t where "free_slot (length tbl) tbl (home fd_of tbl a) = Some t" "t < length tbl"
    "tbl ! t = None" "run tbl (home fd_of tbl a) t"
    "\<forall>f < length tbl. tbl ! f = None \<longrightarrow>
      cdist (length tbl) (home fd_of tbl a) t \<le> cdist (length tbl) (home fd_of tbl a) f"
proof -
  obtain f where f: "f < length tbl" "tbl ! f = None" using assms by (auto simp: has_room_def)
  have "tbl \<noteq> []" using f(1) by auto
  then have h: "home fd_of tbl a < length tbl" by (rule home_less)
  show thesis
  proof -
    obtain t where t: "free_slot (length tbl) tbl (home fd_of tbl a) = Some t" "t < length tbl"
      "tbl ! t = None" "run tbl (home fd_of tbl a) t"
      using free_slot_some [OF h f cdist_less [OF h f(1)]] by auto
    have "cdist (length tbl) (home fd_of tbl a) t \<le> cdist (length tbl) (home fd_of tbl a) g"
      if g: "g < length tbl" "tbl ! g = None" for g
      using free_slot_some [OF h g cdist_less [OF h g(1)]] t(1) by auto
    with t show thesis using that by blast
  qed
qed

lemma fd_place_ok:
  assumes "slots_ok fd_of tbl" "has_room tbl" "\<And>b. b \<in> entries tbl \<Longrightarrow> fd_of b \<noteq> fd_of a"
  shows "\<exists>t. fd_place fd_of a tbl = Some t \<and> length t = length tbl \<and> slots_ok fd_of t \<and>
    entries t = insert a (entries tbl)"
proof -
  obtain k where k: "free_slot (length tbl) tbl (home fd_of tbl a) = Some k" "k < length tbl"
    "tbl ! k = None" "run tbl (home fd_of tbl a) k"
    by (rule fd_place_some [OF assms(2)])
  let ?t = "tbl[k := Some a]"
  have ne: "tbl \<noteq> []" using k(2) by auto
  have "runs_ok fd_of ?t"
    unfolding runs_ok_def
  proof (intro allI impI)
    fix i b assume i: "i < length ?t" "?t ! i = Some b"
    show "run ?t (home fd_of ?t b) i"
    proof (cases "i = k")
      case True
      then show ?thesis using i k run_put [OF k(4) ne] by simp
    next
      case False
      then have "run tbl (home fd_of tbl b) i"
        using i assms(1) by (simp add: slots_ok_def)
      then show ?thesis using run_put [OF _ ne] by simp
    qed
  qed
  moreover have "keys_distinct fd_of ?t"
    using assms(1,3) by (intro keys_put) (auto simp: slots_ok_iff)
  ultimately show ?thesis
    using k entries_put [OF k(2,3)] by (simp add: fd_place_def home_def slots_ok_iff)
qed

lemma fd_find_iff:
  assumes "slots_ok fd_of tbl"
  shows "fd_find fd_of tbl fd = Some a \<longleftrightarrow> a \<in> entries tbl \<and> fd_of a = fd"
proof (cases "tbl = []")
  case False
  let ?h = "fd_hash fd (length tbl)"
  have h: "?h < length tbl" using False by (simp add: fd_hash_def)
  show ?thesis
  proof
    assume "fd_find fd_of tbl fd = Some a"
    then have "fd_probe (length tbl) fd_of fd tbl ?h = Some a"
      using False by (simp add: fd_find_def)
    then show "a \<in> entries tbl \<and> fd_of a = fd" by (rule fd_probe_sound [OF h])
  next
    assume a: "a \<in> entries tbl \<and> fd_of a = fd"
    then obtain i where i: "i < length tbl" "tbl ! i = Some a" by (auto simp: entries_iff)
    have r: "run tbl ?h i" using assms i a by (auto simp: slots_ok_def home_def)
    have "fd_probe (length tbl) fd_of fd tbl ?h = Some a"
    proof (rule fd_probe_found [OF h i _ r])
      show "j = i" if "j < length tbl" "tbl ! j = Some b" "fd_of b = fd" for j b
        using slot_unique [of fd_of tbl i a j b] assms i a that by (simp add: slots_ok_iff)
    qed (use a h i cdist_less in auto)
    then show "fd_find fd_of tbl fd = Some a" using False by (simp add: fd_find_def)
  qed
qed (simp add: fd_find_def)

lemma keys_tl:
  assumes "keys_distinct fd_of (v # tbl)"
  shows "keys_distinct fd_of tbl" and "v = Some a \<Longrightarrow> a \<notin> entries tbl"
proof -
  have u: "i = j" if "i < length (v # tbl)" "j < length (v # tbl)" "(v # tbl) ! i = Some b"
    "(v # tbl) ! j = Some c" "fd_of b = fd_of c" for i j b c
    using assms that unfolding keys_distinct_def by blast
  show "keys_distinct fd_of tbl"
    unfolding keys_distinct_def
  proof (intro allI impI)
    fix i j b c assume "i < length tbl" "j < length tbl" "tbl ! i = Some b" "tbl ! j = Some c" "fd_of b = fd_of c"
    then show "i = j" using u [of "Suc i" "Suc j" b c] by simp
  qed
  show "a \<notin> entries tbl" if "v = Some a"
  proof
    assume "a \<in> entries tbl"
    then obtain j where "j < length tbl" "tbl ! j = Some a" by (auto simp: entries_iff)
    then show False using u [of 0 "Suc j" a a] that by simp
  qed
qed

lemma fd_rehash_ok:
  assumes "slots_ok fd_of tbl" "inj_on fd_of (entries old \<union> entries tbl)" "keys_distinct fd_of old"
    and "entries old \<inter> entries tbl = {}" "card (entries old \<union> entries tbl) < length tbl"
  shows "\<exists>t. fd_rehash fd_of old tbl = Some t \<and> length t = length tbl \<and> slots_ok fd_of t \<and>
    entries t = entries old \<union> entries tbl"
  using assms
proof (induction fd_of old tbl rule: fd_rehash.induct)
  case (1 fd_of tbl)
  then show ?case by simp
next
  case (2 fd_of rest tbl)
  have "entries (None # rest) = entries rest" by (auto simp: entries_def)
  then show ?case using 2 keys_tl(1) [OF "2.prems"(3)] by simp
next
  case (3 fd_of a rest tbl)
  have e: "entries (Some a # rest) = insert a (entries rest)" by (auto simp: entries_def)
  have a: "a \<notin> entries rest" using "3.prems"(3) by (rule keys_tl) (rule refl)
  have a': "a \<notin> entries tbl" using "3.prems"(4) e by auto
  have keys: "keys_distinct fd_of tbl" using "3.prems"(1) by (simp add: slots_ok_iff)
  have "card (entries tbl) \<le> card (entries (Some a # rest) \<union> entries tbl)"
    by (intro card_mono) auto
  then have room: "has_room tbl" using "3.prems"(5) by (intro room_if [OF keys]) simp
  have "fd_of b \<noteq> fd_of a" if "b \<in> entries tbl" for b
    using "3.prems"(2) that a' e inj_onD [of fd_of _ b a] by blast
  then obtain t where t: "fd_place fd_of a tbl = Some t" "length t = length tbl" "slots_ok fd_of t"
    "entries t = insert a (entries tbl)"
    using fd_place_ok [OF "3.prems"(1) room] by blast
  have "\<exists>u. fd_rehash fd_of rest t = Some u \<and> length u = length t \<and> slots_ok fd_of u \<and>
    entries u = entries rest \<union> entries t"
  proof (rule "3.IH" [OF t(1) t(3)])
    show "inj_on fd_of (entries rest \<union> entries t)"
      using "3.prems"(2) by (rule inj_on_subset) (auto simp: t(4) e)
    show "keys_distinct fd_of rest" using "3.prems"(3) by (rule keys_tl)
    show "entries rest \<inter> entries t = {}" using "3.prems"(4) a e t(4) by auto
    show "card (entries rest \<union> entries t) < length t" using "3.prems"(5) e t(2,4) by simp
  qed
  then show ?case using t e by simp
qed

section \<open>Deletion\<close>

text \<open>
  While the cluster is re-seated there is one gap \<open>g\<close> behind the scan position.  An entry whose
  probe run crosses the gap has not been visited: it is reached from \<open>slot\<close> over occupied slots.
\<close>

definition reach :: "addr option list \<Rightarrow> nat \<Rightarrow> nat \<Rightarrow> bool" where
  "reach tbl slot i \<longleftrightarrow> slot \<noteq> i \<and> run tbl ((slot + 1) mod length tbl) i"

definition reseat_inv :: "(addr \<Rightarrow> sock_fd) \<Rightarrow> addr option list \<Rightarrow> nat \<Rightarrow> nat \<Rightarrow> nat \<Rightarrow> bool" where
  "reseat_inv fd_of tbl g slot f \<longleftrightarrow>
     g < length tbl \<and> slot < length tbl \<and> f < length tbl \<and> tbl ! g = None \<and> tbl ! f = None \<and>
     f \<noteq> g \<and> slot \<noteq> f \<and> keys_distinct fd_of tbl \<and>
     (\<forall>i < length tbl. \<forall>a. tbl ! i = Some a \<longrightarrow>
        run tbl (home fd_of tbl a) i \<or> run_but g tbl (home fd_of tbl a) i \<and> reach tbl slot i)"

lemma run_run_but: "run tbl h i \<Longrightarrow> run_but g tbl h i"
  by (simp add: run_def run_but_def)

text \<open>Emptying slot \<open>p\<close>: an entry either keeps its run or is reached from \<open>p\<close>.\<close>

lemma run_but_split:
  assumes "h < length t" "i < length t" "p < length t" "p \<noteq> i" "run_but p t h i"
  shows "run t h i \<or> reach t p i"
proof (cases "cdist (length t) h p < cdist (length t) h i")
  case True
  have d: "cdist (length t) h i = cdist (length t) h p + cdist (length t) p i"
    using assms True by (intro cdist_split) auto
  have d': "cdist (length t) p i = Suc (cdist (length t) ((p + 1) mod length t) i)"
    using assms by (intro cdist_next) auto
  have "run t ((p + 1) mod length t) i"
    unfolding run_def
  proof (intro allI impI)
    fix k assume k: "k < cdist (length t) ((p + 1) mod length t) i"
    let ?k = "cdist (length t) h p + Suc k"
    have pos: "(h + ?k) mod length t = ((p + 1) mod length t + k) mod length t"
      using later_pos [of h "length t" p "Suc k"] next_pos [of p "length t" k] assms by simp
    have lt: "Suc k < length t"
      using k d' cdist_less [of p "length t" i] assms by simp
    have "(h + ?k) mod length t \<noteq> p"
    proof
      assume "(h + ?k) mod length t = p"
      then have "(p + Suc k) mod length t = p"
        using later_pos [of h "length t" p "Suc k"] assms by simp
      then have "cdist (length t) p p = Suc k"
        using cdist_at [of p "length t" "Suc k"] lt assms by simp
      then show False by simp
    qed
    moreover have "?k < cdist (length t) h i" using k d d' by simp
    ultimately have "t ! ((h + ?k) mod length t) \<noteq> None"
      using assms(5) unfolding run_but_def by blast
    then show "t ! (((p + 1) mod length t + k) mod length t) \<noteq> None" using pos by simp
  qed
  then show ?thesis using assms(4) by (simp add: reach_def)
next
  case False
  have "(h + k) mod length t \<noteq> p" if "k < cdist (length t) h i" for k
  proof
    assume "(h + k) mod length t = p"
    moreover have "k < length t" using that cdist_less [of h "length t" i] assms by simp
    ultimately have "cdist (length t) h p = k" using cdist_at [of h "length t" k] assms by auto
    then show False using that False by simp
  qed
  then show ?thesis using assms(5) unfolding run_def run_but_def by blast
qed

lemma reseat_start:
  assumes "slots_ok fd_of tbl" "g < length tbl" "tbl ! g = Some a" "f < length tbl" "tbl ! f = None"
  shows "reseat_inv fd_of (tbl[g := None]) g g f"
proof -
  let ?t = "tbl[g := None]"
  have fg: "f \<noteq> g" using assms by auto
  have "run ?t (home fd_of ?t b) i \<or> run_but g ?t (home fd_of ?t b) i \<and> reach ?t g i"
    if i: "i < length ?t" "?t ! i = Some b" for i b
  proof -
    have ig: "g \<noteq> i" using i assms(2) by auto
    then have "run tbl (home fd_of tbl b) i" using i assms(1) by (simp add: slots_ok_def)
    then have "run_but g ?t (home fd_of ?t b) i"
      by (simp add: run_def run_but_def)
    moreover have "home fd_of ?t b < length ?t" using i(1) by (rule home_in)
    ultimately show ?thesis using run_but_split [of "home fd_of ?t b" ?t i g] i ig assms(2) by auto
  qed
  then show ?thesis
    using assms fg by (auto simp: reseat_inv_def slots_ok_iff keys_take)
qed

lemma reseat_stop:
  assumes "reseat_inv fd_of tbl g slot f" "tbl ! ((slot + 1) mod length tbl) = None"
  shows "slots_ok fd_of tbl"
proof -
  have "\<not> reach tbl slot i" if i: "i < length tbl" "tbl ! i = Some a" for i a
  proof
    assume r: "reach tbl slot i"
    let ?s = "(slot + 1) mod length tbl"
    have s: "?s < length tbl" using assms(1) by (simp add: reseat_inv_def)
    have "?s \<noteq> i" using assms(2) i by auto
    then have "0 < cdist (length tbl) ?s i" using cdist_0 [OF s i(1)] by simp
    then show False using r s assms(2) run_at [of tbl ?s i 0] by (auto simp: reach_def)
  qed
  then show ?thesis
    using assms(1) unfolding reseat_inv_def slots_ok_iff runs_ok_def by blast
qed

lemma reseat_place:
  assumes inv: "reseat_inv fd_of tbl g slot f" and scan: "scan = (slot + 1) mod length tbl"
    and moved: "tbl ! scan = Some moved"
  obtains t where "fd_place fd_of moved (tbl[scan := None]) = Some (tbl[scan := None, t := Some moved])"
    "t = scan \<or> t = g" "run (tbl[scan := None]) (home fd_of tbl moved) t"
proof -
  let ?u = "tbl[scan := None]"
  let ?h = "home fd_of tbl moved"
  have s: "scan < length tbl" using inv scan by (simp add: reseat_inv_def)
  have h: "?h < length tbl" using s by (intro home_in)
  have room: "has_room ?u" unfolding has_room_def using s by (intro exI [of _ scan]) simp
  obtain t where t: "free_slot (length ?u) ?u (home fd_of ?u moved) = Some t" "t < length ?u"
    "?u ! t = None" "run ?u (home fd_of ?u moved) t"
    "\<forall>f < length ?u. ?u ! f = None \<longrightarrow>
      cdist (length ?u) (home fd_of ?u moved) t \<le> cdist (length ?u) (home fd_of ?u moved) f"
    by (rule fd_place_some [OF room, of fd_of moved])
  have le: "cdist (length tbl) ?h t \<le> cdist (length tbl) ?h scan" using t(5) s by simp
  have "t = scan \<or> t = g"
  proof (rule ccontr)
    assume n: "\<not> (t = scan \<or> t = g)"
    then have "tbl ! t = None" using t(2,3) by simp
    have "cdist (length tbl) ?h t \<noteq> cdist (length tbl) ?h scan"
      using n cdist_pos [OF h] t(2) s by (metis length_list_update)
    then have lt: "cdist (length tbl) ?h t < cdist (length tbl) ?h scan" using le by simp
    have rb: "run_but g tbl ?h scan"
      using inv s moved run_run_but unfolding reseat_inv_def by blast
    have "(?h + cdist (length tbl) ?h t) mod length tbl = t" using cdist_pos [OF h] t(2) by simp
    then show False using rb lt n \<open>tbl ! t = None\<close> unfolding run_but_def by metis
  qed
  moreover have "fd_place fd_of moved ?u = Some (?u[t := Some moved])"
    using t(1) by (simp add: fd_place_def home_def)
  ultimately show thesis using t(4) that by simp
qed

lemma reseat_step_stay:
  assumes inv: "reseat_inv fd_of tbl g slot f" and scan: "scan = (slot + 1) mod length tbl"
    and moved: "tbl ! scan = Some moved"
    and r: "run (tbl[scan := None]) (home fd_of tbl moved) scan"
  shows "reseat_inv fd_of tbl g scan f"
proof -
  have s: "scan < length tbl" using inv scan by (simp add: reseat_inv_def)
  have sf: "scan \<noteq> f" using inv moved by (auto simp: reseat_inv_def)
  have "run tbl (home fd_of tbl a) i \<or> run_but g tbl (home fd_of tbl a) i \<and> reach tbl scan i"
    if i: "i < length tbl" "tbl ! i = Some a" for i a
  proof (cases "i = scan")
    case True
    have "tbl \<noteq> []" using s by auto
    then have "run (tbl[scan := None, scan := Some moved]) (home fd_of tbl moved) scan"
      by (intro run_put [OF r]) simp
    then have "run tbl (home fd_of tbl moved) scan" using moved list_update_id [of tbl scan] by simp
    then show ?thesis using True i moved by simp
  next
    case False
    then show ?thesis
      using inv i scan run_next [OF s i(1)] unfolding reseat_inv_def reach_def by blast
  qed
  then show ?thesis using inv s sf unfolding reseat_inv_def by blast
qed

lemma reseat_step_move:
  assumes inv: "reseat_inv fd_of tbl g slot f" and scan: "scan = (slot + 1) mod length tbl"
    and moved: "tbl ! scan = Some moved" and gs: "g \<noteq> scan"
    and r: "run (tbl[scan := None]) (home fd_of tbl moved) g"
  shows "reseat_inv fd_of (tbl[scan := None, g := Some moved]) scan scan f"
proof -
  let ?t = "tbl[scan := None, g := Some moved]"
  have s: "scan < length tbl" "g < length tbl" "f < length tbl" using inv scan by (auto simp: reseat_inv_def)
  have sf: "scan \<noteq> f" using inv moved by (auto simp: reseat_inv_def)
  have ne: "tbl[scan := None] \<noteq> []" using s by auto
  have occ: "?t ! p \<noteq> None" if "p < length tbl" "p \<noteq> scan" "p \<noteq> g \<longrightarrow> tbl ! p \<noteq> None" for p
    using that s by (cases "p = g") auto
  have "run ?t (home fd_of ?t a) i \<or> run_but scan ?t (home fd_of ?t a) i \<and> reach ?t scan i"
    if i: "i < length ?t" "?t ! i = Some a" for i a
  proof (cases "i = g")
    case True
    then have "a = moved" using i s by simp
    then show ?thesis using True run_put [OF r ne] by simp
  next
    case False
    then have ia: "i \<noteq> scan" "i < length tbl" "tbl ! i = Some a" using i s by (auto simp: nth_list_update split: if_splits)
    have rb: "run_but g tbl (home fd_of tbl a) i"
      using inv ia run_run_but unfolding reseat_inv_def by blast
    have h: "home fd_of tbl a < length tbl" using s by (intro home_in)
    have "run_but scan ?t (home fd_of tbl a) i"
      unfolding run_but_def
    proof (intro allI impI)
      fix k assume k: "k < cdist (length ?t) (home fd_of tbl a) i"
        "(home fd_of tbl a + k) mod length ?t \<noteq> scan"
      have "(home fd_of tbl a + k) mod length tbl < length tbl"
        using s(1) by (intro mod_less_divisor) linarith
      then have "?t ! ((home fd_of tbl a + k) mod length tbl) \<noteq> None"
        using k rb by (intro occ) (auto simp: run_but_def)
      then show "?t ! ((home fd_of tbl a + k) mod length ?t) \<noteq> None" by simp
    qed
    moreover have "run ?t (home fd_of tbl a) i \<or> reach ?t scan i"
      using calculation h ia s by (intro run_but_split) auto
    ultimately show ?thesis by auto
  qed
  moreover have "keys_distinct fd_of ?t"
  proof (rule keys_put)
    have k: "keys_distinct fd_of tbl" using inv by (simp add: reseat_inv_def)
    then show "keys_distinct fd_of (tbl[scan := None])" by (rule keys_take)
    fix b assume "b \<in> entries (tbl[scan := None])"
    then obtain j where "j < length tbl" "j \<noteq> scan" "tbl ! j = Some b"
      using s by (auto simp: entries_iff nth_list_update split: if_splits)
    then show "fd_of b \<noteq> fd_of moved" using slot_unique [OF k s(1) moved, of j b] by blast
  qed
  moreover have "?t ! scan = None" "?t ! f = None"
    using s gs sf inv by (auto simp: reseat_inv_def)
  ultimately show ?thesis using s sf unfolding reseat_inv_def by auto
qed

lemma entries_move:
  assumes "keys_distinct fd_of tbl" "i < length tbl" "tbl ! i = Some a" "t < length tbl"
    and "t = i \<or> tbl ! t = None"
  shows "entries (tbl[i := None, t := Some a]) = entries tbl"
proof -
  have "entries (tbl[i := None]) = entries tbl - {a}"
  proof (rule entries_take [OF assms(2,3)])
    fix j assume "j < length tbl" "tbl ! j = Some a"
    then show "j = i" by (rule slot_unique [OF assms(1-3)]) (rule refl)
  qed
  moreover have "(tbl[i := None]) ! t = None" using assms by (cases "t = i") auto
  moreover have "a \<in> entries tbl" using assms(2,3) by (auto simp: entries_iff)
  ultimately show ?thesis using entries_put [of t "tbl[i := None]" a] assms(4) by auto
qed

lemma reseat_ok:
  assumes "reseat_inv fd_of tbl g slot f" "cdist (length tbl) slot f \<le> n"
  shows "\<exists>t. reseat n fd_of tbl slot = Some t \<and> slots_ok fd_of t \<and> length t = length tbl \<and>
    entries t = entries tbl"
  using assms
proof (induction n arbitrary: tbl g slot)
  case 0
  then have "slot = f" using cdist_0 by (auto simp: reseat_inv_def)
  then show ?case using 0 by (simp add: reseat_inv_def)
next
  case (Suc n)
  let ?s = "(slot + 1) mod length tbl"
  have b: "slot < length tbl" "g < length tbl" "f < length tbl" "slot \<noteq> f" "tbl ! g = None"
    "keys_distinct fd_of tbl"
    using Suc.prems(1) by (auto simp: reseat_inv_def)
  have s: "?s < length tbl" using b(1) by simp
  show ?case
  proof (cases "tbl ! ?s")
    case None
    then show ?thesis using reseat_stop [OF Suc.prems(1)] by simp
  next
    case (Some moved)
    obtain t where t: "fd_place fd_of moved (tbl[?s := None]) = Some (tbl[?s := None, t := Some moved])"
      "t = ?s \<or> t = g" "run (tbl[?s := None]) (home fd_of tbl moved) t"
      by (rule reseat_place [OF Suc.prems(1) refl Some])
    let ?t = "tbl[?s := None, t := Some moved]"
    have e: "entries ?t = entries tbl" using t(2) s b Some by (intro entries_move) auto
    have d: "cdist (length tbl) ?s f \<le> n"
      using Suc.prems(2) cdist_next [OF b(1,3,4)] by simp
    have "\<exists>g'. reseat_inv fd_of ?t g' ?s f"
    proof (cases "t = ?s")
      case True
      then have "?t = tbl" using Some s by (simp add: list_update_same_conv)
      then show ?thesis
        using reseat_step_stay [OF Suc.prems(1) refl Some] t(3) True by metis
    next
      case False
      then show ?thesis
        using reseat_step_move [OF Suc.prems(1) refl Some] t(2,3) by metis
    qed
    then obtain g' where "reseat_inv fd_of ?t g' ?s f" ..
    from Suc.IH [OF this] d e show ?thesis using t(1) Some by (simp add: Let_def)
  qed
qed

lemma fd_delete_ok:
  assumes "slots_ok fd_of tbl" "has_room tbl"
  shows "a \<in> entries tbl \<Longrightarrow> \<exists>t. fd_delete fd_of tbl a = Removed t \<and> slots_ok fd_of t \<and>
      length t = length tbl \<and> entries t = entries tbl - {a}"
    and "a \<notin> entries tbl \<Longrightarrow> fd_delete fd_of tbl a = Not_There"
proof -
  obtain f where f: "f < length tbl" "tbl ! f = None" using assms(2) by (auto simp: has_room_def)
  have h: "home fd_of tbl a < length tbl" using f(1) by (rule home_in)
  {
    assume "a \<in> entries tbl"
    then obtain i where i: "i < length tbl" "tbl ! i = Some a" by (auto simp: entries_iff)
    have u: "j = i" if "j < length tbl" "tbl ! j = Some a" for j
      using slot_unique [of fd_of tbl i a j a] assms(1) i that by (simp add: slots_ok_iff)
    have "slot_of (length tbl) tbl a (home fd_of tbl a) = Found i"
    proof (rule slot_of_found [OF h i])
      show "run tbl (home fd_of tbl a) i" using assms(1) i by (simp add: slots_ok_def)
      show "cdist (length tbl) (home fd_of tbl a) i < length tbl" by (rule cdist_less [OF h i(1)])
    qed (rule u)
    moreover have r: "reseat_inv fd_of (tbl[i := None]) i i f"
      by (rule reseat_start [OF assms(1) i f])
    moreover have "entries (tbl[i := None]) = entries tbl - {a}"
      by (rule entries_take [OF i u])
    moreover have "cdist (length (tbl[i := None])) i f \<le> length tbl"
      using cdist_less [OF i(1) f(1)] by simp
    ultimately show "\<exists>t. fd_delete fd_of tbl a = Removed t \<and> slots_ok fd_of t \<and>
      length t = length tbl \<and> entries t = entries tbl - {a}"
      using reseat_ok [OF r, of "length tbl"] by (auto simp: fd_delete_def home_def)
  next
    assume "a \<notin> entries tbl"
    then have "slot_of (length tbl) tbl a (home fd_of tbl a) = Absent"
      by (rule slot_of_absent [OF h f _ cdist_less [OF h f(1)]])
    then show "fd_delete fd_of tbl a = Not_There" by (simp add: fd_delete_def home_def)
  }
qed

section \<open>The table with its count\<close>

definition fd_table_full :: "nat \<Rightarrow> nat \<Rightarrow> bool" where
  "fd_table_full table_size count \<longleftrightarrow> table_size = 0 \<or> count * 4 \<ge> table_size * 3"

text \<open>\<open>SIZE_MAX\<close> over the size of a pointer, and half of \<open>SIZE_MAX\<close>.\<close>

abbreviation (input) FD_TABLE_MAX :: nat where "FD_TABLE_MAX \<equiv> 2305843009213693951"
abbreviation (input) SIZE_MAX_HALF :: nat where "SIZE_MAX_HALF \<equiv> 9223372036854775807"

text \<open>The size the table grows to; None when doubling would overflow.\<close>

definition fd_table_next_size :: "nat \<Rightarrow> nat option" where
  "fd_table_next_size table_size =
    (if table_size = 0 then Some WEPOLL_INITIAL_FDS
     else if table_size > SIZE_MAX_HALF then None
     else Some (table_size * 2))"

definition fd_insert ::
  "(addr \<Rightarrow> sock_fd) \<Rightarrow> bool \<Rightarrow> addr option list \<times> nat \<Rightarrow> addr \<Rightarrow> (addr option list \<times> nat) option" where
  "fd_insert fd_of room t sock =
    (let grown = (if fd_table_full (length (fst t)) (snd t)
                  then (case fd_table_next_size (length (fst t)) of
                          None \<Rightarrow> None
                        | Some n \<Rightarrow> if n > FD_TABLE_MAX \<or> \<not> room then None
                                   else fd_rehash fd_of (fst t) (replicate n None))
                  else Some (fst t)) in
     case grown of
       None \<Rightarrow> None
     | Some tbl \<Rightarrow>
         (case fd_place fd_of sock tbl of
            None \<Rightarrow> None
          | Some tbl' \<Rightarrow> Some (tbl', snd t + 1)))"

definition fd_remove ::
  "(addr \<Rightarrow> sock_fd) \<Rightarrow> addr option list \<times> nat \<Rightarrow> addr \<Rightarrow> addr option list \<times> nat" where
  "fd_remove fd_of t sock =
    (if length (fst t) = 0 then t
     else case fd_delete fd_of (fst t) sock of
            Removed tbl \<Rightarrow> (tbl, snd t - 1)
          | _ \<Rightarrow> t)"

definition fd_table_inv :: "(addr \<Rightarrow> sock_fd) \<Rightarrow> addr option list \<times> nat \<Rightarrow> bool" where
  "fd_table_inv fd_of t \<longleftrightarrow>
     slots_ok fd_of (fst t) \<and> snd t = card (entries (fst t)) \<and>
     (fst t = [] \<or> 4 \<le> length (fst t) \<and> snd t < length (fst t))"

lemma slots_ok_replicate [simp]: "slots_ok fd_of (replicate n None)"
  by (simp add: slots_ok_def)

lemma slots_ok_Nil [simp]: "slots_ok fd_of []"
  by (simp add: slots_ok_def)

lemma fd_table_inv_room:
  "fd_table_inv fd_of t \<Longrightarrow> fst t \<noteq> [] \<Longrightarrow> has_room (fst t)"
  by (rule room_if) (auto simp: fd_table_inv_def slots_ok_iff)

lemma fd_grow_ok:
  assumes "fd_table_inv fd_of (tbl, c)" "c < n"
  shows "\<exists>t. fd_rehash fd_of tbl (replicate n None) = Some t \<and> length t = n \<and> slots_ok fd_of t \<and>
    entries t = entries tbl"
proof -
  have k: "keys_distinct fd_of tbl" using assms(1) by (simp add: fd_table_inv_def slots_ok_iff)
  show ?thesis
    using fd_rehash_ok [of fd_of "replicate n None" tbl] keys_inj [OF k] k assms
    by (simp add: fd_table_inv_def)
qed

lemma fd_insert_grown:
  assumes "fd_table_inv fd_of (tbl, c)" "fd_insert fd_of room (tbl, c) a = Some t'"
  obtains tbl' where "slots_ok fd_of tbl'" "entries tbl' = entries tbl" "4 \<le> length tbl'"
    "c + 1 < length tbl'" "fd_place fd_of a tbl' = Some (fst t')" "snd t' = c + 1"
proof (cases "fd_table_full (length tbl) c")
  case True
  then obtain n where n: "fd_table_next_size (length tbl) = Some n"
    using assms(2) by (auto simp: fd_insert_def split: option.splits)
  have c: "c + 1 < n" "4 \<le> n"
    using n assms(1)
    by (auto simp: fd_table_next_size_def fd_table_inv_def split: if_splits)
  then obtain u where u: "fd_rehash fd_of tbl (replicate n None) = Some u" "length u = n" "slots_ok fd_of u"
    "entries u = entries tbl"
    using fd_grow_ok [OF assms(1), of n] by auto
  show thesis
    by (rule that [of u])
      (use assms(2) True n u c in \<open>auto simp: fd_insert_def split: option.splits if_splits\<close>)
next
  case False
  have "c + 1 < length tbl" "4 \<le> length tbl"
    using False assms(1) by (auto simp: fd_table_full_def fd_table_inv_def)
  then show thesis
    by (intro that [of tbl])
      (use assms False in \<open>auto simp: fd_insert_def fd_table_inv_def split: option.splits\<close>)
qed

lemma fd_insert_ok:
  assumes "fd_table_inv fd_of t" "\<And>b. b \<in> entries (fst t) \<Longrightarrow> fd_of b \<noteq> fd_of a"
    and "fd_insert fd_of room t a = Some t'"
  shows "fd_table_inv fd_of t' \<and> entries (fst t') = insert a (entries (fst t))"
proof -
  obtain tbl c where t: "t = (tbl, c)" by (cases t)
  obtain u where u: "slots_ok fd_of u" "entries u = entries tbl" "4 \<le> length u" "c + 1 < length u"
    "fd_place fd_of a u = Some (fst t')" "snd t' = c + 1"
    using fd_insert_grown [of fd_of tbl c room a t'] assms(1,3) t by blast
  have c: "c = card (entries tbl)" using assms(1) t by (simp add: fd_table_inv_def)
  have "has_room u" using u c by (intro room_if [of fd_of]) (simp_all add: slots_ok_iff)
  then obtain v where v: "fd_place fd_of a u = Some v" "length v = length u" "slots_ok fd_of v"
    "entries v = insert a (entries u)"
    using fd_place_ok [OF u(1), of a] assms(2) t u(2) by auto
  moreover have "a \<notin> entries tbl" using assms(2) t by auto
  ultimately show ?thesis using u c t by (auto simp: fd_table_inv_def)
qed

text \<open>An insertion fails only for want of memory or of address space.\<close>

lemma fd_insert_succeeds:
  assumes "fd_table_inv fd_of (tbl, c)" "\<And>b. b \<in> entries tbl \<Longrightarrow> fd_of b \<noteq> fd_of a"
    and "room" "2 * length tbl \<le> FD_TABLE_MAX"
  shows "\<exists>t'. fd_insert fd_of room (tbl, c) a = Some t'"
proof -
  have place: "\<exists>v. fd_place fd_of a u = Some v" if "slots_ok fd_of u" "entries u = entries tbl" "c < length u" for u
    using fd_place_ok [OF that(1) room_if [of fd_of u], of a] that assms(1,2)
    by (auto simp: slots_ok_iff fd_table_inv_def)
  show ?thesis
  proof (cases "fd_table_full (length tbl) c")
    case True
    let ?n = "if tbl = [] then WEPOLL_INITIAL_FDS else length tbl * 2"
    have n: "fd_table_next_size (length tbl) = Some ?n" "\<not> ?n > FD_TABLE_MAX" "c < ?n"
      using assms(1,4) by (auto simp: fd_table_next_size_def fd_table_inv_def)
    obtain u where u: "fd_rehash fd_of tbl (replicate ?n None) = Some u" "length u = ?n"
      "slots_ok fd_of u" "entries u = entries tbl"
      using fd_grow_ok [OF assms(1) n(3)] by auto
    then show ?thesis using True n place [of u] assms(3) by (auto simp: fd_insert_def)
  next
    case False
    then have "c < length tbl" by (auto simp: fd_table_full_def)
    then show ?thesis using False place [of tbl] assms(1) by (auto simp: fd_insert_def fd_table_inv_def)
  qed
qed

lemma fd_remove_ok:
  assumes "fd_table_inv fd_of t"
  shows "fd_table_inv fd_of (fd_remove fd_of t a) \<and>
    entries (fst (fd_remove fd_of t a)) = entries (fst t) - {a}"
proof (cases "fst t = []")
  case False
  have s: "slots_ok fd_of (fst t)" and r: "has_room (fst t)"
    using assms False fd_table_inv_room by (auto simp: fd_table_inv_def)
  show ?thesis
  proof (cases "a \<in> entries (fst t)")
    case True
    then obtain u where u: "fd_delete fd_of (fst t) a = Removed u" "slots_ok fd_of u"
      "length u = length (fst t)" "entries u = entries (fst t) - {a}"
      using fd_delete_ok(1) [OF s r] by blast
    have c: "snd t = card (entries (fst t))" "4 \<le> length (fst t)" "snd t < length (fst t)"
      using assms False by (auto simp: fd_table_inv_def)
    have "card (entries u) = snd t - 1"
      unfolding u(4) c(1) using True by (rule card_Diff_singleton)
    moreover have "snd t - 1 < length u" using c(3) u(3) by linarith
    ultimately show ?thesis using u c False by (simp add: fd_remove_def fd_table_inv_def)
  next
    case absent: False
    then show ?thesis using fd_delete_ok(2) [OF s r] assms False by (simp add: fd_remove_def)
  qed
qed (use assms in \<open>auto simp: fd_remove_def\<close>)

interpretation fd_table: fd_index "fd_table_inv fd_of" "\<lambda>t. entries (fst t)" fd_of
  "\<lambda>t. fd_find fd_of (fst t)" "fd_insert fd_of" "fd_remove fd_of"
proof unfold_locales
  show L: "fd_find fd_of (fst t) k = Some a \<longleftrightarrow> a \<in> entries (fst t) \<and> fd_of a = k"
    if "fd_table_inv fd_of t" for t k a
    using that fd_find_iff by (simp add: fd_table_inv_def)
  show "fd_table_inv fd_of t' \<and> entries (fst t') = insert a (entries (fst t))"
    if "fd_table_inv fd_of t" "fd_find fd_of (fst t) (fd_of a) = None"
      "fd_insert fd_of room t a = Some t'" for t a room t'
  proof (rule fd_insert_ok [OF that(1) _ that(3)])
    fix b assume "b \<in> entries (fst t)"
    then show "fd_of b \<noteq> fd_of a" using L [OF that(1), of "fd_of a" b] that(2) by auto
  qed
qed (rule fd_remove_ok)

section \<open>The operations on the port\<close>

text \<open>The probing loops read the descriptor of the registrations they meet.  The model checks all
  registrations of the table for life, which includes those.\<close>

definition sock_fd_of :: "('os, 'z) ep_world_scheme \<Rightarrow> addr \<Rightarrow> sock_fd" where
  "sock_fd_of s a = (case socks s a of None \<Rightarrow> 0 | Some k \<Rightarrow> sk_fd k)"

definition table_fds :: "addr option list \<Rightarrow> (('os, 'z) ep_world_scheme, addr \<Rightarrow> sock_fd) state" where
  "table_fds tbl = do {
     socks' \<leftarrow> gets socks;
     assert_that (list_all (\<lambda>v. case v of None \<Rightarrow> True | Some a \<Rightarrow> socks' a \<noteq> None) tbl);
     gets sock_fd_of
   }"

definition ep_fd_table_grow ::
  "('os, 'y) ep_sys_scheme \<Rightarrow> addr \<Rightarrow> nat \<Rightarrow> (('os, 'z) ep_world_scheme, int) state" where
  "ep_fd_table_grow sys port new_size =
    (if new_size = 0 \<or> new_size > FD_TABLE_MAX then do { ep_set_errno ENOMEM; return (- 1) }
     else do {
       room \<leftarrow> syscall (sys_malloc sys (of_nat (new_size * 8)));
       if \<not> room then do { ep_set_errno ENOMEM; return (- 1) }
       else do {
         tbl \<leftarrow> port_read port pt_fd_table;
         fds \<leftarrow> table_fds tbl;
         case fd_rehash fds tbl (replicate new_size None) of
           None \<Rightarrow> do { bad_access; return (- 1) }
         | Some new_table \<Rightarrow> do {
             port_upd port (\<lambda>q. q \<lparr> pt_fd_table := new_table \<rparr>);
             return 0
           }
       }
     })"

definition ep_fd_table_lookup :: "addr \<Rightarrow> sock_fd \<Rightarrow> (('os, 'z) ep_world_scheme, addr option) state" where
  "ep_fd_table_lookup port fd = do {
     tbl \<leftarrow> port_read port pt_fd_table;
     fds \<leftarrow> table_fds tbl;
     return (fd_find fds tbl fd)
   }"

definition fd_table_make_room ::
  "('os, 'y) ep_sys_scheme \<Rightarrow> addr \<Rightarrow> (('os, 'z) ep_world_scheme, int) state" where
  "fd_table_make_room sys port = do {
     tbl \<leftarrow> port_read port pt_fd_table;
     count \<leftarrow> port_read port pt_fd_table_count;
     if fd_table_full (length tbl) count then
       case fd_table_next_size (length tbl) of
         None \<Rightarrow> do { ep_set_errno ENOMEM; return (- 1) }
       | Some new_size \<Rightarrow> ep_fd_table_grow sys port new_size
     else return 0
   }"

definition ep_fd_table_insert ::
  "('os, 'y) ep_sys_scheme \<Rightarrow> addr \<Rightarrow> addr \<Rightarrow> (('os, 'z) ep_world_scheme, int) state" where
  "ep_fd_table_insert sys port sock = do {
     rc \<leftarrow> fd_table_make_room sys port;
     if rc \<noteq> 0 then return (- 1)
     else do {
       tbl \<leftarrow> port_read port pt_fd_table;
       fds \<leftarrow> table_fds (Some sock # tbl);
       case fd_place fds sock tbl of
         None \<Rightarrow> do { bad_access; return (- 1) }
       | Some t \<Rightarrow> do {
           port_upd port (\<lambda>q. q \<lparr> pt_fd_table := t, pt_fd_table_count := pt_fd_table_count q + 1 \<rparr>);
           return 0
         }
     }
   }"

definition ep_fd_table_remove :: "addr \<Rightarrow> addr \<Rightarrow> (('os, 'z) ep_world_scheme, unit) state" where
  "ep_fd_table_remove port sock = do {
     tbl \<leftarrow> port_read port pt_fd_table;
     if length tbl = 0 then skip
     else do {
       fds \<leftarrow> table_fds (Some sock # tbl);
       case fd_delete fds tbl sock of
         Removed t \<Rightarrow>
           port_upd port (\<lambda>q. q \<lparr> pt_fd_table := t, pt_fd_table_count := pt_fd_table_count q - 1 \<rparr>)
       | Not_There \<Rightarrow> skip
       | Diverges \<Rightarrow> bad_access
     }
   }"

lemma wp_case_fd_removal [wp_simps]:
  "wp (case v of Removed t \<Rightarrow> k t | Not_There \<Rightarrow> m | Diverges \<Rightarrow> n) Q s =
     (case v of Removed t \<Rightarrow> wp (k t) Q s | Not_There \<Rightarrow> wp m Q s | Diverges \<Rightarrow> wp n Q s)"
  by (cases v) simp_all

section \<open>The operations implement the table\<close>

definition port_fd_table :: "ep_port \<Rightarrow> addr option list \<times> nat" where
  "port_fd_table q = (pt_fd_table q, pt_fd_table_count q)"

definition fd_table_ok :: "('os, 'z) ep_world_scheme \<Rightarrow> addr \<Rightarrow> bool" where
  "fd_table_ok s p \<longleftrightarrow> (case ports s p of None \<Rightarrow> False | Some q \<Rightarrow>
     fd_table_inv (sock_fd_of s) (port_fd_table q) \<and>
     (\<forall>a \<in> entries (pt_fd_table q). socks s a \<noteq> None))"

lemma list_all_live:
  "list_all (\<lambda>v. case v of None \<Rightarrow> True | Some a \<Rightarrow> m a \<noteq> None) tbl \<longleftrightarrow> (\<forall>a \<in> entries tbl. m a \<noteq> None)"
  by (auto simp: list_all_iff entries_def split: option.splits)

lemma wp_table_fds [wp_simps]:
  "\<forall>a \<in> entries tbl. socks s a \<noteq> None \<Longrightarrow> wp (table_fds tbl) Q s = Q (sock_fd_of s) s"
  by (simp add: table_fds_def wp_simps list_all_live)

lemma entries_Cons [simp]: "entries (Some a # tbl) = insert a (entries tbl)"
  by (auto simp: entries_def)

lemma fd_lookup_rule:
  assumes "fd_table_ok s p" "ports s p = Some q" "Q (fd_find (sock_fd_of s) (pt_fd_table q) fd) s"
  shows "wp (ep_fd_table_lookup p fd) Q s"
  using assms by (simp add: ep_fd_table_lookup_def wp_simps fd_table_ok_def)

lemma fd_remove_rule:
  assumes "fd_table_ok s p" "ports s p = Some q" "socks s a \<noteq> None"
    and "Q () (s \<lparr> ports := (ports s)(p \<mapsto> q \<lparr>
        pt_fd_table := fst (fd_remove (sock_fd_of s) (port_fd_table q) a),
        pt_fd_table_count := snd (fd_remove (sock_fd_of s) (port_fd_table q) a) \<rparr>) \<rparr>)"
  shows "wp (ep_fd_table_remove p a) Q s"
proof -
  have inv: "fd_table_inv (sock_fd_of s) (port_fd_table q)"
    and live: "\<forall>a \<in> entries (pt_fd_table q). socks s a \<noteq> None"
    using assms(1,2) by (auto simp: fd_table_ok_def)
  let ?r = "fd_remove (sock_fd_of s) (port_fd_table q) a"
  have same: "Q () s" if "?r = port_fd_table q"
  proof -
    have "q \<lparr> pt_fd_table := pt_fd_table q, pt_fd_table_count := pt_fd_table_count q \<rparr> = q" by simp
    then show ?thesis
      using assms(4) assms(2) unfolding that by (simp add: port_fd_table_def fun_upd_idem)
  qed
  show ?thesis
  proof (cases "pt_fd_table q = []")
    case True
    then have "Q () s" by (intro same) (simp add: fd_remove_def port_fd_table_def)
    then show ?thesis using assms(2) True by (simp add: ep_fd_table_remove_def wp_simps)
  next
    case False
    have so: "slots_ok (sock_fd_of s) (pt_fd_table q)" and room: "has_room (pt_fd_table q)"
      using fd_table_inv_room [OF inv] inv False by (simp_all add: fd_table_inv_def port_fd_table_def)
    have nd: "fd_delete (sock_fd_of s) (pt_fd_table q) a \<noteq> Diverges"
      using fd_delete_ok [OF so room, of a] by (metis fd_removal.distinct(3,5))
    show ?thesis
    proof (cases "fd_delete (sock_fd_of s) (pt_fd_table q) a")
      case (Removed t)
      then have "?r = (t, pt_fd_table_count q - 1)" using False by (simp add: fd_remove_def port_fd_table_def)
      then show ?thesis
        using assms(2,3,4) False live Removed by (simp add: ep_fd_table_remove_def wp_simps)
    next
      case Not_There
      then have "Q () s" using False by (intro same) (simp add: fd_remove_def port_fd_table_def)
      then show ?thesis
        using assms(2,3) False live Not_There by (simp add: ep_fd_table_remove_def wp_simps)
    qed (use nd in simp)
  qed
qed

lemma fd_insert_rule:
  assumes ok: "fd_table_ok s p" and q: "ports s p = Some q" and a: "socks s a \<noteq> None"
    and fresh: "fd_find (sock_fd_of s) (pt_fd_table q) (sock_fd_of s a) = None"
    and fail: "\<And>os info. Q (- 1) (s \<lparr> os_state := os, ep_errno := ENOMEM, g_last_error_info := info \<rparr>)"
    and good: "\<And>os t. fd_insert (sock_fd_of s) True (port_fd_table q) a = Some t \<Longrightarrow>
      Q 0 (s \<lparr> os_state := os,
        ports := (ports s)(p \<mapsto> q \<lparr> pt_fd_table := fst t, pt_fd_table_count := snd t \<rparr>) \<rparr>)"
  shows "wp (ep_fd_table_insert sys p a) Q s"
proof -
  let ?f = "sock_fd_of s"
  have inv: "fd_table_inv ?f (pt_fd_table q, pt_fd_table_count q)"
    and live: "\<forall>a \<in> entries (pt_fd_table q). socks s a \<noteq> None"
    using ok q by (auto simp: fd_table_ok_def port_fd_table_def)
  have new: "?f b \<noteq> ?f a" if "b \<in> entries (pt_fd_table q)" for b
    using fd_find_iff [of ?f "pt_fd_table q" "?f a" b] inv that fresh by (auto simp: fd_table_inv_def)
  have place: "\<exists>v. fd_place ?f a u = Some v"
    if "slots_ok ?f u" "entries u = entries (pt_fd_table q)" "pt_fd_table_count q < length u" for u
    using fd_place_ok [OF that(1) room_if [of ?f u], of a] that inv new
    by (auto simp: slots_ok_iff fd_table_inv_def)
  show ?thesis
  proof (cases "fd_table_full (length (pt_fd_table q)) (pt_fd_table_count q)")
    case False
    then have "pt_fd_table_count q < length (pt_fd_table q)" by (auto simp: fd_table_full_def)
    then obtain v where v: "fd_place ?f a (pt_fd_table q) = Some v"
      using place [of "pt_fd_table q"] inv by (auto simp: fd_table_inv_def)
    then have "fd_insert ?f True (port_fd_table q) a = Some (v, pt_fd_table_count q + 1)"
      using False by (simp add: fd_insert_def port_fd_table_def)
    from good [OF this, of "os_state s"] show ?thesis
      using False q a live v
      by (simp add: ep_fd_table_insert_def fd_table_make_room_def wp_simps)
  next
    case True
    show ?thesis
    proof (cases "fd_table_next_size (length (pt_fd_table q))")
      case None
      then show ?thesis
        using True q fail [where os = "os_state s"]
        by (simp add: ep_fd_table_insert_def fd_table_make_room_def wp_simps)
    next
      case (Some n)
      have n: "n \<noteq> 0" "pt_fd_table_count q < n"
        using Some inv by (auto simp: fd_table_next_size_def fd_table_inv_def split: if_splits)
      obtain u where u: "fd_rehash ?f (pt_fd_table q) (replicate n None) = Some u" "length u = n"
        "slots_ok ?f u" "entries u = entries (pt_fd_table q)"
        using fd_grow_ok [OF inv n(2)] by auto
      obtain v where v: "fd_place ?f a u = Some v" using place [of u] u n by auto
      have "fd_insert ?f True (port_fd_table q) a = Some (v, pt_fd_table_count q + 1)" if "\<not> n > FD_TABLE_MAX"
        using True Some u v that by (simp add: fd_insert_def port_fd_table_def)
      note good [OF this]
      moreover have "sock_fd_of (s \<lparr> os_state := os \<rparr>) = ?f" "sock_fd_of (s \<lparr> os_state := os, ports := P \<rparr>) = ?f" for os P
        by (simp_all add: sock_fd_of_def fun_eq_iff)
      ultimately show ?thesis
        using True Some n q a live u v fail fail [where os = "os_state s"]
        by (simp add: ep_fd_table_insert_def fd_table_make_room_def ep_fd_table_grow_def wp_simps)
    qed
  qed
qed

text \<open>The map that a port's table implements, as its lookup operation computes it.\<close>

definition fd_map :: "addr \<Rightarrow> ('os, 'z) ep_world_scheme \<Rightarrow> sock_fd \<Rightarrow> addr option" where
  "fd_map p s fd = result_of (ep_fd_table_lookup p fd) s"

lemma fd_map_eq:
  assumes "fd_table_ok s p" "ports s p = Some q"
  shows "fd_map p s = fd_find (sock_fd_of s) (fst (port_fd_table q))"
  using fd_lookup_rule [OF assms, of "\<lambda>r _. r = fd_find (sock_fd_of s) (pt_fd_table q) fd" fd for fd]
  by (auto simp: fd_map_def wp_def port_fd_table_def fun_eq_iff)

lemma fd_insert_maps:
  assumes ok: "fd_table_ok s p" and k: "socks s a = Some k" and none: "fd_map p s (sk_fd k) = None"
  shows "wp (ep_fd_table_insert sys p a) (\<lambda>r s'. fd_table_ok s' p \<and> ep_ub s' = ep_ub s \<and>
    (r = 0 \<and> fd_map p s' = (fd_map p s)(sk_fd k \<mapsto> a) \<or>
     r = - 1 \<and> fd_map p s' = fd_map p s \<and> ep_errno s' = ENOMEM)) s"
proof -
  obtain q where q: "ports s p = Some q" using ok by (auto simp: fd_table_ok_def split: option.splits)
  have inv: "fd_table_inv (sock_fd_of s) (port_fd_table q)"
    and live: "\<forall>a \<in> entries (pt_fd_table q). socks s a \<noteq> None"
    using ok q by (auto simp: fd_table_ok_def)
  have fd: "sock_fd_of s a = sk_fd k" using k by (simp add: sock_fd_of_def)
  have fresh: "fd_find (sock_fd_of s) (fst (port_fd_table q)) (sock_fd_of s a) = None"
    using fd_map_eq [OF ok q] fd none by simp
  show ?thesis
  proof (rule fd_insert_rule [OF ok q])
    fix os info
    let ?s = "s \<lparr> os_state := os, ep_errno := ENOMEM, g_last_error_info := info \<rparr>"
    have "sock_fd_of ?s = sock_fd_of s" by (simp add: sock_fd_of_def fun_eq_iff)
    moreover from this have "fd_table_ok ?s p" using ok q by (simp add: fd_table_ok_def)
    ultimately show "fd_table_ok ?s p \<and> ep_ub ?s = ep_ub s \<and>
      (- 1 = (0::int) \<and> fd_map p ?s = (fd_map p s)(sk_fd k \<mapsto> a) \<or>
       - 1 = (- 1::int) \<and> fd_map p ?s = fd_map p s \<and> ep_errno ?s = ENOMEM)"
      using fd_map_eq [OF ok q] fd_map_eq [of ?s p q] q by simp
  next
    fix os t
    assume t: "fd_insert (sock_fd_of s) True (port_fd_table q) a = Some t"
    let ?q = "q \<lparr> pt_fd_table := fst t, pt_fd_table_count := snd t \<rparr>"
    let ?s = "s \<lparr> os_state := os, ports := (ports s)(p \<mapsto> ?q) \<rparr>"
    have f: "sock_fd_of ?s = sock_fd_of s" by (simp add: sock_fd_of_def fun_eq_iff)
    have t': "port_fd_table ?q = t" by (simp add: port_fd_table_def)
    have "fd_table_inv (sock_fd_of s) t \<and> entries (fst t) = insert a (entries (fst (port_fd_table q)))"
      by (rule fd_table.ins_ok [OF inv fresh t])
    then have ok': "fd_table_ok ?s p"
      using f t' live k by (simp add: fd_table_ok_def port_fd_table_def)
    moreover have "fd_map p ?s = (fd_map p s)(sk_fd k \<mapsto> a)"
      using fd_table.lookup_ins [OF inv fresh t] fd_map_eq [OF ok q] fd_map_eq [OF ok', of ?q] f t' fd by simp
    ultimately show "fd_table_ok ?s p \<and> ep_ub ?s = ep_ub s \<and>
      ((0::int) = 0 \<and> fd_map p ?s = (fd_map p s)(sk_fd k \<mapsto> a) \<or>
       (0::int) = - 1 \<and> fd_map p ?s = fd_map p s \<and> ep_errno ?s = ENOMEM)" by simp
  qed (use k fresh in \<open>simp_all add: port_fd_table_def\<close>)
qed

lemma fd_remove_maps:
  assumes ok: "fd_table_ok s p" and k: "socks s a = Some k" and some: "fd_map p s (sk_fd k) = Some a"
  shows "wp (ep_fd_table_remove p a) (\<lambda>_ s'. fd_table_ok s' p \<and> ep_ub s' = ep_ub s \<and>
    fd_map p s' = (fd_map p s)(sk_fd k := None)) s"
proof -
  obtain q where q: "ports s p = Some q" using ok by (auto simp: fd_table_ok_def split: option.splits)
  have inv: "fd_table_inv (sock_fd_of s) (port_fd_table q)"
    and live: "\<forall>a \<in> entries (pt_fd_table q). socks s a \<noteq> None"
    using ok q by (auto simp: fd_table_ok_def)
  have fd: "sock_fd_of s a = sk_fd k" using k by (simp add: sock_fd_of_def)
  have found: "fd_find (sock_fd_of s) (fst (port_fd_table q)) (sk_fd k) = Some a"
    using fd_map_eq [OF ok q] some by simp
  let ?t = "fd_remove (sock_fd_of s) (port_fd_table q) a"
  let ?q = "q \<lparr> pt_fd_table := fst ?t, pt_fd_table_count := snd ?t \<rparr>"
  let ?s = "s \<lparr> ports := (ports s)(p \<mapsto> ?q) \<rparr>"
  have f: "sock_fd_of ?s = sock_fd_of s" by (simp add: sock_fd_of_def fun_eq_iff)
  have t': "port_fd_table ?q = ?t" by (simp add: port_fd_table_def)
  have ok': "fd_table_ok ?s p"
    using f t' live fd_table.del_ok [OF inv, of a] by (auto simp: fd_table_ok_def port_fd_table_def)
  have "fd_map p ?s = (fd_map p s)(sk_fd k := None)"
    using fd_table.lookup_del [OF inv found] fd_map_eq [OF ok q] fd_map_eq [OF ok', of ?q] f t' by simp
  then show ?thesis using ok' k by (intro fd_remove_rule [OF ok q]) auto
qed

text \<open>
  (C1) The fd table of a port is a map from descriptors to registrations, under insertion with
  growth and under deletion with re-seated clusters.  A successful insertion of a registration
  whose descriptor is absent adds exactly that binding; a failed one reports ENOMEM and leaves the
  map as it was; removing the registration found under a descriptor removes exactly that binding.
  None of the operations runs its probing loop forever or touches a dead registration.
\<close>

theorem fd_table_refines_map:
  assumes "fd_table_ok s p" "socks s a = Some k"
  shows "(fd_map p s (sk_fd k) = None \<longrightarrow>
      (let r = result_of (ep_fd_table_insert sys p a) s; s' = exec (ep_fd_table_insert sys p a) s in
       fd_table_ok s' p \<and> ep_ub s' = ep_ub s \<and>
       (r = 0 \<and> fd_map p s' = (fd_map p s)(sk_fd k \<mapsto> a) \<or>
        r = - 1 \<and> fd_map p s' = fd_map p s \<and> ep_errno s' = ENOMEM))) \<and>
    (fd_map p s (sk_fd k) = Some a \<longrightarrow>
      (let s' = exec (ep_fd_table_remove p a) s in
       fd_table_ok s' p \<and> ep_ub s' = ep_ub s \<and> fd_map p s' = (fd_map p s)(sk_fd k := None)))"
  using fd_insert_maps [OF assms, of sys] fd_remove_maps [OF assms] by (simp add: wp_def Let_def)

definition fd_world :: "unit ep_world" where
  "fd_world = ep_world_zero ()
     \<lparr> socks := [1 \<mapsto> ep_sock_zero \<lparr> sk_fd := 5 \<rparr>],
       ports := [0 \<mapsto> ep_port_zero \<lparr> pt_fd_table := [None, None, None, None] \<rparr>] \<rparr>"

theorem fd_table_refines_map_witness:
  "fd_table_ok fd_world 0 \<and> fd_map 0 fd_world 5 = None \<and>
   (let r = result_of (ep_fd_table_insert sys_ok 0 1) fd_world;
        s' = exec (ep_fd_table_insert sys_ok 0 1) fd_world in
    fd_table_ok s' 0 \<and> \<not> ep_ub s' \<and>
    (r = 0 \<and> fd_map 0 s' = (fd_map 0 fd_world)(5 \<mapsto> 1) \<or>
     r = - 1 \<and> fd_map 0 s' = fd_map 0 fd_world \<and> ep_errno s' = ENOMEM))"
proof -
  have ok: "fd_table_ok fd_world 0"
    by (auto simp: fd_table_ok_def fd_world_def fd_table_inv_def port_fd_table_def slots_ok_def
      entries_def nth_Cons ep_world_zero_def ep_port_zero_def split: nat.splits)
  have k: "socks fd_world 1 = Some (ep_sock_zero \<lparr> sk_fd := 5 \<rparr>)" by (simp add: fd_world_def)
  have ub: "\<not> ep_ub fd_world" by (simp add: fd_world_def ep_world_zero_def)
  have none: "fd_map 0 fd_world 5 = None"
    using fd_map_eq [OF ok, of "ep_port_zero \<lparr> pt_fd_table := [None, None, None, None] \<rparr>"]
    by (simp add: fd_world_def fd_find_def fd_hash_def port_fd_table_def)
  show ?thesis
    using fd_table_refines_map [OF ok k, where sys = sys_ok] ok none ub by (simp add: Let_def)
qed

end
