(* ===== verification/Linked.thy ===== *)
theory Linked
  imports Prelude
begin

text \<open>
  Doubly linked lists over two link functions: the surgery that the intrusive lists of the program
  share, on abstract links.  \<open>dlist nxt prv h t xs\<close> says that following \<open>nxt\<close> from \<open>h\<close> visits
  \<open>xs\<close> and following \<open>prv\<close> from \<open>t\<close> visits it backwards.
\<close>

fun seg :: "('a \<Rightarrow> 'a option) \<Rightarrow> 'a option \<Rightarrow> 'a list \<Rightarrow> 'a option \<Rightarrow> bool" where
  "seg f p [] q \<longleftrightarrow> p = q"
| "seg f p (x # xs) q \<longleftrightarrow> p = Some x \<and> seg f (f x) xs q"

lemma chain_seg: "chain f p xs \<longleftrightarrow> seg f p xs None"
  by (induction xs arbitrary: p) auto

lemma seg_append: "seg f p (us @ vs) q \<longleftrightarrow> (\<exists>r. seg f p us r \<and> seg f r vs q)"
  by (induction us arbitrary: p) auto

lemma chain_mid: "chain f p (us @ x # vs) \<longleftrightarrow> seg f p us (Some x) \<and> chain f (f x) vs"
  by (auto simp: chain_seg seg_append)

lemma seg_cong: "(\<And>x. x \<in> set xs \<Longrightarrow> f x = g x) \<Longrightarrow> seg f p xs q = seg g p xs q"
  by (induction xs arbitrary: p) auto

lemma seg_upd [simp]: "x \<notin> set xs \<Longrightarrow> seg (f(x := v)) p xs q = seg f p xs q"
  by (rule seg_cong) auto

lemma seg_snoc: "seg f p (us @ [u]) q \<longleftrightarrow> seg f p us (Some u) \<and> f u = q"
  by (auto simp: seg_append)

lemma seg_relink:
  "u \<notin> set us \<Longrightarrow> seg f p us (Some u) \<Longrightarrow> seg (f(u := q)) p (us @ [u]) q"
  by (simp add: seg_snoc)

lemma chain_start: "chain f p xs \<Longrightarrow> p = (if xs = [] then None else Some (hd xs))"
  by (cases xs) auto

definition dlist :: "('a \<Rightarrow> 'a option) \<Rightarrow> ('a \<Rightarrow> 'a option) \<Rightarrow> 'a option \<Rightarrow> 'a option \<Rightarrow> 'a list \<Rightarrow> bool" where
  "dlist nxt prv h t xs \<longleftrightarrow> chain nxt h xs \<and> chain prv t (rev xs)"

lemma dlist_distinct: "dlist nxt prv h t xs \<Longrightarrow> distinct xs"
  by (auto simp: dlist_def dest: chain_distinct)

lemma dlist_Nil [simp]: "dlist nxt prv h t [] \<longleftrightarrow> h = None \<and> t = None"
  by (simp add: dlist_def)

lemma dlist_ends: "dlist nxt prv h t xs \<Longrightarrow> h = (if xs = [] then None else Some (hd xs)) \<and>
    t = (if xs = [] then None else Some (last xs))"
  using chain_start [of nxt h xs] chain_start [of prv t "rev xs"] by (auto simp: dlist_def hd_rev)

lemma dlist_unique: "dlist nxt prv h t xs \<Longrightarrow> dlist nxt prv h t' ys \<Longrightarrow> xs = ys"
  using chain_unique by (auto simp: dlist_def)

lemma dlist_cong:
  "(\<And>x. x \<in> set xs \<Longrightarrow> f x = f' x) \<Longrightarrow> (\<And>x. x \<in> set xs \<Longrightarrow> g x = g' x) \<Longrightarrow>
   dlist f g h t xs = dlist f' g' h t xs"
  unfolding dlist_def using chain_cong [of xs f f'] chain_cong [of "rev xs" g g'] by auto

lemma dlist_rev: "dlist nxt prv h t xs \<longleftrightarrow> dlist prv nxt t h (rev xs)"
  by (auto simp: dlist_def)

text \<open>The neighbours of a member.\<close>

lemma dlist_nbrs:
  assumes "dlist nxt prv h t (us @ x # vs)"
  shows "nxt x = (if vs = [] then None else Some (hd vs))"
    and "prv x = (if us = [] then None else Some (last us))"
proof -
  have "chain nxt (nxt x) vs" using assms by (simp add: dlist_def chain_mid)
  then show "nxt x = (if vs = [] then None else Some (hd vs))" by (cases vs) auto
  have "chain prv (prv x) (rev us)" using assms by (simp add: dlist_def chain_mid)
  then show "prv x = (if us = [] then None else Some (last us))" by (cases us rule: rev_cases) auto
qed

lemma chain_drop:
  assumes "chain f p (us @ x # vs)"
  shows "chain (if us = [] then f else f(last us := f x)) (if us = [] then f x else p) (us @ vs)"
proof (cases us rule: rev_cases)
  case Nil
  then show ?thesis using assms by simp
next
  case (snoc ws u)
  have d: "distinct (us @ x # vs)" using assms by (rule chain_distinct)
  have s: "seg f p (ws @ [u]) (Some x)" "chain f (f x) vs"
    using assms snoc by (simp_all add: chain_mid seg_snoc)
  have "seg (f(u := f x)) p (ws @ [u]) (f x)"
    using d snoc s(1) by (intro seg_relink) (auto simp: seg_snoc)
  moreover have "chain (f(u := f x)) (f x) vs" using d snoc s(2) by auto
  ultimately have "chain (f(u := f x)) p ((ws @ [u]) @ vs)" by (auto simp: chain_seg seg_append)
  then show ?thesis using snoc by simp
qed

text \<open>Removal, as the code does it: the predecessor's link or the head, then the successor's link
  or the tail, then the node's own links.\<close>

definition unlink_next :: "('a \<Rightarrow> 'a option) \<Rightarrow> ('a \<Rightarrow> 'a option) \<Rightarrow> 'a \<Rightarrow> 'a \<Rightarrow> 'a option" where
  "unlink_next nxt prv x = (case prv x of None \<Rightarrow> nxt | Some y \<Rightarrow> nxt(y := nxt x))(x := None)"

definition unlink_head :: "('a \<Rightarrow> 'a option) \<Rightarrow> ('a \<Rightarrow> 'a option) \<Rightarrow> 'a \<Rightarrow> 'a option \<Rightarrow> 'a option" where
  "unlink_head nxt prv x h = (case prv x of None \<Rightarrow> nxt x | Some _ \<Rightarrow> h)"

lemma dlist_remove:
  assumes "dlist nxt prv h t (us @ x # vs)"
  shows "dlist (unlink_next nxt prv x) (unlink_next prv nxt x) (unlink_head nxt prv x h)
    (unlink_head prv nxt x t) (us @ vs)"
proof -
  have half: "chain (unlink_next f g x) (unlink_head f g x p) (us @ vs)"
    if "chain f p (us @ x # vs)" "g x = (if us = [] then None else Some (last us))"
    for f g p and us vs :: "'a list"
  proof -
    have "x \<notin> set (us @ vs)" using chain_distinct [OF that(1)] by auto
    moreover have "chain (if us = [] then f else f(last us := f x)) (if us = [] then f x else p) (us @ vs)"
      by (rule chain_drop [OF that(1)])
    ultimately show ?thesis
      using that(2) by (cases "us = []") (simp_all add: unlink_next_def unlink_head_def)
  qed
  note nb = dlist_nbrs [OF assms]
  have "chain (unlink_next nxt prv x) (unlink_head nxt prv x h) (us @ vs)"
    using assms nb by (intro half) (simp_all add: dlist_def)
  moreover have "chain (unlink_next prv nxt x) (unlink_head prv nxt x t) (rev vs @ rev us)"
    using assms nb by (intro half) (auto simp: dlist_def last_rev)
  ultimately show ?thesis by (simp add: dlist_def)
qed

lemma dlist_append:
  assumes "dlist nxt prv h t xs" "x \<notin> set xs" "nxt x = None"
  shows "dlist (case t of None \<Rightarrow> nxt | Some y \<Rightarrow> nxt(y := Some x)) (prv(x := t))
    (case t of None \<Rightarrow> Some x | Some _ \<Rightarrow> h) (Some x) (xs @ [x])"
proof (cases xs rule: rev_cases)
  case Nil
  then show ?thesis using assms by (simp add: dlist_def)
next
  case (snoc ys y)
  have d: "distinct xs" using assms(1) by (rule dlist_distinct)
  have t: "t = Some y" using dlist_ends [OF assms(1)] snoc by simp
  have "seg nxt h ys (Some y)" using assms(1) snoc by (simp add: dlist_def chain_seg seg_append)
  then have "seg (nxt(y := Some x)) h (ys @ [y]) (Some x)"
    using d snoc by (intro seg_relink) auto
  then have "chain (nxt(y := Some x)) h (xs @ [x])"
    using assms(2,3) snoc by (simp add: chain_mid seg_snoc)
  moreover have "chain (prv(x := t)) (Some x) (x # rev xs)"
    using assms(1,2) by (simp add: dlist_def)
  ultimately show ?thesis using t by (simp add: dlist_def)
qed

lemma dlist_push:
  assumes "dlist nxt prv h t xs" "x \<notin> set xs"
  shows "dlist (nxt(x := h)) ((case h of None \<Rightarrow> prv | Some y \<Rightarrow> prv(y := Some x))(x := None))
    (Some x) (case h of None \<Rightarrow> Some x | Some _ \<Rightarrow> t) (x # xs)"
proof -
  have "dlist prv nxt t h (rev xs)" using assms(1) dlist_rev by blast
  then have "dlist (prv(x := None)) nxt t h (rev xs)"
    using assms(2) by (simp add: dlist_def)
  from dlist_append [OF this, of x] assms(2)
  have "dlist (case h of None \<Rightarrow> prv(x := None) | Some y \<Rightarrow> prv(x := None, y := Some x)) (nxt(x := h))
    (case h of None \<Rightarrow> Some x | Some _ \<Rightarrow> t) (Some x) (rev (x # xs))" by simp
  moreover have "h = Some y \<Longrightarrow> y \<noteq> x" for y
    using dlist_ends [OF assms(1)] assms(2) by (auto split: if_splits)
  then have "(case h of None \<Rightarrow> prv(x := None) | Some y \<Rightarrow> prv(x := None, y := Some x)) =
    (case h of None \<Rightarrow> prv | Some y \<Rightarrow> prv(y := Some x))(x := None)"
    by (auto split: option.splits simp: fun_upd_twist)
  ultimately show ?thesis by (subst dlist_rev) simp
qed

lemma dlist_rotate:
  assumes "dlist nxt prv h t (x # xs)" "xs \<noteq> []"
  shows "dlist (nxt(x := None, last xs := Some x)) (prv(hd xs := None, x := t)) (nxt x) (Some x) (xs @ [x])"
proof -
  have d: "distinct (x # xs)" using assms(1) by (rule dlist_distinct)
  have t: "t = Some (last xs)" using dlist_ends [OF assms(1)] assms(2) by simp
  have nb: "nxt x = Some (hd xs)" "prv x = None"
    using dlist_nbrs [of nxt prv h t "[]" x xs] assms by auto
  have "dlist (unlink_next nxt prv x) (unlink_next prv nxt x) (unlink_head nxt prv x h)
    (unlink_head prv nxt x t) ([] @ xs)"
    using assms(1) by (intro dlist_remove) simp
  then have r: "dlist (nxt(x := None)) (prv(hd xs := None, x := None)) (nxt x) t xs"
    using nb by (simp add: unlink_next_def unlink_head_def)
  from dlist_append [OF r, of x] d t
  show ?thesis using nb by simp
qed

end
