(* ===== verification/Ep_Worklist.thy ===== *)
theory Ep_Worklist
  imports Ep_Fd_Table Linked
begin

text \<open>
  The deferred-work lists of a port, \<^verbatim>\<open>src/src/wepoll_ex_port.c\<close>: intrusive doubly linked lists
  of the registrations that need re-arming and of the fired oneshot registrations, each kept in
  lockstep with a flag in the registration and a count in the port.  The two lists have the same
  code over different fields; the locale \<open>worklist\<close> states what that code needs of the fields and
  holds its proofs, and is interpreted on the fields of both lists.
\<close>

section \<open>Links of registrations\<close>

definition fl :: "(ep_sock \<Rightarrow> 'b option) \<Rightarrow> (addr \<Rightarrow> ep_sock option) \<Rightarrow> addr \<Rightarrow> 'b option" where
  "fl g S a = (case S a of None \<Rightarrow> None | Some k \<Rightarrow> g k)"

lemma fl_upd [simp]: "fl g (S(a \<mapsto> k)) = (fl g S)(a := g k)"
  by (auto simp: fl_def)

lemma fl_at [simp]: "S a = Some k \<Longrightarrow> fl g S a = g k"
  by (simp add: fl_def)

lemma fl_idem: "S a = Some k \<Longrightarrow> (fl g S)(a := g k) = fl g S"
  by (simp add: fun_upd_idem)

section \<open>The contract of the fields\<close>

locale worklist =
  fixes gn gp :: "ep_sock \<Rightarrow> addr option" and gf :: "ep_sock \<Rightarrow> bool"
    and sn sp :: "addr option \<Rightarrow> ep_sock \<Rightarrow> ep_sock" and sf :: "bool \<Rightarrow> ep_sock \<Rightarrow> ep_sock"
    and gh gt :: "ep_port \<Rightarrow> addr option" and gc :: "ep_port \<Rightarrow> nat"
    and sh st :: "addr option \<Rightarrow> ep_port \<Rightarrow> ep_port" and sc :: "nat \<Rightarrow> ep_port \<Rightarrow> ep_port"
    and er :: "ep_sock \<Rightarrow> ep_sock" and erp :: "ep_port \<Rightarrow> ep_port"
  assumes sock_laws:
      "gn (sn v k) = v" "gn (sp v k) = gn k" "gn (sf b k) = gn k"
      "gp (sn v k) = gp k" "gp (sp v k) = v" "gp (sf b k) = gp k"
      "gf (sn v k) = gf k" "gf (sp v k) = gf k" "gf (sf b k) = b"
      "er (sn v k) = er k" "er (sp v k) = er k" "er (sf b k) = er k"
    and er_port: "sk_port (er k) = sk_port k"
    and port_laws:
      "gh (sh v q) = v" "gh (st v q) = gh q" "gh (sc n q) = gh q"
      "gt (sh v q) = gt q" "gt (st v q) = v" "gt (sc n q) = gt q"
      "gc (sh v q) = gc q" "gc (st v q) = gc q" "gc (sc n q) = n"
      "erp (sh v q) = erp q" "erp (st v q) = erp q" "erp (sc n q) = erp q"
begin

lemma port_kept: "sk_port (sn v k) = sk_port k" "sk_port (sp v k) = sk_port k" "sk_port (sf b k) = sk_port k"
  by (metis er_port sock_laws(10), metis er_port sock_laws(11), metis er_port sock_laws(12))

text \<open>The code, over the fields.\<close>

definition append_prog :: "addr \<Rightarrow> addr \<Rightarrow> (('os, 'z) ep_world_scheme, unit) state" where
  "append_prog p a = do {
     n \<leftarrow> sock_read a gn;
     assert_that (n = None);
     r \<leftarrow> sock_read a gp;
     assert_that (r = None);
     t \<leftarrow> port_read p gt;
     sock_upd a (sp t);
     (case t of
        Some y \<Rightarrow> sock_upd y (sn (Some a))
      | None \<Rightarrow> port_upd p (sh (Some a)));
     port_upd p (st (Some a))
   }"

definition remove_prog :: "addr \<Rightarrow> addr \<Rightarrow> (('os, 'z) ep_world_scheme, unit) state" where
  "remove_prog p a = do {
     r \<leftarrow> sock_read a gp;
     n \<leftarrow> sock_read a gn;
     (case r of
        Some y \<Rightarrow> sock_upd y (sn n)
      | None \<Rightarrow> do {
          h \<leftarrow> port_read p gh;
          assert_that (h = Some a);
          port_upd p (sh n)
        });
     (case n of
        Some z \<Rightarrow> sock_upd z (sp r)
      | None \<Rightarrow> do {
          t \<leftarrow> port_read p gt;
          assert_that (t = Some a);
          port_upd p (st r)
        });
     sock_upd a (sn None);
     sock_upd a (sp None)
   }"

definition rotate_prog :: "addr \<Rightarrow> addr \<Rightarrow> (('os, 'z) ep_world_scheme, unit) state" where
  "rotate_prog p a = do {
     h \<leftarrow> port_read p gh;
     assert_that (h = Some a);
     t \<leftarrow> port_read p gt;
     if t = Some a then skip
     else do {
       n \<leftarrow> sock_read a gn;
       port_upd p (sh n);
       (case n of
          Some z \<Rightarrow> sock_upd z (sp None)
        | None \<Rightarrow> bad_access);
       sock_upd a (sn None);
       sock_upd a (sp t);
       (case t of
          Some y \<Rightarrow> sock_upd y (sn (Some a))
        | None \<Rightarrow> bad_access);
       port_upd p (st (Some a))
     }
   }"

definition set_flag_prog :: "addr \<Rightarrow> bool \<Rightarrow> (('os, 'z) ep_world_scheme, unit) state" where
  "set_flag_prog a requested = do {
     p \<leftarrow> sock_read a sk_port;
     current \<leftarrow> sock_read a gf;
     if current = requested then skip
     else if requested then do {
       sock_upd a (sf True);
       append_prog p a;
       port_upd p (\<lambda>q. sc (gc q + 1) q)
     } else do {
       c \<leftarrow> port_read p gc;
       assert_that (c > 0);
       remove_prog p a;
       sock_upd a (sf False);
       port_upd p (\<lambda>q. sc (gc q - 1) q)
     }
   }"

text \<open>What the list of a port is, and what its operations leave alone.\<close>

definition wl_state :: "('os, 'z) ep_world_scheme \<Rightarrow> addr \<Rightarrow> addr list \<Rightarrow> bool" where
  "wl_state s p xs \<longleftrightarrow> (\<exists>q. ports s p = Some q \<and>
     dlist (fl gn (socks s)) (fl gp (socks s)) (gh q) (gt q) xs \<and> gc q = length xs \<and>
     (\<forall>a \<in> set xs. \<exists>k. socks s a = Some k \<and> sk_port k = p) \<and>
     (\<forall>a k. socks s a = Some k \<longrightarrow> sk_port k = p \<longrightarrow>
        (gf k \<longleftrightarrow> a \<in> set xs) \<and> (\<not> gf k \<longrightarrow> gn k = None \<and> gp k = None)))"

definition wl_frame :: "addr \<Rightarrow> ('os, 'z) ep_world_scheme \<Rightarrow> ('os, 'z) ep_world_scheme \<Rightarrow> bool" where
  "wl_frame p s s' \<longleftrightarrow>
     s' = s \<lparr> socks := socks s', ports := ports s' \<rparr> \<and>
     (\<forall>b. map_option er (socks s' b) = map_option er (socks s b)) \<and>
     (\<forall>r. map_option erp (ports s' r) = map_option erp (ports s r)) \<and>
     (\<forall>b k. socks s b = Some k \<longrightarrow> sk_port k \<noteq> p \<longrightarrow> socks s' b = Some k) \<and>
     (\<forall>r. r \<noteq> p \<longrightarrow> ports s' r = ports s r)"

lemma wl_member:
  assumes "wl_state s p xs" "x \<in> set xs"
  obtains k where "socks s x = Some k" "sk_port k = p" "gf k"
  using assms unfolding wl_state_def by blast

lemma wl_unique: "wl_state s p xs \<Longrightarrow> wl_state s p ys \<Longrightarrow> xs = ys"
  using dlist_unique unfolding wl_state_def by fastforce

lemma frame_sock:
  assumes "wl_frame p s s'" "socks s' b = Some k'"
  obtains k where "socks s b = Some k" "er k = er k'" "sk_port k = sk_port k'"
proof -
  have "map_option er (socks s b) = Some (er k')" using assms unfolding wl_frame_def by (metis option.map(2))
  then obtain k where "socks s b = Some k" "er k = er k'" by auto
  moreover from this have "sk_port k = sk_port k'" using er_port by metis
  ultimately show thesis using that by blast
qed

text \<open>The list of another port is not touched.\<close>

lemma wl_other:
  assumes f: "wl_frame p s s'" and w: "wl_state s r ys" and "r \<noteq> p"
  shows "wl_state s' r ys"
proof -
  obtain q where q: "ports s r = Some q" "dlist (fl gn (socks s)) (fl gp (socks s)) (gh q) (gt q) ys"
    "gc q = length ys" "\<forall>a \<in> set ys. \<exists>k. socks s a = Some k \<and> sk_port k = r"
    "\<forall>a k. socks s a = Some k \<longrightarrow> sk_port k = r \<longrightarrow>
        (gf k \<longleftrightarrow> a \<in> set ys) \<and> (\<not> gf k \<longrightarrow> gn k = None \<and> gp k = None)"
    using w unfolding wl_state_def by blast
  have same: "socks s' a = Some k" if "socks s a = Some k" "sk_port k = r" for a k
    using f that \<open>r \<noteq> p\<close> unfolding wl_frame_def by blast
  have bk: "socks s a = Some k" if "socks s' a = Some k" "sk_port k = r" for a k
    using frame_sock [OF f that(1)] that same by (metis option.inject)
  have m: "socks s' x = socks s x" if "x \<in> set ys" for x using q(4) same that by metis
  have "fl g (socks s') x = fl g (socks s) x" if "x \<in> set ys" for x and g :: "ep_sock \<Rightarrow> addr option"
    using m [OF that] by (simp add: fl_def)
  then have "dlist (fl gn (socks s')) (fl gp (socks s')) (gh q) (gt q) ys"
    using q(2) dlist_cong [of ys "fl gn (socks s')" "fl gn (socks s)" "fl gp (socks s')" "fl gp (socks s)"]
    by auto
  moreover have "ports s' r = Some q" using f q(1) \<open>r \<noteq> p\<close> unfolding wl_frame_def by simp
  moreover have "\<forall>a \<in> set ys. \<exists>k. socks s' a = Some k \<and> sk_port k = r" using q(4) same by blast
  moreover have "\<forall>a k. socks s' a = Some k \<longrightarrow> sk_port k = r \<longrightarrow>
        (gf k \<longleftrightarrow> a \<in> set ys) \<and> (\<not> gf k \<longrightarrow> gn k = None \<and> gp k = None)"
    using q(5) bk by blast
  ultimately show ?thesis using q(3) unfolding wl_state_def by blast
qed

lemma flag_on:
  assumes w: "wl_state s p xs" and k: "socks s a = Some k" "sk_port k = p" and off: "\<not> gf k"
  shows "wp (set_flag_prog a True) (\<lambda>_ s'. wl_state s' p (xs @ [a]) \<and> wl_frame p s s') s"
proof -
  obtain q where q: "ports s p = Some q" "dlist (fl gn (socks s)) (fl gp (socks s)) (gh q) (gt q) xs"
    "gc q = length xs" "\<forall>a \<in> set xs. \<exists>k. socks s a = Some k \<and> sk_port k = p"
    "\<forall>a k. socks s a = Some k \<longrightarrow> sk_port k = p \<longrightarrow>
        (gf k \<longleftrightarrow> a \<in> set xs) \<and> (\<not> gf k \<longrightarrow> gn k = None \<and> gp k = None)"
    using w unfolding wl_state_def by blast
  have a: "a \<notin> set xs" "gn k = None" "gp k = None" using q(5) k off by auto
  have "fl gn (socks s) a = None" using k a by simp
  note ap = dlist_append [OF q(2) a(1) this]
  have id: "(fl gn (socks s))(a := None) = fl gn (socks s)"
    using fl_idem [of "socks s" a k gn] k a by simp
  show ?thesis
  proof (cases "gt q")
    case None
    then have xs: "xs = []" using dlist_ends [OF q(2)] by (auto split: if_splits)
    show ?thesis
      using k q(1) None a off ap id q(3,4,5) xs
      by (simp add: set_flag_prog_def append_prog_def wp_simps sock_laws port_laws port_kept)
        (simp add: wl_state_def wl_frame_def sock_laws port_laws port_kept)
  next
    case (Some y)
    then have y: "y \<in> set xs" using dlist_ends [OF q(2)] by (auto split: if_splits)
    then obtain ky where ky: "socks s y = Some ky" "sk_port ky = p" using q(4) by blast
    have ya: "y \<noteq> a" using y a by auto
    have idy: "(fl gp (socks s))(a := v, y := gp ky) = (fl gp (socks s))(a := v)" for v
      using ky ya by (simp add: fun_eq_iff)
    show ?thesis
      using k q(1) Some a off ap id q(3,4,5) y ky ya idy
      by (simp add: set_flag_prog_def append_prog_def wp_simps sock_laws port_laws port_kept)
        (auto simp: wl_state_def wl_frame_def sock_laws port_laws port_kept fun_upd_twist)
  qed
qed

end

context worklist
begin

lemma flag_off:
  assumes w: "wl_state s p xs" and k: "socks s a = Some k" "sk_port k = p" and on: "gf k"
  shows "wp (set_flag_prog a False) (\<lambda>_ s'. wl_state s' p (remove1 a xs) \<and> wl_frame p s s') s"
proof -
  obtain q where q: "ports s p = Some q" "dlist (fl gn (socks s)) (fl gp (socks s)) (gh q) (gt q) xs"
    "gc q = length xs" "\<forall>a \<in> set xs. \<exists>k. socks s a = Some k \<and> sk_port k = p"
    "\<forall>a k. socks s a = Some k \<longrightarrow> sk_port k = p \<longrightarrow>
        (gf k \<longleftrightarrow> a \<in> set xs) \<and> (\<not> gf k \<longrightarrow> gn k = None \<and> gp k = None)"
    using w unfolding wl_state_def by blast
  have "a \<in> set xs" using q(5) k on by auto
  then obtain us vs where xs: "xs = us @ a # vs" by (metis split_list)
  have d: "distinct (us @ a # vs)" using dlist_distinct [OF q(2)] xs by simp
  have q2: "dlist (fl gn (socks s)) (fl gp (socks s)) (gh q) (gt q) (us @ a # vs)" using q(2) xs by simp
  have n: "gn k = (if vs = [] then None else Some (hd vs))"
    and r: "gp k = (if us = [] then None else Some (last us))"
    using dlist_nbrs [OF q2] k by simp_all
  have h: "gh q = Some a" if "us = []" using dlist_ends [OF q2] that by simp
  have t: "gt q = Some a" if "vs = []" using dlist_ends [OF q2] that by simp
  note rm = dlist_remove [OF q2, unfolded unlink_next_def unlink_head_def]
  have len: "length xs - 1 = length (us @ vs)" "0 < gc q" using xs q(3) by simp_all
  have rem: "remove1 a xs = us @ vs" using xs d by (simp add: remove1_append)
  have live: "\<exists>ky. socks s y = Some ky \<and> sk_port ky = p" if "y \<in> set us \<union> set vs" for y
    using q(4) xs that by auto
  have flags: "\<forall>b kb. socks s b = Some kb \<longrightarrow> sk_port kb = p \<longrightarrow>
      (gf kb \<longleftrightarrow> b \<in> set us \<union> set vs \<or> b = a) \<and> (\<not> gf kb \<longrightarrow> gn kb = None \<and> gp kb = None)"
    using q(5) xs by auto
  have mem: "\<forall>b \<in> set us \<union> set vs. \<exists>kb. socks s b = Some kb \<and> sk_port kb = p" using live by blast
  have na: "a \<notin> set us" "a \<notin> set vs" using d by auto
  note defs = set_flag_prog_def remove_prog_def wp_simps sock_laws port_laws port_kept
  note outs = wl_state_def wl_frame_def sock_laws port_laws port_kept rem
  show ?thesis
  proof (cases "us = []"; cases "vs = []")
    assume "us = []" "vs = []"
    then show ?thesis
      using k q(1) h t n r on len rm flags na q(3)
      by (simp add: defs) (simp add: outs)
  next
    assume c: "us = []" "vs \<noteq> []"
    then have z: "hd vs \<in> set vs" by simp
    then obtain kz where kz: "socks s (hd vs) = Some kz" "sk_port kz = p" using live by blast
    have za: "hd vs \<noteq> a" using z na by auto
    show ?thesis
      using c k q(1) h t n r on len rm flags na q(3) kz za z mem
      by (simp add: defs) (auto simp: outs fun_upd_idem)
  next
    assume c: "us \<noteq> []" "vs = []"
    then have y: "last us \<in> set us" by simp
    then obtain ky where ky: "socks s (last us) = Some ky" "sk_port ky = p" using live by blast
    have ya: "last us \<noteq> a" using y na by auto
    show ?thesis
      using c k q(1) h t n r on len rm flags na q(3) ky ya y mem
      by (simp add: defs) (auto simp: outs fun_upd_idem)
  next
    assume c: "us \<noteq> []" "vs \<noteq> []"
    then have y: "last us \<in> set us" and z: "hd vs \<in> set vs" by simp_all
    then obtain ky kz where ky: "socks s (last us) = Some ky" "sk_port ky = p"
      and kz: "socks s (hd vs) = Some kz" "sk_port kz = p" using live by blast
    have yz: "last us \<noteq> a" "hd vs \<noteq> a" "last us \<noteq> hd vs" using y z na d by auto
    show ?thesis
      using c k q(1) h t n r on len rm flags na q(3) ky kz yz y z mem
      by (simp add: defs) (auto simp: outs fun_upd_idem)
  qed
qed

end

context worklist
begin

lemma rotate:
  assumes w: "wl_state s p (a # xs)"
  shows "wp (rotate_prog p a) (\<lambda>_ s'. wl_state s' p (xs @ [a]) \<and> wl_frame p s s') s"
proof -
  obtain q where q: "ports s p = Some q" "dlist (fl gn (socks s)) (fl gp (socks s)) (gh q) (gt q) (a # xs)"
    "gc q = length (a # xs)" "\<forall>b \<in> set (a # xs). \<exists>k. socks s b = Some k \<and> sk_port k = p"
    "\<forall>b k. socks s b = Some k \<longrightarrow> sk_port k = p \<longrightarrow>
        (gf k \<longleftrightarrow> b \<in> set (a # xs)) \<and> (\<not> gf k \<longrightarrow> gn k = None \<and> gp k = None)"
    using w unfolding wl_state_def by blast
  obtain k where k: "socks s a = Some k" "sk_port k = p" using q(4) by auto
  have h: "gh q = Some a" and t: "gt q = Some (last (a # xs))" using dlist_ends [OF q(2)] by simp_all
  have d: "distinct (a # xs)" using dlist_distinct [OF q(2)] .
  show ?thesis
  proof (cases "xs = []")
    case True
    have "wl_frame p s s" by (simp add: wl_frame_def)
    then show ?thesis using True w q(1) h t by (simp add: rotate_prog_def wp_simps)
  next
    case False
    then have z: "hd xs \<in> set xs" and y: "last xs \<in> set xs" by simp_all
    then obtain ky kz where ky: "socks s (last xs) = Some ky" "sk_port ky = p"
      and kz: "socks s (hd xs) = Some kz" "sk_port kz = p"
      using q(4) by (meson list.set_intros(2))
    have ne: "last xs \<noteq> a" "hd xs \<noteq> a" using y z d by auto
    have n: "gn k = Some (hd xs)"
      using dlist_nbrs(1) [of "fl gn (socks s)" "fl gp (socks s)" "gh q" "gt q" "[]" a xs] q(2) k False by simp
    note ro = dlist_rotate [OF q(2) False]
    note defs = rotate_prog_def wp_simps sock_laws port_laws port_kept
    note outs = wl_state_def wl_frame_def sock_laws port_laws port_kept
    show ?thesis
    proof (cases "hd xs = last xs")
      case True
      then show ?thesis
        using False h t k q(1) ne n ro ky q(3,4,5) y z
        by (simp add: defs) (auto simp: outs fun_upd_idem fun_upd_twist)
    next
      case ne': False
      have up: "(fl gn (socks s))(hd xs := gn kz) = fl gn (socks s)"
        "((fl gp (socks s))(hd xs := None, a := gt q))(last xs := gp ky) =
         (fl gp (socks s))(hd xs := None, a := gt q)"
        using kz ky ne ne' by (auto simp: fun_eq_iff)
      then show ?thesis
        using False ne' h t k q(1) ne n ro ky kz q(3,4,5) y z
        by (simp add: defs) (auto simp: outs fun_upd_idem fun_upd_twist)
    qed
  qed
qed

lemma set_flag:
  assumes "wl_state s p xs" "socks s a = Some k" "sk_port k = p"
  shows "wp (set_flag_prog a b) (\<lambda>_ s'. wl_frame p s s' \<and> wl_state s' p
    (if b = gf k then xs else if b then xs @ [a] else remove1 a xs)) s"
proof (cases "b = gf k")
  case True
  then show ?thesis using assms by (simp add: set_flag_prog_def wp_simps wl_frame_def)
next
  case False
  then show ?thesis
    using flag_on [OF assms] flag_off [OF assms] by (cases b) (simp_all add: wp_def)
qed

end

section \<open>The operations\<close>

definition ep_rearm_list_append_locked :: "addr \<Rightarrow> addr \<Rightarrow> (('os, 'z) ep_world_scheme, unit) state" where
  "ep_rearm_list_append_locked port sock = do {
     n \<leftarrow> sock_read sock sk_rearm_next;
     assert_that (n = None);
     r \<leftarrow> sock_read sock sk_rearm_prev;
     assert_that (r = None);
     tail \<leftarrow> port_read port pt_rearm_tail;
     sock_upd sock (\<lambda>k. k \<lparr> sk_rearm_prev := tail \<rparr>);
     (case tail of
        Some y \<Rightarrow> sock_upd y (\<lambda>k. k \<lparr> sk_rearm_next := Some sock \<rparr>)
      | None \<Rightarrow> port_upd port (\<lambda>q. q \<lparr> pt_rearm_head := Some sock \<rparr>));
     port_upd port (\<lambda>q. q \<lparr> pt_rearm_tail := Some sock \<rparr>)
   }"

definition ep_rearm_list_remove_locked :: "addr \<Rightarrow> addr \<Rightarrow> (('os, 'z) ep_world_scheme, unit) state" where
  "ep_rearm_list_remove_locked port sock = do {
     r \<leftarrow> sock_read sock sk_rearm_prev;
     n \<leftarrow> sock_read sock sk_rearm_next;
     (case r of
        Some y \<Rightarrow> sock_upd y (\<lambda>k. k \<lparr> sk_rearm_next := n \<rparr>)
      | None \<Rightarrow> do {
          h \<leftarrow> port_read port pt_rearm_head;
          assert_that (h = Some sock);
          port_upd port (\<lambda>q. q \<lparr> pt_rearm_head := n \<rparr>)
        });
     (case n of
        Some z \<Rightarrow> sock_upd z (\<lambda>k. k \<lparr> sk_rearm_prev := r \<rparr>)
      | None \<Rightarrow> do {
          t \<leftarrow> port_read port pt_rearm_tail;
          assert_that (t = Some sock);
          port_upd port (\<lambda>q. q \<lparr> pt_rearm_tail := r \<rparr>)
        });
     sock_upd sock (\<lambda>k. k \<lparr> sk_rearm_next := None \<rparr>);
     sock_upd sock (\<lambda>k. k \<lparr> sk_rearm_prev := None \<rparr>)
   }"

definition ep_rearm_list_rotate_locked :: "addr \<Rightarrow> addr \<Rightarrow> (('os, 'z) ep_world_scheme, unit) state" where
  "ep_rearm_list_rotate_locked port sock = do {
     h \<leftarrow> port_read port pt_rearm_head;
     assert_that (h = Some sock);
     t \<leftarrow> port_read port pt_rearm_tail;
     if t = Some sock then skip
     else do {
       n \<leftarrow> sock_read sock sk_rearm_next;
       port_upd port (\<lambda>q. q \<lparr> pt_rearm_head := n \<rparr>);
       (case n of
          Some z \<Rightarrow> sock_upd z (\<lambda>k. k \<lparr> sk_rearm_prev := None \<rparr>)
        | None \<Rightarrow> bad_access);
       sock_upd sock (\<lambda>k. k \<lparr> sk_rearm_next := None \<rparr>);
       sock_upd sock (\<lambda>k. k \<lparr> sk_rearm_prev := t \<rparr>);
       (case t of
          Some y \<Rightarrow> sock_upd y (\<lambda>k. k \<lparr> sk_rearm_next := Some sock \<rparr>)
        | None \<Rightarrow> bad_access);
       port_upd port (\<lambda>q. q \<lparr> pt_rearm_tail := Some sock \<rparr>)
     }
   }"

definition ep_oneshot_list_append_locked :: "addr \<Rightarrow> addr \<Rightarrow> (('os, 'z) ep_world_scheme, unit) state" where
  "ep_oneshot_list_append_locked port sock = do {
     n \<leftarrow> sock_read sock sk_oneshot_next;
     assert_that (n = None);
     r \<leftarrow> sock_read sock sk_oneshot_prev;
     assert_that (r = None);
     tail \<leftarrow> port_read port pt_oneshot_tail;
     sock_upd sock (\<lambda>k. k \<lparr> sk_oneshot_prev := tail \<rparr>);
     (case tail of
        Some y \<Rightarrow> sock_upd y (\<lambda>k. k \<lparr> sk_oneshot_next := Some sock \<rparr>)
      | None \<Rightarrow> port_upd port (\<lambda>q. q \<lparr> pt_oneshot_head := Some sock \<rparr>));
     port_upd port (\<lambda>q. q \<lparr> pt_oneshot_tail := Some sock \<rparr>)
   }"

definition ep_oneshot_list_remove_locked :: "addr \<Rightarrow> addr \<Rightarrow> (('os, 'z) ep_world_scheme, unit) state" where
  "ep_oneshot_list_remove_locked port sock = do {
     r \<leftarrow> sock_read sock sk_oneshot_prev;
     n \<leftarrow> sock_read sock sk_oneshot_next;
     (case r of
        Some y \<Rightarrow> sock_upd y (\<lambda>k. k \<lparr> sk_oneshot_next := n \<rparr>)
      | None \<Rightarrow> do {
          h \<leftarrow> port_read port pt_oneshot_head;
          assert_that (h = Some sock);
          port_upd port (\<lambda>q. q \<lparr> pt_oneshot_head := n \<rparr>)
        });
     (case n of
        Some z \<Rightarrow> sock_upd z (\<lambda>k. k \<lparr> sk_oneshot_prev := r \<rparr>)
      | None \<Rightarrow> do {
          t \<leftarrow> port_read port pt_oneshot_tail;
          assert_that (t = Some sock);
          port_upd port (\<lambda>q. q \<lparr> pt_oneshot_tail := r \<rparr>)
        });
     sock_upd sock (\<lambda>k. k \<lparr> sk_oneshot_next := None \<rparr>);
     sock_upd sock (\<lambda>k. k \<lparr> sk_oneshot_prev := None \<rparr>)
   }"

definition ep_oneshot_list_rotate_locked :: "addr \<Rightarrow> addr \<Rightarrow> (('os, 'z) ep_world_scheme, unit) state" where
  "ep_oneshot_list_rotate_locked port sock = do {
     h \<leftarrow> port_read port pt_oneshot_head;
     assert_that (h = Some sock);
     t \<leftarrow> port_read port pt_oneshot_tail;
     if t = Some sock then skip
     else do {
       n \<leftarrow> sock_read sock sk_oneshot_next;
       port_upd port (\<lambda>q. q \<lparr> pt_oneshot_head := n \<rparr>);
       (case n of
          Some z \<Rightarrow> sock_upd z (\<lambda>k. k \<lparr> sk_oneshot_prev := None \<rparr>)
        | None \<Rightarrow> bad_access);
       sock_upd sock (\<lambda>k. k \<lparr> sk_oneshot_next := None \<rparr>);
       sock_upd sock (\<lambda>k. k \<lparr> sk_oneshot_prev := t \<rparr>);
       (case t of
          Some y \<Rightarrow> sock_upd y (\<lambda>k. k \<lparr> sk_oneshot_next := Some sock \<rparr>)
        | None \<Rightarrow> bad_access);
       port_upd port (\<lambda>q. q \<lparr> pt_oneshot_tail := Some sock \<rparr>)
     }
   }"

definition ep_sock_set_needs_rearm_locked :: "addr \<Rightarrow> bool \<Rightarrow> (('os, 'z) ep_world_scheme, unit) state" where
  "ep_sock_set_needs_rearm_locked sock requested = do {
     port \<leftarrow> sock_read sock sk_port;
     current \<leftarrow> sock_read sock sk_needs_rearm;
     if current = requested then skip
     else if requested then do {
       sock_upd sock (\<lambda>k. k \<lparr> sk_needs_rearm := True \<rparr>);
       ep_rearm_list_append_locked port sock;
       port_upd port (\<lambda>q. q \<lparr> pt_needs_rearm_count := pt_needs_rearm_count q + 1 \<rparr>)
     } else do {
       c \<leftarrow> port_read port pt_needs_rearm_count;
       assert_that (c > 0);
       ep_rearm_list_remove_locked port sock;
       sock_upd sock (\<lambda>k. k \<lparr> sk_needs_rearm := False \<rparr>);
       port_upd port (\<lambda>q. q \<lparr> pt_needs_rearm_count := pt_needs_rearm_count q - 1 \<rparr>)
     }
   }"

definition ep_sock_set_oneshot_fired_locked :: "addr \<Rightarrow> bool \<Rightarrow> (('os, 'z) ep_world_scheme, unit) state" where
  "ep_sock_set_oneshot_fired_locked sock requested = do {
     port \<leftarrow> sock_read sock sk_port;
     current \<leftarrow> sock_read sock sk_oneshot_fired;
     if current = requested then skip
     else if requested then do {
       sock_upd sock (\<lambda>k. k \<lparr> sk_oneshot_fired := True \<rparr>);
       ep_oneshot_list_append_locked port sock;
       port_upd port (\<lambda>q. q \<lparr> pt_oneshot_fired_count := pt_oneshot_fired_count q + 1 \<rparr>)
     } else do {
       c \<leftarrow> port_read port pt_oneshot_fired_count;
       assert_that (c > 0);
       ep_oneshot_list_remove_locked port sock;
       sock_upd sock (\<lambda>k. k \<lparr> sk_oneshot_fired := False \<rparr>);
       port_upd port (\<lambda>q. q \<lparr> pt_oneshot_fired_count := pt_oneshot_fired_count q - 1 \<rparr>)
     }
   }"

definition ep_sock_restore_worklist_state_locked ::
  "addr \<Rightarrow> bool \<Rightarrow> bool \<Rightarrow> (('os, 'z) ep_world_scheme, unit) state" where
  "ep_sock_restore_worklist_state_locked sock needs_rearm oneshot_fired = do {
     assert_that (\<not> (needs_rearm \<and> oneshot_fired));
     ep_sock_set_needs_rearm_locked sock False;
     ep_sock_set_oneshot_fired_locked sock False;
     ep_sock_set_needs_rearm_locked sock needs_rearm;
     ep_sock_set_oneshot_fired_locked sock oneshot_fired
   }"

interpretation rearm: worklist
  sk_rearm_next sk_rearm_prev sk_needs_rearm
  "\<lambda>v k. k \<lparr> sk_rearm_next := v \<rparr>" "\<lambda>v k. k \<lparr> sk_rearm_prev := v \<rparr>" "\<lambda>b k. k \<lparr> sk_needs_rearm := b \<rparr>"
  pt_rearm_head pt_rearm_tail pt_needs_rearm_count
  "\<lambda>v q. q \<lparr> pt_rearm_head := v \<rparr>" "\<lambda>v q. q \<lparr> pt_rearm_tail := v \<rparr>" "\<lambda>n q. q \<lparr> pt_needs_rearm_count := n \<rparr>"
  "\<lambda>k. k \<lparr> sk_needs_rearm := False, sk_rearm_next := None, sk_rearm_prev := None \<rparr>"
  "\<lambda>q. q \<lparr> pt_rearm_head := None, pt_rearm_tail := None, pt_needs_rearm_count := 0 \<rparr>"
  by unfold_locales simp_all

interpretation oneshot: worklist
  sk_oneshot_next sk_oneshot_prev sk_oneshot_fired
  "\<lambda>v k. k \<lparr> sk_oneshot_next := v \<rparr>" "\<lambda>v k. k \<lparr> sk_oneshot_prev := v \<rparr>" "\<lambda>b k. k \<lparr> sk_oneshot_fired := b \<rparr>"
  pt_oneshot_head pt_oneshot_tail pt_oneshot_fired_count
  "\<lambda>v q. q \<lparr> pt_oneshot_head := v \<rparr>" "\<lambda>v q. q \<lparr> pt_oneshot_tail := v \<rparr>" "\<lambda>n q. q \<lparr> pt_oneshot_fired_count := n \<rparr>"
  "\<lambda>k. k \<lparr> sk_oneshot_fired := False, sk_oneshot_next := None, sk_oneshot_prev := None \<rparr>"
  "\<lambda>q. q \<lparr> pt_oneshot_head := None, pt_oneshot_tail := None, pt_oneshot_fired_count := 0 \<rparr>"
  by unfold_locales simp_all

text \<open>The operations are the instances of the shared code.\<close>

lemma needs_rearm_prog: "ep_sock_set_needs_rearm_locked = rearm.set_flag_prog"
  by (simp add: fun_eq_iff ep_sock_set_needs_rearm_locked_def rearm.set_flag_prog_def
    ep_rearm_list_append_locked_def ep_rearm_list_remove_locked_def rearm.append_prog_def
    rearm.remove_prog_def cong: if_cong)

lemma oneshot_fired_prog: "ep_sock_set_oneshot_fired_locked = oneshot.set_flag_prog"
  by (simp add: fun_eq_iff ep_sock_set_oneshot_fired_locked_def oneshot.set_flag_prog_def
    ep_oneshot_list_append_locked_def ep_oneshot_list_remove_locked_def oneshot.append_prog_def
    oneshot.remove_prog_def cong: if_cong)

lemma rearm_rotate_prog: "ep_rearm_list_rotate_locked = rearm.rotate_prog"
  by (simp add: fun_eq_iff ep_rearm_list_rotate_locked_def rearm.rotate_prog_def)

lemma oneshot_rotate_prog: "ep_oneshot_list_rotate_locked = oneshot.rotate_prog"
  by (simp add: fun_eq_iff ep_oneshot_list_rotate_locked_def oneshot.rotate_prog_def)

context worklist
begin

text \<open>A change of the state that agrees on the fields of the list keeps the list.\<close>

lemma wl_cong:
  assumes "wl_state s p xs"
    and "\<And>b. map_option (\<lambda>k. (gn k, gp k, gf k, sk_port k)) (socks s' b) =
      map_option (\<lambda>k. (gn k, gp k, gf k, sk_port k)) (socks s b)"
    and "map_option (\<lambda>q. (gh q, gt q, gc q)) (ports s' p) = map_option (\<lambda>q. (gh q, gt q, gc q)) (ports s p)"
  shows "wl_state s' p xs"
proof -
  obtain q where q: "ports s p = Some q" "dlist (fl gn (socks s)) (fl gp (socks s)) (gh q) (gt q) xs"
    "gc q = length xs" "\<forall>a \<in> set xs. \<exists>k. socks s a = Some k \<and> sk_port k = p"
    "\<forall>a k. socks s a = Some k \<longrightarrow> sk_port k = p \<longrightarrow>
        (gf k \<longleftrightarrow> a \<in> set xs) \<and> (\<not> gf k \<longrightarrow> gn k = None \<and> gp k = None)"
    using assms(1) unfolding wl_state_def by blast
  obtain q' where q': "ports s' p = Some q'" "gh q' = gh q" "gt q' = gt q" "gc q' = gc q"
    using assms(3) q(1) by auto
  have same: "\<exists>k. socks s b = Some k \<and> gn k = gn k' \<and> gp k = gp k' \<and> gf k = gf k' \<and> sk_port k = sk_port k'"
    if "socks s' b = Some k'" for b k' using assms(2) [of b] that by (cases "socks s b") auto
  have same': "\<exists>k'. socks s' b = Some k' \<and> gn k = gn k' \<and> gp k = gp k' \<and> gf k = gf k' \<and> sk_port k = sk_port k'"
    if "socks s b = Some k" for b k using assms(2) [of b] that by auto
  have f: "fl gn (socks s') = fl gn (socks s)" "fl gp (socks s') = fl gp (socks s)"
  proof -
    have "fl gn (socks s') b = fl gn (socks s) b \<and> fl gp (socks s') b = fl gp (socks s) b" for b
    proof (cases "socks s' b")
      case None
      then show ?thesis using assms(2) [of b] by (simp add: fl_def)
    next
      case (Some k')
      then show ?thesis using same [OF Some] by (auto simp: fl_def)
    qed
    then show "fl gn (socks s') = fl gn (socks s)" "fl gp (socks s') = fl gp (socks s)" by auto
  qed
  have "\<forall>a \<in> set xs. \<exists>k. socks s' a = Some k \<and> sk_port k = p" using q(4) same' by metis
  moreover have "\<forall>a k. socks s' a = Some k \<longrightarrow> sk_port k = p \<longrightarrow>
        (gf k \<longleftrightarrow> a \<in> set xs) \<and> (\<not> gf k \<longrightarrow> gn k = None \<and> gp k = None)"
    using q(5) same by metis
  ultimately show ?thesis
    unfolding wl_state_def using q(2,3) q' f by auto
qed

lemma frame_field:
  assumes "wl_frame p s s'" "\<And>k. g (er k) = g k"
  shows "map_option g (socks s' b) = map_option g (socks s b)"
proof -
  have "map_option er (socks s' b) = map_option er (socks s b)" using assms(1) by (simp add: wl_frame_def)
  then have "map_option g (map_option er (socks s' b)) = map_option g (map_option er (socks s b))" by simp
  then show ?thesis by (simp add: option.map_comp comp_def assms(2))
qed

lemma frame_port_field:
  assumes "wl_frame p s s'" "\<And>q. g (erp q) = g q"
  shows "map_option g (ports s' r) = map_option g (ports s r)"
proof -
  have "map_option erp (ports s' r) = map_option erp (ports s r)" using assms(1) by (simp add: wl_frame_def)
  then have "map_option g (map_option erp (ports s' r)) = map_option g (map_option erp (ports s r))" by simp
  then show ?thesis by (simp add: option.map_comp comp_def assms(2))
qed

lemma frame_ub: "wl_frame p s s' \<Longrightarrow> ep_ub s' = ep_ub s"
  by (auto simp: wl_frame_def dest: arg_cong [of _ _ ep_ub])

end

section \<open>Both lists\<close>

lemma rearm_keeps_oneshot:
  "rearm.wl_frame p s s' \<Longrightarrow> oneshot.wl_state s r ys \<Longrightarrow> oneshot.wl_state s' r ys"
  by (erule oneshot.wl_cong) (auto intro: rearm.frame_field rearm.frame_port_field)

lemma oneshot_keeps_rearm:
  "oneshot.wl_frame p s s' \<Longrightarrow> rearm.wl_state s r ys \<Longrightarrow> rearm.wl_state s' r ys"
  by (erule rearm.wl_cong) (auto intro: oneshot.frame_field oneshot.frame_port_field)

definition worklists :: "('os, 'z) ep_world_scheme \<Rightarrow> addr \<Rightarrow> addr list \<Rightarrow> addr list \<Rightarrow> bool" where
  "worklists s p xs ys \<longleftrightarrow> rearm.wl_state s p xs \<and> oneshot.wl_state s p ys"

text \<open>One transition of a flag: the list of re-arms and the list of fired oneshots afterwards, and
  the fields of the registrations and ports that are not touched.\<close>

definition relisted :: "bool \<Rightarrow> addr \<Rightarrow> addr list \<Rightarrow> addr list" where
  "relisted b a xs = (if b = (a \<in> set xs) then xs else if b then xs @ [a] else remove1 a xs)"

definition worklist_erased :: "ep_sock \<Rightarrow> ep_sock" where
  "worklist_erased k = k \<lparr> sk_needs_rearm := False, sk_oneshot_fired := False, sk_rearm_next := None,
     sk_rearm_prev := None, sk_oneshot_next := None, sk_oneshot_prev := None \<rparr>"

definition worklist_erased_port :: "ep_port \<Rightarrow> ep_port" where
  "worklist_erased_port q = q \<lparr> pt_rearm_head := None, pt_rearm_tail := None, pt_oneshot_head := None,
     pt_oneshot_tail := None, pt_needs_rearm_count := 0, pt_oneshot_fired_count := 0 \<rparr>"

definition only_worklists :: "('os, 'z) ep_world_scheme \<Rightarrow> ('os, 'z) ep_world_scheme \<Rightarrow> bool" where
  "only_worklists s s' \<longleftrightarrow>
     s' = s \<lparr> socks := socks s', ports := ports s' \<rparr> \<and>
     (\<forall>b. map_option worklist_erased (socks s' b) = map_option worklist_erased (socks s b)) \<and>
     (\<forall>r. map_option worklist_erased_port (ports s' r) = map_option worklist_erased_port (ports s r))"

lemma rearm_only_worklists: "rearm.wl_frame p s s' \<Longrightarrow> only_worklists s s'"
  unfolding only_worklists_def
  by (auto simp: worklist_erased_def worklist_erased_port_def
    intro: rearm.frame_field rearm.frame_port_field) (simp add: rearm.wl_frame_def)

lemma oneshot_only_worklists: "oneshot.wl_frame p s s' \<Longrightarrow> only_worklists s s'"
  unfolding only_worklists_def
  by (auto simp: worklist_erased_def worklist_erased_port_def
    intro: oneshot.frame_field oneshot.frame_port_field) (simp add: oneshot.wl_frame_def)

lemma only_worklists_refl [simp]: "only_worklists s s"
  by (simp add: only_worklists_def)

lemma only_worklists_trans:
  assumes "only_worklists s t" "only_worklists t u"
  shows "only_worklists s u"
proof -
  have "u = t \<lparr> socks := socks u, ports := ports u \<rparr>" "t = s \<lparr> socks := socks t, ports := ports t \<rparr>"
    using assms by (simp_all add: only_worklists_def)
  then have "u = (s \<lparr> socks := socks t, ports := ports t \<rparr>) \<lparr> socks := socks u, ports := ports u \<rparr>" by metis
  then show ?thesis using assms by (simp add: only_worklists_def)
qed

lemma set_needs_rearm_rule:
  assumes w: "worklists s p xs ys" and k: "socks s a = Some k" "sk_port k = p"
    and Q: "\<And>s'. worklists s' p (relisted b a xs) ys \<Longrightarrow> only_worklists s s' \<Longrightarrow> Q () s'"
  shows "wp (ep_sock_set_needs_rearm_locked a b) Q s"
proof -
  have r: "rearm.wl_state s p xs" and f: "sk_needs_rearm k \<longleftrightarrow> a \<in> set xs"
    using w k by (auto simp: worklists_def rearm.wl_state_def)
  have e: "(if b = sk_needs_rearm k then xs else if b then xs @ [a] else remove1 a xs) = relisted b a xs"
    using f by (simp add: relisted_def)
  show ?thesis
    using rearm.set_flag [OF r k, of b] w Q unfolding needs_rearm_prog e wp_def worklists_def
    by (auto intro: rearm_keeps_oneshot rearm_only_worklists)
qed

lemma set_oneshot_fired_rule:
  assumes w: "worklists s p xs ys" and k: "socks s a = Some k" "sk_port k = p"
    and Q: "\<And>s'. worklists s' p xs (relisted b a ys) \<Longrightarrow> only_worklists s s' \<Longrightarrow> Q () s'"
  shows "wp (ep_sock_set_oneshot_fired_locked a b) Q s"
proof -
  have r: "oneshot.wl_state s p ys" and f: "sk_oneshot_fired k \<longleftrightarrow> a \<in> set ys"
    using w k by (auto simp: worklists_def oneshot.wl_state_def)
  have e: "(if b = sk_oneshot_fired k then ys else if b then ys @ [a] else remove1 a ys) = relisted b a ys"
    using f by (simp add: relisted_def)
  show ?thesis
    using oneshot.set_flag [OF r k, of b] w Q unfolding oneshot_fired_prog e wp_def worklists_def
    by (auto intro: oneshot_keeps_rearm oneshot_only_worklists)
qed

lemma only_worklists_sock:
  assumes "only_worklists s s'" "socks s a = Some k"
  obtains k' where "socks s' a = Some k'" "worklist_erased k' = worklist_erased k" "sk_port k' = sk_port k"
proof -
  have "map_option worklist_erased (socks s' a) = Some (worklist_erased k)"
    using assms by (metis only_worklists_def option.map(2))
  then obtain k' where k': "socks s' a = Some k'" "worklist_erased k' = worklist_erased k" by auto
  then have "sk_port (worklist_erased k') = sk_port (worklist_erased k)" by simp
  then have "sk_port k' = sk_port k" by (simp add: worklist_erased_def)
  with k' show thesis using that by blast
qed

lemma worklists_flags:
  assumes "worklists s p xs ys" "socks s a = Some k" "sk_port k = p"
  shows "sk_needs_rearm k \<longleftrightarrow> a \<in> set xs" "sk_oneshot_fired k \<longleftrightarrow> a \<in> set ys"
  using assms by (auto simp: worklists_def rearm.wl_state_def oneshot.wl_state_def)

lemma worklists_distinct: "worklists s p xs ys \<Longrightarrow> distinct xs \<and> distinct ys"
  by (auto simp: worklists_def rearm.wl_state_def oneshot.wl_state_def dest: dlist_distinct)

lemma restore_worklist_rule:
  assumes w: "worklists s p xs ys" and k: "socks s a = Some k" "sk_port k = p" and n: "\<not> (nr \<and> os)"
    and Q: "\<And>s'. worklists s' p (relisted nr a (remove1 a xs)) (relisted os a (remove1 a ys)) \<Longrightarrow>
      only_worklists s s' \<Longrightarrow> Q () s'"
  shows "wp (ep_sock_restore_worklist_state_locked a nr os) Q s"
proof -
  have d: "distinct xs" "distinct ys" using worklists_distinct [OF w] by auto
  have rx: "relisted False a xs = remove1 a xs" "relisted False a ys = remove1 a ys"
    by (simp_all add: relisted_def remove1_idem)
  have "wp (ep_sock_set_needs_rearm_locked a False \<bind> (\<lambda>_. ep_sock_set_oneshot_fired_locked a False \<bind>
    (\<lambda>_. ep_sock_set_needs_rearm_locked a nr \<bind> (\<lambda>_. ep_sock_set_oneshot_fired_locked a os)))) Q s"
    unfolding wp_bind
  proof (rule set_needs_rearm_rule [OF w k])
    fix s1 assume p1: "worklists s1 p (relisted False a xs) ys" "only_worklists s s1"
    obtain k1 where k1: "socks s1 a = Some k1" "sk_port k1 = p"
      using only_worklists_sock [OF p1(2) k(1)] k(2) by metis
    show "wp (ep_sock_set_oneshot_fired_locked a False)
      (\<lambda>_. wp (ep_sock_set_needs_rearm_locked a nr) (\<lambda>_. wp (ep_sock_set_oneshot_fired_locked a os) Q)) s1"
    proof (rule set_oneshot_fired_rule [OF p1(1) k1])
      fix s2 assume p2: "worklists s2 p (relisted False a xs) (relisted False a ys)" "only_worklists s1 s2"
      obtain k2 where k2: "socks s2 a = Some k2" "sk_port k2 = p"
        using only_worklists_sock [OF p2(2) k1(1)] k1(2) by metis
      show "wp (ep_sock_set_needs_rearm_locked a nr) (\<lambda>_. wp (ep_sock_set_oneshot_fired_locked a os) Q) s2"
      proof (rule set_needs_rearm_rule [OF p2(1) k2])
        fix s3 assume p3: "worklists s3 p (relisted nr a (relisted False a xs)) (relisted False a ys)"
          "only_worklists s2 s3"
        obtain k3 where k3: "socks s3 a = Some k3" "sk_port k3 = p"
          using only_worklists_sock [OF p3(2) k2(1)] k2(2) by metis
        show "wp (ep_sock_set_oneshot_fired_locked a os) Q s3"
          using p1(2) p2(2) p3(2) rx
          by (intro set_oneshot_fired_rule [OF p3(1) k3] Q) (auto intro: only_worklists_trans)
      qed
    qed
  qed
  then show ?thesis using n by (simp add: ep_sock_restore_worklist_state_locked_def wp_simps)
qed

section \<open>Walking the re-arm list\<close>

text \<open>The loops follow the list; one that outruns its bound, the number of entries, is recorded.\<close>

primrec deferred_scan :: "nat \<Rightarrow> addr option \<Rightarrow> (('os, 'z) ep_world_scheme, bool) state" where
  "deferred_scan 0 cur = do { assert_that (cur = None); return False }"
| "deferred_scan (Suc n) cur =
    (case cur of
       None \<Rightarrow> return False
     | Some sock \<Rightarrow> do {
         holdoff \<leftarrow> sock_read sock sk_et_holdoff;
         if holdoff then return True
         else do {
           nxt \<leftarrow> sock_read sock sk_rearm_next;
           deferred_scan n nxt
         }
       })"

definition ep_port_has_deferred_rearm_locked :: "addr \<Rightarrow> (('os, 'z) ep_world_scheme, bool) state" where
  "ep_port_has_deferred_rearm_locked port = do {
     n \<leftarrow> port_read port pt_needs_rearm_count;
     head \<leftarrow> port_read port pt_rearm_head;
     deferred_scan n head
   }"

primrec release_deferred :: "nat \<Rightarrow> addr option \<Rightarrow> (('os, 'z) ep_world_scheme, unit) state" where
  "release_deferred 0 cur = assert_that (cur = None)"
| "release_deferred (Suc n) cur =
    (case cur of
       None \<Rightarrow> skip
     | Some sock \<Rightarrow> do {
         sock_upd sock (\<lambda>k. k \<lparr> sk_et_holdoff := False \<rparr>);
         nxt \<leftarrow> sock_read sock sk_rearm_next;
         release_deferred n nxt
       })"

definition ep_port_release_deferred_rearms_locked :: "addr \<Rightarrow> (('os, 'z) ep_world_scheme, unit) state" where
  "ep_port_release_deferred_rearms_locked port = do {
     n \<leftarrow> port_read port pt_needs_rearm_count;
     head \<leftarrow> port_read port pt_rearm_head;
     release_deferred n head
   }"

lemma deferred_scan_wp:
  "chain (fl sk_rearm_next (socks s)) cur xs \<Longrightarrow> \<forall>a \<in> set xs. socks s a \<noteq> None \<Longrightarrow> length xs \<le> n \<Longrightarrow>
   Q (\<exists>a \<in> set xs. \<exists>k. socks s a = Some k \<and> sk_et_holdoff k) s \<Longrightarrow> wp (deferred_scan n cur) Q s"
proof (induction n arbitrary: cur xs)
  case 0
  then show ?case by (simp add: wp_simps)
next
  case (Suc n)
  show ?case
  proof (cases xs)
    case Nil
    then show ?thesis using Suc.prems by (simp add: wp_simps)
  next
    case (Cons a ys)
    then obtain k where k: "socks s a = Some k" using Suc.prems(2) by auto
    show ?thesis
      using Suc.prems Cons k Suc.IH [of "sk_rearm_next k" ys]
      by (auto simp: wp_simps)
  qed
qed

text \<open>Releasing clears the hold-off of exactly the listed registrations.\<close>

definition held_off :: "addr set \<Rightarrow> (addr \<Rightarrow> ep_sock option) \<Rightarrow> addr \<Rightarrow> ep_sock option" where
  "held_off A S a = (if a \<in> A then map_option (\<lambda>k. k \<lparr> sk_et_holdoff := False \<rparr>) (S a) else S a)"

lemma release_deferred_wp:
  "chain (fl sk_rearm_next (socks s)) cur xs \<Longrightarrow> \<forall>a \<in> set xs. socks s a \<noteq> None \<Longrightarrow> length xs \<le> n \<Longrightarrow>
   distinct xs \<Longrightarrow> Q () (s \<lparr> socks := held_off (set xs) (socks s) \<rparr>) \<Longrightarrow> wp (release_deferred n cur) Q s"
proof (induction n arbitrary: cur xs s)
  case 0
  then show ?case by (simp add: wp_simps held_off_def)
next
  case (Suc n)
  show ?case
  proof (cases xs)
    case Nil
    then show ?thesis using Suc.prems by (simp add: wp_simps held_off_def)
  next
    case (Cons a ys)
    then obtain k where k: "socks s a = Some k" using Suc.prems(2) by auto
    let ?s = "s \<lparr> socks := (socks s)(a \<mapsto> k \<lparr> sk_et_holdoff := False \<rparr>) \<rparr>"
    have l: "fl sk_rearm_next (socks ?s) = fl sk_rearm_next (socks s)"
      using k by (simp add: fun_upd_idem)
    have e: "held_off (set ys) (socks ?s) = held_off (set xs) (socks s)"
      using Cons k Suc.prems(4) by (auto simp: held_off_def fun_eq_iff)
    have "wp (release_deferred n (sk_rearm_next k)) Q ?s"
    proof (rule Suc.IH [of ?s "sk_rearm_next k" ys])
      show "chain (fl sk_rearm_next (socks ?s)) (sk_rearm_next k) ys"
        using Suc.prems(1) Cons k unfolding l by simp
      show "\<forall>a \<in> set ys. socks ?s a \<noteq> None" using Suc.prems(2) Cons by auto
      show "Q () (?s \<lparr> socks := held_off (set ys) (socks ?s) \<rparr>)" using Suc.prems(5) unfolding e by simp
    qed (use Suc.prems Cons in auto)
    then show ?thesis using Suc.prems(1) Cons k by (simp add: wp_simps)
  qed
qed

lemma rearm_walk:
  assumes "worklists s p xs ys"
  obtains q where "ports s p = Some q" "chain (fl sk_rearm_next (socks s)) (pt_rearm_head q) xs"
    "pt_needs_rearm_count q = length xs" "\<forall>a \<in> set xs. socks s a \<noteq> None" "distinct xs"
  using assms dlist_distinct unfolding worklists_def rearm.wl_state_def dlist_def by blast

lemma has_deferred_wp:
  assumes "worklists s p xs ys" "Q (\<exists>a \<in> set xs. \<exists>k. socks s a = Some k \<and> sk_et_holdoff k) s"
  shows "wp (ep_port_has_deferred_rearm_locked p) Q s"
proof -
  obtain q where q: "ports s p = Some q" "chain (fl sk_rearm_next (socks s)) (pt_rearm_head q) xs"
    "pt_needs_rearm_count q = length xs" "\<forall>a \<in> set xs. socks s a \<noteq> None"
    by (rule rearm_walk [OF assms(1)])
  then show ?thesis
    using deferred_scan_wp [OF q(2,4), of "length xs" Q] assms(2)
    by (simp add: ep_port_has_deferred_rearm_locked_def wp_simps)
qed

lemma release_deferred_rearms_wp:
  assumes "worklists s p xs ys"
    and "worklists (s \<lparr> socks := held_off (set xs) (socks s) \<rparr>) p xs ys \<Longrightarrow>
      Q () (s \<lparr> socks := held_off (set xs) (socks s) \<rparr>)"
  shows "wp (ep_port_release_deferred_rearms_locked p) Q s"
proof -
  obtain q where q: "ports s p = Some q" "chain (fl sk_rearm_next (socks s)) (pt_rearm_head q) xs"
    "pt_needs_rearm_count q = length xs" "\<forall>a \<in> set xs. socks s a \<noteq> None" "distinct xs"
    by (rule rearm_walk [OF assms(1)])
  let ?s = "s \<lparr> socks := held_off (set xs) (socks s) \<rparr>"
  have "worklists ?s p xs ys"
    using assms(1) unfolding worklists_def
    by (auto simp: held_off_def option.map_comp comp_def
      intro!: rearm.wl_cong [of s p xs ?s] oneshot.wl_cong [of s p ys ?s])
  then show ?thesis
    using release_deferred_wp [OF q(2,4) _ q(5), of "length xs" Q] assms(2) q
    by (simp add: ep_port_release_deferred_rearms_locked_def wp_simps)
qed

section \<open>The list of live registrations\<close>

definition ep_sock_list_add_locked :: "addr \<Rightarrow> addr \<Rightarrow> (('os, 'z) ep_world_scheme, unit) state" where
  "ep_sock_list_add_locked port sock = do {
     head \<leftarrow> port_read port pt_sock_list_head;
     sock_upd sock (\<lambda>k. k \<lparr> sk_prev := None \<rparr>);
     sock_upd sock (\<lambda>k. k \<lparr> sk_next := head \<rparr>);
     (case head of
        None \<Rightarrow> skip
      | Some h \<Rightarrow> sock_upd h (\<lambda>k. k \<lparr> sk_prev := Some sock \<rparr>));
     port_upd port (\<lambda>q. q \<lparr> pt_sock_list_head := Some sock \<rparr>)
   }"

definition ep_sock_list_remove_locked :: "addr \<Rightarrow> addr \<Rightarrow> (('os, 'z) ep_world_scheme, unit) state" where
  "ep_sock_list_remove_locked port sock = do {
     r \<leftarrow> sock_read sock sk_prev;
     n \<leftarrow> sock_read sock sk_next;
     (case r of
        Some y \<Rightarrow> sock_upd y (\<lambda>k. k \<lparr> sk_next := n \<rparr>)
      | None \<Rightarrow> port_upd port (\<lambda>q. q \<lparr> pt_sock_list_head := n \<rparr>));
     (case n of
        Some z \<Rightarrow> sock_upd z (\<lambda>k. k \<lparr> sk_prev := r \<rparr>)
      | None \<Rightarrow> skip);
     sock_upd sock (\<lambda>k. k \<lparr> sk_next := None \<rparr>);
     sock_upd sock (\<lambda>k. k \<lparr> sk_prev := None \<rparr>)
   }"

text \<open>The live list of a port holds exactly its registrations.\<close>

definition last_opt :: "'a list \<Rightarrow> 'a option" where
  "last_opt xs = (if xs = [] then None else Some (last xs))"

definition sock_list_but :: "addr set \<Rightarrow> ('os, 'z) ep_world_scheme \<Rightarrow> addr \<Rightarrow> addr list \<Rightarrow> bool" where
  "sock_list_but X s p L \<longleftrightarrow> (\<exists>q. ports s p = Some q \<and>
     dlist (fl sk_next (socks s)) (fl sk_prev (socks s)) (pt_sock_list_head q) (last_opt L) L \<and>
     (\<forall>a. a \<in> set L \<longleftrightarrow> (\<exists>k. socks s a = Some k \<and> sk_port k = p) \<and> a \<notin> X))"

abbreviation "sock_list \<equiv> sock_list_but {}"

definition list_erased :: "ep_sock \<Rightarrow> ep_sock" where
  "list_erased k = k \<lparr> sk_next := None, sk_prev := None \<rparr>"

definition only_sock_list :: "('os, 'z) ep_world_scheme \<Rightarrow> ('os, 'z) ep_world_scheme \<Rightarrow> bool" where
  "only_sock_list s s' \<longleftrightarrow>
     s' = s \<lparr> socks := socks s', ports := ports s' \<rparr> \<and>
     (\<forall>b. map_option list_erased (socks s' b) = map_option list_erased (socks s b)) \<and>
     (\<forall>r. map_option (\<lambda>q. q \<lparr> pt_sock_list_head := None \<rparr>) (ports s' r) =
          map_option (\<lambda>q. q \<lparr> pt_sock_list_head := None \<rparr>) (ports s r))"

lemma last_opt_simps [simp]: "last_opt [] = None" "last_opt (xs @ [x]) = Some x"
  "xs \<noteq> [] \<Longrightarrow> last_opt (x # xs) = last_opt xs" "last_opt [x] = Some x"
  by (simp_all add: last_opt_def)

lemma sock_list_add:
  assumes w: "sock_list_but {a} s p L" and k: "socks s a = Some k" "sk_port k = p"
  shows "wp (ep_sock_list_add_locked p a) (\<lambda>_ s'. sock_list s' p (a # L) \<and> only_sock_list s s') s"
proof -
  obtain q where q: "ports s p = Some q"
    "dlist (fl sk_next (socks s)) (fl sk_prev (socks s)) (pt_sock_list_head q) (last_opt L) L"
    "\<And>b. b \<in> set L \<longleftrightarrow> (\<exists>k. socks s b = Some k \<and> sk_port k = p) \<and> b \<noteq> a"
    using w unfolding sock_list_but_def by auto
  have a: "a \<notin> set L" using q(3) by blast
  note pu = dlist_push [OF q(2) a]
  show ?thesis
  proof (cases "L = []")
    case True
    then have h: "pt_sock_list_head q = None" using q(2) by simp
    show ?thesis
      using k q(1) h pu True q(3)
      by (simp add: ep_sock_list_add_locked_def wp_simps)
        (auto simp: sock_list_but_def only_sock_list_def list_erased_def)
  next
    case False
    then have h: "pt_sock_list_head q = Some (hd L)" using dlist_ends [OF q(2)] by simp
    have "hd L \<in> set L" using False by simp
    then obtain kh where kh: "socks s (hd L) = Some kh" "sk_port kh = p" "hd L \<noteq> a" using q(3) by blast
    have up: "(fl sk_next (socks s))(a := v, hd L := sk_next kh) = (fl sk_next (socks s))(a := v)" for v
      using kh by (auto simp: fun_eq_iff)
    show ?thesis
      using k q(1) h pu False q(3) kh up
      by (simp add: ep_sock_list_add_locked_def wp_simps)
        (auto simp: sock_list_but_def only_sock_list_def list_erased_def fun_upd_twist)
  qed
qed

lemma sock_list_remove:
  assumes w: "sock_list s p L" and a: "a \<in> set L"
  shows "wp (ep_sock_list_remove_locked p a)
    (\<lambda>_ s'. sock_list_but {a} s' p (remove1 a L) \<and> only_sock_list s s') s"
proof -
  obtain q where q: "ports s p = Some q"
    "dlist (fl sk_next (socks s)) (fl sk_prev (socks s)) (pt_sock_list_head q) (last_opt L) L"
    "\<And>b. b \<in> set L \<longleftrightarrow> (\<exists>k. socks s b = Some k \<and> sk_port k = p)"
    using w unfolding sock_list_but_def by auto
  obtain us vs where xs: "L = us @ a # vs" using a by (metis split_list)
  have d: "distinct (us @ a # vs)" using dlist_distinct [OF q(2)] xs by simp
  obtain k where k: "socks s a = Some k" "sk_port k = p" using q(3) a by blast
  have q2: "dlist (fl sk_next (socks s)) (fl sk_prev (socks s)) (pt_sock_list_head q) (last_opt L) (us @ a # vs)"
    using q(2) xs by simp
  have n: "sk_next k = (if vs = [] then None else Some (hd vs))"
    and r: "sk_prev k = (if us = [] then None else Some (last us))"
    using dlist_nbrs [OF q2] k by simp_all
  note rm = dlist_remove [OF q2, unfolded unlink_next_def unlink_head_def]
  have rem: "remove1 a L = us @ vs" using xs d by (simp add: remove1_append)
  have lo: "last_opt (us @ vs) = (if vs = [] then sk_prev k else last_opt L)"
    using r xs by (simp add: last_opt_def)
  have live: "\<exists>ky. socks s y = Some ky \<and> sk_port ky = p" if "y \<in> set us \<union> set vs" for y
    using q(3) xs that by auto
  have mem: "b \<in> set us \<or> b \<in> set vs \<longleftrightarrow> (\<exists>k. socks s b = Some k \<and> sk_port k = p) \<and> b \<noteq> a" for b
    using q(3) [of b] xs d by auto
  have na: "a \<notin> set us" "a \<notin> set vs" using d by auto
  note defs = ep_sock_list_remove_locked_def wp_simps
  note outs = sock_list_but_def only_sock_list_def list_erased_def rem
  show ?thesis
  proof (cases "us = []"; cases "vs = []")
    assume "us = []" "vs = []"
    then show ?thesis
      using k q(1) n r rm na lo mem by (simp add: defs) (auto simp: outs)
  next
    assume c: "us = []" "vs \<noteq> []"
    then have z: "hd vs \<in> set vs" by simp
    then obtain kz where kz: "socks s (hd vs) = Some kz" "sk_port kz = p" using live by blast
    have za: "hd vs \<noteq> a" using z na by auto
    show ?thesis
      using c k q(1) n r rm na kz za z lo mem
      by (simp add: defs) (auto simp: outs fun_upd_idem)
  next
    assume c: "us \<noteq> []" "vs = []"
    then have y: "last us \<in> set us" by simp
    then obtain ky where ky: "socks s (last us) = Some ky" "sk_port ky = p" using live by blast
    have ya: "last us \<noteq> a" using y na by auto
    show ?thesis
      using c k q(1) n r rm na ky ya y lo mem
      by (simp add: defs) (auto simp: outs fun_upd_idem)
  next
    assume c: "us \<noteq> []" "vs \<noteq> []"
    then have y: "last us \<in> set us" and z: "hd vs \<in> set vs" by simp_all
    then obtain ky kz where ky: "socks s (last us) = Some ky" "sk_port ky = p"
      and kz: "socks s (hd vs) = Some kz" "sk_port kz = p" using live by blast
    have yz: "last us \<noteq> a" "hd vs \<noteq> a" "last us \<noteq> hd vs" using y z na d by auto
    show ?thesis
      using c k q(1) n r rm na ky kz yz y z lo mem
      by (simp add: defs) (auto simp: outs fun_upd_idem)
  qed
qed

section \<open>The list checker\<close>

text \<open>\<open>ep_port_worklists_valid_locked\<close>: two-speed cycle detection on the live list, a pass over the
  live list, and a pass over each work list.  The result None stands for a loop that outruns the
  bound \<open>n\<close>.\<close>

primrec acyclic_scan :: "nat \<Rightarrow> (addr \<Rightarrow> addr option) \<Rightarrow> addr option \<Rightarrow> addr option \<Rightarrow> bool option" where
  "acyclic_scan 0 nxt slow fast = None"
| "acyclic_scan (Suc n) nxt slow fast =
    (case fast of
       None \<Rightarrow> Some True
     | Some f \<Rightarrow>
         (case nxt f of
            None \<Rightarrow> Some True
          | Some g \<Rightarrow>
              (let slow' = Option.bind slow nxt; fast' = nxt g in
               if slow' = fast' then Some False else acyclic_scan n nxt slow' fast')))"

primrec live_scan ::
  "nat \<Rightarrow> (addr \<Rightarrow> addr option) \<Rightarrow> (addr option \<Rightarrow> addr \<Rightarrow> bool) \<Rightarrow> addr option \<Rightarrow> addr option \<Rightarrow> bool option" where
  "live_scan 0 nxt good previous cur = None"
| "live_scan (Suc n) nxt good previous cur =
    (case cur of
       None \<Rightarrow> Some True
     | Some a \<Rightarrow> if \<not> good previous a then Some False else live_scan n nxt good (Some a) (nxt a))"

primrec live_count :: "nat \<Rightarrow> (addr \<Rightarrow> addr option) \<Rightarrow> (addr \<Rightarrow> bool) \<Rightarrow> addr option \<Rightarrow> nat" where
  "live_count 0 nxt flag cur = 0"
| "live_count (Suc n) nxt flag cur =
    (case cur of
       None \<Rightarrow> 0
     | Some a \<Rightarrow> (if flag a then 1 else 0) + live_count n nxt flag (nxt a))"

primrec found_live :: "nat \<Rightarrow> (addr \<Rightarrow> addr option) \<Rightarrow> addr option \<Rightarrow> addr \<Rightarrow> bool" where
  "found_live 0 nxt cur sock = False"
| "found_live (Suc n) nxt cur sock =
    (case cur of
       None \<Rightarrow> False
     | Some a \<Rightarrow> if a = sock then True else found_live n nxt (nxt a) sock)"

primrec list_scan ::
  "nat \<Rightarrow> (addr \<Rightarrow> addr option) \<Rightarrow> (addr \<Rightarrow> addr option) \<Rightarrow> (addr \<Rightarrow> bool) \<Rightarrow> nat \<Rightarrow> addr option \<Rightarrow>
   addr option \<Rightarrow> nat \<Rightarrow> (addr option \<times> nat) option option" where
  "list_scan 0 nxt prv good limit previous cur count = None"
| "list_scan (Suc n) nxt prv good limit previous cur count =
    (case cur of
       None \<Rightarrow> Some (Some (previous, count))
     | Some a \<Rightarrow>
         if \<not> good a \<or> prv a \<noteq> previous \<or> count + 1 > limit then Some None
         else list_scan n nxt prv good limit (Some a) (nxt a) (count + 1))"

definition sock_flag :: "(ep_sock \<Rightarrow> bool) \<Rightarrow> ('os, 'z) ep_world_scheme \<Rightarrow> addr \<Rightarrow> bool" where
  "sock_flag g s a = (case socks s a of None \<Rightarrow> False | Some k \<Rightarrow> g k)"

definition live_good :: "('os, 'z) ep_world_scheme \<Rightarrow> addr \<Rightarrow> ep_port \<Rightarrow> addr option \<Rightarrow> addr \<Rightarrow> bool" where
  "live_good s p q previous a = sock_flag (\<lambda>k.
     (let rearm_linked = (sk_rearm_prev k \<noteq> None \<or> sk_rearm_next k \<noteq> None \<or> pt_rearm_head q = Some a);
          oneshot_linked = (sk_oneshot_prev k \<noteq> None \<or> sk_oneshot_next k \<noteq> None \<or> pt_oneshot_head q = Some a)
      in \<not> (sk_prev k \<noteq> previous \<or> sk_port k \<noteq> p \<or> sk_needs_rearm k \<noteq> rearm_linked \<or>
            sk_oneshot_fired k \<noteq> oneshot_linked \<or> sk_needs_rearm k \<and> sk_oneshot_fired k \<or>
            sk_delete_pending k \<and> (sk_needs_rearm k \<or> sk_oneshot_fired k)))) s a"

definition worklist_valid ::
  "nat \<Rightarrow> ('os, 'z) ep_world_scheme \<Rightarrow> addr \<Rightarrow> ep_port \<Rightarrow> (ep_sock \<Rightarrow> addr option) \<Rightarrow> (ep_sock \<Rightarrow> addr option) \<Rightarrow>
   (ep_sock \<Rightarrow> bool) \<Rightarrow> addr option \<Rightarrow> addr option \<Rightarrow> nat \<Rightarrow> bool option" where
  "worklist_valid n s p q gn gp gf head tail count =
    (let nxt = fl sk_next (socks s);
         good = (\<lambda>a. sock_flag (\<lambda>k. gf k \<and> sk_port k = p) s a \<and> found_live n nxt (pt_sock_list_head q) a)
     in case list_scan n (fl gn (socks s)) (fl gp (socks s)) good count None head 0 of
          None \<Rightarrow> None
        | Some None \<Rightarrow> Some False
        | Some (Some (previous, list_count)) \<Rightarrow>
            Some (previous = tail \<and> list_count = count \<and>
                  list_count = live_count n nxt (sock_flag gf s) (pt_sock_list_head q)))"

definition ep_port_worklists_valid_locked :: "nat \<Rightarrow> ('os, 'z) ep_world_scheme \<Rightarrow> addr \<Rightarrow> bool option" where
  "ep_port_worklists_valid_locked n s p =
    (case ports s p of
       None \<Rightarrow> None
     | Some q \<Rightarrow>
         if (pt_rearm_head q = None) \<noteq> (pt_rearm_tail q = None) \<or>
            (pt_oneshot_head q = None) \<noteq> (pt_oneshot_tail q = None) then Some False
         else
           (case acyclic_scan n (fl sk_next (socks s)) (pt_sock_list_head q) (pt_sock_list_head q) of
              None \<Rightarrow> None
            | Some False \<Rightarrow> Some False
            | Some True \<Rightarrow>
                (case live_scan n (fl sk_next (socks s)) (live_good s p q) None (pt_sock_list_head q) of
                   None \<Rightarrow> None
                 | Some False \<Rightarrow> Some False
                 | Some True \<Rightarrow>
                     (case worklist_valid n s p q sk_rearm_next sk_rearm_prev sk_needs_rearm
                             (pt_rearm_head q) (pt_rearm_tail q) (pt_needs_rearm_count q) of
                        None \<Rightarrow> None
                      | Some False \<Rightarrow> Some False
                      | Some True \<Rightarrow>
                          worklist_valid n s p q sk_oneshot_next sk_oneshot_prev sk_oneshot_fired
                            (pt_oneshot_head q) (pt_oneshot_tail q) (pt_oneshot_fired_count q)))))"

fun linked :: "('a \<Rightarrow> 'a option) \<Rightarrow> 'a option \<Rightarrow> 'a list \<Rightarrow> bool" where
  "linked prv previous [] \<longleftrightarrow> True"
| "linked prv previous (x # xs) \<longleftrightarrow> prv x = previous \<and> linked prv (Some x) xs"

lemma linked_snoc: "linked prv previous (xs @ [x]) \<longleftrightarrow>
   linked prv previous xs \<and> prv x = (if xs = [] then previous else Some (last xs))"
  by (induction xs arbitrary: previous) auto

lemma linked_chain: "chain prv (last_opt xs) (rev xs) \<longleftrightarrow> linked prv None xs"
proof (induction xs rule: rev_induct)
  case (snoc x xs)
  have e: "last_opt xs = (if xs = [] then None else Some (last xs))" by (simp add: last_opt_def)
  have "chain prv (prv x) (rev xs) \<longleftrightarrow> linked prv None xs \<and> prv x = last_opt xs"
    using snoc chain_start [of prv "prv x" "rev xs"] by (auto simp: last_opt_def hd_rev)
  then show ?case by (simp add: linked_snoc e)
qed simp

lemma dlist_linked: "dlist nxt prv h t xs \<longleftrightarrow> chain nxt h xs \<and> linked prv None xs \<and> t = last_opt xs"
proof
  assume d: "dlist nxt prv h t xs"
  then have "t = last_opt xs" using dlist_ends [OF d] by (simp add: last_opt_def)
  then show "chain nxt h xs \<and> linked prv None xs \<and> t = last_opt xs"
    using d linked_chain [of prv xs] by (simp add: dlist_def)
qed (simp add: dlist_def linked_chain)

lemma list_scan_iff:
  assumes "limit - count < n"
  shows "list_scan n nxt prv good limit previous cur count \<noteq> None"
    and "list_scan n nxt prv good limit previous cur count = Some (Some (t, c)) \<longleftrightarrow>
      (\<exists>xs. chain nxt cur xs \<and> linked prv previous xs \<and> (\<forall>a \<in> set xs. good a) \<and>
        c = count + length xs \<and> (xs \<noteq> [] \<longrightarrow> c \<le> limit) \<and>
        t = (if xs = [] then previous else Some (last xs)))"
  using assms
proof (induction n arbitrary: previous cur count)
  case (Suc n)
  {
    case 1
    then show ?case using Suc.IH(1) [of "count + 1"] by (auto split: option.splits)
  next
    case 2
    show ?case
    proof (cases cur)
      case None
      have "chain nxt None xs \<longleftrightarrow> xs = []" for xs by (cases xs) auto
      then show ?thesis using None by auto
    next
      case (Some a)
      show ?thesis
      proof (cases "\<not> good a \<or> prv a \<noteq> previous \<or> count + 1 > limit")
        case True
        have "\<not> (chain nxt (Some a) xs \<and> linked prv previous xs \<and> (\<forall>a \<in> set xs. good a) \<and>
          c = count + length xs \<and> (xs \<noteq> [] \<longrightarrow> c \<le> limit) \<and> T)" for xs T
          using True by (cases xs) auto
        then have "\<not> (\<exists>xs. chain nxt (Some a) xs \<and> linked prv previous xs \<and> (\<forall>a \<in> set xs. good a) \<and>
          c = count + length xs \<and> (xs \<noteq> [] \<longrightarrow> c \<le> limit) \<and>
          t = (if xs = [] then previous else Some (last xs)))" by blast
        moreover have "list_scan (Suc n) nxt prv good limit previous (Some a) count \<noteq> Some (Some (t, c))"
          using True by simp
        ultimately show ?thesis unfolding Some by blast
      next
        case False
        then have lt: "limit - (count + 1) < n" using 2 by linarith
        note IH = Suc.IH(2) [OF lt, of "Some a" "nxt a"]
        have E1: "(\<exists>xs. chain nxt (Some a) xs \<and> linked prv previous xs \<and> (\<forall>a \<in> set xs. good a) \<and>
            c = count + length xs \<and> (xs \<noteq> [] \<longrightarrow> c \<le> limit) \<and>
            t = (if xs = [] then previous else Some (last xs))) \<longleftrightarrow>
          (\<exists>ys. chain nxt (nxt a) ys \<and> linked prv (Some a) ys \<and> (\<forall>a \<in> set ys. good a) \<and>
            c = count + 1 + length ys \<and> (ys \<noteq> [] \<longrightarrow> c \<le> limit) \<and>
            t = (if ys = [] then Some a else Some (last ys)))" (is "?l \<longleftrightarrow> ?r")
        proof
          assume ?l
          then obtain xs where xs: "chain nxt (Some a) xs" "linked prv previous xs" "\<forall>a \<in> set xs. good a"
            "c = count + length xs" "xs \<noteq> [] \<longrightarrow> c \<le> limit" "t = (if xs = [] then previous else Some (last xs))"
            by blast
          then show ?r by (cases xs) auto
        next
          assume ?r
          then obtain ys where "chain nxt (nxt a) ys" "linked prv (Some a) ys" "\<forall>a \<in> set ys. good a"
            "c = count + 1 + length ys" "ys \<noteq> [] \<longrightarrow> c \<le> limit"
            "t = (if ys = [] then Some a else Some (last ys))" by blast
          then show ?l using False by (intro exI [of _ "a # ys"]) auto
        qed
        have E2: "list_scan (Suc n) nxt prv good limit previous (Some a) count =
          list_scan n nxt prv good limit (Some a) (nxt a) (count + 1)" using False by simp
        show ?thesis unfolding Some E2 E1 by (rule IH)
      qed
    qed
  }
qed auto

lemma acyclic_ok:
  "chain nxt slow A \<Longrightarrow> chain nxt fast B \<Longrightarrow> length B \<le> length A \<Longrightarrow> length B < n \<Longrightarrow>
   acyclic_scan n nxt slow fast = Some True"
proof (induction n arbitrary: slow fast A B)
  case (Suc n)
  show ?case
  proof (cases "\<exists>f g B'. B = f # g # B'")
    case True
    then obtain f g B' where B: "B = f # g # B'" by blast
    obtain x A' where A: "A = x # A'" using Suc.prems(3) B by (cases A) auto
    have c: "chain nxt (nxt x) A'" "chain nxt (nxt g) B'" "nxt f = Some g" "slow = Some x" "fast = Some f"
      using Suc.prems(1,2) A B by auto
    have "nxt x \<noteq> nxt g"
    proof
      assume "nxt x = nxt g"
      then have "A' = B'" using c(1,2) chain_unique by metis
      then show False using Suc.prems(3) A B by simp
    qed
    moreover have "acyclic_scan n nxt (nxt x) (nxt g) = Some True"
      using Suc.prems(3,4) A B by (intro Suc.IH [OF c(1,2)]) auto
    ultimately show ?thesis using c by simp
  next
    case False
    then have "B = [] \<or> (\<exists>f. B = [f])" by (metis neq_Nil_conv)
    then show ?thesis using Suc.prems(2) by auto
  qed
qed simp

fun goods :: "('a option \<Rightarrow> 'a \<Rightarrow> bool) \<Rightarrow> 'a option \<Rightarrow> 'a list \<Rightarrow> bool" where
  "goods good previous [] \<longleftrightarrow> True"
| "goods good previous (x # xs) \<longleftrightarrow> good previous x \<and> goods good (Some x) xs"

lemma live_scan_chain:
  "chain nxt cur L \<Longrightarrow> length L < n \<Longrightarrow> live_scan n nxt good previous cur = Some (goods good previous L)"
proof (induction n arbitrary: previous cur L)
  case (Suc n)
  then show ?case by (cases L) auto
qed simp

lemma live_count_chain:
  "chain nxt cur L \<Longrightarrow> length L < n \<Longrightarrow> live_count n nxt flag cur = length (filter flag L)"
proof (induction n arbitrary: cur L)
  case (Suc n)
  then show ?case by (cases L) auto
qed simp

lemma found_live_chain:
  "chain nxt cur L \<Longrightarrow> length L < n \<Longrightarrow> found_live n nxt cur a \<longleftrightarrow> a \<in> set L"
proof (induction n arbitrary: cur L)
  case (Suc n)
  then show ?case by (cases L) auto
qed simp

lemma goods_split:
  "goods (\<lambda>previous a. prv a = previous \<and> R a) previous L \<longleftrightarrow> linked prv previous L \<and> (\<forall>a \<in> set L. R a)"
  by (induction L arbitrary: previous) auto

lemma goods_cong:
  "(\<And>previous a. a \<in> set L \<Longrightarrow> good previous a = good' previous a) \<Longrightarrow> goods good previous L = goods good' previous L"
  by (induction L arbitrary: previous) auto

context worklist
begin

text \<open>What a pass over one list and the live-list conditions of its flag establish together.\<close>

definition flag_linked :: "('os, 'z) ep_world_scheme \<Rightarrow> ep_port \<Rightarrow> addr list \<Rightarrow> bool" where
  "flag_linked s q L \<longleftrightarrow> (\<forall>a \<in> set L. sock_flag (\<lambda>k. gf k = (gp k \<noteq> None \<or> gn k \<noteq> None \<or> gh q = Some a)) s a)"

lemma valid_iff:
  assumes L: "sock_list s p L" and q: "ports s p = Some q" and n: "length L < n" "gc q < n"
    and fl: "flag_linked s q L"
  shows "worklist_valid n s p q gn gp gf (gh q) (gt q) (gc q) = Some (\<exists>xs. wl_state s p xs)"
proof -
  have c: "chain (fl sk_next (socks s)) (pt_sock_list_head q) L"
    and m: "\<And>a. a \<in> set L \<longleftrightarrow> (\<exists>k. socks s a = Some k \<and> sk_port k = p)"
    and dL: "distinct L"
    using L q by (auto simp: sock_list_but_def dlist_def dest: chain_distinct)
  define good where "good = (\<lambda>a. sock_flag (\<lambda>k. gf k \<and> sk_port k = p) s a \<and>
    found_live n (fl sk_next (socks s)) (pt_sock_list_head q) a)"
  have g: "good a \<longleftrightarrow> a \<in> set L \<and> sock_flag gf s a" for a
    using found_live_chain [OF c n(1), of a] m [of a] by (auto simp: good_def sock_flag_def split: option.splits)
  have cnt: "live_count n (fl sk_next (socks s)) (sock_flag gf s) (pt_sock_list_head q) =
      card {a \<in> set L. sock_flag gf s a}"
    using live_count_chain [OF c n(1), of "sock_flag gf s"] dL
    by (metis distinct_card distinct_filter set_filter)
  let ?scan = "list_scan n (fl gn (socks s)) (fl gp (socks s)) good (gc q) None (gh q) 0"
  have nz: "gc q - 0 < n" using n(2) by simp
  have some: "?scan \<noteq> None" by (rule list_scan_iff(1) [OF nz])
  have iff: "?scan = Some (Some (t, c)) \<longleftrightarrow> (\<exists>xs. chain (fl gn (socks s)) (gh q) xs \<and>
      linked (fl gp (socks s)) None xs \<and> (\<forall>a \<in> set xs. good a) \<and> c = length xs \<and>
      (xs \<noteq> [] \<longrightarrow> c \<le> gc q) \<and> t = last_opt xs)" for t c
    using list_scan_iff(2) [OF nz, of "fl gn (socks s)" "fl gp (socks s)" good None "gh q" t c]
    by (simp add: last_opt_def)
  have valid: "worklist_valid n s p q gn gp gf (gh q) (gt q) (gc q) = Some (\<exists>xs.
      dlist (fl gn (socks s)) (fl gp (socks s)) (gh q) (gt q) xs \<and> (\<forall>a \<in> set xs. good a) \<and>
      length xs = gc q \<and> gc q = card {a \<in> set L. sock_flag gf s a})" (is "_ = Some ?v")
  proof (cases ?scan)
    case None
    then show ?thesis using some by simp
  next
    case (Some r)
    show ?thesis
    proof (cases r)
      case None
      have "\<not> ?v"
      proof
        assume ?v
        then obtain xs where "dlist (fl gn (socks s)) (fl gp (socks s)) (gh q) (gt q) xs"
          "\<forall>a \<in> set xs. good a" "length xs = gc q" by blast
        then have "?scan = Some (Some (last_opt xs, length xs))"
          by (subst iff) (auto simp: dlist_linked)
        then show False using Some None by simp
      qed
      then show ?thesis using Some None
        unfolding worklist_valid_def Let_def good_def [symmetric] by simp
    next
      case (Some tc)
      obtain t c where tc: "tc = (t, c)" by (cases tc)
      then have sc: "?scan = Some (Some (t, c))" using \<open>?scan = Some r\<close> Some by simp
      then obtain xs where xs: "chain (fl gn (socks s)) (gh q) xs" "linked (fl gp (socks s)) None xs"
        "\<forall>a \<in> set xs. good a" "c = length xs" "t = last_opt xs"
        unfolding iff by blast
      have "(t = gt q \<and> c = gc q \<and> c = card {a \<in> set L. sock_flag gf s a}) \<longleftrightarrow> ?v"
      proof
        assume "t = gt q \<and> c = gc q \<and> c = card {a \<in> set L. sock_flag gf s a}"
        then show ?v using xs by (intro exI [of _ xs]) (auto simp: dlist_linked)
      next
        assume ?v
        then obtain ys where ys: "dlist (fl gn (socks s)) (fl gp (socks s)) (gh q) (gt q) ys"
          "length ys = gc q" "gc q = card {a \<in> set L. sock_flag gf s a}" by blast
        then have "ys = xs" using xs(1) chain_unique by (auto simp: dlist_def)
        then show "t = gt q \<and> c = gc q \<and> c = card {a \<in> set L. sock_flag gf s a}"
          using xs ys by (auto simp: dlist_linked)
      qed
      then show ?thesis
        using sc cnt unfolding worklist_valid_def Let_def good_def [symmetric] by simp
    qed
  qed
  moreover have "?v \<longleftrightarrow> (\<exists>xs. wl_state s p xs)"
  proof
    assume ?v
    then obtain xs where xs: "dlist (fl gn (socks s)) (fl gp (socks s)) (gh q) (gt q) xs"
      "\<forall>a \<in> set xs. good a" "length xs = gc q" "gc q = card {a \<in> set L. sock_flag gf s a}" by blast
    have "set xs \<subseteq> {a \<in> set L. sock_flag gf s a}" using xs(2) g by auto
    moreover have "card (set xs) = card {a \<in> set L. sock_flag gf s a}"
      using dlist_distinct [OF xs(1)] xs(3,4) distinct_card by metis
    ultimately have eq: "set xs = {a \<in> set L. sock_flag gf s a}"
      by (intro card_subset_eq) auto
    have "wl_state s p xs"
      unfolding wl_state_def
    proof (intro exI [of _ q] conjI allI impI)
      show "\<forall>a \<in> set xs. \<exists>k. socks s a = Some k \<and> sk_port k = p" using eq m by blast
      fix a k assume k: "socks s a = Some k" "sk_port k = p"
      then have aL: "a \<in> set L" using m by blast
      show "gf k \<longleftrightarrow> a \<in> set xs" using eq aL k by (simp add: sock_flag_def)
      assume "\<not> gf k"
      then show "gn k = None" "gp k = None" using fl aL k by (auto simp: flag_linked_def sock_flag_def)
    qed (use xs q in auto)
    then show "\<exists>xs. wl_state s p xs" ..
  next
    assume "\<exists>xs. wl_state s p xs"
    then obtain xs where w: "wl_state s p xs" ..
    then have xs: "dlist (fl gn (socks s)) (fl gp (socks s)) (gh q) (gt q) xs" "gc q = length xs"
      using q by (auto simp: wl_state_def)
    have eq: "set xs = {a \<in> set L. sock_flag gf s a}"
      using w m unfolding wl_state_def sock_flag_def by (fastforce split: option.splits)
    then have "length xs = card {a \<in> set L. sock_flag gf s a}"
      using dlist_distinct [OF xs(1)] distinct_card by metis
    then show ?v using xs eq g by (intro exI [of _ xs]) auto
  qed
  ultimately show ?thesis by simp
qed

lemma linked_if_state:
  assumes L: "sock_list s p L" and q: "ports s p = Some q" and w: "wl_state s p xs"
  shows "flag_linked s q L" "(gh q = None) = (gt q = None)"
proof -
  have d: "dlist (fl gn (socks s)) (fl gp (socks s)) (gh q) (gt q) xs"
    and f: "\<And>a k. socks s a = Some k \<Longrightarrow> sk_port k = p \<Longrightarrow>
        (gf k \<longleftrightarrow> a \<in> set xs) \<and> (\<not> gf k \<longrightarrow> gn k = None \<and> gp k = None)"
    using w q by (auto simp: wl_state_def)
  show "(gh q = None) = (gt q = None)" using dlist_ends [OF d] by simp
  show "flag_linked s q L"
    unfolding flag_linked_def
  proof
    fix a assume "a \<in> set L"
    then obtain k where k: "socks s a = Some k" "sk_port k = p"
      using L by (auto simp: sock_list_but_def)
    have "gf k = (gp k \<noteq> None \<or> gn k \<noteq> None \<or> gh q = Some a)"
    proof (cases "a \<in> set xs")
      case True
      then obtain us vs where xs: "xs = us @ a # vs" by (metis split_list)
      have "gp k = None \<longrightarrow> gh q = Some a"
        using dlist_nbrs(2) [of "fl gn (socks s)" "fl gp (socks s)" "gh q" "gt q" us a vs] d xs k
          dlist_ends [OF d] by (cases us) auto
      then show ?thesis using f [OF k] True by auto
    next
      case False
      then have "gh q \<noteq> Some a" using dlist_ends [OF d] by (auto split: if_splits)
      then show ?thesis using f [OF k] False by auto
    qed
    then show "sock_flag (\<lambda>k. gf k = (gp k \<noteq> None \<or> gn k \<noteq> None \<or> gh q = Some a)) s a"
      using k by (simp add: sock_flag_def)
  qed
qed

end

lemma live_good_split:
  "socks s a = Some k \<Longrightarrow> sk_port k = p \<Longrightarrow> live_good s p q previous a \<longleftrightarrow>
    fl sk_prev (socks s) a = previous \<and>
    (sk_needs_rearm k = (sk_rearm_prev k \<noteq> None \<or> sk_rearm_next k \<noteq> None \<or> pt_rearm_head q = Some a) \<and>
     sk_oneshot_fired k = (sk_oneshot_prev k \<noteq> None \<or> sk_oneshot_next k \<noteq> None \<or> pt_oneshot_head q = Some a) \<and>
     \<not> (sk_needs_rearm k \<and> sk_oneshot_fired k) \<and>
     \<not> (sk_delete_pending k \<and> (sk_needs_rearm k \<or> sk_oneshot_fired k)))"
  by (simp add: live_good_def sock_flag_def)

text \<open>No registration is in both lists, and none that is being deleted is in either.\<close>

definition exclusive_flags :: "('os, 'z) ep_world_scheme \<Rightarrow> addr list \<Rightarrow> bool" where
  "exclusive_flags s L \<longleftrightarrow> (\<forall>a \<in> set L. sock_flag (\<lambda>k. \<not> (sk_needs_rearm k \<and> sk_oneshot_fired k) \<and>
     \<not> (sk_delete_pending k \<and> (sk_needs_rearm k \<or> sk_oneshot_fired k))) s a)"

lemma live_goods:
  assumes L: "sock_list s p L"
  shows "goods (live_good s p q) None L \<longleftrightarrow>
    rearm.flag_linked s q L \<and> oneshot.flag_linked s q L \<and> exclusive_flags s L"
proof -
  have d: "linked (fl sk_prev (socks s)) None L"
    and m: "\<And>a. a \<in> set L \<Longrightarrow> \<exists>k. socks s a = Some k \<and> sk_port k = p"
    using L by (auto simp: sock_list_but_def dlist_linked)
  define R where "R a = sock_flag (\<lambda>k.
     sk_needs_rearm k = (sk_rearm_prev k \<noteq> None \<or> sk_rearm_next k \<noteq> None \<or> pt_rearm_head q = Some a) \<and>
     sk_oneshot_fired k = (sk_oneshot_prev k \<noteq> None \<or> sk_oneshot_next k \<noteq> None \<or> pt_oneshot_head q = Some a) \<and>
     \<not> (sk_needs_rearm k \<and> sk_oneshot_fired k) \<and>
     \<not> (sk_delete_pending k \<and> (sk_needs_rearm k \<or> sk_oneshot_fired k))) s a" for a
  have "live_good s p q previous a = (fl sk_prev (socks s) a = previous \<and> R a)" if a: "a \<in> set L" for previous a
  proof -
    obtain k where k: "socks s a = Some k" "sk_port k = p" using m [OF a] by blast
    show ?thesis unfolding live_good_split [OF k] R_def sock_flag_def using k by simp
  qed
  then have "goods (live_good s p q) None L =
    goods (\<lambda>previous a. fl sk_prev (socks s) a = previous \<and> R a) None L"
    by (rule goods_cong)
  also have "\<dots> \<longleftrightarrow> (\<forall>a \<in> set L. R a)" using d by (simp add: goods_split)
  also have "\<dots> \<longleftrightarrow> rearm.flag_linked s q L \<and> oneshot.flag_linked s q L \<and> exclusive_flags s L"
    using m by (fastforce simp: R_def sock_flag_def rearm.flag_linked_def oneshot.flag_linked_def
      exclusive_flags_def)
  finally show ?thesis .
qed


text \<open>
  (C24) A flag, its list membership and the count change in lockstep.  Setting or clearing the
  re-arm flag of a registration appends it to, or removes it from, the re-arm list exactly once,
  the same holds for the fired-oneshot flag and its list, the other list stays as it was, and
  nothing else of the program state changes; no assertion fails.
\<close>

theorem worklist_lockstep:
  assumes "worklists s p xs ys" "socks s a = Some k" "sk_port k = p"
  shows "(let s1 = exec (ep_sock_set_needs_rearm_locked a b) s;
              s2 = exec (ep_sock_set_oneshot_fired_locked a b) s in
    worklists s1 p (relisted b a xs) ys \<and> only_worklists s s1 \<and>
    worklists s2 p xs (relisted b a ys) \<and> only_worklists s s2)"
  unfolding Let_def
  using set_needs_rearm_rule [OF assms, of b "\<lambda>_ s1. worklists s1 p (relisted b a xs) ys \<and> only_worklists s s1"]
    set_oneshot_fired_rule [OF assms, of b "\<lambda>_ s2. worklists s2 p xs (relisted b a ys) \<and> only_worklists s s2"]
  by (simp add: wp_def)

definition worklist_world :: "unit ep_world" where
  "worklist_world = ep_world_zero ()
     \<lparr> socks := [1 \<mapsto> ep_sock_zero \<lparr> sk_fd := 5 \<rparr>],
       ports := [0 \<mapsto> ep_port_zero \<lparr> pt_sock_list_head := Some 1 \<rparr>] \<rparr>"

lemma worklist_world_ok:
  "worklists worklist_world 0 [] []" "sock_list worklist_world 0 [1]" "exclusive_flags worklist_world [1]"
  "socks worklist_world 1 = Some (ep_sock_zero \<lparr> sk_fd := 5 \<rparr>)"
  "ports worklist_world 0 = Some (ep_port_zero \<lparr> pt_sock_list_head := Some 1 \<rparr>)"
  by (auto simp: worklist_world_def worklists_def rearm.wl_state_def oneshot.wl_state_def fl_def
    sock_list_but_def dlist_def exclusive_flags_def sock_flag_def ep_sock_zero_def ep_port_zero_def
    split: if_splits)


theorem worklist_lockstep_witness:
  "worklists (exec (ep_sock_set_needs_rearm_locked 1 True) worklist_world) 0 [1] []"
  using worklist_lockstep [OF worklist_world_ok(1,4), of True]
  by (simp add: Let_def relisted_def ep_sock_zero_def)

end
