(* ===== verification/Ep_Exclusive.thy ===== *)
theory Ep_Exclusive
  imports Ep_Worklist
begin

text \<open>
  EPOLLEXCLUSIVE ownership, \<^verbatim>\<open>src/src/wepoll_ex_port.c\<close>: a process-wide index of claims on
  (provider socket, readiness class), kept as intrusive lists in hash buckets.  A registration
  that wins a class reports it; competitors are filtered or turned away until the claim is
  released.  Each operation runs under one process-wide lock and is one step.
\<close>

section \<open>The index\<close>

abbreviation (input) EP_EXCLUSIVE_CLAIM_BUCKETS :: nat where "EP_EXCLUSIVE_CLAIM_BUCKETS \<equiv> 128"

definition ep_exclusive_bucket :: "sock_fd \<Rightarrow> nat" where
  "ep_exclusive_bucket base =
    (let value = base XOR drop_bit 17 base;
         value = value * 0x9e3779b97f4a7c15
     in unat value mod EP_EXCLUSIVE_CLAIM_BUCKETS)"

definition ep_explicit_rearm_enabled :: "addr \<Rightarrow> (('os, 'z) ep_world_scheme, bool) state" where
  "ep_explicit_rearm_enabled sock = do {
     k \<leftarrow> sock_read sock (\<lambda>k. k);
     explicit \<leftarrow> port_read (sk_port k) pt_explicit_rearm;
     return (explicit \<and> sk_kind k = EP_REG_SOCKET \<and> sk_user_flags k AND EPOLLET \<noteq> 0)
   }"

definition bucket_upd :: "nat \<Rightarrow> addr option \<Rightarrow> (('os, 'z) ep_world_scheme, unit) state" where
  "bucket_upd b v = modify (\<lambda>s. s \<lparr> g_exclusive_claim_buckets := (g_exclusive_claim_buckets s)(b := v) \<rparr>)"

definition ep_exclusive_unlink_locked :: "addr \<Rightarrow> (('os, 'z) ep_world_scheme, unit) state" where
  "ep_exclusive_unlink_locked sock = do {
     classes \<leftarrow> sock_read sock sk_exclusive_claim_classes;
     r \<leftarrow> sock_read sock sk_exclusive_prev;
     n \<leftarrow> sock_read sock sk_exclusive_next;
     if classes = 0 then do {
       assert_that (n = None);
       assert_that (r = None)
     } else do {
       base \<leftarrow> sock_read sock sk_exclusive_claim_base;
       let bucket = ep_exclusive_bucket base;
       (case r of
          Some y \<Rightarrow> sock_upd y (\<lambda>k. k \<lparr> sk_exclusive_next := n \<rparr>)
        | None \<Rightarrow> do {
            h \<leftarrow> gets (\<lambda>s. g_exclusive_claim_buckets s bucket);
            assert_that (h = Some sock);
            bucket_upd bucket n
          });
       (case n of
          Some z \<Rightarrow> sock_upd z (\<lambda>k. k \<lparr> sk_exclusive_prev := r \<rparr>)
        | None \<Rightarrow> skip);
       sock_upd sock (\<lambda>k. k \<lparr> sk_exclusive_next := None, sk_exclusive_prev := None,
                              sk_exclusive_claim_base := INVALID_SOCKET,
                              sk_exclusive_claim_classes := 0 \<rparr>)
     }
   }"

definition ep_exclusive_remove_classes_locked :: "addr \<Rightarrow> uint8 \<Rightarrow> (('os, 'z) ep_world_scheme, unit) state" where
  "ep_exclusive_remove_classes_locked sock classes = do {
     owned \<leftarrow> sock_read sock sk_exclusive_claim_classes;
     if owned AND classes = 0 then skip
     else do {
       let remaining = owned AND NOT classes;
       if remaining = 0 then ep_exclusive_unlink_locked sock
       else sock_upd sock (\<lambda>k. k \<lparr> sk_exclusive_claim_classes := remaining \<rparr>)
     }
   }"

text \<open>A claim on another provider socket is dropped first.\<close>

definition drop_other_base :: "addr \<Rightarrow> sock_fd \<Rightarrow> (('os, 'z) ep_world_scheme, unit) state" where
  "drop_other_base sock base = do {
     owned \<leftarrow> sock_read sock sk_exclusive_claim_classes;
     claim_base \<leftarrow> sock_read sock sk_exclusive_claim_base;
     when_do (owned \<noteq> 0 \<and> claim_base \<noteq> base) (ep_exclusive_unlink_locked sock)
   }"

text \<open>A registration without a claim enters its bucket at the front.\<close>

definition exclusive_push :: "addr \<Rightarrow> sock_fd \<Rightarrow> (('os, 'z) ep_world_scheme, unit) state" where
  "exclusive_push sock base = do {
     let bucket = ep_exclusive_bucket base;
     head \<leftarrow> gets (\<lambda>s. g_exclusive_claim_buckets s bucket);
     sock_upd sock (\<lambda>k. k \<lparr> sk_exclusive_claim_base := base \<rparr>);
     sock_upd sock (\<lambda>k. k \<lparr> sk_exclusive_prev := None \<rparr>);
     sock_upd sock (\<lambda>k. k \<lparr> sk_exclusive_next := head \<rparr>);
     (case head of
        Some h \<Rightarrow> sock_upd h (\<lambda>k. k \<lparr> sk_exclusive_prev := Some sock \<rparr>)
      | None \<Rightarrow> skip);
     bucket_upd bucket (Some sock)
   }"

definition ep_exclusive_add_classes_locked ::
  "addr \<Rightarrow> sock_fd \<Rightarrow> uint8 \<Rightarrow> (('os, 'z) ep_world_scheme, unit) state" where
  "ep_exclusive_add_classes_locked sock base classes =
    (if classes = 0 then skip
     else do {
       drop_other_base sock base;
       owned \<leftarrow> sock_read sock sk_exclusive_claim_classes;
       when_do (owned = 0) (exclusive_push sock base);
       sock_upd sock (\<lambda>k. k \<lparr> sk_exclusive_claim_classes := sk_exclusive_claim_classes k OR classes \<rparr>)
     })"

text \<open>The loops over a bucket.  The bound is the number of addresses handed out.\<close>

record claim_view =
  cv_owned :: uint8
  cv_denied :: uint8
  cv_owner_terminal :: bool
  cv_peer_terminal :: bool

definition claim_visit :: "addr \<Rightarrow> uint8 \<Rightarrow> addr \<Rightarrow> uint8 \<Rightarrow> claim_view \<Rightarrow> claim_view" where
  "claim_visit sock requested claim claim_classes v =
    (if claim = sock then
       v \<lparr> cv_owned := cv_owned v OR claim_classes,
           cv_owner_terminal := cv_owner_terminal v \<or> has_class claim_classes EP_READINESS_CLASS_TERMINAL \<rparr>
     else if has_class claim_classes EP_READINESS_CLASS_TERMINAL then v \<lparr> cv_peer_terminal := True \<rparr>
     else if \<not> has_class requested EP_READINESS_CLASS_TERMINAL
     then v \<lparr> cv_denied := cv_denied v OR (claim_classes AND requested) \<rparr>
     else v)"

primrec claim_scan ::
  "nat \<Rightarrow> addr option \<Rightarrow> addr \<Rightarrow> sock_fd \<Rightarrow> uint8 \<Rightarrow> claim_view \<Rightarrow> (('os, 'z) ep_world_scheme, claim_view) state" where
  "claim_scan 0 cur sock base requested v = do { assert_that (cur = None); return v }"
| "claim_scan (Suc n) cur sock base requested v =
    (case cur of
       None \<Rightarrow> return v
     | Some claim \<Rightarrow> do {
         claim_base \<leftarrow> sock_read claim sk_exclusive_claim_base;
         claim_classes \<leftarrow> sock_read claim sk_exclusive_claim_classes;
         nxt \<leftarrow> sock_read claim sk_exclusive_next;
         claim_scan n nxt sock base requested
           (if claim_base \<noteq> base then v else claim_visit sock requested claim claim_classes v)
       })"

primrec claims_remove :: "nat \<Rightarrow> addr option \<Rightarrow> sock_fd \<Rightarrow> uint8 \<Rightarrow> (('os, 'z) ep_world_scheme, unit) state" where
  "claims_remove 0 cur base classes = assert_that (cur = None)"
| "claims_remove (Suc n) cur base classes =
    (case cur of
       None \<Rightarrow> skip
     | Some claim \<Rightarrow> do {
         nxt \<leftarrow> sock_read claim sk_exclusive_next;
         claim_base \<leftarrow> sock_read claim sk_exclusive_claim_base;
         when_do (claim_base = base) (ep_exclusive_remove_classes_locked claim classes);
         claims_remove n nxt base classes
       })"

definition bucket_remove :: "sock_fd \<Rightarrow> uint8 \<Rightarrow> (('os, 'z) ep_world_scheme, unit) state" where
  "bucket_remove base classes = do {
     n \<leftarrow> gets pool_next_addr;
     head \<leftarrow> gets (\<lambda>s. g_exclusive_claim_buckets s (ep_exclusive_bucket base));
     claims_remove n head base classes
   }"

text \<open>The decision of \<open>ep_exclusive_try_claim\<close> after the scan: the classes denied, and the claims
  to add when the claim succeeds.\<close>

definition claim_denied :: "uint8 \<Rightarrow> claim_view \<Rightarrow> uint8" where
  "claim_denied requested v = (if cv_peer_terminal v then requested else cv_denied v)"

definition claim_missing :: "uint8 \<Rightarrow> uint8 \<Rightarrow> claim_view \<Rightarrow> uint8" where
  "claim_missing requested denied v =
    (let granted = requested AND NOT denied in
     if cv_owner_terminal v then 0
     else if has_class granted EP_READINESS_CLASS_TERMINAL then EP_READINESS_CLASS_TERMINAL
     else granted AND NOT (cv_owned v))"

definition ep_exclusive_try_claim :: "addr \<Rightarrow> uint32 \<Rightarrow> (('os, 'z) ep_world_scheme, bool \<times> uint32) state" where
  "ep_exclusive_try_claim sock delivered = do {
     base \<leftarrow> sock_read sock sk_base_socket;
     let requested = ep_readiness_classes delivered;
     drop_other_base sock base;
     n \<leftarrow> gets pool_next_addr;
     head \<leftarrow> gets (\<lambda>s. g_exclusive_claim_buckets s (ep_exclusive_bucket base));
     v \<leftarrow> claim_scan n head sock base requested
       \<lparr> cv_owned = 0, cv_denied = 0, cv_owner_terminal = False, cv_peer_terminal = False \<rparr>;
     when_do (has_class requested EP_READINESS_CLASS_TERMINAL \<and> \<not> cv_peer_terminal v)
       (bucket_remove base (EP_READINESS_CLASS_READ OR EP_READINESS_CLASS_WRITE));
     let denied = claim_denied requested v;
     if requested AND NOT denied = 0 \<and> requested \<noteq> 0 then return (False, delivered)
     else do {
       ep_exclusive_add_classes_locked sock base (claim_missing requested denied v);
       return (True, ep_readiness_filter_classes delivered denied)
     }
   }"

definition ep_exclusive_release_owner :: "addr \<Rightarrow> (('os, 'z) ep_world_scheme, unit) state" where
  "ep_exclusive_release_owner sock = ep_exclusive_unlink_locked sock"

definition ep_exclusive_release_quiescent :: "addr \<Rightarrow> uint32 \<Rightarrow> (('os, 'z) ep_world_scheme, unit) state" where
  "ep_exclusive_release_quiescent sock submitted_afd_events = do {
     base \<leftarrow> sock_read sock sk_base_socket;
     drop_other_base sock base;
     bucket_remove base (ep_exclusive_quiescent_classes submitted_afd_events)
   }"

definition ep_exclusive_release_inactive :: "addr \<Rightarrow> uint8 \<Rightarrow> (('os, 'z) ep_world_scheme, unit) state" where
  "ep_exclusive_release_inactive sock inactive_classes = do {
     base \<leftarrow> sock_read sock sk_base_socket;
     drop_other_base sock base;
     bucket_remove base inactive_classes
   }"

section \<open>Representation\<close>

text \<open>\<open>owns s a base\<close>: the classes that registration \<open>a\<close> holds on a provider socket.\<close>

definition owns :: "('os, 'z) ep_world_scheme \<Rightarrow> addr \<Rightarrow> sock_fd \<Rightarrow> uint8" where
  "owns s a base = (case socks s a of None \<Rightarrow> 0
     | Some k \<Rightarrow> if sk_exclusive_claim_base k = base then sk_exclusive_claim_classes k else 0)"

definition claim_of :: "(addr \<Rightarrow> ep_sock option) \<Rightarrow> addr \<Rightarrow> (sock_fd \<times> uint8) option" where
  "claim_of S a = map_option (\<lambda>k. (sk_exclusive_claim_base k, sk_exclusive_claim_classes k)) (S a)"

lemma claim_of_upd [simp]:
  "claim_of (S(a \<mapsto> k)) = (claim_of S)(a \<mapsto> (sk_exclusive_claim_base k, sk_exclusive_claim_classes k))"
  by (auto simp: claim_of_def)

lemma claim_of_at [simp]:
  "S a = Some k \<Longrightarrow> claim_of S a = Some (sk_exclusive_claim_base k, sk_exclusive_claim_classes k)"
  by (simp add: claim_of_def)

lemma owns_claim: "owns s a base = (case claim_of (socks s) a of None \<Rightarrow> 0 | Some (b, c) \<Rightarrow> if b = base then c else 0)"
  by (auto simp: owns_def claim_of_def split: option.splits)

text \<open>The claim index, over the projections of the state it depends on.\<close>

definition index_ok ::
  "(addr \<Rightarrow> addr option) \<Rightarrow> (addr \<Rightarrow> addr option) \<Rightarrow> (nat \<Rightarrow> addr option) \<Rightarrow> (addr \<Rightarrow> (sock_fd \<times> uint8) option) \<Rightarrow>
   (nat \<Rightarrow> addr list) \<Rightarrow> bool" where
  "index_ok nx pv G C L \<longleftrightarrow>
     (\<forall>b. dlist nx pv (G b) (last_opt (L b)) (L b)) \<and>
     (\<forall>a b. a \<in> set (L b) \<longleftrightarrow> (\<exists>B c. C a = Some (B, c) \<and> c \<noteq> 0 \<and> ep_exclusive_bucket B = b)) \<and>
     (\<forall>a B c. C a = Some (B, c) \<longrightarrow> class_mask c \<and> (c = 0 \<longrightarrow> nx a = None \<and> pv a = None))"

definition claims_in :: "('os, 'z) ep_world_scheme \<Rightarrow> (nat \<Rightarrow> addr list) \<Rightarrow> bool" where
  "claims_in s L \<longleftrightarrow>
     index_ok (fl sk_exclusive_next (socks s)) (fl sk_exclusive_prev (socks s))
       (g_exclusive_claim_buckets s) (claim_of (socks s)) L \<and>
     (\<forall>a. socks s a \<noteq> None \<longrightarrow> a < pool_next_addr s)"

definition claim_erased :: "ep_sock \<Rightarrow> ep_sock" where
  "claim_erased k = k \<lparr> sk_exclusive_next := None, sk_exclusive_prev := None,
     sk_exclusive_claim_base := 0, sk_exclusive_claim_classes := 0 \<rparr>"

definition only_claims :: "('os, 'z) ep_world_scheme \<Rightarrow> ('os, 'z) ep_world_scheme \<Rightarrow> bool" where
  "only_claims s s' \<longleftrightarrow>
     s' = s \<lparr> socks := socks s', g_exclusive_claim_buckets := g_exclusive_claim_buckets s' \<rparr> \<and>
     (\<forall>b. map_option claim_erased (socks s' b) = map_option claim_erased (socks s b))"

lemma only_claims_refl [simp]: "only_claims s s"
  by (simp add: only_claims_def)

lemma only_claims_trans:
  assumes "only_claims s t" "only_claims t u"
  shows "only_claims s u"
proof -
  have "u = t \<lparr> socks := socks u, g_exclusive_claim_buckets := g_exclusive_claim_buckets u \<rparr>"
    "t = s \<lparr> socks := socks t, g_exclusive_claim_buckets := g_exclusive_claim_buckets t \<rparr>"
    using assms by (simp_all add: only_claims_def)
  then have "u = (s \<lparr> socks := socks t, g_exclusive_claim_buckets := g_exclusive_claim_buckets t \<rparr>)
    \<lparr> socks := socks u, g_exclusive_claim_buckets := g_exclusive_claim_buckets u \<rparr>" by metis
  then show ?thesis using assms by (simp add: only_claims_def)
qed

lemma only_claims_sock:
  assumes "only_claims s s'" "socks s a = Some k"
  obtains k' where "socks s' a = Some k'" "claim_erased k' = claim_erased k"
    "sk_base_socket k' = sk_base_socket k" "sk_port k' = sk_port k"
proof -
  have "map_option claim_erased (socks s' a) = Some (claim_erased k)"
    using assms by (metis only_claims_def option.map(2))
  then obtain k' where k': "socks s' a = Some k'" "claim_erased k' = claim_erased k" by auto
  then have "sk_base_socket (claim_erased k') = sk_base_socket (claim_erased k)"
    "sk_port (claim_erased k') = sk_port (claim_erased k)" by simp_all
  then have "sk_base_socket k' = sk_base_socket k" "sk_port k' = sk_port k" by (simp_all add: claim_erased_def)
  with k' show thesis using that by blast
qed

lemma wp_bucket_upd [wp_simps]:
  "wp (bucket_upd b v) Q s =
    Q () (s \<lparr> g_exclusive_claim_buckets := (g_exclusive_claim_buckets s)(b := v) \<rparr>)"
  by (simp add: bucket_upd_def wp_simps)

lemma claims_member: "claims_in s L \<Longrightarrow> a \<in> set (L b) \<longleftrightarrow>
    (\<exists>k. socks s a = Some k \<and> sk_exclusive_claim_classes k \<noteq> 0 \<and>
      ep_exclusive_bucket (sk_exclusive_claim_base k) = b)"
  unfolding claims_in_def index_ok_def by (auto simp: claim_of_def)

lemma claims_fields:
  assumes "claims_in s L" "socks s a = Some k"
  shows "class_mask (sk_exclusive_claim_classes k)"
    and "sk_exclusive_claim_classes k = 0 \<Longrightarrow> sk_exclusive_next k = None \<and> sk_exclusive_prev k = None"
proof -
  have i: "\<forall>a B c. claim_of (socks s) a = Some (B, c) \<longrightarrow> class_mask c \<and>
    (c = 0 \<longrightarrow> fl sk_exclusive_next (socks s) a = None \<and> fl sk_exclusive_prev (socks s) a = None)"
    using assms(1) unfolding claims_in_def index_ok_def by blast
  note i [rule_format, OF claim_of_at [where S = "socks s", OF assms(2)]]
  then show "class_mask (sk_exclusive_claim_classes k)"
    and "sk_exclusive_claim_classes k = 0 \<Longrightarrow> sk_exclusive_next k = None \<and> sk_exclusive_prev k = None"
    using assms(2) by simp_all
qed

lemma claims_distinct: "claims_in s L \<Longrightarrow> distinct (L b)"
  unfolding claims_in_def index_ok_def using dlist_distinct by blast

lemma claims_length:
  assumes "claims_in s L"
  shows "length (L b) \<le> pool_next_addr s"
proof (rule bounded_distinct_length [OF claims_distinct [OF assms]])
  fix a assume "a \<in> set (L b)"
  then have "socks s a \<noteq> None" using claims_member [OF assms] by auto
  then show "a < pool_next_addr s" using assms unfolding claims_in_def by blast
qed

section \<open>Unlinking\<close>

lemma index_unlink:
  assumes i: "index_ok nx pv G C L" and a: "C a = Some (B, c)" "c \<noteq> 0"
  defines "b \<equiv> ep_exclusive_bucket B"
  shows "index_ok (unlink_next nx pv a) (unlink_next pv nx a) (G(b := unlink_head nx pv a (G b)))
    (C(a \<mapsto> (B', 0))) (L(b := remove1 a (L b)))"
proof -
  have d: "dlist nx pv (G b') (last_opt (L b')) (L b')" for b' using i by (simp add: index_ok_def)
  have m: "x \<in> set (L b') \<longleftrightarrow> (\<exists>B c. C x = Some (B, c) \<and> c \<noteq> 0 \<and> ep_exclusive_bucket B = b')" for x b'
    using i by (simp add: index_ok_def)
  have ab: "a \<in> set (L b)" using m a b_def by blast
  then obtain us vs where xs: "L b = us @ a # vs" by (metis split_list)
  have q2: "dlist nx pv (G b) (last_opt (L b)) (us @ a # vs)" using d [of b] xs by simp
  have dis: "distinct (us @ a # vs)" using dlist_distinct [OF q2] .
  note nb = dlist_nbrs [OF q2]
  have rem: "remove1 a (L b) = us @ vs" using xs dis by (simp add: remove1_append)
  have lo: "last_opt (us @ vs) = unlink_head pv nx a (last_opt (L b))"
    using nb xs by (auto simp: last_opt_def unlink_head_def)
  have members: "\<And>y. nx a = Some y \<Longrightarrow> y \<in> set (L b)" "\<And>y. pv a = Some y \<Longrightarrow> y \<in> set (L b)"
    using nb xs by (auto split: if_splits)
  have "dlist (unlink_next nx pv a) (unlink_next pv nx a) ((G(b := unlink_head nx pv a (G b))) b')
    (last_opt ((L(b := us @ vs)) b')) ((L(b := us @ vs)) b')" for b'
  proof (cases "b' = b")
    case True
    then show ?thesis using dlist_remove [OF q2] lo by simp
  next
    case False
    have "x \<noteq> a \<and> pv a \<noteq> Some x \<and> nx a \<noteq> Some x" if "x \<in> set (L b')" for x
      using that m False members ab by auto
    then have same: "unlink_next nx pv a x = nx x \<and> unlink_next pv nx a x = pv x" if "x \<in> set (L b')" for x
      using that by (auto simp: unlink_next_def split: option.splits)
    have "dlist (unlink_next nx pv a) (unlink_next pv nx a) (G b') (last_opt (L b')) (L b') =
      dlist nx pv (G b') (last_opt (L b')) (L b')"
      by (rule dlist_cong) (simp_all add: same)
    then show ?thesis using d [of b'] False by simp
  qed
  moreover have "x \<in> set ((L(b := us @ vs)) b') \<longleftrightarrow>
    (\<exists>B'' c. (C(a \<mapsto> (B', 0))) x = Some (B'', c) \<and> c \<noteq> 0 \<and> ep_exclusive_bucket B'' = b')" for x b'
  proof (cases "x = a")
    case True
    then show ?thesis using m [of a b'] a dis b_def by auto
  next
    case False
    then show ?thesis using m [of x b'] xs by (cases "b' = b") auto
  qed
  moreover have "class_mask c' \<and> (c' = 0 \<longrightarrow> unlink_next nx pv a x = None \<and> unlink_next pv nx a x = None)"
    if "(C(a \<mapsto> (B', 0))) x = Some (B'', c')" for x B'' c'
  proof (cases "x = a")
    case True
    then show ?thesis using that by (simp add: unlink_next_def)
  next
    case False
    then have x: "C x = Some (B'', c')" using that by simp
    have "pv a \<noteq> Some x \<and> nx a \<noteq> Some x" if "c' = 0" using members m x that by fastforce
    then show ?thesis using i x False by (auto simp: index_ok_def unlink_next_def split: option.splits)
  qed
  ultimately show ?thesis unfolding rem index_ok_def by blast
qed

lemma unlink_claim_steps:
  assumes c: "claims_in s L" and k: "socks s a = Some k" and on: "sk_exclusive_claim_classes k \<noteq> 0"
  defines "b \<equiv> ep_exclusive_bucket (sk_exclusive_claim_base k)"
    and "nx \<equiv> fl sk_exclusive_next (socks s)" and "pv \<equiv> fl sk_exclusive_prev (socks s)"
  shows "wp (ep_exclusive_unlink_locked a) (\<lambda>_ s'.
    fl sk_exclusive_next (socks s') = unlink_next nx pv a \<and> fl sk_exclusive_prev (socks s') = unlink_next pv nx a \<and>
    g_exclusive_claim_buckets s' = (g_exclusive_claim_buckets s)(b := unlink_head nx pv a (g_exclusive_claim_buckets s b)) \<and>
    claim_of (socks s') = (claim_of (socks s))(a \<mapsto> (INVALID_SOCKET, 0)) \<and> only_claims s s') s"
proof -
  have i: "index_ok nx pv (g_exclusive_claim_buckets s) (claim_of (socks s)) L"
    using c by (simp add: claims_in_def nx_def pv_def)
  have mem: "x \<in> set (L b) \<Longrightarrow> socks s x \<noteq> None" for x using claims_member [OF c] by auto
  have "a \<in> set (L b)" using claims_member [OF c] k on by (simp add: b_def)
  then obtain us vs where xs: "L b = us @ a # vs" by (metis split_list)
  have q2: "dlist nx pv (g_exclusive_claim_buckets s b) (last_opt (L b)) (us @ a # vs)"
    using i xs by (metis index_ok_def)
  have dis: "distinct (us @ a # vs)" using dlist_distinct [OF q2] .
  have n: "sk_exclusive_next k = (if vs = [] then None else Some (hd vs))"
    and r: "sk_exclusive_prev k = (if us = [] then None else Some (last us))"
    using dlist_nbrs [OF q2] k by (simp_all add: nx_def pv_def)
  have h: "g_exclusive_claim_buckets s b = Some a" if "us = []" using dlist_ends [OF q2] that by simp
  have na: "a \<notin> set us" "a \<notin> set vs" using dis by auto
  have links: "nx a = sk_exclusive_next k" "pv a = sk_exclusive_prev k" using k by (simp_all add: nx_def pv_def)
  note defs = ep_exclusive_unlink_locked_def wp_simps Let_def b_def [symmetric]
  note outs = only_claims_def claim_erased_def unlink_next_def unlink_head_def links nx_def [symmetric] pv_def [symmetric]
  have at: "nx x = sk_exclusive_next kx" "pv x = sk_exclusive_prev kx" if "socks s x = Some kx" for x kx
    using that by (simp_all add: nx_def pv_def)
  have neq: "y \<noteq> a" if "y \<in> set us \<union> set vs" for y using that na by auto
  show ?thesis
  proof (cases "us = []"; cases "vs = []")
    assume "us = []" "vs = []"
    then show ?thesis using k on n r h by (simp add: defs) (auto simp: outs)
  next
    assume e: "us = []" "vs \<noteq> []"
    then have z: "hd vs \<in> set vs" by simp
    then obtain kz where kz: "socks s (hd vs) = Some kz" using mem [of "hd vs"] xs by auto
    show ?thesis using e k on n r h kz neq [of "hd vs"] z
      by (simp add: defs) (auto simp: outs fun_upd_idem at)
  next
    assume e: "us \<noteq> []" "vs = []"
    then have y: "last us \<in> set us" by simp
    then obtain ky where ky: "socks s (last us) = Some ky" using mem [of "last us"] xs by auto
    show ?thesis using e k on n r h ky neq [of "last us"] y
      by (simp add: defs) (auto simp: outs fun_upd_idem at)
  next
    assume e: "us \<noteq> []" "vs \<noteq> []"
    then have y: "last us \<in> set us" and z: "hd vs \<in> set vs" by simp_all
    then obtain ky kz where ky: "socks s (last us) = Some ky" "socks s (hd vs) = Some kz"
      using mem [of "last us"] mem [of "hd vs"] xs by auto
    have "last us \<noteq> hd vs" using y z dis by auto
    then show ?thesis using e k on n r h ky neq [of "last us"] neq [of "hd vs"] y z
      by (simp add: defs) (auto simp: outs fun_upd_idem at)
  qed
qed

lemma owns_upd:
  "claim_of (socks s') = (claim_of (socks s))(a \<mapsto> (B, c)) \<Longrightarrow>
   owns s' = (owns s)(a := (\<lambda>B'. if B = B' then c else 0))"
  by (auto simp: owns_claim fun_eq_iff)

lemma only_claims_next: "only_claims s s' \<Longrightarrow> pool_next_addr s' = pool_next_addr s"
  by (auto simp: only_claims_def dest: arg_cong [of _ _ pool_next_addr])

lemma only_claims_live: "only_claims s s' \<Longrightarrow> socks s' a = None \<longleftrightarrow> socks s a = None"
  unfolding only_claims_def by (metis map_option_is_None)

lemma claims_inI:
  assumes "index_ok (fl sk_exclusive_next (socks s')) (fl sk_exclusive_prev (socks s'))
      (g_exclusive_claim_buckets s') (claim_of (socks s')) L'"
    and "claims_in s L" "only_claims s s'"
  shows "claims_in s' L'"
  using assms only_claims_live [OF assms(3)] only_claims_next [OF assms(3)] by (simp add: claims_in_def)

lemma unlink_rule:
  assumes c: "claims_in s L" and k: "socks s a = Some k"
    and Q: "\<And>s'. claims_in s' (\<lambda>b. remove1 a (L b)) \<Longrightarrow> owns s' = (owns s)(a := (\<lambda>_. 0)) \<Longrightarrow>
      only_claims s s' \<Longrightarrow> Q () s'"
  shows "wp (ep_exclusive_unlink_locked a) Q s"
proof (cases "sk_exclusive_claim_classes k = 0")
  case True
  have l: "sk_exclusive_next k = None" "sk_exclusive_prev k = None"
    using claims_fields(2) [OF c k True] by simp_all
  have "(\<lambda>b. remove1 a (L b)) = L" using claims_member [OF c, of a] k True by (simp add: remove1_idem)
  moreover have "owns s = (owns s)(a := (\<lambda>_. 0))" using k True by (auto simp: owns_def fun_eq_iff)
  ultimately have "Q () s" using Q [of s] c by simp
  then show ?thesis using k True l by (simp add: ep_exclusive_unlink_locked_def wp_simps)
next
  case False
  let ?b = "ep_exclusive_bucket (sk_exclusive_claim_base k)"
  have "a \<in> set (L b) \<longleftrightarrow> b = ?b" for b using claims_member [OF c] k False by auto
  then have L: "(\<lambda>b. remove1 a (L b)) = L(?b := remove1 a (L ?b))" by (auto simp: remove1_idem)
  show ?thesis
  proof (rule wp_mono [OF unlink_claim_steps [OF c k False]])
    fix r s'
    assume h: "fl sk_exclusive_next (socks s') =
        unlink_next (fl sk_exclusive_next (socks s)) (fl sk_exclusive_prev (socks s)) a \<and>
      fl sk_exclusive_prev (socks s') =
        unlink_next (fl sk_exclusive_prev (socks s)) (fl sk_exclusive_next (socks s)) a \<and>
      g_exclusive_claim_buckets s' = (g_exclusive_claim_buckets s)
        (?b := unlink_head (fl sk_exclusive_next (socks s)) (fl sk_exclusive_prev (socks s)) a
          (g_exclusive_claim_buckets s ?b)) \<and>
      claim_of (socks s') = (claim_of (socks s))(a \<mapsto> (INVALID_SOCKET, 0)) \<and> only_claims s s'"
    have i: "index_ok (fl sk_exclusive_next (socks s)) (fl sk_exclusive_prev (socks s))
      (g_exclusive_claim_buckets s) (claim_of (socks s)) L" using c by (simp add: claims_in_def)
    have "claims_in s' (\<lambda>b. remove1 a (L b))"
      unfolding L using index_unlink [OF i _ False, of a "sk_exclusive_claim_base k" INVALID_SOCKET] k h c
      by (intro claims_inI [of s' _ s L]) simp_all
    moreover have "owns s' = (owns s)(a := (\<lambda>_. 0))" using owns_upd [of s' s a] h by simp
    ultimately show "Q r s'" using Q h by simp
  qed
qed

text \<open>A change of the classes held, without emptying or filling the claim.\<close>

lemma reclass_rule:
  assumes c: "claims_in s L" and k: "socks s a = Some k" and nz: "sk_exclusive_claim_classes k \<noteq> 0" "c' \<noteq> 0"
    and m: "class_mask c'"
    and Q: "\<And>s'. claims_in s' L \<Longrightarrow>
      owns s' = (owns s)(a := (\<lambda>B. if sk_exclusive_claim_base k = B then c' else 0)) \<Longrightarrow> only_claims s s' \<Longrightarrow> Q () s'"
  shows "wp (sock_upd a (\<lambda>k. k \<lparr> sk_exclusive_claim_classes := c' \<rparr>)) Q s"
proof -
  let ?s = "s \<lparr> socks := (socks s)(a \<mapsto> k \<lparr> sk_exclusive_claim_classes := c' \<rparr>) \<rparr>"
  have o: "only_claims s ?s" using k by (simp add: only_claims_def claim_erased_def)
  have i: "index_ok (fl sk_exclusive_next (socks s)) (fl sk_exclusive_prev (socks s))
      (g_exclusive_claim_buckets s) (claim_of (socks s)) L" using c by (simp add: claims_in_def)
  have "claims_in ?s L"
  proof (rule claims_inI [OF _ c o])
    show "index_ok (fl sk_exclusive_next (socks ?s)) (fl sk_exclusive_prev (socks ?s))
      (g_exclusive_claim_buckets ?s) (claim_of (socks ?s)) L"
      using i k nz m unfolding index_ok_def by (auto simp: fun_upd_idem)
  qed
  moreover have "owns ?s = (owns s)(a := (\<lambda>B. if sk_exclusive_claim_base k = B then c' else 0))"
    by (rule owns_upd) simp
  ultimately show ?thesis using Q [of ?s] o k by (simp add: wp_simps)
qed

lemma owns_at: "socks s a = Some k \<Longrightarrow>
    owns s a = (\<lambda>B. if sk_exclusive_claim_base k = B then sk_exclusive_claim_classes k else 0)"
  by (auto simp: owns_def fun_eq_iff)

lemma remove_rule:
  assumes c: "claims_in s L" and k: "socks s a = Some k"
    and Q: "\<And>s' L'. claims_in s' L' \<Longrightarrow> (\<forall>b. L' b = L b \<or> L' b = remove1 a (L b)) \<Longrightarrow>
      owns s' = (owns s)(a := (\<lambda>B. owns s a B AND NOT d)) \<Longrightarrow> only_claims s s' \<Longrightarrow> Q () s'"
  shows "wp (ep_exclusive_remove_classes_locked a d) Q s"
proof -
  let ?o = "sk_exclusive_claim_classes k"
  have nn: "x AND NOT d = x" if "x AND d = 0" for x :: uint8
  proof (rule bit_word_eqI)
    fix n assume "n < LENGTH(8)"
    moreover have "\<not> bit (x AND d) n" using that by simp
    ultimately show "bit (x AND NOT d) n \<longleftrightarrow> bit x n" by (auto simp: bit_and_iff bit_not_iff)
  qed
  show ?thesis
  proof (cases "?o AND d = 0")
    case True
    have "owns s = (owns s)(a := (\<lambda>B. owns s a B AND NOT d))"
      using nn [OF True] by (auto simp: owns_at [of s a k] k fun_eq_iff)
    then have "Q () s" using Q [of s L] c by simp
    then show ?thesis using k True by (simp add: ep_exclusive_remove_classes_locked_def wp_simps)
  next
    case False
    show ?thesis
    proof (cases "?o AND NOT d = 0")
      case True
      have "wp (ep_exclusive_unlink_locked a) Q s"
      proof (rule unlink_rule [OF c k])
        fix s' assume h: "claims_in s' (\<lambda>b. remove1 a (L b))" "owns s' = (owns s)(a := (\<lambda>_. 0))" "only_claims s s'"
        have "(\<lambda>B. owns s a B AND NOT d) = (\<lambda>_. 0)" using True by (auto simp: owns_at [of s a k] k fun_eq_iff)
        then show "Q () s'" using Q [OF h(1) _ _ h(3)] h(2) by simp
      qed
      then show ?thesis using k False True by (simp add: ep_exclusive_remove_classes_locked_def wp_simps Let_def)
    next
      case rest: False
      have "class_mask ?o" by (rule claims_fields(1) [OF c k])
      then have "wp (sock_upd a (\<lambda>k. k \<lparr> sk_exclusive_claim_classes := ?o AND NOT d \<rparr>)) Q s"
      proof (intro reclass_rule [OF c k _ rest])
        fix s' assume h: "claims_in s' L" "only_claims s s'"
          "owns s' = (owns s)(a := (\<lambda>B. if sk_exclusive_claim_base k = B then ?o AND NOT d else 0))"
        have "(\<lambda>B. owns s a B AND NOT d) = (\<lambda>B. if sk_exclusive_claim_base k = B then ?o AND NOT d else 0)"
          by (auto simp: owns_at [of s a k] k fun_eq_iff)
        then show "Q () s'" using Q [OF h(1) _ _ h(2)] h(3) by simp
      qed (use False in auto)
      then show ?thesis using k False rest by (simp add: ep_exclusive_remove_classes_locked_def wp_simps Let_def)
    qed
  qed
qed

section \<open>Claiming\<close>

lemma drop_other_rule:
  assumes c: "claims_in s L" and k: "socks s a = Some k"
    and Q: "\<And>s' L'. claims_in s' L' \<Longrightarrow>
      owns s' = (owns s)(a := (\<lambda>B. if B = base then owns s a base else 0)) \<Longrightarrow> only_claims s s' \<Longrightarrow> Q () s'"
  shows "wp (drop_other_base a base) Q s"
proof (cases "sk_exclusive_claim_classes k \<noteq> 0 \<and> sk_exclusive_claim_base k \<noteq> base")
  case True
  have e: "(\<lambda>B. if B = base then owns s a base else 0) = (\<lambda>_. 0)"
    using True by (auto simp: owns_at [of s a k] k)
  have "wp (ep_exclusive_unlink_locked a) Q s"
    by (rule unlink_rule [OF c k]) (rule Q, use e in auto)
  then show ?thesis using k True by (simp add: drop_other_base_def wp_simps)
next
  case False
  have "owns s = (owns s)(a := (\<lambda>B. if B = base then owns s a base else 0))"
    using False by (auto simp: owns_at [of s a k] k fun_eq_iff)
  then have "Q () s" using Q [of s L] c by simp
  then show ?thesis using k False by (auto simp: drop_other_base_def wp_simps)
qed

lemma index_push:
  fixes B
  assumes i: "index_ok nx pv G C L" and a: "C a = Some (B0, 0)" and c: "c \<noteq> 0" "class_mask c"
  defines "b \<equiv> ep_exclusive_bucket B"
  shows "index_ok (nx(a := G b)) ((case G b of None \<Rightarrow> pv | Some h \<Rightarrow> pv(h := Some a))(a := None))
    (G(b := Some a)) (C(a \<mapsto> (B, c))) (L(b := a # L b))"
proof -
  have d: "dlist nx pv (G b') (last_opt (L b')) (L b')" for b' using i by (simp add: index_ok_def)
  have m: "x \<in> set (L b') \<longleftrightarrow> (\<exists>B c. C x = Some (B, c) \<and> c \<noteq> 0 \<and> ep_exclusive_bucket B = b')" for x b'
    using i by (simp add: index_ok_def)
  have al: "a \<notin> set (L b')" for b' using m a by simp
  have hm: "h \<in> set (L b)" if "G b = Some h" for h
    using dlist_ends [OF d [of b]] that by (auto split: if_splits)
  have lo: "last_opt (a # L b) = (case G b of None \<Rightarrow> Some a | Some _ \<Rightarrow> last_opt (L b))"
    using dlist_ends [OF d [of b]] by (auto simp: last_opt_def split: if_splits)
  let ?pv = "(case G b of None \<Rightarrow> pv | Some h \<Rightarrow> pv(h := Some a))(a := None)"
  have "dlist (nx(a := G b)) ?pv ((G(b := Some a)) b') (last_opt ((L(b := a # L b)) b')) ((L(b := a # L b)) b')" for b'
  proof (cases "b' = b")
    case True
    then show ?thesis using dlist_push [OF d [of b] al] lo by simp
  next
    case False
    have "x \<noteq> a \<and> G b \<noteq> Some x" if "x \<in> set (L b')" for x
    proof -
      have "x \<notin> set (L b)" using that m [of x b'] m [of x b] False by auto
      then show ?thesis using hm that al by blast
    qed
    then have same: "(nx(a := G b)) x = nx x \<and> ?pv x = pv x" if "x \<in> set (L b')" for x
      using that by (auto split: option.splits)
    have "dlist (nx(a := G b)) ?pv (G b') (last_opt (L b')) (L b') = dlist nx pv (G b') (last_opt (L b')) (L b')"
      by (rule dlist_cong) (simp_all only: same)
    then show ?thesis using d [of b'] False by simp
  qed
  moreover have "x \<in> set ((L(b := a # L b)) b') \<longleftrightarrow>
    (\<exists>B' c'. (C(a \<mapsto> (B, c))) x = Some (B', c') \<and> c' \<noteq> 0 \<and> ep_exclusive_bucket B' = b')" for x b'
    using m [of x b'] al c(1) b_def by (cases "x = a") auto
  moreover have "class_mask c' \<and> (c' = 0 \<longrightarrow> (nx(a := G b)) x = None \<and> ?pv x = None)"
    if "(C(a \<mapsto> (B, c))) x = Some (B', c')" for x B' c'
  proof (cases "x = a")
    case True
    then show ?thesis using that c by simp
  next
    case False
    then have x: "C x = Some (B', c')" using that by simp
    have "G b \<noteq> Some x" if "c' = 0" using hm m x that by fastforce
    moreover have "class_mask c' \<and> (c' = 0 \<longrightarrow> nx x = None \<and> pv x = None)"
      using i x unfolding index_ok_def by blast
    ultimately show ?thesis using False by (auto split: option.splits)
  qed
  ultimately show ?thesis unfolding index_ok_def by blast
qed

lemma push_claim_rule:
  assumes c: "claims_in s L" and k: "socks s a = Some k" and z: "sk_exclusive_claim_classes k = 0"
    and d: "d \<noteq> 0" "class_mask d"
    and Q: "\<And>s' L'. claims_in s' L' \<Longrightarrow> owns s' = (owns s)(a := (\<lambda>B. if base = B then d else 0)) \<Longrightarrow>
      only_claims s s' \<Longrightarrow> Q () s'"
  shows "wp (exclusive_push a base \<bind> (\<lambda>_. sock_upd a (\<lambda>k. k \<lparr> sk_exclusive_claim_classes := sk_exclusive_claim_classes k OR d \<rparr>))) Q s"
proof -
  let ?b = "ep_exclusive_bucket base"
  have i: "index_ok (fl sk_exclusive_next (socks s)) (fl sk_exclusive_prev (socks s))
      (g_exclusive_claim_buckets s) (claim_of (socks s)) L" using c by (simp add: claims_in_def)
  have ca: "claim_of (socks s) a = Some (sk_exclusive_claim_base k, 0)" using k z by simp
  note ip = index_push [OF i ca d, of base]
  show ?thesis
  proof (cases "g_exclusive_claim_buckets s ?b")
    case None
    let ?k = "k \<lparr> sk_exclusive_claim_base := base, sk_exclusive_prev := None, sk_exclusive_next := None,
      sk_exclusive_claim_classes := d \<rparr>"
    let ?s = "s \<lparr> g_exclusive_claim_buckets := (g_exclusive_claim_buckets s)(?b := Some a),
      socks := (socks s)(a \<mapsto> ?k) \<rparr>"
    have o: "only_claims s ?s" using k by (simp add: only_claims_def claim_erased_def)
    have "claims_in ?s (L(?b := a # L ?b))"
      using ip None by (intro claims_inI [OF _ c o]) simp
    moreover have "owns ?s = (owns s)(a := (\<lambda>B. if base = B then d else 0))" by (rule owns_upd) simp
    ultimately have "Q () ?s" using Q o by blast
    then show ?thesis using k z None by (simp add: exclusive_push_def wp_simps Let_def)
  next
    case (Some h)
    have "h \<in> set (L ?b)"
      using i Some dlist_ends unfolding index_ok_def by (metis hd_in_set option.distinct(1) option.inject)
    then obtain kh where kh: "socks s h = Some kh" "h \<noteq> a" using claims_member [OF c] k z by fastforce
    let ?k = "k \<lparr> sk_exclusive_claim_base := base, sk_exclusive_prev := None, sk_exclusive_next := Some h,
      sk_exclusive_claim_classes := d \<rparr>"
    let ?s = "s \<lparr> g_exclusive_claim_buckets := (g_exclusive_claim_buckets s)(?b := Some a),
      socks := (socks s)(h \<mapsto> kh \<lparr> sk_exclusive_prev := Some a \<rparr>, a \<mapsto> ?k) \<rparr>"
    have o: "only_claims s ?s" using k kh by (simp add: only_claims_def claim_erased_def)
    have "claims_in ?s (L(?b := a # L ?b))"
      using ip Some kh by (intro claims_inI [OF _ c o]) (simp add: fun_upd_idem)
    moreover have "owns ?s = (owns s)(a := (\<lambda>B. if base = B then d else 0))"
      using kh by (intro owns_upd) (simp add: fun_upd_idem)
    ultimately have "Q () ?s" using Q o by blast
    then show ?thesis using k z Some kh by (simp add: exclusive_push_def wp_simps Let_def fun_upd_twist)
  qed
qed

lemma add_rule:
  assumes c: "claims_in s L" and k: "socks s a = Some k" and m: "class_mask d"
    and Q: "\<And>s' L'. claims_in s' L' \<Longrightarrow> owns s' = (owns s)(a :=
        (if d = 0 then owns s a else (\<lambda>B. if base = B then owns s a B OR d else 0))) \<Longrightarrow>
      only_claims s s' \<Longrightarrow> Q () s'"
  shows "wp (ep_exclusive_add_classes_locked a base d) Q s"
proof (cases "d = 0")
  case True
  then show ?thesis using Q [of s L] c by (simp add: ep_exclusive_add_classes_locked_def wp_simps)
next
  case False
  have "wp (drop_other_base a base) (\<lambda>_. wp (do {
       owned \<leftarrow> sock_read a sk_exclusive_claim_classes;
       when_do (owned = 0) (exclusive_push a base);
       sock_upd a (\<lambda>k. k \<lparr> sk_exclusive_claim_classes := sk_exclusive_claim_classes k OR d \<rparr>)}) Q) s"
  proof (rule drop_other_rule [OF c k])
    fix s1 L1
    assume h: "claims_in s1 L1" "owns s1 = (owns s)(a := (\<lambda>B. if B = base then owns s a base else 0))" "only_claims s s1"
    obtain k1 where k1: "socks s1 a = Some k1" using only_claims_sock [OF h(3) k] by metis
    have o1: "owns s1 a B = (if base = B then owns s a B else 0)" for B using h(2) by simp
    show "wp (do {
       owned \<leftarrow> sock_read a sk_exclusive_claim_classes;
       when_do (owned = 0) (exclusive_push a base);
       sock_upd a (\<lambda>k. k \<lparr> sk_exclusive_claim_classes := sk_exclusive_claim_classes k OR d \<rparr>)}) Q s1"
    proof (cases "sk_exclusive_claim_classes k1 = 0")
      case True
      have z: "owns s a base = 0" using o1 [of base] True k1 by (simp add: owns_def split: if_splits)
      have q: "Q () s2" if "claims_in s2 L2" "owns s2 = (owns s1)(a := (\<lambda>B. if base = B then d else 0))"
        "only_claims s1 s2" for s2 L2
      proof (rule Q [OF that(1)])
        show "owns s2 = (owns s)(a := (if d = 0 then owns s a else (\<lambda>B. if base = B then owns s a B OR d else 0)))"
          using that(2) h(2) z False by (auto simp: fun_eq_iff)
        show "only_claims s s2" by (rule only_claims_trans [OF h(3) that(3)])
      qed
      have "wp (exclusive_push a base \<bind> (\<lambda>_. sock_upd a
        (\<lambda>k. k \<lparr> sk_exclusive_claim_classes := sk_exclusive_claim_classes k OR d \<rparr>))) Q s1"
        by (rule push_claim_rule [OF h(1) k1 True False m]) (rule q)
      then show ?thesis using k1 True by (simp add: wp_simps)
    next
      case nz: False
      have B: "sk_exclusive_claim_base k1 = base"
        using o1 [of "sk_exclusive_claim_base k1"] nz k1 by (auto simp: owns_def split: if_splits)
      have cl: "sk_exclusive_claim_classes k1 = owns s a base"
        using o1 [of base] k1 B by (simp add: owns_def)
      have m1: "class_mask (sk_exclusive_claim_classes k1)" by (rule claims_fields(1) [OF h(1) k1])
      have nz': "sk_exclusive_claim_classes k1 OR d \<noteq> 0" using nz by (simp add: word_or_eq_0)
      have "wp (sock_upd a (\<lambda>k. k \<lparr> sk_exclusive_claim_classes := sk_exclusive_claim_classes k1 OR d \<rparr>)) Q s1"
      proof (rule reclass_rule [OF h(1) k1 nz nz'])
        fix s2 assume h2: "claims_in s2 L1" "only_claims s1 s2"
          "owns s2 = (owns s1)(a := (\<lambda>Ba. if sk_exclusive_claim_base k1 = Ba then sk_exclusive_claim_classes k1 OR d else 0))"
        show "Q () s2"
        proof (rule Q [OF h2(1)])
          show "owns s2 = (owns s)(a := (if d = 0 then owns s a else (\<lambda>B. if base = B then owns s a B OR d else 0)))"
            using h2(3) h(2) B cl False by (auto simp: fun_eq_iff)
          show "only_claims s s2" by (rule only_claims_trans [OF h(3) h2(2)])
        qed
      qed (use m m1 in simp)
      then show ?thesis using k1 nz by (simp add: wp_simps)
    qed
  qed
  then show ?thesis using False by (simp add: ep_exclusive_add_classes_locked_def wp_bind)
qed

section \<open>The loops\<close>

lemma claims_dlist: "claims_in s L \<Longrightarrow>
    dlist (fl sk_exclusive_next (socks s)) (fl sk_exclusive_prev (socks s)) (g_exclusive_claim_buckets s b) (last_opt (L b)) (L b)"
  by (simp add: claims_in_def index_ok_def)

lemma claims_next:
  assumes "claims_in s L" "L b = us @ a # ys" "socks s a = Some k"
  shows "sk_exclusive_next k = (if ys = [] then None else Some (hd ys))"
  using dlist_nbrs(1) [of "fl sk_exclusive_next (socks s)" "fl sk_exclusive_prev (socks s)" _ _ us a ys]
    claims_dlist [OF assms(1), of b] assms by simp

lemma claims_remove_rule:
  assumes "claims_in s L" "L (ep_exclusive_bucket base) = us @ ys" "length ys \<le> n"
    and "cur = (if ys = [] then None else Some (hd ys))"
    and "\<And>s' L'. claims_in s' L' \<Longrightarrow> owns s' =
        (\<lambda>x B. if B = base \<and> x \<in> set ys then owns s x B AND NOT d else owns s x B) \<Longrightarrow>
      only_claims s s' \<Longrightarrow> Q () s'"
  shows "wp (claims_remove n cur base d) Q s"
  using assms
proof (induction n arbitrary: s L us ys cur)
  case 0
  then show ?case by (simp add: wp_simps)
next
  case (Suc n)
  show ?case
  proof (cases ys)
    case Nil
    then show ?thesis using Suc.prems by (simp add: wp_simps)
  next
    case (Cons a zs)
    let ?b = "ep_exclusive_bucket base"
    have Lb: "L ?b = us @ a # zs" using Suc.prems(2) Cons by simp
    have "a \<in> set (L ?b)" using Lb by simp
    then obtain k where k: "socks s a = Some k" "sk_exclusive_claim_classes k \<noteq> 0"
      using claims_member [OF Suc.prems(1)] by blast
    have cur: "cur = Some a" using Suc.prems(4) Cons by simp
    have nx: "sk_exclusive_next k = (if zs = [] then None else Some (hd zs))"
      by (rule claims_next [OF Suc.prems(1) Lb k(1)])
    have dis: "distinct (us @ a # zs)" using claims_distinct [OF Suc.prems(1), of ?b] Lb by simp
    show ?thesis
    proof (cases "sk_exclusive_claim_base k = base")
      case True
      have "wp (ep_exclusive_remove_classes_locked a d) (\<lambda>_. wp (claims_remove n (sk_exclusive_next k) base d) Q) s"
      proof (rule remove_rule [OF Suc.prems(1) k(1)])
        fix s1 L1
        assume h: "claims_in s1 L1" "\<forall>b. L1 b = L b \<or> L1 b = remove1 a (L b)"
          "owns s1 = (owns s)(a := (\<lambda>B. owns s a B AND NOT d))" "only_claims s s1"
        have "L1 ?b = us @ a # zs \<or> L1 ?b = us @ zs"
          using h(2) [rule_format, of ?b] Lb dis by (auto simp: remove1_append)
        then obtain us1 where L1: "L1 ?b = us1 @ zs" by (metis append.assoc append_Cons append_Nil)
        show "wp (claims_remove n (sk_exclusive_next k) base d) Q s1"
        proof (rule Suc.IH [OF h(1) L1 _ nx])
          show "length zs \<le> n" using Suc.prems(3) Cons by simp
          fix s2 L2
          assume g: "claims_in s2 L2" "only_claims s1 s2"
            "owns s2 = (\<lambda>x B. if B = base \<and> x \<in> set zs then owns s1 x B AND NOT d else owns s1 x B)"
          have "owns s a B = 0" if "B \<noteq> base" for B using k True that by (simp add: owns_def)
          then have "owns s2 = (\<lambda>x B. if B = base \<and> x \<in> set ys then owns s x B AND NOT d else owns s x B)"
            using g(3) h(3) Cons dis by (auto simp: fun_eq_iff)
          then show "Q () s2" using Suc.prems(5) [OF g(1)] only_claims_trans [OF h(4) g(2)] by blast
        qed
      qed
      then show ?thesis using cur k True by (simp add: wp_simps)
    next
      case False
      have "wp (claims_remove n (sk_exclusive_next k) base d) Q s"
      proof (rule Suc.IH [OF Suc.prems(1) _ _ nx])
        show "L ?b = (us @ [a]) @ zs" using Lb by simp
        show "length zs \<le> n" using Suc.prems(3) Cons by simp
        fix s2 L2
        assume g: "claims_in s2 L2" "only_claims s s2"
          "owns s2 = (\<lambda>x B. if B = base \<and> x \<in> set zs then owns s x B AND NOT d else owns s x B)"
        have "owns s a base = 0" using k False by (simp add: owns_def)
        then have "owns s2 = (\<lambda>x B. if B = base \<and> x \<in> set ys then owns s x B AND NOT d else owns s x B)"
          using g(3) Cons by (auto simp: fun_eq_iff)
        then show "Q () s2" using Suc.prems(5) [OF g(1)] g(2) by blast
      qed
      then show ?thesis using cur k False by (simp add: wp_simps)
    qed
  qed
qed

lemma owns_elsewhere: "claims_in s L \<Longrightarrow> x \<notin> set (L (ep_exclusive_bucket base)) \<Longrightarrow> owns s x base = 0"
  using claims_member [of s L x "ep_exclusive_bucket base"] by (auto simp: owns_def split: option.splits)

lemma claims_head:
  "claims_in s L \<Longrightarrow> g_exclusive_claim_buckets s b = (if L b = [] then None else Some (hd (L b)))"
  using claims_dlist [of s L b] dlist_ends by blast

lemma bucket_remove_rule:
  assumes c: "claims_in s L"
    and Q: "\<And>s' L'. claims_in s' L' \<Longrightarrow>
      owns s' = (\<lambda>x B. if B = base then owns s x B AND NOT d else owns s x B) \<Longrightarrow> only_claims s s' \<Longrightarrow> Q () s'"
  shows "wp (bucket_remove base d) Q s"
proof -
  let ?b = "ep_exclusive_bucket base"
  have "wp (claims_remove (pool_next_addr s) (g_exclusive_claim_buckets s ?b) base d) Q s"
  proof (rule claims_remove_rule [OF c _ _ claims_head [OF c], where us = "[]"])
    show "length (L ?b) \<le> pool_next_addr s" by (rule claims_length [OF c])
    fix s' L'
    assume h: "claims_in s' L'" "only_claims s s'"
      "owns s' = (\<lambda>x B. if B = base \<and> x \<in> set (L ?b) then owns s x B AND NOT d else owns s x B)"
    have "owns s' = (\<lambda>x B. if B = base then owns s x B AND NOT d else owns s x B)"
      using h(3) owns_elsewhere [OF c] by (auto simp: fun_eq_iff)
    then show "Q () s'" using Q [OF h(1)] h(2) by blast
  qed simp
  then show ?thesis by (simp add: bucket_remove_def wp_simps)
qed

lemma claim_visit_zero [simp]: "claim_visit sock requested x 0 v = v"
  by (simp add: claim_visit_def)

lemma claim_scan_rule:
  assumes "claims_in s L" "L (ep_exclusive_bucket base) = us @ ys" "length ys \<le> n"
    and "cur = (if ys = [] then None else Some (hd ys))"
    and "Q (fold (\<lambda>x. claim_visit sock requested x (owns s x base)) ys v) s"
  shows "wp (claim_scan n cur sock base requested v) Q s"
  using assms
proof (induction n arbitrary: us ys cur v)
  case 0
  then show ?case by (simp add: wp_simps)
next
  case (Suc n)
  show ?case
  proof (cases ys)
    case Nil
    then show ?thesis using Suc.prems by (simp add: wp_simps)
  next
    case (Cons a zs)
    let ?b = "ep_exclusive_bucket base"
    have Lb: "L ?b = us @ a # zs" using Suc.prems(2) Cons by simp
    have "a \<in> set (L ?b)" using Lb by simp
    then obtain k where k: "socks s a = Some k" using claims_member [OF Suc.prems(1)] by blast
    have nx: "sk_exclusive_next k = (if zs = [] then None else Some (hd zs))"
      by (rule claims_next [OF Suc.prems(1) Lb k(1)])
    have v: "(if sk_exclusive_claim_base k \<noteq> base then v
        else claim_visit sock requested a (sk_exclusive_claim_classes k) v) = claim_visit sock requested a (owns s a base) v"
      using k by (simp add: owns_def)
    have "wp (claim_scan n (sk_exclusive_next k) sock base requested (claim_visit sock requested a (owns s a base) v)) Q s"
      using Suc.prems Cons by (intro Suc.IH [OF Suc.prems(1) _ _ nx, of "us @ [a]"]) simp_all
    then show ?thesis using Suc.prems(4) Cons k v by (simp add: wp_simps)
  qed
qed

lemma fold_visit:
  fixes f :: "addr \<Rightarrow> uint8" and w :: claim_view and R :: uint8 and sock :: addr
  assumes "distinct ys"
  defines "v \<equiv> fold (\<lambda>x. claim_visit sock R x (f x)) ys w"
  shows "cv_owned v = cv_owned w OR (if sock \<in> set ys then f sock else 0)"
    and "cv_owner_terminal v \<longleftrightarrow> cv_owner_terminal w \<or> sock \<in> set ys \<and> has_class (f sock) 4"
    and "cv_peer_terminal v \<longleftrightarrow> cv_peer_terminal w \<or> (\<exists>x \<in> set ys. x \<noteq> sock \<and> has_class (f x) 4)"
    and "\<forall>c \<in> {1, 2, 4}. has_class (cv_denied v) c \<longleftrightarrow> has_class (cv_denied w) c \<or>
      (\<exists>x \<in> set ys. x \<noteq> sock \<and> \<not> has_class (f x) 4 \<and> \<not> has_class R 4 \<and> has_class (f x) c \<and> has_class R c)"
    and "class_mask R \<Longrightarrow> class_mask (cv_denied w) \<Longrightarrow> class_mask (cv_denied v)"
  using assms(1) unfolding v_def
proof (induction ys arbitrary: w)
  case (Cons y ys)
  {
    case 1
    then show ?case using Cons.IH(1) [of "claim_visit sock R y (f y) w"]
      by (auto simp: claim_visit_def or.assoc or.commute)
  next
    case 2
    then show ?case using Cons.IH(2) [of "claim_visit sock R y (f y) w"] by (auto simp: claim_visit_def)
  next
    case 3
    then show ?case using Cons.IH(3) [of "claim_visit sock R y (f y) w"] by (auto simp: claim_visit_def)
  next
    case 4
    then show ?case using Cons.IH(4) [of "claim_visit sock R y (f y) w"] by (auto simp: claim_visit_def)
  next
    case 5
    then show ?case using Cons.IH(5) [of "claim_visit sock R y (f y) w"] by (auto simp: claim_visit_def)
  }
qed simp_all

section \<open>Ownership\<close>

text \<open>No class of a provider socket has two owners, and a terminal claim leaves nothing to others.\<close>

definition one_owner :: "('os, 'z) ep_world_scheme \<Rightarrow> bool" where
  "one_owner s \<longleftrightarrow> (\<forall>base x y. x \<noteq> y \<longrightarrow> (\<forall>c \<in> {1, 2, 4}.
     \<not> (has_class (owns s x base) c \<and> (has_class (owns s y base) c \<or> has_class (owns s y base) 4))))"

lemma one_owner_mono:
  assumes "one_owner s" "\<And>x B c. c \<in> {1, 2, 4} \<Longrightarrow> has_class (owns s' x B) c \<Longrightarrow> has_class (owns s x B) c"
  shows "one_owner s'"
  unfolding one_owner_def
proof (intro allI impI ballI notI)
  fix B x y and c :: uint8
  assume h: "x \<noteq> y" "c \<in> {1, 2, 4}" "has_class (owns s' x B) c \<and> (has_class (owns s' y B) c \<or> has_class (owns s' y B) 4)"
  then have "has_class (owns s x B) c \<and> (has_class (owns s y B) c \<or> has_class (owns s y B) 4)"
    using assms(2) by auto
  then show False using assms(1) h unfolding one_owner_def by blast
qed

lemma one_ownerD:
  "one_owner s \<Longrightarrow> x \<noteq> y \<Longrightarrow> c \<in> {1, 2, 4} \<Longrightarrow> has_class (owns s x B) c \<Longrightarrow>
   \<not> (has_class (owns s y B) c \<or> has_class (owns s y B) 4)"
  unfolding one_owner_def by blast

text \<open>The classes that a competitor's claims deny to a request.\<close>

definition peer_holds :: "('os, 'z) ep_world_scheme \<Rightarrow> addr \<Rightarrow> sock_fd \<Rightarrow> uint8 \<Rightarrow> bool" where
  "peer_holds s a base c \<longleftrightarrow> (\<exists>x. x \<noteq> a \<and> has_class (owns s x base) c)"

definition denied_class :: "('os, 'z) ep_world_scheme \<Rightarrow> addr \<Rightarrow> sock_fd \<Rightarrow> uint8 \<Rightarrow> uint8 \<Rightarrow> bool" where
  "denied_class s a base requested c \<longleftrightarrow>
     peer_holds s a base 4 \<or> \<not> has_class requested 4 \<and> peer_holds s a base c"

lemma has_class_and' [simp]: "c \<in> {1, 2, 4} \<Longrightarrow> has_class (x AND y) c \<longleftrightarrow> has_class x c \<and> has_class y c"
  by auto

lemma has_class_not' [simp]: "c \<in> {1, 2, 4} \<Longrightarrow> has_class (NOT x) c \<longleftrightarrow> \<not> has_class x c"
  by auto

lemma has_class_directional [simp]:
  "\<not> has_class (- 4) 1" "\<not> has_class (- 4) 2" "has_class (- 4) 4"
  by (simp_all add: has_class_def)

lemma class_mask_zero: "class_mask k \<Longrightarrow> k = 0 \<longleftrightarrow> (\<forall>c \<in> {1, 2, 4}. \<not> has_class k c)"
  using class_mask_zero_iff by auto

lemma scan_view:
  fixes base :: sock_fd and R :: uint8 and a :: addr
  assumes c: "claims_in s L"
  defines "v \<equiv> fold (\<lambda>x. claim_visit a R x (owns s x base)) (L (ep_exclusive_bucket base))
      \<lparr> cv_owned = 0, cv_denied = 0, cv_owner_terminal = False, cv_peer_terminal = False \<rparr>"
  assumes R: "class_mask R"
  shows "cv_owned v = owns s a base"
    and "cv_owner_terminal v \<longleftrightarrow> has_class (owns s a base) 4"
    and "cv_peer_terminal v \<longleftrightarrow> peer_holds s a base 4"
    and "class_mask (claim_denied R v)"
    and "\<forall>c \<in> {1, 2, 4}. has_class (claim_denied R v) c \<longleftrightarrow> has_class R c \<and> denied_class s a base R c"
proof -
  let ?L = "L (ep_exclusive_bucket base)"
  let ?w = "\<lparr> cv_owned = 0, cv_denied = 0, cv_owner_terminal = False, cv_peer_terminal = False \<rparr>"
  have z: "x \<notin> set ?L \<Longrightarrow> owns s x base = 0" for x by (rule owns_elsewhere [OF c])
  note f = fold_visit [OF claims_distinct [OF c, of "ep_exclusive_bucket base"], where sock = a and R = R and
      f = "\<lambda>x. owns s x base" and w = ?w, folded v_def]
  show o: "cv_owned v = owns s a base" using f(1) z [of a] by auto
  show "cv_owner_terminal v \<longleftrightarrow> has_class (owns s a base) 4" using f(2) z [of a] by auto
  have mem: "has_class (owns s x base) d \<Longrightarrow> x \<in> set ?L" for x d
    using z [of x] by (cases "x \<in> set ?L") auto
  show p: "cv_peer_terminal v \<longleftrightarrow> peer_holds s a base 4"
    using f(3) mem unfolding peer_holds_def by auto
  have "class_mask (cv_denied v)" by (rule f(5) [OF R]) simp
  then show "class_mask (claim_denied R v)" using R by (simp add: claim_denied_def)
  show "\<forall>c \<in> {1, 2, 4}. has_class (claim_denied R v) c \<longleftrightarrow> has_class R c \<and> denied_class s a base R c"
  proof
    fix d :: uint8 assume d: "d \<in> {1, 2, 4}"
    show "has_class (claim_denied R v) d \<longleftrightarrow> has_class R d \<and> denied_class s a base R d"
    proof (cases "cv_peer_terminal v")
      case True
      then show ?thesis using p by (simp add: claim_denied_def denied_class_def)
    next
      case False
      then have nt: "\<not> has_class (owns s x base) 4" if "x \<noteq> a" for x using p that unfolding peer_holds_def by blast
      have "has_class (cv_denied v) d \<longleftrightarrow> (\<exists>x \<in> set ?L. x \<noteq> a \<and> \<not> has_class (owns s x base) 4 \<and>
        \<not> has_class R 4 \<and> has_class (owns s x base) d \<and> has_class R d)" using f(4) d by auto
      also have "\<dots> \<longleftrightarrow> has_class R d \<and> \<not> has_class R 4 \<and> peer_holds s a base d"
        using nt mem unfolding peer_holds_def by blast
      finally show ?thesis using False p by (auto simp: claim_denied_def denied_class_def)
    qed
  qed
qed

text \<open>What a claim attempt achieves, over the ownership before and after it.\<close>

definition claim_outcome ::
  "('os, 'z) ep_world_scheme \<Rightarrow> addr \<Rightarrow> sock_fd \<Rightarrow> uint32 \<Rightarrow> bool \<times> uint32 \<Rightarrow> ('os, 'z) ep_world_scheme \<Rightarrow> bool" where
  "claim_outcome s a base delivered r s' \<longleftrightarrow>
    (let R = ep_readiness_classes delivered in
     fst r = (R = 0 \<or> (\<exists>c \<in> {1, 2, 4}. has_class R c \<and> \<not> denied_class s a base R c)) \<and>
     (if fst r
      then \<forall>c \<in> {1, 2, 4}.
        (has_class (ep_readiness_classes (snd r)) c \<longleftrightarrow> has_class R c \<and> \<not> denied_class s a base R c) \<and>
        (has_class (ep_readiness_classes (snd r)) c \<longrightarrow>
           has_class (owns s' a base) c \<or> has_class (owns s' a base) 4)
      else snd r = delivered))"

lemma granted_add:
  assumes "c \<in> {1, 2, 4 :: uint8}"
  shows "has_class (if m = 0 then x else x OR m) c \<longleftrightarrow> has_class x c \<or> has_class m c"
  using assms by auto

text \<open>The bookkeeping after the scan, on the ownership function alone.\<close>

lemma claim_arith:
  fixes s1 :: "('os, 'z) ep_world_scheme" and R :: uint8
  assumes one: "one_owner s1" and R: "class_mask R"
    and other: "\<forall>B. B \<noteq> base \<longrightarrow> owns s1 a B = 0"
    and v: "cv_owned v = owns s1 a base" "cv_owner_terminal v \<longleftrightarrow> has_class (owns s1 a base) 4"
    and den: "\<forall>c \<in> {1, 2, 4}. has_class den c \<longleftrightarrow> has_class R c \<and> denied_class s1 a base R c"
    and s2: "owns s2 = (\<lambda>x B. if has_class R 4 \<and> \<not> peer_holds s1 a base 4 \<and> B = base
      then owns s1 x B AND NOT (1 OR 2) else owns s1 x B)"
    and s3: "owns s3 = (owns s2)(a := (if claim_missing R den v = 0 then owns s2 a
      else (\<lambda>B. if base = B then owns s2 a B OR claim_missing R den v else 0)))"
  shows "one_owner s3"
    and "c \<in> {1, 2, 4} \<Longrightarrow> has_class R c \<Longrightarrow> \<not> has_class den c \<Longrightarrow>
      has_class (owns s3 a base) c \<or> has_class (owns s3 a base) 4"
proof -
  let ?m = "claim_missing R den v"
  have others: "owns s3 x B = owns s2 x B" if "x \<noteq> a \<or> B \<noteq> base" for x B
    using that s3 s2 other by auto
  have own: "has_class (owns s3 a base) c \<longleftrightarrow> has_class (owns s2 a base) c \<or> has_class ?m c" if "c \<in> {1, 2, 4}" for c
    using s3 that granted_add [OF that, of ?m "owns s2 a base"] by (auto split: if_splits)
  have less: "has_class (owns s2 x B) c \<Longrightarrow> has_class (owns s1 x B) c" if "c \<in> {1, 2, 4}" for x B c
    using s2 that by (auto split: if_splits)
  have m: "has_class ?m c \<longleftrightarrow> \<not> has_class (owns s1 a base) 4 \<and>
      (if has_class R 4 \<and> \<not> has_class den 4 then c = 4
       else has_class R c \<and> \<not> has_class den c \<and> \<not> has_class (owns s1 a base) c)" if "c \<in> {1, 2, 4}" for c
    using that v by (auto simp: claim_missing_def Let_def)
  have key: "\<not> (has_class (owns s2 x base) d \<or> has_class (owns s2 x base) 4)"
    if "has_class ?m c" "c \<in> {1, 2, 4}" "x \<noteq> a" "d \<in> {1, 2, 4}" "d = c \<or> c = 4" for x c d
  proof (cases "has_class R 4 \<and> \<not> has_class den 4")
    case True
    then have np: "\<not> peer_holds s1 a base 4" using den unfolding denied_class_def by blast
    then have "\<not> has_class (owns s1 x base) 4" using that(3) unfolding peer_holds_def by blast
    moreover have "owns s2 x base = owns s1 x base AND NOT (1 OR 2)" using s2 True np by simp
    ultimately show ?thesis using that(4) by auto
  next
    case False
    then have mc: "has_class R c" "\<not> has_class den c" using m [OF that(2)] that(1) by auto
    then have nd: "\<not> denied_class s1 a base R c" using den that(2) by blast
    then have np: "\<not> peer_holds s1 a base 4" unfolding denied_class_def by blast
    have nR: "\<not> has_class R 4"
    proof
      assume R4: "has_class R 4"
      then have "has_class den 4" using False by blast
      then have "denied_class s1 a base R 4" using den by blast
      then show False using np R4 unfolding denied_class_def by blast
    qed
    then have "\<not> peer_holds s1 a base c" using nd unfolding denied_class_def by blast
    moreover have "d = c" using that(5) mc(1) nR by blast
    moreover have "owns s2 x base = owns s1 x base" using s2 nR by simp
    ultimately show ?thesis using np that(3) unfolding peer_holds_def by metis
  qed
  show "one_owner s3"
    unfolding one_owner_def
  proof (intro allI impI ballI notI)
    fix B x y and c :: uint8
    assume xy: "x \<noteq> y" "c \<in> {1, 2, 4}"
      and h: "has_class (owns s3 x B) c \<and> (has_class (owns s3 y B) c \<or> has_class (owns s3 y B) 4)"
    have s2o: "one_owner s2" by (rule one_owner_mono [OF one less])
    show False
    proof (cases "B = base \<and> (x = a \<or> y = a)")
      case False
      then show False using h xy s2o others [of x B] others [of y B] unfolding one_owner_def by auto
    next
      case True
      then consider "x = a" "y \<noteq> a" | "y = a" "x \<noteq> a" using xy by blast
      then show False
      proof cases
        case 1
        then have "has_class (owns s2 a base) c \<or> has_class ?m c" using h True own [OF xy(2)] by auto
        moreover have "has_class (owns s2 y base) c \<or> has_class (owns s2 y base) 4"
          using h True 1 others [of y base] by auto
        ultimately show False
          using one_ownerD [OF s2o, of a y c base] key [of c y c] 1 xy(2) by blast
      next
        case 2
        then have hx: "has_class (owns s2 x base) c" using h True others [of x base] by auto
        have "has_class (owns s2 a base) c \<or> has_class (owns s2 a base) 4 \<or> has_class ?m c \<or> has_class ?m 4"
          using h True 2 own [OF xy(2)] own [of 4] by auto
        then show False
          using one_ownerD [OF s2o, of x a c base] hx key [of c x c] key [of 4 x c] 2 xy(2) by blast
      qed
    qed
  qed
  assume c: "c \<in> {1, 2, 4}" "has_class R c" "\<not> has_class den c"
  show "has_class (owns s3 a base) c \<or> has_class (owns s3 a base) 4"
  proof (cases "has_class (owns s1 a base) 4")
    case True
    then have "has_class (owns s2 a base) 4" using s2 by simp
    then show ?thesis using own [of 4] by simp
  next
    case False
    show ?thesis
    proof (cases "has_class R 4 \<and> \<not> has_class den 4")
      case True
      then show ?thesis using m [of 4] own [of 4] False by simp
    next
      case nt: False
      have "has_class R 4 \<Longrightarrow> peer_holds s1 a base 4" using nt den unfolding denied_class_def by blast
      then have "owns s2 a base = owns s1 a base" using s2 by auto
      then show ?thesis using m [OF c(1)] own [OF c(1)] False nt c by metis
    qed
  qed
qed

lemma only_claims_ub: "only_claims s s' \<Longrightarrow> ep_ub s' = ep_ub s"
  by (auto simp: only_claims_def dest: arg_cong [of _ _ ep_ub])

lemma claim_missing_mask:
  "class_mask R \<Longrightarrow> class_mask (claim_missing R d v)"
  by (simp add: claim_missing_def Let_def)

lemma when_bucket_remove_rule:
  assumes "claims_in s L"
    and "\<And>s' L'. claims_in s' L' \<Longrightarrow>
      owns s' = (\<lambda>x B. if b \<and> B = base then owns s x B AND NOT d else owns s x B) \<Longrightarrow> only_claims s s' \<Longrightarrow> Q () s'"
  shows "wp (when_do b (bucket_remove base d)) Q s"
  using assms bucket_remove_rule [OF assms(1), of base d Q] by (cases b) (simp_all add: wp_simps)

lemma try_claim_rule:
  assumes c: "claims_in s L" and one: "one_owner s" and k: "socks s a = Some k"
    and Q: "\<And>r s' L'. claims_in s' L' \<Longrightarrow> one_owner s' \<Longrightarrow> only_claims s s' \<Longrightarrow>
      claim_outcome s a (sk_base_socket k) delivered r s' \<Longrightarrow> Q r s'"
  shows "wp (ep_exclusive_try_claim a delivered) Q s"
proof -
  let ?B = "sk_base_socket k" and ?R = "ep_readiness_classes delivered"
  let ?w = "\<lparr> cv_owned = 0, cv_denied = 0, cv_owner_terminal = False, cv_peer_terminal = False \<rparr>"
  have "wp (drop_other_base a ?B) (\<lambda>_. wp (do {
     n \<leftarrow> gets pool_next_addr;
     head \<leftarrow> gets (\<lambda>s. g_exclusive_claim_buckets s (ep_exclusive_bucket ?B));
     v \<leftarrow> claim_scan n head a ?B ?R ?w;
     when_do (has_class ?R EP_READINESS_CLASS_TERMINAL \<and> \<not> cv_peer_terminal v)
       (bucket_remove ?B (EP_READINESS_CLASS_READ OR EP_READINESS_CLASS_WRITE));
     let denied = claim_denied ?R v;
     if ?R AND NOT denied = 0 \<and> ?R \<noteq> 0 then return (False, delivered)
     else do {
       ep_exclusive_add_classes_locked a ?B (claim_missing ?R denied v);
       return (True, ep_readiness_filter_classes delivered denied)
     }}) Q) s"
  proof (rule drop_other_rule [OF c k])
    fix s1 L1
    assume h1: "claims_in s1 L1" "owns s1 = (owns s)(a := (\<lambda>B. if B = ?B then owns s a ?B else 0))" "only_claims s s1"
    have one1: "one_owner s1"
      by (rule one_owner_mono [OF one]) (use h1(2) in \<open>auto split: if_splits\<close>)
    have peers: "peer_holds s1 a ?B d \<longleftrightarrow> peer_holds s a ?B d" for d
      using h1(2) by (auto simp: peer_holds_def)
    then have dc: "denied_class s1 a ?B R d \<longleftrightarrow> denied_class s a ?B R d" for R d
      by (simp add: denied_class_def)
    define v where "v = fold (\<lambda>x. claim_visit a ?R x (owns s1 x ?B)) (L1 (ep_exclusive_bucket ?B)) ?w"
    note sv = scan_view [OF h1(1) class_mask_classes, where a = a and d1 = delivered and base = ?B, folded v_def]
    let ?d = "claim_denied ?R v"
    have gz: "?R AND NOT ?d = 0 \<longleftrightarrow> (\<forall>c \<in> {1, 2, 4}. has_class ?R c \<longrightarrow> denied_class s a ?B ?R c)"
      using class_mask_zero [of "?R AND NOT ?d"] sv(5) dc by auto
    have rest: "wp (do {
       when_do (has_class ?R EP_READINESS_CLASS_TERMINAL \<and> \<not> cv_peer_terminal v)
         (bucket_remove ?B (EP_READINESS_CLASS_READ OR EP_READINESS_CLASS_WRITE));
       let denied = claim_denied ?R v;
       if ?R AND NOT denied = 0 \<and> ?R \<noteq> 0 then return (False, delivered)
       else do {
         ep_exclusive_add_classes_locked a ?B (claim_missing ?R denied v);
         return (True, ep_readiness_filter_classes delivered denied)
       }}) Q s1"
      unfolding wp_bind
    proof (rule when_bucket_remove_rule [OF h1(1)])
      fix s2 L2
      assume h2: "claims_in s2 L2" "only_claims s1 s2" "owns s2 = (\<lambda>x B.
        if (has_class ?R 4 \<and> \<not> cv_peer_terminal v) \<and> B = ?B then owns s1 x B AND NOT (1 OR 2) else owns s1 x B)"
      have o2: "only_claims s s2" by (rule only_claims_trans [OF h1(3) h2(2)])
      obtain k2 where k2: "socks s2 a = Some k2" using only_claims_sock [OF o2 k] by metis
      have own2: "owns s2 = (\<lambda>x B. if has_class ?R 4 \<and> \<not> peer_holds s1 a ?B 4 \<and> B = ?B
        then owns s1 x B AND NOT (1 OR 2) else owns s1 x B)" using h2(3) sv(3) by simp
      have one2: "one_owner s2"
        by (rule one_owner_mono [OF one1]) (use own2 in \<open>auto split: if_splits\<close>)
      show "wp (let denied = claim_denied ?R v in
         if ?R AND NOT denied = 0 \<and> ?R \<noteq> 0 then return (False, delivered)
         else do {
           ep_exclusive_add_classes_locked a ?B (claim_missing ?R denied v);
           return (True, ep_readiness_filter_classes delivered denied)
         }) Q s2"
      proof (cases "?R AND NOT ?d = 0 \<and> ?R \<noteq> 0")
        case True
        then have "claim_outcome s a ?B delivered (False, delivered) s2"
          using gz by (simp add: claim_outcome_def Let_def)
        then show ?thesis using True Q [OF h2(1) one2 o2] by (simp add: wp_simps Let_def)
      next
        case False
        have "wp (ep_exclusive_add_classes_locked a ?B (claim_missing ?R ?d v))
          (\<lambda>_. Q (True, ep_readiness_filter_classes delivered ?d)) s2"
        proof (rule add_rule [OF h2(1) k2 claim_missing_mask [OF class_mask_classes]])
          fix s3 L3
          assume h3: "claims_in s3 L3" "only_claims s2 s3" "owns s3 = (owns s2)(a :=
            (if claim_missing ?R ?d v = 0 then owns s2 a
             else (\<lambda>B. if ?B = B then owns s2 a B OR claim_missing ?R ?d v else 0)))"
          have ot: "\<forall>B. B \<noteq> ?B \<longrightarrow> owns s1 a B = 0" using h1(2) by simp
          note ar = claim_arith [OF one1 class_mask_classes ot sv(1,2,5) own2 h3(3)]
          have fc: "ep_readiness_classes (ep_readiness_filter_classes delivered ?d) = ?R AND NOT ?d"
            by (rule filter_classes_exact)
          have "?R = 0 \<or> (\<exists>c \<in> {1, 2, 4}. has_class ?R c \<and> \<not> denied_class s a ?B ?R c)"
            using False gz by blast
          moreover have "(has_class (?R AND NOT ?d) c \<longleftrightarrow> has_class ?R c \<and> \<not> denied_class s a ?B ?R c) \<and>
            (has_class (?R AND NOT ?d) c \<longrightarrow> has_class (owns s3 a ?B) c \<or> has_class (owns s3 a ?B) 4)"
            if c: "c \<in> {1, 2, 4}" for c
          proof -
            have e: "has_class (?R AND NOT ?d) c \<longleftrightarrow> has_class ?R c \<and> \<not> has_class ?d c" using c by simp
            have "has_class ?d c \<longleftrightarrow> has_class ?R c \<and> denied_class s a ?B ?R c" using sv(5) dc c by blast
            then show ?thesis using e ar(2) [OF c] by blast
          qed
          ultimately have "claim_outcome s a ?B delivered (True, ep_readiness_filter_classes delivered ?d) s3"
            unfolding claim_outcome_def Let_def fst_conv snd_conv fc if_True by blast
          then show "Q (True, ep_readiness_filter_classes delivered ?d) s3"
            using Q [OF h3(1) ar(1) only_claims_trans [OF o2 h3(2)]] by blast
        qed
        moreover have "wp (return r) Q = Q r" for r by (rule ext) (simp add: wp_simps)
        ultimately show ?thesis using False by (simp only: Let_def if_False wp_bind)
      qed
    qed
    have sc: "wp (claim_scan (pool_next_addr s1) (g_exclusive_claim_buckets s1 (ep_exclusive_bucket ?B)) a ?B ?R ?w)
      (\<lambda>x. wp (do {
       when_do (has_class ?R EP_READINESS_CLASS_TERMINAL \<and> \<not> cv_peer_terminal x)
         (bucket_remove ?B (EP_READINESS_CLASS_READ OR EP_READINESS_CLASS_WRITE));
       let denied = claim_denied ?R x;
       if ?R AND NOT denied = 0 \<and> ?R \<noteq> 0 then return (False, delivered)
       else do {
         ep_exclusive_add_classes_locked a ?B (claim_missing ?R denied x);
         return (True, ep_readiness_filter_classes delivered denied)
       }}) Q) s1"
      by (rule claim_scan_rule [OF h1(1) _ claims_length [OF h1(1)] claims_head [OF h1(1)], where us = "[]"])
        (simp, rule rest [unfolded v_def])
    then show "wp (do {
     n \<leftarrow> gets pool_next_addr;
     head \<leftarrow> gets (\<lambda>s. g_exclusive_claim_buckets s (ep_exclusive_bucket ?B));
     v \<leftarrow> claim_scan n head a ?B ?R ?w;
     when_do (has_class ?R EP_READINESS_CLASS_TERMINAL \<and> \<not> cv_peer_terminal v)
       (bucket_remove ?B (EP_READINESS_CLASS_READ OR EP_READINESS_CLASS_WRITE));
     let denied = claim_denied ?R v;
     if ?R AND NOT denied = 0 \<and> ?R \<noteq> 0 then return (False, delivered)
     else do {
       ep_exclusive_add_classes_locked a ?B (claim_missing ?R denied v);
       return (True, ep_readiness_filter_classes delivered denied)
     }}) Q s1" by (simp only: wp_bind wp_gets)
  qed
  then show ?thesis using k by (simp add: ep_exclusive_try_claim_def wp_bind wp_sock_read Let_def)
qed

lemma release_owner_rule:
  assumes "claims_in s L" "socks s a = Some k"
    and "\<And>s' L'. claims_in s' L' \<Longrightarrow> owns s' = (owns s)(a := (\<lambda>_. 0)) \<Longrightarrow> only_claims s s' \<Longrightarrow> Q () s'"
  shows "wp (ep_exclusive_release_owner a) Q s"
  unfolding ep_exclusive_release_owner_def by (rule unlink_rule [OF assms(1,2)]) (rule assms(3))

lemma release_classes_rule:
  assumes c: "claims_in s L" and k: "socks s a = Some k"
    and Q: "\<And>s' L'. claims_in s' L' \<Longrightarrow> only_claims s s' \<Longrightarrow> owns s' = (\<lambda>x B.
        if B = sk_base_socket k then owns s x B AND NOT d else if x = a then 0 else owns s x B) \<Longrightarrow> Q () s'"
  shows "wp (do { drop_other_base a (sk_base_socket k); bucket_remove (sk_base_socket k) d }) Q s"
  unfolding wp_bind
proof (rule drop_other_rule [OF c k])
  fix s1 L1
  assume h1: "claims_in s1 L1" "owns s1 = (owns s)(a := (\<lambda>B. if B = sk_base_socket k then owns s a (sk_base_socket k) else 0))"
    "only_claims s s1"
  show "wp (bucket_remove (sk_base_socket k) d) Q s1"
  proof (rule bucket_remove_rule [OF h1(1)])
    fix s2 L2
    assume h2: "claims_in s2 L2" "only_claims s1 s2"
      "owns s2 = (\<lambda>x B. if B = sk_base_socket k then owns s1 x B AND NOT d else owns s1 x B)"
    show "Q () s2"
      by (rule Q [OF h2(1) only_claims_trans [OF h1(3) h2(2)]]) (simp add: h2(3) h1(2) fun_eq_iff)
  qed
qed

lemma release_classes_one_owner:
  assumes "one_owner s" "owns s' = (\<lambda>x B.
    if B = base then owns s x B AND NOT d else if x = a then 0 else owns s x B)"
  shows "one_owner s'"
  by (rule one_owner_mono [OF assms(1)]) (use assms(2) in \<open>auto split: if_splits\<close>)

definition claims_sound :: "('os, 'z) ep_world_scheme \<Rightarrow> bool" where
  "claims_sound s \<longleftrightarrow> (\<exists>L. claims_in s L) \<and> one_owner s"

text \<open>A world with two registrations of provider socket 0, the second of which owns its read class.\<close>

definition claims_demo :: "unit ep_world" where
  "claims_demo = ep_world_zero () \<lparr> pool_next_addr := 3, socks := [1 \<mapsto> ep_sock_zero,
     2 \<mapsto> ep_sock_zero \<lparr> sk_exclusive_claim_classes := 1 \<rparr>],
     g_exclusive_claim_buckets := (\<lambda>_. None)(ep_exclusive_bucket 0 := Some 2) \<rparr>"

lemma claims_demo_owns: "owns claims_demo x B = (if x = 2 \<and> B = 0 then 1 else 0)"
  by (simp add: claims_demo_def owns_def claim_of_def ep_sock_zero_def)

lemma claims_demo_ub: "\<not> ep_ub claims_demo"
  by (simp add: claims_demo_def ep_world_zero_def)

lemma claims_demo_sound: "claims_sound claims_demo"
proof -
  have "claims_in claims_demo (\<lambda>b. if b = ep_exclusive_bucket 0 then [2] else [])"
    by (auto simp: claims_in_def index_ok_def claims_demo_def claim_of_def fl_def ep_sock_zero_def
        dlist_def last_opt_def class_mask_def split: if_splits)
  moreover have "one_owner claims_demo"
    by (auto simp: one_owner_def claims_demo_owns has_class_def)
  ultimately show ?thesis by (auto simp: claims_sound_def)
qed



text \<open>(C26) Releasing an exclusive claim gives up exactly the classes in question: the owner's
  release drops everything it holds, the quiescent and the inactive release drop the given
  classes of every registration on that provider socket and whatever the caller held on another
  one, and the claim index stays sound with a single owner per class.\<close>

theorem exclusive_release_exact:
  assumes "claims_sound s" "socks s a = Some k"
  shows "wp (ep_exclusive_release_owner a) (\<lambda>_ s'.
      claims_sound s' \<and> owns s' = (owns s)(a := (\<lambda>_. 0)) \<and> ep_ub s' = ep_ub s) s \<and>
    wp (ep_exclusive_release_quiescent a submitted) (\<lambda>_ s'. claims_sound s' \<and> ep_ub s' = ep_ub s \<and>
      owns s' = (\<lambda>x B. if B = sk_base_socket k then owns s x B AND NOT (ep_exclusive_quiescent_classes submitted)
        else if x = a then 0 else owns s x B)) s \<and>
    wp (ep_exclusive_release_inactive a d) (\<lambda>_ s'. claims_sound s' \<and> ep_ub s' = ep_ub s \<and>
      owns s' = (\<lambda>x B. if B = sk_base_socket k then owns s x B AND NOT d else if x = a then 0 else owns s x B)) s"
    (is "?A \<and> ?B \<and> ?C")
proof (intro conjI)
  obtain L where L: "claims_in s L" "one_owner s" using assms(1) by (auto simp: claims_sound_def)
  have cls: "wp (do { drop_other_base a (sk_base_socket k); bucket_remove (sk_base_socket k) d }) (\<lambda>_ s'.
      claims_sound s' \<and> ep_ub s' = ep_ub s \<and>
      owns s' = (\<lambda>x B. if B = sk_base_socket k then owns s x B AND NOT d else if x = a then 0 else owns s x B)) s" for d
    by (rule release_classes_rule [OF L(1) assms(2)])
      (auto simp: claims_sound_def only_claims_ub release_classes_one_owner [OF L(2)])
  have "one_owner s'" if "owns s' = (owns s)(a := (\<lambda>_. 0))" for s' :: "('a, 'b) ep_world_scheme"
    by (rule one_owner_mono [OF L(2)]) (use that in \<open>auto split: if_splits\<close>)
  then show ?A
    by (intro release_owner_rule [OF L(1) assms(2)]) (auto simp: claims_sound_def only_claims_ub)
  show ?B using cls assms(2)
    by (simp add: ep_exclusive_release_quiescent_def wp_bind wp_sock_read)
  show ?C using cls assms(2)
    by (simp add: ep_exclusive_release_inactive_def wp_bind wp_sock_read)
qed

theorem exclusive_release_exact_witness:
  "wp (ep_exclusive_release_owner 2) (\<lambda>_ s'. owns s' 2 0 = 0) claims_demo"
proof -
  have e: "socks claims_demo 2 = Some (ep_sock_zero \<lparr> sk_exclusive_claim_classes := 1 \<rparr>)"
    by (simp add: claims_demo_def)
  show ?thesis by (rule wp_mono [OF conjunct1 [OF exclusive_release_exact [OF claims_demo_sound e]]]) simp
qed

end
