(* ===== verification/Ep_Win.thy ===== *)
theory Ep_Win
  imports Ep_Types
begin

text \<open>
  The Windows interface of the program: the calls of the kernel and of Winsock whose outcome the
  program observes, as a record of functions on the opaque system state that extends the C library
  calls.  A call that can fail returns whether it succeeded; its error code is read separately, as
  the program does.
\<close>

record 'os ep_win = "'os ep_sys" +
  win_GetLastError :: "'os \<Rightarrow> dword \<times> 'os"
  win_SetLastError :: "dword \<Rightarrow> 'os \<Rightarrow> unit \<times> 'os"
  win_CloseHandle :: "handle \<Rightarrow> 'os \<Rightarrow> bool \<times> 'os"
  win_PostQueuedCompletionStatus :: "handle \<Rightarrow> uint64 \<Rightarrow> addr option \<Rightarrow> 'os \<Rightarrow> bool \<times> 'os"
  win_QueryPerformanceCounter :: "'os \<Rightarrow> int option \<times> 'os"
  win_GetTickCount64 :: "'os \<Rightarrow> uint64 \<times> 'os"
  win_query_unbiased_interrupt_time_precise :: "('os \<Rightarrow> uint64 \<times> 'os) option"
  win_Sleep :: "dword \<Rightarrow> 'os \<Rightarrow> unit \<times> 'os"
  sys_mutex_trylock :: "'os \<Rightarrow> int \<times> 'os"

text \<open>A system on which every call succeeds and leaves the system state alone.\<close>

definition win_quiet :: "'os ep_win" where
  "win_quiet = \<lparr> sys_malloc = (\<lambda>_ os. (True, os)), sys_mutex_init = (\<lambda>os. (0, os)),
     sys_mutex_lock = (\<lambda>os. (0, os)), win_GetLastError = (\<lambda>os. (0, os)),
     win_SetLastError = (\<lambda>_ os. ((), os)), win_CloseHandle = (\<lambda>_ os. (True, os)),
     win_PostQueuedCompletionStatus = (\<lambda>_ _ _ os. (True, os)),
     win_QueryPerformanceCounter = (\<lambda>os. (Some 0, os)), win_GetTickCount64 = (\<lambda>os. (0, os)),
     win_query_unbiased_interrupt_time_precise = None, win_Sleep = (\<lambda>_ os. ((), os)),
     sys_mutex_trylock = (\<lambda>os. (0, os)) \<rparr>"

end
