(* ===== verification/Ep_Timeout.thy ===== *)
theory Ep_Timeout
  imports Ep_Win
begin

text \<open>
  Durations and timestamps of \<^verbatim>\<open>src/src/wepoll_ex_port.c\<close>: the conversion of the millisecond and
  the timespec arguments of the wait calls into an internal timeout, rounded up and saturated at
  64 bits; the time that remains of a wait; the bounded acquisition of the waiters' lock; and the
  nanosecond timestamp derived from the performance counter.
\<close>

section \<open>Timeouts\<close>

record ep_wait_timeout =
  wt_milliseconds :: uint64
  wt_intervals_100ns :: uint64
  wt_infinite :: bool
  wt_precise :: bool

record timespec =
  tv_sec :: "64 word"
  tv_nsec :: "32 word"

abbreviation (input) EP_100NS_PER_MILLISECOND :: uint64 where
  "EP_100NS_PER_MILLISECOND \<equiv> 10000"

definition ep_wait_timeout_zero :: ep_wait_timeout where
  "ep_wait_timeout_zero =
     \<lparr> wt_milliseconds = 0, wt_intervals_100ns = 0, wt_infinite = False, wt_precise = False \<rparr>"

definition ep_saturating_mul_add_u64 :: "uint64 \<Rightarrow> uint64 \<Rightarrow> uint64 \<Rightarrow> uint64" where
  "ep_saturating_mul_add_u64 v multiplier addend =
     (if v > (- 1 - addend) div multiplier then - 1 else v * multiplier + addend)"

definition ep_wait_timeout_from_milliseconds :: "32 word \<Rightarrow> ep_wait_timeout" where
  "ep_wait_timeout_from_milliseconds timeout_ms =
     (if timeout_ms <s 0 then ep_wait_timeout_zero \<lparr> wt_infinite := True \<rparr>
      else ep_wait_timeout_zero \<lparr> wt_milliseconds := ucast timeout_ms,
        wt_intervals_100ns := ucast timeout_ms * EP_100NS_PER_MILLISECOND \<rparr>)"

text \<open>The result is the return value and the structure the caller passed, if it passed one.\<close>

definition ep_wait_timeout_from_timespec ::
  "timespec option \<Rightarrow> ep_wait_timeout option \<Rightarrow>
   ('z ep_errno_env_scheme, int \<times> ep_wait_timeout option) state" where
  "ep_wait_timeout_from_timespec ts timeout = (case timeout of
      None \<Rightarrow> do { ep_set_errno EFAULT; return (- 1, None) }
    | Some _ \<Rightarrow> (case ts of
        None \<Rightarrow> return (0, Some (ep_wait_timeout_zero \<lparr> wt_infinite := True \<rparr>))
      | Some t \<Rightarrow>
          if tv_sec t <s 0 \<or> tv_nsec t <s 0 \<or> \<not> tv_nsec t <s 1000000000 then do {
            ep_set_errno EINVAL;
            return (- 1, Some ep_wait_timeout_zero)
          } else (let
            seconds = tv_sec t;
            nsec = ucast (tv_nsec t) :: uint64;
            millis_remainder = (nsec + 999999) div 1000000;
            intervals_remainder = (nsec + 99) div 100
          in return (0, Some \<lparr>
            wt_milliseconds = ep_saturating_mul_add_u64 seconds 1000 millis_remainder,
            wt_intervals_100ns = ep_saturating_mul_add_u64 seconds 10000000 intervals_remainder,
            wt_infinite = False,
            wt_precise = seconds \<le> (- 1 - intervals_remainder) div 10000000 \<rparr>))))"

section \<open>Timestamps\<close>

text \<open>C division truncates towards zero.\<close>

definition now_ns_of :: "int \<Rightarrow> int \<Rightarrow> uint64" where
  "now_ns_of counter frequency =
     (let
        seconds = word_of_int (sgn counter * (\<bar>counter\<bar> div frequency)) :: uint64;
        remainder = word_of_int (sgn counter * (\<bar>counter\<bar> mod frequency)) :: uint64
      in seconds * 1000000000 + (remainder * 1000000000) div word_of_int frequency)"

definition ep_now_ns :: "('os, 'y) ep_win_scheme \<Rightarrow> addr \<Rightarrow> (('os, 'z) ep_world_scheme, uint64) state" where
  "ep_now_ns win port = do {
     frequency \<leftarrow> port_read port pt_qpc_frequency;
     if frequency \<le> 0 then return 0
     else do {
       counter \<leftarrow> syscall (win_QueryPerformanceCounter win);
       (case counter of None \<Rightarrow> return 0 | Some c \<Rightarrow> return (now_ns_of c frequency))
     }
   }"

section \<open>The remaining time of a wait\<close>

record ep_wait_state =
  ws_timeout :: ep_wait_timeout
  ws_start_ms :: uint64
  ws_start_100ns :: uint64
  ws_timeout_generation :: uint64
  ws_precise_clock :: bool
  ws_precise_enabled :: bool
  ws_precise_attempted :: bool

abbreviation (input) EP_MAX_FINITE_IOCP_WAIT_MS :: dword where
  "EP_MAX_FINITE_IOCP_WAIT_MS \<equiv> - 2"

abbreviation (input) INFINITE_WAIT :: dword where
  "INFINITE_WAIT \<equiv> - 1"

definition ep_wait_state_initialize ::
  "('os, 'y) ep_win_scheme \<Rightarrow> ep_wait_timeout \<Rightarrow> (('os, 'z) ep_env_scheme, ep_wait_state) state" where
  "ep_wait_state_initialize win timeout = do {
     start_ms \<leftarrow> syscall (win_GetTickCount64 win);
     let ws = \<lparr> ws_timeout = timeout, ws_start_ms = start_ms, ws_start_100ns = 0,
       ws_timeout_generation = 0, ws_precise_clock = False, ws_precise_enabled = False,
       ws_precise_attempted = False \<rparr>;
     (if wt_precise timeout \<and> \<not> wt_infinite timeout \<and> wt_intervals_100ns timeout \<noteq> 0
      then (case win_query_unbiased_interrupt_time_precise win of
          None \<Rightarrow> return ws
        | Some query \<Rightarrow> do {
            now \<leftarrow> syscall query;
            return (ws \<lparr> ws_start_100ns := now, ws_precise_clock := True \<rparr>)
          })
      else return ws)
   }"

text \<open>The precise clock is called through a pointer; calling it when the system has none is a bad
  access.\<close>

definition precise_now :: "('os, 'y) ep_win_scheme \<Rightarrow> (('os, 'z) ep_env_scheme, uint64) state" where
  "precise_now win = (case win_query_unbiased_interrupt_time_precise win of
      None \<Rightarrow> do { bad_access; return 0 }
    | Some query \<Rightarrow> syscall query)"

definition ep_wait_remaining_100ns ::
  "('os, 'y) ep_win_scheme \<Rightarrow> ep_wait_state \<Rightarrow> (('os, 'z) ep_env_scheme, uint64) state" where
  "ep_wait_remaining_100ns win ws = do {
     now \<leftarrow> precise_now win;
     let elapsed = now - ws_start_100ns ws;
     if elapsed \<ge> wt_intervals_100ns (ws_timeout ws) then return 0
     else return (wt_intervals_100ns (ws_timeout ws) - elapsed)
   }"

definition ep_wait_remaining_milliseconds ::
  "('os, 'y) ep_win_scheme \<Rightarrow> ep_wait_state \<Rightarrow> (('os, 'z) ep_env_scheme, uint64) state" where
  "ep_wait_remaining_milliseconds win ws =
     (if ws_precise_enabled ws then do {
        now \<leftarrow> precise_now win;
        let elapsed = now - ws_start_100ns ws;
        if elapsed \<ge> wt_intervals_100ns (ws_timeout ws) then return 0
        else (let remaining = wt_intervals_100ns (ws_timeout ws) - elapsed in
          return (remaining div EP_100NS_PER_MILLISECOND +
            of_bool (remaining mod EP_100NS_PER_MILLISECOND \<noteq> 0)))
      } else do {
        now \<leftarrow> syscall (win_GetTickCount64 win);
        let elapsed = now - ws_start_ms ws;
        if elapsed \<ge> wt_milliseconds (ws_timeout ws) then return 0
        else return (wt_milliseconds (ws_timeout ws) - elapsed)
      })"

definition ep_wait_expired ::
  "('os, 'y) ep_win_scheme \<Rightarrow> ep_wait_state \<Rightarrow> (('os, 'z) ep_env_scheme, bool) state" where
  "ep_wait_expired win ws =
     (if wt_infinite (ws_timeout ws) then return False
      else do { r \<leftarrow> ep_wait_remaining_milliseconds win ws; return (r = 0) })"

definition ep_wait_backstop_milliseconds ::
  "('os, 'y) ep_win_scheme \<Rightarrow> ep_wait_state \<Rightarrow> (('os, 'z) ep_env_scheme, dword) state" where
  "ep_wait_backstop_milliseconds win ws =
     (if wt_infinite (ws_timeout ws) then return INFINITE_WAIT
      else do {
        remaining \<leftarrow> ep_wait_remaining_milliseconds win ws;
        if remaining > ucast EP_MAX_FINITE_IOCP_WAIT_MS then return EP_MAX_FINITE_IOCP_WAIT_MS
        else return (ucast remaining)
      })"

section \<open>The waiters' lock\<close>

text \<open>One attempt at the lock, followed by a retry unless the wait is over.\<close>

definition wait_lock_attempt ::
  "('os, 'y) ep_win_scheme \<Rightarrow> addr \<Rightarrow> ep_wait_state \<Rightarrow> (('os, 'z) ep_world_scheme, int option) state \<Rightarrow>
   (('os, 'z) ep_world_scheme, int option) state" where
  "wait_lock_attempt win port ws retry = do {
     lock_result \<leftarrow> syscall (sys_mutex_trylock win);
     if lock_result = 0 then return (Some 1)
     else if lock_result \<noteq> EBUSY then do { ep_set_errno lock_result; return (Some (- 1)) }
     else do {
       closing \<leftarrow> port_read port pt_closing;
       if closing then do {
         post_error \<leftarrow> port_read port pt_iocp_post_error;
         ep_set_errno (if post_error \<noteq> 0 then post_error else EBADF);
         return (Some (- 1))
       } else do {
         out \<leftarrow> (if wt_milliseconds (ws_timeout ws) = 0 then return True else do {
           now \<leftarrow> syscall (win_GetTickCount64 win);
           return (now - ws_start_ms ws \<ge> wt_milliseconds (ws_timeout ws)) });
         if out then return (Some 0)
         else do {
           syscall (win_Sleep win 1);
           retry
         }
       }
     }
   }"

text \<open>The retry loop of a finite wait, with a bound on its passes; \<open>None\<close> when the bound is
  exhausted.\<close>

primrec wait_lock_loop ::
  "nat \<Rightarrow> ('os, 'y) ep_win_scheme \<Rightarrow> addr \<Rightarrow> ep_wait_state \<Rightarrow> bool \<Rightarrow>
   (('os, 'z) ep_world_scheme, int option) state" where
  "wait_lock_loop 0 win port ws first_attempt = return None"
| "wait_lock_loop (Suc n) win port ws first_attempt = do {
     late \<leftarrow> (if \<not> first_attempt \<and> wt_milliseconds (ws_timeout ws) \<noteq> 0 then do {
         now \<leftarrow> syscall (win_GetTickCount64 win);
         return (now - ws_start_ms ws \<ge> wt_milliseconds (ws_timeout ws)) }
       else return False);
     if late then return (Some 0)
     else wait_lock_attempt win port ws (wait_lock_loop n win port ws False)
   }"

definition ep_wait_lock_acquire ::
  "nat \<Rightarrow> ('os, 'y) ep_win_scheme \<Rightarrow> addr \<Rightarrow> ep_wait_state \<Rightarrow> (('os, 'z) ep_world_scheme, int option) state" where
  "ep_wait_lock_acquire fuel win port ws =
     (if wt_infinite (ws_timeout ws) then do {
        lock_result \<leftarrow> syscall (sys_mutex_lock win);
        if lock_result \<noteq> 0 then do { ep_set_errno lock_result; return (Some (- 1)) }
        else return (Some 1)
      } else wait_lock_loop fuel win port ws True)"

section \<open>Bounds\<close>

lemma unat_minus_one_64: "unat (- 1 - x :: uint64) = 2 ^ 64 - 1 - unat x"
proof -
  have "x \<le> - 1" by (rule word_order.extremum)
  then have "unat (- 1 - x) = unat (- 1 :: uint64) - unat x" by (rule unat_sub)
  then show ?thesis by (simp add: unsigned_minus_1_eq_mask mask_eq_exp_minus_1)
qed

lemma saturating_exact:
  assumes "0 < unat m"
  shows "unat (ep_saturating_mul_add_u64 v m a) = min (2 ^ 64 - 1) (unat v * unat m + unat a)"
    and "v \<le> (- 1 - a) div m \<longleftrightarrow> unat v * unat m + unat a \<le> 2 ^ 64 - 1"
proof -
  have "unat a < 2 ^ 64" using unsigned_less [of a, where ?'a = nat] by simp
  then have a: "unat a \<le> 2 ^ 64 - 1" by simp
  have "v \<le> (- 1 - a) div m \<longleftrightarrow> unat v \<le> (2 ^ 64 - 1 - unat a) div unat m"
    by (simp add: word_le_nat_alt unat_div unat_minus_one_64)
  also have "\<dots> \<longleftrightarrow> unat v * unat m \<le> 2 ^ 64 - 1 - unat a"
    using less_eq_div_iff_mult_less_eq [OF assms] by blast
  also have "\<dots> \<longleftrightarrow> unat v * unat m + unat a \<le> 2 ^ 64 - 1" using a by linarith
  finally show le: "v \<le> (- 1 - a) div m \<longleftrightarrow> unat v * unat m + unat a \<le> 2 ^ 64 - 1" .
  show "unat (ep_saturating_mul_add_u64 v m a) = min (2 ^ 64 - 1) (unat v * unat m + unat a)"
  proof (cases "v \<le> (- 1 - a) div m")
    case True
    then have b: "unat v * unat m + unat a < 2 ^ 64" using le by simp
    then have "unat (v * m + a) = unat v * unat m + unat a"
      by (simp add: unat_word_ariths)
    then show ?thesis using True b by (simp add: ep_saturating_mul_add_u64_def leD min_def)
  next
    case False
    then have "\<not> unat v * unat m + unat a \<le> 2 ^ 64 - 1" using le by blast
    then show ?thesis using False unat_minus_one_64 [of 0]
      by (simp add: ep_saturating_mul_add_u64_def not_le min_def)
  qed
qed

text \<open>The duration of a timespec in nanoseconds.\<close>

definition timespec_ns :: "timespec \<Rightarrow> nat" where
  "timespec_ns t = unat (tv_sec t) * 1000000000 + unat (tv_nsec t)"

definition timespec_valid :: "timespec \<Rightarrow> bool" where
  "timespec_valid t \<longleftrightarrow> \<not> tv_sec t <s 0 \<and> \<not> tv_nsec t <s 0 \<and> tv_nsec t <s 1000000000"

lemma timespec_valid_nsec:
  assumes "timespec_valid t"
  shows "unat (tv_nsec t) < 1000000000"
proof -
  have "sint (tv_nsec t) \<ge> 0" "sint (tv_nsec t) < 1000000000"
    using assms by (simp_all add: timespec_valid_def word_sless_alt)
  then have "uint (tv_nsec t) < 1000000000"
    by (simp add: uint_sint take_bit_int_eq_self)
  then show ?thesis by (simp flip: nat_uint_eq add: nat_less_iff)
qed

lemma ceil_div_nat:
  assumes "0 < (k :: nat)" and "u * k = m"
  shows "(s * m + (r + c)) div k = s * u + (r + c) div k"
proof -
  have "s * m + (r + c) = (r + c) + (s * u) * k" using assms(2) by (simp add: mult.assoc)
  then show ?thesis using div_mult_self1 [of k "r + c" "s * u"] assms(1) by (simp only: add.commute)
qed

text \<open>(C28) Converting a valid timespec never shortens the wait: the millisecond count and the count
  of 100-nanosecond intervals are the duration rounded up to the unit, saturated at the largest
  64-bit value, and the precise path is chosen exactly when the interval count did not saturate.\<close>

theorem timespec_rounds_up:
  assumes "timespec_valid t"
  shows "wp (ep_wait_timeout_from_timespec (Some t) (Some old)) (\<lambda>r s'.
    s' = s \<and> fst r = 0 \<and> (\<exists>w. snd r = Some w \<and> \<not> wt_infinite w \<and>
      unat (wt_milliseconds w) = min (2 ^ 64 - 1) ((timespec_ns t + 999999) div 1000000) \<and>
      unat (wt_intervals_100ns w) = min (2 ^ 64 - 1) ((timespec_ns t + 99) div 100) \<and>
      wt_precise w = ((timespec_ns t + 99) div 100 \<le> 2 ^ 64 - 1))) s"
proof -
  let ?n = "ucast (tv_nsec t) :: uint64" and ?u = "unat (tv_nsec t)"
  have n: "?u < 1000000000" by (rule timespec_valid_nsec [OF assms])
  have u: "unat ?n = ?u" using n by (simp add: unsigned_ucast_eq take_bit_nat_eq_self_iff)
  have a: "unat ((?n + 999999) div 1000000) = (?u + 999999) div 1000000"
    using n by (simp add: unat_div unat_word_ariths u)
  have b: "unat ((?n + 99) div 100) = (?u + 99) div 100"
    using n by (simp add: unat_div unat_word_ariths u)
  have A: "unat (tv_sec t) * 1000 + (?u + 999999) div 1000000 = (timespec_ns t + 999999) div 1000000"
    using ceil_div_nat [of 1000000 1000 1000000000 "unat (tv_sec t)" ?u 999999] by (simp add: timespec_ns_def)
  have B: "unat (tv_sec t) * 10000000 + (?u + 99) div 100 = (timespec_ns t + 99) div 100"
    using ceil_div_nat [of 100 10000000 1000000000 "unat (tv_sec t)" ?u 99] by (simp add: timespec_ns_def)
  have m: "0 < unat (1000 :: uint64)" "0 < unat (10000000 :: uint64)" by simp_all
  show ?thesis
    using assms saturating_exact(1) [OF m(1), of "tv_sec t" "(?n + 999999) div 1000000"]
      saturating_exact [OF m(2), of "tv_sec t" "(?n + 99) div 100"] A B
    by (simp add: ep_wait_timeout_from_timespec_def timespec_valid_def Let_def wp_simps a b)
qed

theorem timespec_rounds_up_witness:
  "timespec_valid \<lparr> tv_sec = 2, tv_nsec = 1 \<rparr> \<and>
   wp (ep_wait_timeout_from_timespec (Some \<lparr> tv_sec = 2, tv_nsec = 1 \<rparr>) (Some ep_wait_timeout_zero))
     (\<lambda>r _. \<exists>w. snd r = Some w \<and> unat (wt_milliseconds w) = 2001 \<and> unat (wt_intervals_100ns w) = 20000001)
     (ep_world_zero ())"
proof -
  have v: "timespec_valid \<lparr> tv_sec = 2, tv_nsec = 1 \<rparr>"
    by (simp add: timespec_valid_def word_sless_alt)
  have "timespec_ns \<lparr> tv_sec = 2, tv_nsec = 1 \<rparr> = 2000000001" by (simp add: timespec_ns_def)
  then have "wp (ep_wait_timeout_from_timespec (Some \<lparr> tv_sec = 2, tv_nsec = 1 \<rparr>) (Some ep_wait_timeout_zero))
     (\<lambda>r _. \<exists>w. snd r = Some w \<and> unat (wt_milliseconds w) = 2001 \<and> unat (wt_intervals_100ns w) = 20000001)
     (ep_world_zero ())"
    by (intro wp_mono [OF timespec_rounds_up [OF v]]) auto
  with v show ?thesis by blast
qed

section \<open>Acquiring the waiters' lock\<close>

text \<open>The documented behaviour of the system clock: it never runs backwards, a sleep takes some
  time (though less than the resolution \<open>K\<close> of the tick count, if the system is quick), and no
  single call takes more than \<open>D\<close> ticks.\<close>

definition call_advances :: "('os \<Rightarrow> nat) \<Rightarrow> (nat \<Rightarrow> nat) \<Rightarrow> nat \<Rightarrow> nat \<Rightarrow> ('os \<Rightarrow> 'a \<times> 'os) \<Rightarrow> bool" where
  "call_advances time tick D lo f \<longleftrightarrow> (\<forall>os. time os + lo \<le> time (snd (f os)) \<and>
     tick (time (snd (f os))) \<le> tick (time os) + D)"

definition clock_spec :: "('os, 'y) ep_win_scheme \<Rightarrow> ('os \<Rightarrow> nat) \<Rightarrow> (nat \<Rightarrow> nat) \<Rightarrow> nat \<Rightarrow> nat \<Rightarrow> bool" where
  "clock_spec win time tick K D \<longleftrightarrow> mono tick \<and> (\<forall>t. tick t + 1 \<le> tick (t + K)) \<and>
     (\<forall>os. fst (win_GetTickCount64 win os) = of_nat (tick (time os))) \<and>
     call_advances time tick D 0 (win_GetTickCount64 win) \<and>
     call_advances time tick D 0 (sys_mutex_trylock win) \<and>
     call_advances time tick D 1 (win_Sleep win 1)"

lemma tick_reaches:
  assumes "clock_spec win time tick K D"
  shows "tick u + n \<le> tick (u + K * n)"
proof (induction n)
  case (Suc n)
  have "tick (u + K * n) + 1 \<le> tick (u + K * n + K)" using assms by (simp add: clock_spec_def)
  with Suc show ?case by (simp add: algebra_simps)
qed simp

lemma elapsed_exact:
  assumes "m \<le> n" "n - m < 2 ^ 64"
  shows "unat (of_nat n - of_nat m :: uint64) = n - m"
proof -
  have "of_nat n - of_nat m = (of_nat (n - m) :: uint64)" using assms(1) by (simp add: of_nat_diff)
  then show ?thesis using assms(2) by (simp add: unat_of_nat take_bit_nat_eq_self_iff)
qed

lemma call_advancesD:
  assumes "call_advances time tick D lo f"
  shows "time os + lo \<le> time (snd (f os))" "tick (time (snd (f os))) \<le> tick (time os) + D"
  using assms by (simp_all add: call_advances_def)

lemma wait_lock_loop_ends:
  assumes c: "clock_spec win time tick K D"
    and start: "ws_start_ms ws = of_nat (tick u)" and ms: "unat (wt_milliseconds (ws_timeout ws)) = M"
    and room: "M + 4 * D < 2 ^ 64"
  shows "ports s p = Some q \<Longrightarrow> u \<le> time (os_state s) \<Longrightarrow> tick (time (os_state s)) \<le> tick u + M + 2 * D \<Longrightarrow>
    u + K * M < time (os_state s) + n \<Longrightarrow> 0 < n \<Longrightarrow>
    wp (wait_lock_loop n win p ws first) (\<lambda>r _. r \<in> {Some 1, Some 0, Some (- 1)}) s"
proof (induction n arbitrary: s first)
  case 0
  then show ?case by simp
next
  case (Suc n)
  let ?os = "os_state s" and ?G = "win_GetTickCount64 win" and ?L = "sys_mutex_trylock win" and ?S = "win_Sleep win 1"
  have mono: "a \<le> b \<Longrightarrow> tick a \<le> tick b" for a b using c by (simp add: clock_spec_def mono_def)
  have G: "call_advances time tick D 0 ?G" and L: "call_advances time tick D 0 ?L" and S: "call_advances time tick D 1 ?S"
    and now: "\<And>os. fst (?G os) = of_nat (tick (time os))" using c by (simp_all add: clock_spec_def)
  have expired: "M \<le> tick t - tick u" if "u + K * M \<le> t" for t
    using tick_reaches [OF c, of u M] mono [OF that] by linarith
  have read: "of_nat (tick t) - ws_start_ms ws \<ge> wt_milliseconds (ws_timeout ws) \<longleftrightarrow> M \<le> tick t - tick u"
    if "u \<le> t" "tick t \<le> tick u + M + 4 * D" for t
    using elapsed_exact [OF mono [OF that(1)]] that(2) room ms start by (simp add: word_le_nat_alt)
  have pass: "wp (wait_lock_attempt win p ws (wait_lock_loop n win p ws False))
      (\<lambda>r _. r \<in> {Some 1, Some 0, Some (- 1)}) (s \<lparr> os_state := os \<rparr>)"
    if os: "time ?os \<le> time os" "tick (time os) \<le> tick u + M + 3 * D" for os
  proof -
    let ?o1 = "snd (?L os)"
    let ?o2 = "snd (?G ?o1)"
    let ?o3 = "snd (?S ?o2)"
    note l = call_advancesD [OF L, of os] and g = call_advancesD [OF G, of ?o1] and w = call_advancesD [OF S, of ?o2]
    have u1: "u \<le> time ?o1" "tick (time ?o1) \<le> tick u + M + 4 * D" using os l Suc.prems by linarith+
    have "wp (wait_lock_loop n win p ws False) (\<lambda>r _. r \<in> {Some 1, Some 0, Some (- 1)})
        (s \<lparr> os_state := ?o3 \<rparr>)"
      if late: "\<not> of_nat (tick (time ?o1)) - ws_start_ms ws \<ge> wt_milliseconds (ws_timeout ws)"
    proof (rule Suc.IH)
      have early: "\<not> M \<le> tick (time ?o1) - tick u" using read [OF u1] late by blast
      then have "\<not> u + K * M \<le> time ?o1" using expired by blast
      then show "0 < n" using Suc.prems os l by simp
      show "u + K * M < time (os_state (s \<lparr> os_state := ?o3 \<rparr>)) + n" using Suc.prems os l g w by simp
      show "u \<le> time (os_state (s \<lparr> os_state := ?o3 \<rparr>))" using u1 g w by simp
      show "tick (time (os_state (s \<lparr> os_state := ?o3 \<rparr>))) \<le> tick u + M + 2 * D"
        using early g w by simp
    qed (use Suc.prems in simp)
    then show ?thesis using Suc.prems(1) by (auto simp: wait_lock_attempt_def wp_simps now)
  qed
  have D2: "tick (time ?os) \<le> tick u + M + 3 * D" using Suc.prems(3) by simp
  have D3: "time ?os \<le> time (snd (?G ?os))" "tick (time (snd (?G ?os))) \<le> tick u + M + 3 * D"
    using call_advancesD [OF G, of ?os] Suc.prems(3) by simp_all
  have s: "s = s \<lparr> os_state := ?os \<rparr>" by simp
  show ?case
  proof (cases "\<not> first \<and> wt_milliseconds (ws_timeout ws) \<noteq> 0")
    case True
    then show ?thesis using pass [OF D3] by (simp add: wp_bind wp_syscall wp_return wp_if Let_def)
  next
    case False
    then show ?thesis using pass [OF _ D2] s by (auto simp: wp_bind wp_return wp_if)
  qed
qed

text \<open>(C27) A finite wait is never held up by another waiter for longer than its own timeout: under
  the documented behaviour of the clock the retry loop for the waiters' lock ends within a number
  of passes given by the timeout and the resolution of the tick count, whatever the lock reports,
  with the lock, a timeout, or an error.\<close>

theorem wait_lock_bounded:
  assumes "clock_spec win time tick K D" and "ports s p = Some q"
    and "ws_start_ms ws = of_nat (tick u)" "u \<le> time (os_state s)" "tick (time (os_state s)) \<le> tick u + D"
    and "unat (wt_milliseconds (ws_timeout ws)) + 4 * D < 2 ^ 64"
    and "K * unat (wt_milliseconds (ws_timeout ws)) < fuel"
  shows "wp (ep_wait_lock_acquire fuel win p ws) (\<lambda>r _. r \<in> {Some 1, Some 0, Some (- 1)}) s"
proof (cases "wt_infinite (ws_timeout ws)")
  case True
  then show ?thesis by (simp add: ep_wait_lock_acquire_def wp_simps)
next
  case False
  have "wp (wait_lock_loop fuel win p ws True) (\<lambda>r _. r \<in> {Some 1, Some 0, Some (- 1)}) s"
    by (rule wait_lock_loop_ends [OF assms(1,3) refl assms(6,2,4)]) (use assms in auto)
  then show ?thesis using False by (simp add: ep_wait_lock_acquire_def)
qed

text \<open>A machine whose clock advances by one tick per sleep, on which another waiter holds the lock.\<close>

definition win_contended :: "nat ep_win" where
  "win_contended = win_quiet \<lparr> win_GetTickCount64 := (\<lambda>os. (of_nat os, os)),
     win_Sleep := (\<lambda>_ os. ((), os + 1)), sys_mutex_trylock := (\<lambda>os. (EBUSY, os)) \<rparr>"

definition wait_three_ms :: ep_wait_state where
  "wait_three_ms = \<lparr> ws_timeout = ep_wait_timeout_from_milliseconds 3, ws_start_ms = 7, ws_start_100ns = 0,
     ws_timeout_generation = 0, ws_precise_clock = False, ws_precise_enabled = False,
     ws_precise_attempted = False \<rparr>"

theorem wait_lock_bounded_witness:
  "wp (ep_wait_lock_acquire 4 win_contended 0 wait_three_ms) (\<lambda>r _. r \<in> {Some 1, Some 0, Some (- 1)})
     (ep_world_zero 7 \<lparr> ports := [0 \<mapsto> ep_port_zero] \<rparr>)"
proof -
  have c: "clock_spec win_contended id id 1 1"
    by (simp add: clock_spec_def call_advances_def win_contended_def win_quiet_def mono_def)
  have ms: "wt_milliseconds (ws_timeout wait_three_ms) = 3"
    by (simp add: wait_three_ms_def ep_wait_timeout_from_milliseconds_def word_sless_alt)
  show ?thesis
    by (rule wait_lock_bounded [OF c, where u = 7])
      (simp_all add: ms ep_world_zero_def, simp add: wait_three_ms_def)
qed

section \<open>Timestamps\<close>

lemma now_ns_exact:
  assumes "0 \<le> c" "0 < f" "f \<le> 18446744073" "c * 1000000000 div f < 2 ^ 64"
  shows "uint (now_ns_of c f) = c * 1000000000 div f"
proof -
  let ?G = "1000000000 :: int"
  let ?q = "c div f" and ?m = "c mod f"
  have r: "0 \<le> ?m" "?m < f" using assms(2) by simp_all
  have q: "0 \<le> ?q" using assms by (simp add: pos_imp_zdiv_nonneg_iff)
  have "c * ?G = ?m * ?G + ?q * ?G * f"
  proof -
    have "c = ?m + ?q * f" by simp
    then have "c * ?G = (?m + ?q * f) * ?G" by (rule arg_cong)
    then show ?thesis by (simp only: distrib_right mult.assoc mult.commute [of f])
  qed
  then have tot: "c * ?G div f = ?m * ?G div f + ?q * ?G" using assms(2) by simp
  have mG: "0 \<le> ?m * ?G" "?m * ?G < 2 ^ 64" using r assms(3) by simp_all
  have mf: "0 \<le> ?m * ?G div f" using mG assms(2) by (simp add: pos_imp_zdiv_nonneg_iff)
  have f: "uint (word_of_int f :: uint64) = f" using assms(2,3) by (simp add: uint_word_of_int_eq take_bit_int_eq_self)
  have "uint (word_of_int ?m * 1000000000 :: uint64) = ?m * ?G"
  proof -
    have "word_of_int ?m * 1000000000 = (word_of_int (?m * ?G) :: uint64)" by simp
    then show ?thesis using mG by (simp only: uint_word_of_int_eq take_bit_int_eq_self) (simp add: take_bit_int_eq_self)
  qed
  then have "word_of_int ?m * 1000000000 div (word_of_int f :: uint64) = word_of_int (?m * ?G div f)"
    by (simp only: word_div_def f)
  moreover have "sgn c * (\<bar>c\<bar> div f) = ?q" "sgn c * (\<bar>c\<bar> mod f) = ?m"
    using assms(1) by (cases "c = 0"; simp)+
  ultimately have "now_ns_of c f = word_of_int (?m * ?G div f + ?q * ?G)"
    by (simp add: now_ns_of_def)
  then show ?thesis using tot assms(4) mf q
    by (simp only: uint_word_of_int_eq) (simp add: take_bit_int_eq_self)
qed

text \<open>(C29) The delivery timestamp is the performance counter in nanoseconds, rounded down, with no
  intermediate overflow for any counter frequency up to 18 GHz as long as the result itself fits
  64 bits; in particular timestamps never decrease while the counter does not.\<close>

theorem timestamp_exact:
  assumes "ports s p = Some q" "win_QueryPerformanceCounter win (os_state s) = (Some c, os)"
    and "0 \<le> c" "0 < pt_qpc_frequency q" "pt_qpc_frequency q \<le> 18446744073"
    and "c * 1000000000 div pt_qpc_frequency q < 2 ^ 64"
  shows "wp (ep_now_ns win p) (\<lambda>r s'. uint r = c * 1000000000 div pt_qpc_frequency q \<and>
    s' = s \<lparr> os_state := os \<rparr>) s"
  using assms(1,2,4) now_ns_exact [OF assms(3-6)] by (simp add: ep_now_ns_def wp_simps)

theorem timestamp_exact_witness:
  "wp (ep_now_ns (win_quiet \<lparr> win_QueryPerformanceCounter := (\<lambda>os. (Some 25000001, os)) \<rparr>) 0)
     (\<lambda>r s'. uint r = 2500000100)
     (ep_world_zero () \<lparr> ports := [0 \<mapsto> ep_port_zero \<lparr> pt_qpc_frequency := 10000000 \<rparr>] \<rparr>)"
  by (rule wp_mono [OF timestamp_exact [where q = "ep_port_zero \<lparr> pt_qpc_frequency := 10000000 \<rparr>"
        and c = 25000001 and os = "()"]])
    (simp_all add: win_quiet_def)

end
