(* ===== verification/Ep_Wake.thy ===== *)
theory Ep_Wake
  imports Ep_Timeout
begin

text \<open>
  Waking a waiter, \<^verbatim>\<open>src/src/wepoll_ex_port.c\<close>: posting a packet to the completion port under the
  post lease, revoking the lease when a post fails, the coalescing request for a wake-up with an
  optional tagged event, and its consumption by a waiter.  A request takes the wake lock, releases
  it, and then posts; the two parts are separate definitions so that the interleavings of requests,
  posts and waits can be stated.
\<close>

section \<open>Posting to the completion port\<close>

abbreviation (input) EP_WAKE_NONE :: int where "EP_WAKE_NONE \<equiv> 0"
abbreviation (input) EP_WAKE_UNTAGGED :: int where "EP_WAKE_UNTAGGED \<equiv> 1"
abbreviation (input) EP_WAKE_TAGGED :: int where "EP_WAKE_TAGGED \<equiv> 2"

abbreviation (input) WEPOLL_FLAG_WAKE_EVENT :: uint32 where "WEPOLL_FLAG_WAKE_EVENT \<equiv> 8"

text \<open>The result is whether the packet was posted, and the error if it was not.\<close>

definition ep_port_post_iocp ::
  "('os, 'y) ep_win_scheme \<Rightarrow> addr \<Rightarrow> uint64 \<Rightarrow> addr option \<Rightarrow> int \<Rightarrow>
   (('os, 'z) ep_world_scheme, bool \<times> dword) state" where
  "ep_port_post_iocp win port completion_key overlapped fault_point = do {
     h \<leftarrow> port_read port pt_iocp_post_handle;
     if h = NULL_HANDLE then return (False, ERROR_INVALID_HANDLE)
     else do {
       fault \<leftarrow> ep_fault_hit fault_point;
       if fault \<noteq> 0 then return (False, ERROR_GEN_FAILURE)
       else do {
         ok \<leftarrow> syscall (win_PostQueuedCompletionStatus win h completion_key overlapped);
         if ok then return (True, 0)
         else do {
           error \<leftarrow> syscall (win_GetLastError win);
           return (False, if error = 0 then ERROR_GEN_FAILURE else error)
         }
       }
     }
   }"

text \<open>The handle the caller has to close, or the null handle.\<close>

definition ep_port_revoke_iocp_posts :: "addr \<Rightarrow> (('os, 'z) ep_world_scheme, handle) state" where
  "ep_port_revoke_iocp_posts port = do {
     h \<leftarrow> port_read port pt_iocp_post_handle;
     port_upd port (\<lambda>q. q \<lparr> pt_iocp_post_handle := NULL_HANDLE \<rparr>);
     closed \<leftarrow> port_read port pt_iocp_closed;
     port_upd port (\<lambda>q. q \<lparr> pt_iocp_closed := True \<rparr>);
     return (if closed then NULL_HANDLE else h)
   }"

definition ep_port_fail_iocp_post ::
  "('os, 'y) ep_win_scheme \<Rightarrow> addr \<Rightarrow> dword \<Rightarrow> (('os, 'z) ep_world_scheme, unit) state" where
  "ep_port_fail_iocp_post win port win_error = do {
     closing \<leftarrow> port_read port pt_closing;
     if closing then skip
     else do {
       let error = (let e = ep_winerr_to_errno win_error in if e \<le> 0 then EIO else e);
       port_upd port (\<lambda>q. if pt_iocp_post_error q = 0 then q \<lparr> pt_iocp_post_error := error \<rparr> else q);
       port_upd port (\<lambda>q. q \<lparr> pt_iocp_post_failures := pt_iocp_post_failures q + 1 \<rparr>);
       port_upd port (\<lambda>q. q \<lparr> pt_closing := True \<rparr>);
       close_handle \<leftarrow> ep_port_revoke_iocp_posts port;
       when_do (close_handle \<noteq> NULL_HANDLE)
         (do { _ \<leftarrow> syscall (win_CloseHandle win close_handle); skip })
     }
   }"

section \<open>Requesting and taking a wake-up\<close>

definition port_unusable :: "addr \<Rightarrow> (('os, 'z) ep_world_scheme, bool) state" where
  "port_unusable port = port_read port (\<lambda>q. pt_closing q \<or> pt_iocp_closed q)"

text \<open>The part of a request under the wake lock: \<open>Some r\<close> when the request returns \<open>r\<close> at once,
  \<open>None\<close> when a control packet has to be posted.\<close>

definition request_wake_locked ::
  "addr \<Rightarrow> epoll_event option \<Rightarrow> (('os, 'z) ep_world_scheme, int option) state" where
  "request_wake_locked port event = do {
     unusable \<leftarrow> port_unusable port;
     if unusable then do { ep_set_errno EBADF; return (Some (- 1)) }
     else do {
       port_upd port (\<lambda>q. q \<lparr> pt_wake_requests := pt_wake_requests q + 1 \<rparr>);
       pending_state \<leftarrow> port_read port pt_wake_pending;
       if event \<noteq> None \<and> pending_state = EP_WAKE_UNTAGGED then do {
         port_upd port (\<lambda>q. q \<lparr> pt_wake_event := the event \<rparr>);
         port_upd port (\<lambda>q. q \<lparr> pt_wake_pending := EP_WAKE_TAGGED \<rparr>);
         port_upd port (\<lambda>q. q \<lparr> pt_wake_coalesced := pt_wake_coalesced q + 1 \<rparr>);
         return (Some 0)
       }
       else if pending_state \<noteq> EP_WAKE_NONE then do {
         port_upd port (\<lambda>q. q \<lparr> pt_wake_coalesced := pt_wake_coalesced q + 1 \<rparr>);
         return (Some 0)
       }
       else do {
         (case event of None \<Rightarrow> skip | Some e \<Rightarrow> port_upd port (\<lambda>q. q \<lparr> pt_wake_event := e \<rparr>));
         port_upd port (\<lambda>q. q \<lparr> pt_wake_pending :=
           (if event \<noteq> None then EP_WAKE_TAGGED else EP_WAKE_UNTAGGED) \<rparr>);
         return None
       }
     }
   }"

text \<open>The part after the lock is released.\<close>

definition request_wake_failed ::
  "('os, 'y) ep_win_scheme \<Rightarrow> addr \<Rightarrow> dword \<Rightarrow> (('os, 'z) ep_world_scheme, int) state" where
  "request_wake_failed win port win_error = do {
     port_upd port (\<lambda>q. q \<lparr> pt_wake_pending := EP_WAKE_NONE \<rparr>);
     closing \<leftarrow> port_read port pt_closing;
     let error = (let e = if closing then EBADF else ep_winerr_to_errno win_error in
       if e = 0 then EIO else e);
     ep_port_fail_iocp_post win port win_error;
     ep_set_errno error;
     return (- 1)
   }"

definition request_wake_post :: "('os, 'y) ep_win_scheme \<Rightarrow> addr \<Rightarrow> (('os, 'z) ep_world_scheme, int) state" where
  "request_wake_post win port = do {
     (posted, win_error) \<leftarrow> ep_port_post_iocp win port 0 None EP_FAULT_IOCP_POST;
     if posted then return 0 else request_wake_failed win port win_error
   }"

definition ep_port_request_wake ::
  "('os, 'y) ep_win_scheme \<Rightarrow> addr option \<Rightarrow> epoll_event option \<Rightarrow> (('os, 'z) ep_world_scheme, int) state" where
  "ep_port_request_wake win port event = (case port of
      None \<Rightarrow> do { ep_set_errno EFAULT; return (- 1) }
    | Some p \<Rightarrow> do {
        unusable \<leftarrow> port_unusable p;
        if unusable then do { ep_set_errno EBADF; return (- 1) }
        else do {
          r \<leftarrow> request_wake_locked p event;
          (case r of Some v \<Rightarrow> return v | None \<Rightarrow> request_wake_post win p)
        }
      })"

definition ep_port_wake :: "('os, 'y) ep_win_scheme \<Rightarrow> addr option \<Rightarrow> (('os, 'z) ep_world_scheme, int) state" where
  "ep_port_wake win port = ep_port_request_wake win port None"

definition ep_port_wake_event ::
  "('os, 'y) ep_win_scheme \<Rightarrow> addr option \<Rightarrow> epoll_event option \<Rightarrow> (('os, 'z) ep_world_scheme, int) state" where
  "ep_port_wake_event win port event = (case event of
      None \<Rightarrow> do { ep_set_errno EFAULT; return (- 1) }
    | Some e \<Rightarrow> ep_port_request_wake win port (Some e))"

record epoll_event_ex =
  ex_events :: uint32
  ex_data :: epoll_data
  ex_flags :: uint32
  ex_timestamp :: uint64
  ex_user_ctx :: uint64

text \<open>What a wait call writes for one event: a basic or an extended record.\<close>

datatype wait_output = Basic_Event epoll_event | Extended_Event epoll_event_ex

text \<open>\<open>None\<close> when no wake-up was pending; otherwise the record that is delivered, if there is one.\<close>

definition ep_port_take_wake ::
  "('os, 'y) ep_win_scheme \<Rightarrow> addr \<Rightarrow> bool \<Rightarrow> (('os, 'z) ep_world_scheme, wait_output option option) state" where
  "ep_port_take_wake win port basic_events = do {
     pending_state \<leftarrow> port_read port pt_wake_pending;
     if pending_state = EP_WAKE_NONE then return None
     else do {
       event \<leftarrow> port_read port pt_wake_event;
       port_upd port (\<lambda>q. q \<lparr> pt_wake_pending := EP_WAKE_NONE \<rparr>);
       port_upd port (\<lambda>q. q \<lparr> pt_wake_returns := pt_wake_returns q + 1 \<rparr>);
       if pending_state = EP_WAKE_TAGGED then
         if basic_events then return (Some (Some (Basic_Event event)))
         else do {
           now \<leftarrow> ep_now_ns win port;
           return (Some (Some (Extended_Event \<lparr> ex_events = ev_events event, ex_data = ev_data event,
             ex_flags = WEPOLL_FLAG_WAKE_EVENT, ex_timestamp = now, ex_user_ctx = 0 \<rparr>)))
         }
       else return (Some None)
     }
   }"

section \<open>Completions of auxiliary waits\<close>

definition ep_aux_post_completion ::
  "('os, 'y) ep_win_scheme \<Rightarrow> addr \<Rightarrow> ntstatus \<Rightarrow> (('os, 'z) ep_world_scheme, int) state" where
  "ep_aux_post_completion win sock status = do {
     sock_upd sock (\<lambda>k. k \<lparr> sk_iosb_status := status \<rparr>);
     sock_upd sock (\<lambda>k. k \<lparr> sk_completion_posted := True \<rparr>);
     port \<leftarrow> sock_read sock sk_port;
     (posted, error) \<leftarrow> ep_port_post_iocp win port 0 (Some sock) EP_FAULT_AUX_POST;
     if \<not> posted then do {
       sock_upd sock (\<lambda>k. k \<lparr> sk_completion_posted := False \<rparr>);
       ep_port_fail_iocp_post win port error;
       syscall (win_SetLastError win error);
       return 0
     } else return 1
   }"

section \<open>Frames\<close>

lemma wp_return_eta: "wp (return x) Q = Q x"
  by (rule ext) (simp add: wp_simps)

lemma post_iocp_rule:
  assumes "ports s p = Some q"
    and "\<And>r s'. ports s' = ports s \<Longrightarrow> socks s' = socks s \<Longrightarrow> ep_ub s' = ep_ub s \<Longrightarrow>
      (fst r \<Longrightarrow> pt_iocp_post_handle q \<noteq> 0) \<Longrightarrow> Q r s'"
  shows "wp (ep_port_post_iocp win p key ov fp) Q s"
  using assms(1) by (auto simp: ep_port_post_iocp_def wp_simps intro!: assms(2))

text \<open>After a failed post the port is closing, the first error is kept, and a pending wake-up is
  left alone.\<close>

definition post_failed :: "ep_port \<Rightarrow> ep_port \<Rightarrow> bool" where
  "post_failed q q' \<longleftrightarrow> pt_closing q' \<and> pt_wake_pending q' = pt_wake_pending q \<and>
     (pt_iocp_post_error q \<noteq> 0 \<longrightarrow> pt_iocp_post_error q' = pt_iocp_post_error q)"

lemma fail_iocp_post_rule:
  assumes p: "ports s p = Some q"
    and Q: "\<And>s' q'. ports s' = (ports s)(p \<mapsto> q') \<Longrightarrow> socks s' = socks s \<Longrightarrow> ep_ub s' = ep_ub s \<Longrightarrow> post_failed q q' \<Longrightarrow> Q () s'"
  shows "wp (ep_port_fail_iocp_post win p err) Q s"
proof (cases "pt_closing q")
  case True
  then have "Q () s" by (intro Q [of s q]) (simp_all add: p post_failed_def fun_upd_idem)
  then show ?thesis using True p by (simp add: ep_port_fail_iocp_post_def wp_simps)
next
  case False
  let ?e = "let e = ep_winerr_to_errno err in if e \<le> 0 then EIO else e"
  let ?q = "q \<lparr> pt_iocp_post_error := (if pt_iocp_post_error q = 0 then ?e else pt_iocp_post_error q),
       pt_iocp_post_failures := pt_iocp_post_failures q + 1, pt_closing := True,
       pt_iocp_post_handle := 0, pt_iocp_closed := True \<rparr>"
  have f: "post_failed q ?q" by (simp add: post_failed_def)
  have q: "Q () s'" if "ports s' = (ports s)(p \<mapsto> ?q)" "socks s' = socks s" "ep_ub s' = ep_ub s" for s'
    by (rule Q [OF that f])
  show ?thesis
    unfolding ep_port_fail_iocp_post_def ep_port_revoke_iocp_posts_def using False p
    by (simp add: wp_simps Let_def) (intro conjI impI; rule q; simp add: Let_def)
qed

section \<open>Interleavings\<close>

text \<open>A configuration of the wake-up protocol of a port: the program state, the number of requests
  that released the wake lock and have yet to post, the control packets in the completion port, and
  the waiters that dequeued one and have yet to look at the request.\<close>

type_synonym ('os, 'z) wake_config = "('os, 'z) ep_world_scheme \<times> nat \<times> nat \<times> nat"

inductive wake_step ::
  "('os, 'y) ep_win_scheme \<Rightarrow> addr \<Rightarrow> ('os, 'z) wake_config \<Rightarrow> ('os, 'z) wake_config \<Rightarrow> bool"
  for win p where
  wake_request:
    "run_state (request_wake_locked p event) s = (r, s') \<Longrightarrow>
     wake_step win p (s, posting, packets, woken)
       (s', if r = None then Suc posting else posting, packets, woken)"
| wake_post:
    "run_state (request_wake_post win p) s = (r, s') \<Longrightarrow>
     wake_step win p (s, Suc posting, packets, woken)
       (s', posting, if r = 0 then Suc packets else packets, woken)"
| wake_dequeue:
    "wake_step win p (s, posting, Suc packets, woken) (s, posting, packets, Suc woken)"
| wake_take:
    "run_state (ep_port_take_wake win p basic) s = (r, s') \<Longrightarrow>
     wake_step win p (s, posting, packets, Suc woken) (s', posting, packets, woken)"
| wake_poll:
    "run_state (ep_port_take_wake win p basic) s = (r, s') \<Longrightarrow>
     wake_step win p (s, posting, packets, woken) (s', posting, packets, woken)"

inductive_cases wake_stepE: "wake_step win p c c'"

text \<open>A pending request is covered by a post to come, a packet or a waiter on its way, and every
  request was coalesced, has returned from a wait, or is pending; a failed post closes the port.\<close>

definition wake_inv :: "addr \<Rightarrow> ('os, 'z) wake_config \<Rightarrow> bool" where
  "wake_inv p c = (case c of (s, posting, packets, woken) \<Rightarrow>
     (\<exists>q. ports s p = Some q \<and> pt_wake_pending q \<in> {EP_WAKE_NONE, EP_WAKE_UNTAGGED, EP_WAKE_TAGGED} \<and>
       (pt_wake_pending q \<noteq> EP_WAKE_NONE \<longrightarrow> 0 < posting + packets + woken) \<and>
       (\<not> pt_closing q \<longrightarrow> pt_wake_requests q =
          pt_wake_coalesced q + pt_wake_returns q + of_bool (pt_wake_pending q \<noteq> EP_WAKE_NONE)) \<and>
       \<not> ep_ub s))"

lemma wp_run: "wp m Q s \<Longrightarrow> run_state m s = (r, s') \<Longrightarrow> Q r s'"
  by (simp add: wp_def exec_def result_of_def)

lemma wake_invI:
  assumes "ports s p = Some q" "pt_wake_pending q \<in> {0, 1, 2}" "pt_wake_pending q \<noteq> 0 \<Longrightarrow> 0 < n + k + w"
    and "\<not> pt_closing q \<Longrightarrow> pt_wake_requests q =
      pt_wake_coalesced q + pt_wake_returns q + of_bool (pt_wake_pending q \<noteq> 0)"
    and "\<not> ep_ub s"
  shows "wake_inv p (s, n, k, w)"
  using assms by (simp add: wake_inv_def)

lemma wake_invE:
  assumes "wake_inv p (s, n, k, w)"
  obtains q where "ports s p = Some q" "pt_wake_pending q \<in> {0, 1, 2}" "pt_wake_pending q \<noteq> 0 \<longrightarrow> 0 < n + k + w"
    "\<not> pt_closing q \<longrightarrow> pt_wake_requests q =
      pt_wake_coalesced q + pt_wake_returns q + of_bool (pt_wake_pending q \<noteq> 0)"
    "\<not> ep_ub s"
  using assms by (auto simp: wake_inv_def)

lemma request_wake_wp:
  assumes "ports s p = Some q" "\<not> pt_closing q" "\<not> pt_iocp_closed q"
  shows "pt_wake_pending q = 0 \<Longrightarrow> wp (request_wake_locked p None) Q s = Q None (s \<lparr> ports := (ports s)(p \<mapsto>
      q \<lparr> pt_wake_requests := pt_wake_requests q + 1, pt_wake_pending := 1 \<rparr>) \<rparr>)"
    and "pt_wake_pending q = 0 \<Longrightarrow> wp (request_wake_locked p (Some e)) Q s = Q None (s \<lparr> ports := (ports s)(p \<mapsto>
      q \<lparr> pt_wake_requests := pt_wake_requests q + 1, pt_wake_event := e, pt_wake_pending := 2 \<rparr>) \<rparr>)"
    and "pt_wake_pending q = 1 \<Longrightarrow> wp (request_wake_locked p (Some e)) Q s = Q (Some 0) (s \<lparr> ports := (ports s)(p \<mapsto>
      q \<lparr> pt_wake_requests := pt_wake_requests q + 1, pt_wake_event := e, pt_wake_pending := 2,
        pt_wake_coalesced := pt_wake_coalesced q + 1 \<rparr>) \<rparr>)"
    and "pt_wake_pending q \<noteq> 0 \<Longrightarrow> wp (request_wake_locked p None) Q s = Q (Some 0) (s \<lparr> ports := (ports s)(p \<mapsto>
      q \<lparr> pt_wake_requests := pt_wake_requests q + 1, pt_wake_coalesced := pt_wake_coalesced q + 1 \<rparr>) \<rparr>)"
    and "pt_wake_pending q \<noteq> 0 \<Longrightarrow> pt_wake_pending q \<noteq> 1 \<Longrightarrow>
      wp (request_wake_locked p (Some e)) Q s = Q (Some 0) (s \<lparr> ports := (ports s)(p \<mapsto>
      q \<lparr> pt_wake_requests := pt_wake_requests q + 1, pt_wake_coalesced := pt_wake_coalesced q + 1 \<rparr>) \<rparr>)"
  using assms by (simp_all add: request_wake_locked_def port_unusable_def wp_simps)

lemma wake_count: "a = b + c + (1 :: uint64) \<Longrightarrow> a + 1 = b + 1 + c + 1"
  by simp

lemma wake_request_inv:
  assumes "wake_inv p (s, n, k, w)"
  shows "wp (request_wake_locked p event) (\<lambda>r s'. wake_inv p (s', if r = None then Suc n else n, k, w)) s"
  using assms
proof (rule wake_invE)
  fix q
  assume q: "ports s p = Some q" "pt_wake_pending q \<in> {0, 1, 2}" "pt_wake_pending q \<noteq> 0 \<longrightarrow> 0 < n + k + w"
    "\<not> pt_closing q \<longrightarrow> pt_wake_requests q =
      pt_wake_coalesced q + pt_wake_returns q + of_bool (pt_wake_pending q \<noteq> 0)" "\<not> ep_ub s"
  show ?thesis
  proof (cases "pt_closing q \<or> pt_iocp_closed q")
    case True
    then show ?thesis using q(1) assms
      by (simp add: request_wake_locked_def port_unusable_def wp_simps ep_set_errno_def wake_inv_def)
  next
    case False
    then have u: "\<not> pt_closing q" "\<not> pt_iocp_closed q" by simp_all
    have inv: "wake_inv p (s \<lparr> ports := (ports s)(p \<mapsto> q') \<rparr>, m, k, w)"
      if "pt_wake_pending q' \<in> {1, 2}" "0 < m + k + w"
        "pt_wake_requests q' = pt_wake_coalesced q' + pt_wake_returns q' + 1" for q' m
      using that q(5) by (intro wake_invI [where q = q']) auto
    note W = request_wake_wp [OF q(1) u]
    show ?thesis
    proof (cases "pt_wake_pending q = 0")
      case True
      have "pt_wake_requests q + 1 = pt_wake_coalesced q + pt_wake_returns q + 1" using q(4) u True by simp
      then show ?thesis by (cases event; simp only: W(1) [OF True] W(2) [OF True] if_True simp_thms)
          (rule inv; simp)+
    next
      case pending: False
      then have c: "pt_wake_requests q + 1 = pt_wake_coalesced q + 1 + pt_wake_returns q + 1"
        using q(4) u by (intro wake_count) simp
      have pos: "0 < n + k + w" using q(3) pending by blast
      show ?thesis
      proof (cases "event = None \<or> pt_wake_pending q \<noteq> 1")
        case True
        have "wake_inv p (s \<lparr> ports := (ports s)(p \<mapsto> q \<lparr> pt_wake_requests := pt_wake_requests q + 1,
            pt_wake_coalesced := pt_wake_coalesced q + 1 \<rparr>) \<rparr>, n, k, w)"
          by (rule inv) (use q(2) pending c pos in auto)
        then show ?thesis using True by (cases event) (simp_all only: W(4,5) pending option.simps if_False simp_thms)
      next
        case False
        then obtain e where "event = Some e" "pt_wake_pending q = 1" by (cases event) auto
        then show ?thesis using c pos by (simp only: W(3) option.simps if_False) (rule inv; simp)
      qed
    qed
  qed
qed

lemma now_ns_rule:
  assumes "ports s p = Some q" "Q 0 s" "\<And>v os. Q v (s \<lparr> os_state := os \<rparr>)"
  shows "wp (ep_now_ns win p) Q s"
  using assms by (simp add: ep_now_ns_def wp_simps split: option.split)

lemma wake_take_inv:
  assumes "wake_inv p (s, n, k, w)"
  shows "wp (ep_port_take_wake win p basic) (\<lambda>r s'. wake_inv p (s', n, k, w) \<and> wake_inv p (s', n, k, w - 1)) s"
  using assms
proof (rule wake_invE)
  fix q
  assume q: "ports s p = Some q" "pt_wake_pending q \<in> {0, 1, 2}" "pt_wake_pending q \<noteq> 0 \<longrightarrow> 0 < n + k + w"
    "\<not> pt_closing q \<longrightarrow> pt_wake_requests q =
      pt_wake_coalesced q + pt_wake_returns q + of_bool (pt_wake_pending q \<noteq> 0)" "\<not> ep_ub s"
  show ?thesis
  proof (cases "pt_wake_pending q = 0")
    case True
    then show ?thesis using q by (simp add: ep_port_take_wake_def wp_simps) (simp add: wake_inv_def)
  next
    case False
    have inv: "wake_inv p (s', n, k, w)" if "ports s' p = Some (q \<lparr> pt_wake_pending := 0, pt_wake_returns := pt_wake_returns q + 1 \<rparr>)"
        "\<not> ep_ub s'" for s' and w
      using that False q(4) by (simp add: wake_inv_def)
    let ?q = "q \<lparr> pt_wake_pending := 0, pt_wake_returns := pt_wake_returns q + 1 \<rparr>"
    let ?s = "s \<lparr> ports := (ports s)(p \<mapsto> ?q) \<rparr>"
    have now: "wp (ep_now_ns win p) (\<lambda>_ s'. wake_inv p (s', n, k, w) \<and> wake_inv p (s', n, k, w - 1)) ?s"
      by (rule now_ns_rule [where q = ?q]) (use q(5) in \<open>auto intro!: inv\<close>)
    have here: "wake_inv p (?s, n, k, w) \<and> wake_inv p (?s, n, k, w - 1)"
      using q(5) by (auto intro!: inv)
    show ?thesis
    proof (cases "pt_wake_pending q = 2")
      case True
      then show ?thesis using q(1) now here by (cases basic) (simp_all add: ep_port_take_wake_def wp_simps wp_return_eta)
    next
      case tagged: False
      then show ?thesis using False q(1) here by (simp add: ep_port_take_wake_def wp_simps)
    qed
  qed
qed

lemma wake_failed_inv:
  assumes p: "ports s p = Some q" and u: "\<not> ep_ub s"
  shows "wp (request_wake_failed win p err) (\<lambda>r s'. r = - 1 \<and> wake_inv p (s', n, k, w)) s"
proof -
  let ?q = "q \<lparr> pt_wake_pending := EP_WAKE_NONE \<rparr>"
  let ?s = "s \<lparr> ports := (ports s)(p \<mapsto> ?q) \<rparr>"
  have fail: "wp (ep_port_fail_iocp_post win p err) (\<lambda>_. wp (do { ep_set_errno e; return (- 1) })
      (\<lambda>r s'. r = - 1 \<and> wake_inv p (s', n, k, w))) ?s" for e
  proof (rule fail_iocp_post_rule [where q = ?q])
    fix s2 q2
    assume h: "ports s2 = (ports ?s)(p \<mapsto> q2)" "ep_ub s2 = ep_ub ?s" "post_failed ?q q2"
    have "pt_closing q2" "pt_wake_pending q2 = 0" using h(3) by (simp_all add: post_failed_def)
    then show "wp (do { ep_set_errno e; return (- 1) }) (\<lambda>r s'. r = - 1 \<and> wake_inv p (s', n, k, w)) s2"
      using h(1,2) u by (simp add: wp_simps ep_set_errno_def wake_inv_def)
  qed simp
  show ?thesis using p unfolding request_wake_failed_def wp_bind
    by (simp add: wp_port_upd wp_port_read wp_let Let_def wp_bind) (intro conjI impI fail)
qed

lemma wake_post_inv:
  fixes s :: "('os, 'z) ep_world_scheme" and win :: "('os, 'y) ep_win_scheme"
  assumes "wake_inv p (s, Suc n, k, w)"
  shows "wp (request_wake_post win p) (\<lambda>r s'. wake_inv p (s', n, if r = 0 then Suc k else k, w)) s"
  using assms
proof (rule wake_invE)
  fix q
  assume q: "ports s p = Some q" "pt_wake_pending q \<in> {0, 1, 2}"
    "\<not> pt_closing q \<longrightarrow> pt_wake_requests q =
      pt_wake_coalesced q + pt_wake_returns q + of_bool (pt_wake_pending q \<noteq> 0)" "\<not> ep_ub s"
  show ?thesis
    unfolding request_wake_post_def wp_bind
  proof (rule post_iocp_rule [OF q(1)])
    fix r :: "bool \<times> dword" and s1 :: "('os, 'z) ep_world_scheme"
    assume h: "ports s1 = ports s" "ep_ub s1 = ep_ub s"
    obtain posted err where r: "r = (posted, err)" by (cases r)
    have ok: "wake_inv p (s1, n, Suc k, w)"
      by (rule wake_invI [where q = q]) (use q h in simp_all)
    have "wp (request_wake_failed win p err) (\<lambda>r s'. wake_inv p (s', n, if r = 0 then Suc k else k, w)) s1"
      by (rule wp_mono [OF wake_failed_inv [where q = q]]) (use q h in auto)
    with ok show "wp (case r of (posted, win_error) \<Rightarrow> if posted then return 0 else request_wake_failed win p win_error)
       (\<lambda>r s'. wake_inv p (s', n, if r = 0 then Suc k else k, w)) s1"
      using r by (cases posted) (simp_all add: wp_return)
  qed
qed

lemma wake_step_inv:
  assumes "wake_step win p c c'" "wake_inv p c"
  shows "wake_inv p c'"
  using assms
proof (induction rule: wake_step.induct)
  case (wake_request event s r s' posting packets woken)
  then show ?case using wp_run [OF wake_request_inv] by blast
next
  case (wake_post s r s' posting packets woken)
  then show ?case using wp_run [OF wake_post_inv] by blast
next
  case (wake_dequeue s posting packets woken)
  then show ?case by (auto simp: wake_inv_def)
next
  case (wake_take basic s r s' posting packets woken)
  from wp_run [OF wake_take_inv [OF wake_take.prems] wake_take.hyps] show ?case by simp
next
  case (wake_poll basic s r s' posting packets woken)
  from wp_run [OF wake_take_inv [OF wake_poll.prems] wake_poll.hyps] show ?case by simp
qed


text \<open>A port with an open completion port, a request, and its post.\<close>

definition wake_demo :: "unit ep_world" where
  "wake_demo = ep_world_zero () \<lparr> ports := [0 \<mapsto> ep_port_zero \<lparr> pt_iocp_post_handle := 9 \<rparr>] \<rparr>"


end
