(* ===== verification/Ep_Api.thy ===== *)
theory Ep_Api
  imports Ep_Wake
begin

text \<open>
  The public calls, \<^verbatim>\<open>src/src/wepoll_ex_api.c\<close>: the table from virtual epoll descriptors to shared
  instances with its reference and alias counts, the argument checks and dispatch of the control and
  wait calls, and the two-phase close.  The operations on a port that a call dispatches to are an
  argument, a record of functions; the descriptor lock makes each of its regions one step.
\<close>

section \<open>State\<close>

record epfd_shared =
  es_port :: addr
  es_refs :: uint32
  es_aliases :: uint32
  es_closing :: bool
  es_detached :: bool
  es_refs_drained_event :: handle

text \<open>An entry of a bucket is a descriptor with the shared instance it names; a bucket is the chain
  of its entries, from the head.\<close>

type_synonym epfd_entry = "int \<times> addr"

record 'os ep_api_world = "'os ep_world" +
  g_epfd_buckets :: "nat \<Rightarrow> epfd_entry list"
  g_next_fd :: int
  epfd_shareds :: "addr \<Rightarrow> epfd_shared option"
  epfd_next_addr :: addr
  g_api_close_timeout_ms :: uint32
  g_api_close_timeout_count :: uint64
  g_api_deferred_destroy_count :: uint64

record 'os ep_api_sys = "'os ep_win" +
  api_CreateEventW :: "'os \<Rightarrow> handle \<times> 'os"
  api_SetEvent :: "handle \<Rightarrow> 'os \<Rightarrow> bool \<times> 'os"
  api_WaitForSingleObject :: "handle \<Rightarrow> uint32 \<Rightarrow> 'os \<Rightarrow> dword \<times> 'os"
  api_closesocket :: "sock_fd \<Rightarrow> 'os \<Rightarrow> bool \<times> 'os"
  api_WSAGetLastError :: "'os \<Rightarrow> dword \<times> 'os"

text \<open>The operations of a port.\<close>

datatype ep_target_validation = EP_TARGET_VALIDATE_ADD | EP_TARGET_VALIDATE_CONTROL

record ('w, 's) ep_port_ops =
  op_global_init :: "('w, int) state"
  op_create :: "int \<Rightarrow> uint32 \<Rightarrow> ('w, addr option) state"
  op_begin_close :: "addr \<Rightarrow> ('w, unit) state"
  op_destroy :: "addr \<Rightarrow> ('w, int) state"
  op_validate_target :: "addr \<Rightarrow> sock_fd \<Rightarrow> ep_target_validation \<Rightarrow> ('w, int) state"
  op_register :: "addr \<Rightarrow> sock_fd \<Rightarrow> uint32 \<Rightarrow> uint32 \<Rightarrow> epoll_data \<Rightarrow> uint64 \<Rightarrow> ('w, int) state"
  op_modify :: "addr \<Rightarrow> sock_fd \<Rightarrow> uint32 \<Rightarrow> uint32 \<Rightarrow> epoll_data \<Rightarrow> uint64 \<Rightarrow> ('w, int) state"
  op_unregister :: "addr \<Rightarrow> sock_fd \<Rightarrow> ('w, int) state"
  op_wait :: "addr \<Rightarrow> int \<Rightarrow> ep_wait_timeout \<Rightarrow> 's \<Rightarrow> ('w, int \<times> wait_output list) state"
  op_wait_basic :: "addr \<Rightarrow> int \<Rightarrow> ep_wait_timeout \<Rightarrow> 's \<Rightarrow> ('w, int \<times> wait_output list) state"
  op_rearm :: "addr \<Rightarrow> sock_fd \<Rightarrow> ('w, int) state"
  op_rearm_classes :: "addr \<Rightarrow> sock_fd \<Rightarrow> uint32 \<Rightarrow> ('w, int) state"
  op_rearm_classes_batch :: "addr \<Rightarrow> (sock_fd \<times> uint32) list \<Rightarrow> ('w, int \<times> int list) state"
  op_shutdown_socket :: "addr \<Rightarrow> sock_fd \<Rightarrow> int \<Rightarrow> ('w, int) state"

type_synonym ('os, 'z, 's) port_ops = "(('os, 'z) ep_api_world_scheme, 's) ep_port_ops"

abbreviation (input) EPFD_BUCKET_COUNT :: nat where "EPFD_BUCKET_COUNT \<equiv> 64"
abbreviation (input) INT_MAX :: int where "INT_MAX \<equiv> 2147483647"
abbreviation (input) EPOLL_FD_INVALID :: sock_fd where "EPOLL_FD_INVALID \<equiv> - 1"
abbreviation (input) EPOLL_CTL_ADD :: int where "EPOLL_CTL_ADD \<equiv> 1"
abbreviation (input) EPOLL_CTL_DEL :: int where "EPOLL_CTL_DEL \<equiv> 2"
abbreviation (input) EPOLL_CTL_MOD :: int where "EPOLL_CTL_MOD \<equiv> 3"
abbreviation (input) EPOLL_CLOEXEC :: uint32 where "EPOLL_CLOEXEC \<equiv> 0x80000"
abbreviation (input) WEPOLL_EX_CREATE_EXPLICIT_REARM :: uint32 where "WEPOLL_EX_CREATE_EXPLICIT_REARM \<equiv> 0x1000000"
abbreviation (input) WEPOLL_EX_REARM_ALL :: uint32 where "WEPOLL_EX_REARM_ALL \<equiv> 7"

section \<open>The descriptor table\<close>

definition shared_upd :: "addr \<Rightarrow> (epfd_shared \<Rightarrow> epfd_shared) \<Rightarrow> (('os, 'z) ep_api_world_scheme, unit) state" where
  "shared_upd h f = modify (\<lambda>s. case epfd_shareds s h of
      None \<Rightarrow> s \<lparr> ep_ub := True \<rparr>
    | Some sh \<Rightarrow> s \<lparr> epfd_shareds := (epfd_shareds s)(h \<mapsto> f sh) \<rparr>)"

definition shared_read :: "addr \<Rightarrow> (epfd_shared \<Rightarrow> 'a) \<Rightarrow> (('os, 'z) ep_api_world_scheme, 'a) state" where
  "shared_read h f = do {
     ok \<leftarrow> gets (\<lambda>s. epfd_shareds s h \<noteq> None);
     when_do (\<not> ok) bad_access;
     gets (\<lambda>s. f (the (epfd_shareds s h)))
   }"

text \<open>Releasing a block; releasing one that is not live is a bad access.\<close>

definition shared_free :: "addr \<Rightarrow> (('os, 'z) ep_api_world_scheme, unit) state" where
  "shared_free h = modify (\<lambda>s. case epfd_shareds s h of
      None \<Rightarrow> s \<lparr> ep_ub := True \<rparr>
    | Some _ \<Rightarrow> s \<lparr> epfd_shareds := (epfd_shareds s)(h := None) \<rparr>)"

definition epfd_bucket :: "int \<Rightarrow> nat" where
  "epfd_bucket fd = unat (word_of_int fd :: uint32) mod EPFD_BUCKET_COUNT"

definition epfd_lookup :: "(nat \<Rightarrow> epfd_entry list) \<Rightarrow> int \<Rightarrow> epfd_entry option" where
  "epfd_lookup B fd = (if fd \<le> 0 then None else List.find (\<lambda>e. fst e = fd) (B (epfd_bucket fd)))"

definition epfd_find_locked :: "int \<Rightarrow> (('os, 'z) ep_api_world_scheme, epfd_entry option) state" where
  "epfd_find_locked fd = gets (\<lambda>s. epfd_lookup (g_epfd_buckets s) fd)"

primrec allocate_id_loop :: "nat \<Rightarrow> (('os, 'z) ep_api_world_scheme, int) state" where
  "allocate_id_loop 0 = return (- 1)"
| "allocate_id_loop (Suc attempts) = do {
     candidate \<leftarrow> gets g_next_fd;
     modify (\<lambda>s. s \<lparr> g_next_fd := (if g_next_fd s = INT_MAX then 1 else g_next_fd s + 1) \<rparr>);
     e \<leftarrow> epfd_find_locked candidate;
     if candidate > 0 \<and> e = None then return candidate
     else allocate_id_loop attempts
   }"

definition epfd_allocate_id_locked :: "(('os, 'z) ep_api_world_scheme, int) state" where
  "epfd_allocate_id_locked = allocate_id_loop (nat INT_MAX)"

definition epfd_insert_locked :: "int \<Rightarrow> addr \<Rightarrow> (('os, 'z) ep_api_world_scheme, unit) state" where
  "epfd_insert_locked fd h = modify (\<lambda>s. s \<lparr> g_epfd_buckets := (g_epfd_buckets s)
     (epfd_bucket fd := (fd, h) # g_epfd_buckets s (epfd_bucket fd)) \<rparr>)"

definition epfd_unlink_locked :: "epfd_entry \<Rightarrow> (('os, 'z) ep_api_world_scheme, unit) state" where
  "epfd_unlink_locked e = modify (\<lambda>s. s \<lparr> g_epfd_buckets := (g_epfd_buckets s)
     (epfd_bucket (fst e) := remove1 e (g_epfd_buckets s (epfd_bucket (fst e)))) \<rparr>)"

definition epfd_alloc :: "('os, 'y) ep_api_sys_scheme \<Rightarrow> addr \<Rightarrow> (('os, 'z) ep_api_world_scheme, int) state" where
  "epfd_alloc sys port = do {
     ok \<leftarrow> syscall (sys_malloc sys 32);
     if \<not> ok then do { ep_set_errno ENOMEM; return (- 1) }
     else do {
       ok' \<leftarrow> syscall (sys_malloc sys 24);
       if \<not> ok' then do { ep_set_errno ENOMEM; return (- 1) }
       else do {
         event \<leftarrow> syscall (api_CreateEventW sys);
         if event = NULL_HANDLE then do {
           error \<leftarrow> syscall (win_GetLastError sys);
           ep_set_win32_error error;
           return (- 1)
         } else do {
           h \<leftarrow> gets epfd_next_addr;
           modify (\<lambda>s. s \<lparr> epfd_next_addr := h + 1,
             epfd_shareds := (epfd_shareds s)(h \<mapsto> \<lparr> es_port = port, es_refs = 0, es_aliases = 1,
               es_closing = False, es_detached = False, es_refs_drained_event = event \<rparr>) \<rparr>);
           fd \<leftarrow> epfd_allocate_id_locked;
           when_do (fd > 0) (epfd_insert_locked fd h);
           when_do (fd < 0) (do {
             _ \<leftarrow> syscall (win_CloseHandle sys event);
             shared_free h;
             ep_set_errno EMFILE
           });
           return fd
         }
       }
     }
   }"

definition epfd_duplicate :: "('os, 'y) ep_api_sys_scheme \<Rightarrow> int \<Rightarrow> (('os, 'z) ep_api_world_scheme, int) state" where
  "epfd_duplicate sys fd = do {
     ok \<leftarrow> syscall (sys_malloc sys 24);
     if \<not> ok then do { ep_set_errno ENOMEM; return (- 1) }
     else do {
       source \<leftarrow> epfd_find_locked fd;
       (case source of
         None \<Rightarrow> do { ep_set_errno EBADF; return (- 1) }
       | Some (_, h) \<Rightarrow> do {
           closing \<leftarrow> shared_read h es_closing;
           if closing then do { ep_set_errno EBADF; return (- 1) }
           else do {
             duplicate_fd \<leftarrow> epfd_allocate_id_locked;
             when_do (duplicate_fd > 0) (do {
               shared_upd h (\<lambda>sh. sh \<lparr> es_aliases := es_aliases sh + 1 \<rparr>);
               epfd_insert_locked duplicate_fd h
             });
             when_do (duplicate_fd < 0) (ep_set_errno EMFILE);
             return duplicate_fd
           }
         })
     }
   }"

definition epfd_acquire :: "int \<Rightarrow> (('os, 'z) ep_api_world_scheme, addr option) state" where
  "epfd_acquire fd = do {
     entry \<leftarrow> epfd_find_locked fd;
     (case entry of
       None \<Rightarrow> return None
     | Some (_, h) \<Rightarrow> do {
         closing \<leftarrow> shared_read h es_closing;
         if closing then return None
         else do {
           shared_upd h (\<lambda>sh. sh \<lparr> es_refs := es_refs sh + 1 \<rparr>);
           return (Some h)
         }
       })
   }"

definition epfd_require :: "int \<Rightarrow> (('os, 'z) ep_api_world_scheme, addr option) state" where
  "epfd_require fd = do {
     shared \<leftarrow> epfd_acquire fd;
     when_do (shared = None) (ep_set_errno EBADF);
     return shared
   }"

definition epfd_destroy ::
  "('os, 'y) ep_api_sys_scheme \<Rightarrow> ('os, 'z, 's) port_ops \<Rightarrow> addr \<Rightarrow> (('os, 'z) ep_api_world_scheme, int) state" where
  "epfd_destroy sys ops h = do {
     port \<leftarrow> shared_read h es_port;
     r \<leftarrow> op_destroy ops port;
     saved_error \<leftarrow> ep_get_last_error_info;
     event \<leftarrow> shared_read h es_refs_drained_event;
     _ \<leftarrow> syscall (win_CloseHandle sys event);
     shared_free h;
     when_do (r \<noteq> 0) (ep_restore_last_error_info saved_error);
     return r
   }"

text \<open>The region of \<open>epfd_put\<close> under the descriptor lock: whether the caller has to destroy.\<close>

definition epfd_put_locked :: "('os, 'y) ep_api_sys_scheme \<Rightarrow> addr \<Rightarrow> (('os, 'z) ep_api_world_scheme, bool) state" where
  "epfd_put_locked sys h = do {
     shared_upd h (\<lambda>sh. if es_refs sh > 0 then sh \<lparr> es_refs := es_refs sh - 1 \<rparr> else sh);
     drained \<leftarrow> shared_read h (\<lambda>sh. es_closing sh \<and> es_refs sh = 0);
     if drained then do {
       detached \<leftarrow> shared_read h es_detached;
       if detached then return True
       else do {
         event \<leftarrow> shared_read h es_refs_drained_event;
         _ \<leftarrow> syscall (api_SetEvent sys event);
         return False
       }
     } else return False
   }"

definition epfd_put ::
  "('os, 'y) ep_api_sys_scheme \<Rightarrow> ('os, 'z, 's) port_ops \<Rightarrow> addr \<Rightarrow> (('os, 'z) ep_api_world_scheme, unit) state" where
  "epfd_put sys ops h = do {
     destroy \<leftarrow> epfd_put_locked sys h;
     when_do destroy (do {
       operation_errno \<leftarrow> ep_last_err;
       operation_error \<leftarrow> ep_get_last_error_info;
       r \<leftarrow> epfd_destroy sys ops h;
       when_do (r = 0) (modify (\<lambda>s. s \<lparr> g_api_deferred_destroy_count := g_api_deferred_destroy_count s + 1 \<rparr>));
       ep_restore_last_error_info operation_error;
       modify (\<lambda>s. s \<lparr> ep_errno := operation_errno \<rparr>)
     })
   }"

section \<open>Creating an instance\<close>

definition epoll_create_ex ::
  "('os, 'y) ep_api_sys_scheme \<Rightarrow> ('os, 'z, 's) port_ops \<Rightarrow> int \<Rightarrow> uint32 \<Rightarrow> (('os, 'z) ep_api_world_scheme, int) state" where
  "epoll_create_ex sys ops sz flags =
     (if sz < 0 \<or> flags AND NOT (EPOLL_CLOEXEC OR WEPOLL_EX_CREATE_EXPLICIT_REARM) \<noteq> 0
      then do { ep_set_errno EINVAL; return (- 1) }
      else do {
        r \<leftarrow> op_global_init ops;
        if r \<noteq> 0 then return (- 1)
        else do {
          created \<leftarrow> op_create ops sz flags;
          (case created of
            None \<Rightarrow> return (- 1)
          | Some port \<Rightarrow> do {
              fd \<leftarrow> epfd_alloc sys port;
              when_do (fd < 0) (do {
                saved_error \<leftarrow> ep_get_last_error_info;
                op_begin_close ops port;
                _ \<leftarrow> op_destroy ops port;
                ep_restore_last_error_info saved_error
              });
              return fd
            })
        }
      })"

definition epoll_create ::
  "('os, 'y) ep_api_sys_scheme \<Rightarrow> ('os, 'z, 's) port_ops \<Rightarrow> int \<Rightarrow> (('os, 'z) ep_api_world_scheme, int) state" where
  "epoll_create sys ops sz =
     (if sz \<le> 0 then do { ep_set_errno EINVAL; return (- 1) } else epoll_create_ex sys ops 0 0)"

definition epoll_create1 ::
  "('os, 'y) ep_api_sys_scheme \<Rightarrow> ('os, 'z, 's) port_ops \<Rightarrow> uint32 \<Rightarrow> (('os, 'z) ep_api_world_scheme, int) state" where
  "epoll_create1 sys ops flags =
     (if flags AND NOT EPOLL_CLOEXEC \<noteq> 0 then do { ep_set_errno EINVAL; return (- 1) }
      else epoll_create_ex sys ops 0 flags)"

section \<open>Control calls\<close>

definition epoll_ctl_port ::
  "('os, 'z, 's) port_ops \<Rightarrow> addr \<Rightarrow> int \<Rightarrow> sock_fd \<Rightarrow> epoll_event option \<Rightarrow> uint64 \<Rightarrow>
   (('os, 'z) ep_api_world_scheme, int) state" where
  "epoll_ctl_port ops port op fd event user_ctx =
     (if fd = EPOLL_FD_INVALID then do { ep_set_errno EBADF; return (- 1) }
      else if op = EPOLL_CTL_ADD then (case event of
          None \<Rightarrow> do { ep_set_errno EFAULT; return (- 1) }
        | Some ev \<Rightarrow> do {
            refused \<leftarrow> (if ev_events ev AND EPOLLEXCLUSIVE \<noteq> 0 then do {
                v \<leftarrow> op_validate_target ops port fd EP_TARGET_VALIDATE_ADD;
                if v \<noteq> 0 then return True
                else if ev_events ev AND NOT (EPOLLIN OR EPOLLOUT OR EPOLLWAKEUP OR EPOLLET OR
                    EPOLLERR OR EPOLLHUP OR EPOLLEXCLUSIVE) \<noteq> 0
                then do { ep_set_errno EINVAL; return True }
                else return False
              } else return False);
            if refused then return (- 1)
            else op_register ops port fd (ev_events ev)
              (ev_events ev AND (EPOLLONESHOT OR EPOLLEXCLUSIVE OR EPOLLET)) (ev_data ev) user_ctx
          })
      else if op = EPOLL_CTL_MOD then (case event of
          None \<Rightarrow> do { ep_set_errno EFAULT; return (- 1) }
        | Some ev \<Rightarrow>
            if ev_events ev AND EPOLLEXCLUSIVE \<noteq> 0 then do {
              v \<leftarrow> op_validate_target ops port fd EP_TARGET_VALIDATE_CONTROL;
              when_do (v = 0) (ep_set_errno EINVAL);
              return (- 1)
            } else op_modify ops port fd (ev_events ev)
              (ev_events ev AND (EPOLLONESHOT OR EPOLLET)) (ev_data ev) user_ctx)
      else if op = EPOLL_CTL_DEL then op_unregister ops port fd
      else do {
        v \<leftarrow> op_validate_target ops port fd EP_TARGET_VALIDATE_CONTROL;
        when_do (v = 0) (ep_set_errno EINVAL);
        return (- 1)
      })"

text \<open>A call on the port behind a descriptor, under a reference that is given back after it.\<close>

definition with_epfd ::
  "('os, 'y) ep_api_sys_scheme \<Rightarrow> ('os, 'z, 's) port_ops \<Rightarrow> int \<Rightarrow> 'a \<Rightarrow>
   (addr \<Rightarrow> (('os, 'z) ep_api_world_scheme, 'a) state) \<Rightarrow> (('os, 'z) ep_api_world_scheme, 'a) state" where
  "with_epfd sys ops epfd failed body = do {
     entry \<leftarrow> epfd_require epfd;
     (case entry of
       None \<Rightarrow> return failed
     | Some h \<Rightarrow> do {
         port \<leftarrow> shared_read h es_port;
         r \<leftarrow> body port;
         epfd_put sys ops h;
         return r
       })
   }"

definition epoll_ctl_ctx ::
  "('os, 'y) ep_api_sys_scheme \<Rightarrow> ('os, 'z, 's) port_ops \<Rightarrow> int \<Rightarrow> int \<Rightarrow> sock_fd \<Rightarrow> epoll_event option \<Rightarrow> uint64 \<Rightarrow>
   (('os, 'z) ep_api_world_scheme, int) state" where
  "epoll_ctl_ctx sys ops epfd op fd event user_ctx =
     (if op \<noteq> EPOLL_CTL_DEL \<and> event = None then do { ep_set_errno EFAULT; return (- 1) }
      else if fd = EPOLL_FD_INVALID then do { ep_set_errno EBADF; return (- 1) }
      else with_epfd sys ops epfd (- 1) (\<lambda>port.
        epoll_ctl_port ops port op fd (if op \<noteq> EPOLL_CTL_DEL then event else None) user_ctx))"

definition epoll_ctl ::
  "('os, 'y) ep_api_sys_scheme \<Rightarrow> ('os, 'z, 's) port_ops \<Rightarrow> int \<Rightarrow> int \<Rightarrow> sock_fd \<Rightarrow> epoll_event option \<Rightarrow>
   (('os, 'z) ep_api_world_scheme, int) state" where
  "epoll_ctl sys ops epfd op fd event = epoll_ctl_ctx sys ops epfd op fd event 0"

text \<open>The checks of a batch: the error it is refused with, if any.  A batch is the list of its
  operations, descriptors and events (where the caller passed an event array).\<close>

type_synonym ctl_request = "int \<times> sock_fd \<times> epoll_event option"

primrec batch_error :: "ctl_request list \<Rightarrow> int option" where
  "batch_error [] = None"
| "batch_error (r # rs) = (case r of (op, fd, event) \<Rightarrow>
     if op \<noteq> EPOLL_CTL_ADD \<and> op \<noteq> EPOLL_CTL_MOD \<and> op \<noteq> EPOLL_CTL_DEL then Some EINVAL
     else if op \<noteq> EPOLL_CTL_DEL \<and> event = None then Some EFAULT
     else if fd = EPOLL_FD_INVALID then Some EBADF
     else batch_error rs)"

text \<open>Undoing the additions of a failed batch, latest first.\<close>

primrec batch_undo :: "('os, 'z, 's) port_ops \<Rightarrow> addr \<Rightarrow> ctl_request list \<Rightarrow> (('os, 'z) ep_api_world_scheme, unit) state" where
  "batch_undo ops port [] = skip"
| "batch_undo ops port (r # rs) = (case r of (op, fd, _) \<Rightarrow> do {
     when_do (op = EPOLL_CTL_ADD) (do { _ \<leftarrow> epoll_ctl_port ops port EPOLL_CTL_DEL fd None 0; skip });
     batch_undo ops port rs
   })"

text \<open>\<open>applied\<close> holds the requests applied so far, latest first.\<close>

primrec batch_apply ::
  "('os, 'z, 's) port_ops \<Rightarrow> addr \<Rightarrow> ctl_request list \<Rightarrow> ctl_request list \<Rightarrow> (('os, 'z) ep_api_world_scheme, int) state" where
  "batch_apply ops port applied [] = return 0"
| "batch_apply ops port applied (r # rs) = (case r of (op, fd, event) \<Rightarrow> do {
     v \<leftarrow> epoll_ctl_port ops port op fd (if op = EPOLL_CTL_DEL then None else event) 0;
     if v \<noteq> 0 then do {
       saved_error \<leftarrow> ep_get_last_error_info;
       batch_undo ops port applied;
       ep_restore_last_error_info saved_error;
       return (- 1)
     } else batch_apply ops port (r # applied) rs
   })"

text \<open>The arrays are absent when the caller passed a null pointer for operations or descriptors.\<close>

definition epoll_ctl_batch ::
  "('os, 'y) ep_api_sys_scheme \<Rightarrow> ('os, 'z, 's) port_ops \<Rightarrow> int \<Rightarrow> ctl_request list option \<Rightarrow> int \<Rightarrow>
   (('os, 'z) ep_api_world_scheme, int) state" where
  "epoll_ctl_batch sys ops epfd requests cnt =
     (if cnt \<le> 0 then do { ep_set_errno EINVAL; return (- 1) }
      else (case requests of
        None \<Rightarrow> do { ep_set_errno EFAULT; return (- 1) }
      | Some rs \<Rightarrow> (case batch_error (take (nat cnt) rs) of
          Some e \<Rightarrow> do { ep_set_errno e; return (- 1) }
        | None \<Rightarrow> with_epfd sys ops epfd (- 1) (\<lambda>port. batch_apply ops port [] (take (nat cnt) rs)))))"

section \<open>Wait calls\<close>

abbreviation (input) WEPOLL_EPOLL_MAX_EVENTS :: int where "WEPOLL_EPOLL_MAX_EVENTS \<equiv> 178956970"
abbreviation (input) WEPOLL_EPOLL_EX_MAX_EVENTS :: int where "WEPOLL_EPOLL_EX_MAX_EVENTS \<equiv> 178956970"

text \<open>The flag says whether the caller passed an event array; the result holds the records written.\<close>

definition epoll_wait_basic_timeout ::
  "('os, 'y) ep_api_sys_scheme \<Rightarrow> ('os, 'z, 's) port_ops \<Rightarrow> int \<Rightarrow> bool \<Rightarrow> int \<Rightarrow> ep_wait_timeout \<Rightarrow> 's \<Rightarrow>
   (('os, 'z) ep_api_world_scheme, int \<times> wait_output list) state" where
  "epoll_wait_basic_timeout sys ops epfd has_events maxevents timeout sigmask =
     (if maxevents \<le> 0 \<or> maxevents > WEPOLL_EPOLL_MAX_EVENTS then do { ep_set_errno EINVAL; return (- 1, []) }
      else if \<not> has_events then do { ep_set_errno EFAULT; return (- 1, []) }
      else with_epfd sys ops epfd (- 1, []) (\<lambda>port. op_wait_basic ops port maxevents timeout sigmask))"

definition epoll_pwait ::
  "('os, 'y) ep_api_sys_scheme \<Rightarrow> ('os, 'z, 's) port_ops \<Rightarrow> int \<Rightarrow> bool \<Rightarrow> int \<Rightarrow> 32 word \<Rightarrow> 's \<Rightarrow>
   (('os, 'z) ep_api_world_scheme, int \<times> wait_output list) state" where
  "epoll_pwait sys ops epfd has_events maxevents timeout sigmask =
     epoll_wait_basic_timeout sys ops epfd has_events maxevents (ep_wait_timeout_from_milliseconds timeout) sigmask"

text \<open>\<open>no_sigmask\<close> is the null signal mask.\<close>

definition epoll_wait ::
  "('os, 'y) ep_api_sys_scheme \<Rightarrow> ('os, 'z, 's) port_ops \<Rightarrow> 's \<Rightarrow> int \<Rightarrow> bool \<Rightarrow> int \<Rightarrow> 32 word \<Rightarrow>
   (('os, 'z) ep_api_world_scheme, int \<times> wait_output list) state" where
  "epoll_wait sys ops no_sigmask epfd has_events maxevents timeout =
     epoll_pwait sys ops epfd has_events maxevents timeout no_sigmask"

definition epoll_pwait2 ::
  "('os, 'y) ep_api_sys_scheme \<Rightarrow> ('os, 'z, 's) port_ops \<Rightarrow> int \<Rightarrow> bool \<Rightarrow> int \<Rightarrow> timespec option \<Rightarrow> 's \<Rightarrow>
   (('os, 'z) ep_api_world_scheme, int \<times> wait_output list) state" where
  "epoll_pwait2 sys ops epfd has_events maxevents timeout sigmask = do {
     (r, wait_timeout) \<leftarrow> ep_wait_timeout_from_timespec timeout (Some ep_wait_timeout_zero);
     if r \<noteq> 0 then return (- 1, [])
     else epoll_wait_basic_timeout sys ops epfd has_events maxevents (the wait_timeout) sigmask
   }"

definition epoll_wait_ex ::
  "('os, 'y) ep_api_sys_scheme \<Rightarrow> ('os, 'z, 's) port_ops \<Rightarrow> 's \<Rightarrow> int \<Rightarrow> bool \<Rightarrow> int \<Rightarrow> 32 word \<Rightarrow>
   (('os, 'z) ep_api_world_scheme, int \<times> wait_output list) state" where
  "epoll_wait_ex sys ops no_sigmask epfd has_events maxevents timeout =
     (if maxevents \<le> 0 \<or> maxevents > WEPOLL_EPOLL_EX_MAX_EVENTS then do { ep_set_errno EINVAL; return (- 1, []) }
      else if \<not> has_events then do { ep_set_errno EFAULT; return (- 1, []) }
      else with_epfd sys ops epfd (- 1, []) (\<lambda>port.
        op_wait ops port maxevents (ep_wait_timeout_from_milliseconds timeout) no_sigmask))"

definition epoll_pwait2_ex ::
  "('os, 'y) ep_api_sys_scheme \<Rightarrow> ('os, 'z, 's) port_ops \<Rightarrow> int \<Rightarrow> bool \<Rightarrow> int \<Rightarrow> timespec option \<Rightarrow> 's \<Rightarrow>
   (('os, 'z) ep_api_world_scheme, int \<times> wait_output list) state" where
  "epoll_pwait2_ex sys ops epfd has_events maxevents timeout sigmask = do {
     (r, wait_timeout) \<leftarrow> ep_wait_timeout_from_timespec timeout (Some ep_wait_timeout_zero);
     if r \<noteq> 0 then return (- 1, [])
     else if maxevents \<le> 0 \<or> maxevents > WEPOLL_EPOLL_EX_MAX_EVENTS then do { ep_set_errno EINVAL; return (- 1, []) }
     else if \<not> has_events then do { ep_set_errno EFAULT; return (- 1, []) }
     else with_epfd sys ops epfd (- 1, []) (\<lambda>port. op_wait ops port maxevents (the wait_timeout) sigmask)
   }"

definition epoll_drain ::
  "('os, 'y) ep_api_sys_scheme \<Rightarrow> ('os, 'z, 's) port_ops \<Rightarrow> 's \<Rightarrow> int \<Rightarrow> bool \<Rightarrow> int \<Rightarrow>
   (('os, 'z) ep_api_world_scheme, int \<times> wait_output list) state" where
  "epoll_drain sys ops no_sigmask epfd has_events maxevents =
     epoll_wait sys ops no_sigmask epfd has_events maxevents 0"

section \<open>Rearming, waking and queries\<close>

definition epoll_rearm ::
  "('os, 'y) ep_api_sys_scheme \<Rightarrow> ('os, 'z, 's) port_ops \<Rightarrow> int \<Rightarrow> sock_fd \<Rightarrow> (('os, 'z) ep_api_world_scheme, int) state" where
  "epoll_rearm sys ops epfd fd = do {
     entry \<leftarrow> epfd_require epfd;
     (case entry of
       None \<Rightarrow> return (- 1)
     | Some h \<Rightarrow>
         if fd = EPOLL_FD_INVALID then do { epfd_put sys ops h; ep_set_errno EBADF; return (- 1) }
         else do {
           port \<leftarrow> shared_read h es_port;
           r \<leftarrow> op_rearm ops port fd;
           epfd_put sys ops h;
           return r
         })
   }"

definition epoll_rearm_classes ::
  "('os, 'y) ep_api_sys_scheme \<Rightarrow> ('os, 'z, 's) port_ops \<Rightarrow> int \<Rightarrow> sock_fd \<Rightarrow> uint32 \<Rightarrow>
   (('os, 'z) ep_api_world_scheme, int) state" where
  "epoll_rearm_classes sys ops epfd fd classes = do {
     entry \<leftarrow> epfd_require epfd;
     (case entry of
       None \<Rightarrow> return (- 1)
     | Some h \<Rightarrow>
         if fd = EPOLL_FD_INVALID then do { epfd_put sys ops h; ep_set_errno EBADF; return (- 1) }
         else if classes = 0 \<or> classes AND NOT WEPOLL_EX_REARM_ALL \<noteq> 0
         then do { epfd_put sys ops h; ep_set_errno EINVAL; return (- 1) }
         else do {
           port \<leftarrow> shared_read h es_port;
           r \<leftarrow> op_rearm_classes ops port fd classes;
           epfd_put sys ops h;
           return r
         })
   }"

text \<open>The batch is absent when the caller passed a null pointer for one of its arrays; the second
  component of the result is what is stored in the error array.\<close>

definition epoll_rearm_classes_batch ::
  "('os, 'y) ep_api_sys_scheme \<Rightarrow> ('os, 'z, 's) port_ops \<Rightarrow> int \<Rightarrow> (sock_fd \<times> uint32) list option \<Rightarrow> int \<Rightarrow>
   (('os, 'z) ep_api_world_scheme, int \<times> int list) state" where
  "epoll_rearm_classes_batch sys ops epfd batch cnt =
     (if cnt \<le> 0 then do { ep_set_errno EINVAL; return (- 1, []) }
      else (case batch of
        None \<Rightarrow> do { ep_set_errno EFAULT; return (- 1, []) }
      | Some b \<Rightarrow> with_epfd sys ops epfd (- 1, []) (\<lambda>port. op_rearm_classes_batch ops port (take (nat cnt) b))))"

definition epoll_fd_count ::
  "('os, 'y) ep_api_sys_scheme \<Rightarrow> ('os, 'z, 's) port_ops \<Rightarrow> int \<Rightarrow> (('os, 'z) ep_api_world_scheme, int) state" where
  "epoll_fd_count sys ops epfd = do {
     entry \<leftarrow> epfd_require epfd;
     (case entry of
       None \<Rightarrow> return (- 1)
     | Some h \<Rightarrow> do {
         port \<leftarrow> shared_read h es_port;
         count \<leftarrow> port_read port pt_fd_table_count;
         epfd_put sys ops h;
         if int count > INT_MAX then do { ep_set_errno EOVERFLOW; return (- 1) }
         else return (int count)
       })
   }"

definition wepoll_ex_wake ::
  "('os, 'y) ep_api_sys_scheme \<Rightarrow> ('os, 'z, 's) port_ops \<Rightarrow> int \<Rightarrow> (('os, 'z) ep_api_world_scheme, int) state" where
  "wepoll_ex_wake sys ops epfd = with_epfd sys ops epfd (- 1) (\<lambda>port. ep_port_wake sys (Some port))"

abbreviation (input) WAKE_ALLOWED_EVENTS :: uint32 where
  "WAKE_ALLOWED_EVENTS \<equiv> EPOLLIN OR EPOLLPRI OR EPOLLOUT OR EPOLLERR OR EPOLLHUP OR EPOLLRDNORM OR
     EPOLLRDBAND OR EPOLLWRNORM OR EPOLLWRBAND OR EPOLLMSG OR EPOLLRDHUP"

definition wepoll_ex_wake_event ::
  "('os, 'y) ep_api_sys_scheme \<Rightarrow> ('os, 'z, 's) port_ops \<Rightarrow> int \<Rightarrow> epoll_event option \<Rightarrow>
   (('os, 'z) ep_api_world_scheme, int) state" where
  "wepoll_ex_wake_event sys ops epfd event = (case event of
      None \<Rightarrow> do { ep_set_errno EFAULT; return (- 1) }
    | Some ev \<Rightarrow>
        if ev_events ev = 0 \<or> ev_events ev AND NOT WAKE_ALLOWED_EVENTS \<noteq> 0
        then do { ep_set_errno EINVAL; return (- 1) }
        else with_epfd sys ops epfd (- 1) (\<lambda>port. ep_port_wake_event sys (Some port) (Some ev)))"

definition wepoll_ex_dup :: "('os, 'y) ep_api_sys_scheme \<Rightarrow> int \<Rightarrow> (('os, 'z) ep_api_world_scheme, int) state" where
  "wepoll_ex_dup sys epfd = epfd_duplicate sys epfd"

definition wepoll_ex_close_socket ::
  "('os, 'y) ep_api_sys_scheme \<Rightarrow> ('os, 'z, 's) port_ops \<Rightarrow> int \<Rightarrow> sock_fd \<Rightarrow> (('os, 'z) ep_api_world_scheme, int) state" where
  "wepoll_ex_close_socket sys ops epfd fd =
     (if fd = EPOLL_FD_INVALID then do { ep_set_errno EBADF; return (- 1) }
      else do {
        entry \<leftarrow> epfd_require epfd;
        (case entry of
          None \<Rightarrow> return (- 1)
        | Some h \<Rightarrow> do {
            port \<leftarrow> shared_read h es_port;
            unregister_result \<leftarrow> op_unregister ops port fd;
            unregister_error \<leftarrow> ep_last_err;
            if unregister_result \<noteq> 0 \<and> unregister_error \<noteq> ENOENT then do { epfd_put sys ops h; return (- 1) }
            else do {
              ok \<leftarrow> syscall (api_closesocket sys fd);
              if \<not> ok then do {
                error \<leftarrow> syscall (api_WSAGetLastError sys);
                epfd_put sys ops h;
                ep_set_winsock_error error;
                return (- 1)
              } else do { epfd_put sys ops h; return 0 }
            }
          })
      })"

definition wepoll_ex_shutdown_socket ::
  "('os, 'y) ep_api_sys_scheme \<Rightarrow> ('os, 'z, 's) port_ops \<Rightarrow> int \<Rightarrow> sock_fd \<Rightarrow> int \<Rightarrow>
   (('os, 'z) ep_api_world_scheme, int) state" where
  "wepoll_ex_shutdown_socket sys ops epfd fd how =
     (if fd = EPOLL_FD_INVALID then do { ep_set_errno EBADF; return (- 1) }
      else with_epfd sys ops epfd (- 1) (\<lambda>port. op_shutdown_socket ops port fd how))"

text \<open>Versioned snapshots, as bytes: the prefix that fits, padded with zeros to the caller's size.\<close>

definition copy_versioned_snapshot ::
  "uint8 list option \<Rightarrow> nat \<Rightarrow> uint8 list \<Rightarrow> ('z ep_errno_env_scheme, int \<times> uint8 list option) state" where
  "copy_versioned_snapshot destination destination_size snapshot = (case destination of
      None \<Rightarrow> do { ep_set_errno EFAULT; return (- 1, None) }
    | Some d \<Rightarrow>
        if destination_size < 8 then do { ep_set_errno EINVAL; return (- 1, Some d) }
        else return (0, Some (take destination_size snapshot @
          replicate (destination_size - length snapshot) 0 @ drop destination_size d)))"

section \<open>Closing\<close>

abbreviation (input) WAIT_OBJECT_0 :: dword where "WAIT_OBJECT_0 \<equiv> 0"

text \<open>The first region under the descriptor lock: nothing when the descriptor is bad, otherwise the
  shared instance and whether its last alias went away.\<close>

definition close_unlink :: "int \<Rightarrow> (('os, 'z) ep_api_world_scheme, (addr \<times> bool) option) state" where
  "close_unlink epfd = do {
     entry \<leftarrow> epfd_find_locked epfd;
     (case entry of
       None \<Rightarrow> return None
     | Some e \<Rightarrow> do {
         closing \<leftarrow> shared_read (snd e) es_closing;
         if closing then return None
         else do {
           epfd_unlink_locked e;
           aliases \<leftarrow> shared_read (snd e) es_aliases;
           assert_that (aliases > 0);
           shared_upd (snd e) (\<lambda>sh. sh \<lparr> es_aliases := es_aliases sh - 1 \<rparr>);
           final_alias \<leftarrow> shared_read (snd e) (\<lambda>sh. es_aliases sh = 0);
           when_do final_alias (shared_upd (snd e) (\<lambda>sh. sh \<lparr> es_closing := True \<rparr>));
           return (Some (snd e, final_alias))
         }
       })
   }"

text \<open>Waiting for the references to drain, outside the lock.\<close>

definition close_wait ::
  "('os, 'y) ep_api_sys_scheme \<Rightarrow> addr \<Rightarrow> uint32 \<Rightarrow> (('os, 'z) ep_api_world_scheme, int) state" where
  "close_wait sys h timeout_ms = do {
     refs \<leftarrow> shared_read h es_refs;
     if refs \<noteq> 0 then do {
       event \<leftarrow> shared_read h es_refs_drained_event;
       wait_result \<leftarrow> syscall (api_WaitForSingleObject sys event timeout_ms);
       if wait_result = WAIT_OBJECT_0 then return 0
       else if wait_result = WAIT_TIMEOUT then return ETIMEDOUT
       else do {
         error \<leftarrow> syscall (win_GetLastError sys);
         let e = ep_winerr_to_errno error;
         return (if e = 0 then EIO else e)
       }
     } else return 0
   }"

text \<open>The second region under the lock: \<open>None\<close> when the caller destroys the instance, otherwise the
  error it reports after handing that duty to the last reference.\<close>

definition close_detach :: "addr \<Rightarrow> int \<Rightarrow> (('os, 'z) ep_api_world_scheme, int option) state" where
  "close_detach h wait_error = do {
     refs \<leftarrow> shared_read h es_refs;
     if refs \<noteq> 0 then do {
       shared_upd h (\<lambda>sh. sh \<lparr> es_detached := True \<rparr>);
       let e = (if wait_error = 0 then ETIMEDOUT else wait_error);
       when_do (e = ETIMEDOUT)
         (modify (\<lambda>s. s \<lparr> g_api_close_timeout_count := g_api_close_timeout_count s + 1 \<rparr>));
       return (Some e)
     } else return None
   }"

definition wepoll_close ::
  "('os, 'y) ep_api_sys_scheme \<Rightarrow> ('os, 'z, 's) port_ops \<Rightarrow> int \<Rightarrow> (('os, 'z) ep_api_world_scheme, int) state" where
  "wepoll_close sys ops epfd = do {
     unlinked \<leftarrow> close_unlink epfd;
     (case unlinked of
       None \<Rightarrow> do { ep_set_errno EBADF; return (- 1) }
     | Some (h, final_alias) \<Rightarrow>
         if \<not> final_alias then return 0
         else do {
           port \<leftarrow> shared_read h es_port;
           op_begin_close ops port;
           timeout_ms \<leftarrow> gets g_api_close_timeout_ms;
           wait_error \<leftarrow> close_wait sys h timeout_ms;
           r \<leftarrow> close_detach h wait_error;
           (case r of
             Some e \<Rightarrow> do { ep_set_errno e; return (- 1) }
           | None \<Rightarrow> epfd_destroy sys ops h)
         })
   }"

section \<open>Interleavings of calls and closes\<close>

text \<open>A configuration: the state, and per shared instance the references that calls hold, the closes
  between their two locked regions, and the calls that are committed to destroying it.\<close>

type_synonym ('os, 'z) api_config =
  "('os, 'z) ep_api_world_scheme \<times> (addr \<Rightarrow> nat) \<times> (addr \<Rightarrow> nat) \<times> (addr \<Rightarrow> nat)"

text \<open>Fewer than \<open>2 ^ 32 - 1\<close> calls and aliases of one instance exist at a time; the counters have 32
  bits.\<close>

abbreviation (input) UINT_MAX_NAT :: nat where "UINT_MAX_NAT \<equiv> 4294967295"

definition alias_count :: "(nat \<Rightarrow> epfd_entry list) \<Rightarrow> addr \<Rightarrow> nat" where
  "alias_count B h = (\<Sum>b < EPFD_BUCKET_COUNT. length (filter (\<lambda>e. snd e = h) (B b)))"

definition incr :: "(addr \<Rightarrow> nat) \<Rightarrow> addr \<Rightarrow> addr \<Rightarrow> nat" where "incr f h = f(h := Suc (f h))"
definition decr :: "(addr \<Rightarrow> nat) \<Rightarrow> addr \<Rightarrow> addr \<Rightarrow> nat" where "decr f h = f(h := f h - 1)"

inductive api_step ::
  "('os, 'y) ep_api_sys_scheme \<Rightarrow> ('os, 'z) api_config \<Rightarrow> ('os, 'z) api_config \<Rightarrow> bool"
  for sys where
  api_alloc: "run_state (epfd_alloc sys port) s = (r, s') \<Longrightarrow> api_step sys (s, H, C, D) (s', H, C, D)"
| api_dup: "\<forall>h. alias_count (g_epfd_buckets s) h < UINT_MAX_NAT \<Longrightarrow>
    run_state (epfd_duplicate sys fd) s = (r, s') \<Longrightarrow> api_step sys (s, H, C, D) (s', H, C, D)"
| api_acquire: "\<forall>h. H h < UINT_MAX_NAT \<Longrightarrow> run_state (epfd_acquire fd) s = (r, s') \<Longrightarrow>
    api_step sys (s, H, C, D) (s', case r of None \<Rightarrow> H | Some h \<Rightarrow> incr H h, C, D)"
| api_put: "0 < H h \<Longrightarrow> run_state (epfd_put_locked sys h) s = (r, s') \<Longrightarrow>
    api_step sys (s, H, C, D) (s', decr H h, C, if r then incr D h else D)"
| api_close: "run_state (close_unlink fd) s = (r, s') \<Longrightarrow>
    api_step sys (s, H, C, D) (s', H, case r of Some (h, True) \<Rightarrow> incr C h | _ \<Rightarrow> C, D)"
| api_detach: "0 < C h \<Longrightarrow> run_state (close_detach h wait_error) s = (r, s') \<Longrightarrow>
    api_step sys (s, H, C, D) (s', H, decr C h, if r = None then incr D h else D)"
| api_free: "0 < D h \<Longrightarrow> run_state (shared_free h) s = (r, s') \<Longrightarrow>
    api_step sys (s, H, C, D) (s', H, C, decr D h)"

definition shared_ok :: "epfd_shared option \<Rightarrow> nat \<Rightarrow> nat \<Rightarrow> nat \<Rightarrow> nat \<Rightarrow> bool" where
  "shared_ok m e r c d = (case m of
      None \<Rightarrow> e = 0 \<and> r = 0 \<and> c = 0 \<and> d = 0
    | Some sh \<Rightarrow> unat (es_refs sh) = r \<and> unat (es_aliases sh) = e \<and> (es_closing sh \<longleftrightarrow> e = 0) \<and>
        (if es_closing sh
         then c = 1 \<and> d = 0 \<and> \<not> es_detached sh \<or> c = 0 \<and> d = 0 \<and> es_detached sh \<and> 0 < r \<or> c = 0 \<and> d = 1 \<and> r = 0
         else c = 0 \<and> d = 0 \<and> \<not> es_detached sh))"

definition api_inv :: "('os, 'z) api_config \<Rightarrow> bool" where
  "api_inv c = (case c of (s, H, C, D) \<Rightarrow> \<not> ep_ub s \<and>
     (\<forall>h. shared_ok (epfd_shareds s h) (alias_count (g_epfd_buckets s) h) (H h) (C h) (D h)) \<and>
     (\<forall>h \<ge> epfd_next_addr s. epfd_shareds s h = None))"

lemma bucket_bound [simp]: "epfd_bucket fd < 64"
  by (simp add: epfd_bucket_def)

lemma alias_count_upd:
  assumes "b < 64"
  shows "alias_count (B(b := xs)) h + length (filter (\<lambda>e. snd e = h) (B b)) =
    alias_count B h + length (filter (\<lambda>e. snd e = h) xs)"
proof -
  have f: "finite {..<64 :: nat}" "b \<in> {..<64}" using assms by simp_all
  have e: "(\<Sum>x \<in> {..<64} - {b}. length (filter (\<lambda>e. snd e = h) ((B(b := xs)) x))) =
      (\<Sum>x \<in> {..<64} - {b}. length (filter (\<lambda>e. snd e = h) (B x)))"
    by (rule sum.cong) auto
  show ?thesis unfolding alias_count_def sum.remove [OF f] e by simp
qed

lemma alias_count_insert:
  "alias_count (B(epfd_bucket fd := (fd, h) # B (epfd_bucket fd))) x = alias_count B x + (if x = h then 1 else 0)"
  using alias_count_upd [of "epfd_bucket fd" B "(fd, h) # B (epfd_bucket fd)" x] by (auto split: if_splits)

lemma filter_remove1_length:
  "e \<in> set xs \<Longrightarrow> length (filter P xs) = length (filter P (remove1 e xs)) + (if P e then 1 else 0)"
  by (induction xs) auto

lemma alias_count_remove:
  assumes "e \<in> set (B b)" "b < 64"
  shows "alias_count (B(b := remove1 e (B b))) x = alias_count B x - (if x = snd e then 1 else 0)"
    and "0 < alias_count B (snd e)"
proof -
  have l: "length (filter (\<lambda>e. snd e = x) (B b)) = length (filter (\<lambda>e. snd e = x) (remove1 e (B b))) + (if snd e = x then 1 else 0)" for x
    by (rule filter_remove1_length [OF assms(1)])
  show "alias_count (B(b := remove1 e (B b))) x = alias_count B x - (if x = snd e then 1 else 0)"
    using alias_count_upd [OF assms(2), of B "remove1 e (B b)" x] l [of x] by (auto split: if_splits)
  show "0 < alias_count B (snd e)"
    using alias_count_upd [OF assms(2), of B "remove1 e (B b)" "snd e"] l [of "snd e"] by simp
qed

lemma lookup_in:
  "epfd_lookup B fd = Some e \<Longrightarrow> e \<in> set (B (epfd_bucket fd)) \<and> fst e = fd"
  by (auto simp: epfd_lookup_def find_Some_iff split: if_splits)

lemma wp_shared_read [wp_simps]: "epfd_shareds s h = Some sh \<Longrightarrow> wp (shared_read h f) Q s = Q (f sh) s"
  by (simp add: shared_read_def wp_simps)

lemma wp_shared_upd [wp_simps]:
  "epfd_shareds s h = Some sh \<Longrightarrow> wp (shared_upd h f) Q s = Q () (s \<lparr> epfd_shareds := (epfd_shareds s)(h \<mapsto> f sh) \<rparr>)"
  by (simp add: shared_upd_def wp_simps)

lemma wp_shared_free [wp_simps]:
  "epfd_shareds s h = Some sh \<Longrightarrow> wp (shared_free h) Q s = Q () (s \<lparr> epfd_shareds := (epfd_shareds s)(h := None) \<rparr>)"
  by (simp add: shared_free_def wp_simps)

lemma allocate_id_rule:
  assumes "\<And>fd nf. fd = - 1 \<or> 0 < fd \<Longrightarrow> Q fd (s \<lparr> g_next_fd := nf \<rparr>)"
  shows "wp (allocate_id_loop n) Q s"
  using assms
proof (induction n arbitrary: s)
  case 0
  from 0 [of "- 1" "g_next_fd s"] show ?case by (simp add: wp_simps)
next
  case (Suc n)
  have "wp (allocate_id_loop n) Q (s \<lparr> g_next_fd := v \<rparr>)" for v
    by (rule Suc.IH) (use Suc.prems in simp)
  then show ?case using Suc.prems by (simp add: epfd_find_locked_def wp_simps)
qed

lemma unat_next: "unat r < UINT_MAX_NAT \<Longrightarrow> unat (r + 1 :: uint32) = Suc (unat r)"
  by (simp add: unat_word_ariths)

lemma unat_previous:
  assumes "r \<noteq> 0"
  shows "unat (r - 1 :: uint32) = unat r - 1"
proof -
  have "0 < unat r" using assms by (simp add: unat_gt_0)
  then have "1 \<le> r" by (simp add: word_le_nat_alt Suc_le_eq)
  then show ?thesis by (simp add: unat_sub)
qed

lemma api_invD:
  assumes "api_inv (s, H, C, D)"
  shows "\<not> ep_ub s" "shared_ok (epfd_shareds s h) (alias_count (g_epfd_buckets s) h) (H h) (C h) (D h)"
    "epfd_next_addr s \<le> h \<Longrightarrow> epfd_shareds s h = None"
  using assms by (simp_all add: api_inv_def)

lemma shared_live:
  assumes "api_inv (s, H, C, D)" "0 < alias_count (g_epfd_buckets s) h \<or> 0 < H h \<or> 0 < C h \<or> 0 < D h"
  obtains sh where "epfd_shareds s h = Some sh"
  using api_invD(2) [OF assms(1), of h] assms(2) by (cases "epfd_shareds s h") (auto simp: shared_ok_def)

text \<open>An update of one instance keeps the invariant when the instance stays consistent.\<close>

lemma api_inv_at:
  assumes "api_inv (s, H, C, D)" "epfd_shareds s h = Some sh" "\<not> ep_ub s'"
    and "epfd_shareds s' = (epfd_shareds s)(h := m)" "epfd_next_addr s' = epfd_next_addr s"
    and "\<And>x. x \<noteq> h \<Longrightarrow> alias_count (g_epfd_buckets s') x = alias_count (g_epfd_buckets s) x \<and>
      H' x = H x \<and> C' x = C x \<and> D' x = D x"
    and "shared_ok m (alias_count (g_epfd_buckets s') h) (H' h) (C' h) (D' h)"
  shows "api_inv (s', H', C', D')"
proof -
  have "h < epfd_next_addr s" using api_invD(3) [OF assms(1), of h] assms(2) by (cases "h < epfd_next_addr s") auto
  then show ?thesis using assms by (auto simp: api_inv_def)
qed

lemma acquire_inv:
  assumes i: "api_inv (s, H, C, D)" and b: "\<forall>h. H h < UINT_MAX_NAT"
  shows "wp (epfd_acquire fd) (\<lambda>r s'. api_inv (s', case r of None \<Rightarrow> H | Some h \<Rightarrow> incr H h, C, D)) s"
proof (cases "epfd_lookup (g_epfd_buckets s) fd")
  case None
  then show ?thesis using i by (simp add: epfd_acquire_def epfd_find_locked_def wp_simps)
next
  case (Some e)
  let ?h = "snd e"
  have pos: "0 < alias_count (g_epfd_buckets s) ?h"
    using alias_count_remove(2) [of e "g_epfd_buckets s" "epfd_bucket fd"] lookup_in [OF Some] by simp
  then obtain sh where sh: "epfd_shareds s ?h = Some sh" using shared_live [OF i] by blast
  have ok: "shared_ok (Some sh) (alias_count (g_epfd_buckets s) ?h) (H ?h) (C ?h) (D ?h)"
    using api_invD(2) [OF i, of ?h] sh by simp
  then have nc: "\<not> es_closing sh" using pos by (auto simp: shared_ok_def)
  have "api_inv (s \<lparr> epfd_shareds := (epfd_shareds s)(?h \<mapsto> sh \<lparr> es_refs := es_refs sh + 1 \<rparr>) \<rparr>, incr H ?h, C, D)"
    by (rule api_inv_at [OF i sh])
      (use api_invD(1) [OF i] ok nc b in \<open>auto simp: incr_def shared_ok_def unat_next\<close>)
  then show ?thesis using Some sh nc
    by (cases e) (simp add: epfd_acquire_def epfd_find_locked_def wp_simps)
qed

lemma put_inv:
  assumes i: "api_inv (s, H, C, D)" and h: "0 < H h"
  shows "wp (epfd_put_locked sys h) (\<lambda>r s'. api_inv (s', decr H h, C, if r then incr D h else D)) s"
proof -
  obtain sh where sh: "epfd_shareds s h = Some sh" using shared_live [OF i] h by blast
  have ok: "shared_ok (Some sh) (alias_count (g_epfd_buckets s) h) (H h) (C h) (D h)"
    using api_invD(2) [OF i, of h] sh by simp
  let ?sh = "sh \<lparr> es_refs := es_refs sh - 1 \<rparr>"
  have nz: "es_refs sh \<noteq> 0" using ok h by (auto simp: shared_ok_def)
  then have ref: "unat (es_refs sh - 1) = H h - 1" using ok by (simp add: unat_previous shared_ok_def)
  have z: "es_refs sh - 1 = 0 \<longleftrightarrow> H h = 1" using ref h by (auto simp flip: unat_eq_zero)
  have inv: "api_inv (s', decr H h, C, if r then incr D h else D)"
    if "epfd_shareds s' = (epfd_shareds s)(h \<mapsto> ?sh)" "\<not> ep_ub s'" "epfd_next_addr s' = epfd_next_addr s"
      "g_epfd_buckets s' = g_epfd_buckets s" "r \<longleftrightarrow> es_closing sh \<and> H h = 1 \<and> es_detached sh" for s' r
    by (rule api_inv_at [OF i sh that(2,1,3)])
      (use that(4,5) ok ref h in \<open>auto simp: decr_def incr_def shared_ok_def split: if_splits\<close>)
  show ?thesis using sh nz z api_invD(1) [OF i]
    by (simp add: epfd_put_locked_def wp_simps word_gt_0)
      (auto intro!: inv [of _ True, simplified] inv [of _ False, simplified])
qed

lemma close_inv:
  assumes i: "api_inv (s, H, C, D)"
  shows "wp (close_unlink fd) (\<lambda>r s'. api_inv (s', H, case r of Some (h, True) \<Rightarrow> incr C h | _ \<Rightarrow> C, D)) s"
proof (cases "epfd_lookup (g_epfd_buckets s) fd")
  case None
  then show ?thesis using i by (simp add: close_unlink_def epfd_find_locked_def wp_simps)
next
  case (Some e)
  let ?h = "snd e" and ?B = "g_epfd_buckets s"
  let ?B' = "?B(epfd_bucket (fst e) := remove1 e (?B (epfd_bucket (fst e))))"
  have e: "e \<in> set (?B (epfd_bucket (fst e)))" using lookup_in [OF Some] by simp
  note cnt = alias_count_remove [of e ?B "epfd_bucket (fst e)", OF e bucket_bound]
  then obtain sh where sh: "epfd_shareds s ?h = Some sh" using shared_live [OF i] by blast
  have ok: "shared_ok (Some sh) (alias_count ?B ?h) (H ?h) (C ?h) (D ?h)"
    using api_invD(2) [OF i, of ?h] sh by simp
  have nc: "\<not> es_closing sh" using cnt(2) ok by (auto simp: shared_ok_def)
  have nz: "es_aliases sh \<noteq> 0" using cnt(2) ok by (auto simp: shared_ok_def)
  then have al: "unat (es_aliases sh - 1) = alias_count ?B ?h - 1" using ok by (simp add: unat_previous shared_ok_def)
  have z: "es_aliases sh - 1 = 0 \<longleftrightarrow> alias_count ?B ?h = 1" using al cnt(2) by (auto simp flip: unat_eq_zero)
  let ?s = "\<lambda>m. s \<lparr> g_epfd_buckets := ?B', epfd_shareds := (epfd_shareds s)(?h \<mapsto> m) \<rparr>"
  have last: "api_inv (?s (sh \<lparr> es_aliases := 0, es_closing := True \<rparr>), H, incr C ?h, D)" if "alias_count ?B ?h = 1"
    by (rule api_inv_at [OF i sh])
      (use api_invD(1) [OF i] ok nc that cnt(1) in \<open>auto simp: incr_def shared_ok_def\<close>)
  have more: "api_inv (?s (sh \<lparr> es_aliases := es_aliases sh - 1 \<rparr>), H, C, D)" if "alias_count ?B ?h \<noteq> 1"
    by (rule api_inv_at [OF i sh])
      (use api_invD(1) [OF i] ok nc that cnt al in \<open>auto simp: shared_ok_def\<close>)
  show ?thesis using Some sh nc nz z last more
    by (cases "es_aliases sh - 1 = 0")
      (simp_all add: close_unlink_def epfd_find_locked_def epfd_unlink_locked_def wp_simps word_gt_0)
qed

lemma detach_inv:
  assumes i: "api_inv (s, H, C, D)" and h: "0 < C h"
  shows "wp (close_detach h e) (\<lambda>r s'. api_inv (s', H, decr C h, if r = None then incr D h else D)) s"
proof -
  obtain sh where sh: "epfd_shareds s h = Some sh" using shared_live [OF i] h by blast
  have ok: "shared_ok (Some sh) (alias_count (g_epfd_buckets s) h) (H h) (C h) (D h)"
    using api_invD(2) [OF i, of h] sh by simp
  have z: "es_refs sh = 0 \<longleftrightarrow> H h = 0" using ok by (auto simp: shared_ok_def simp flip: unat_eq_zero)
  have det: "api_inv (s', H, decr C h, D)" if "H h \<noteq> 0" "epfd_shareds s' = (epfd_shareds s)(h \<mapsto> sh \<lparr> es_detached := True \<rparr>)"
      "\<not> ep_ub s'" "epfd_next_addr s' = epfd_next_addr s" "g_epfd_buckets s' = g_epfd_buckets s" for s'
    by (rule api_inv_at [OF i sh that(3,2,4)])
      (use that ok h in \<open>auto simp: decr_def shared_ok_def split: if_splits\<close>)
  have none: "api_inv (s, H, decr C h, incr D h)" if "H h = 0"
    by (rule api_inv_at [OF i sh, where m = "Some sh"])
      (use that ok h api_invD(1) [OF i] sh in \<open>auto simp: decr_def incr_def shared_ok_def fun_upd_idem split: if_splits\<close>)
  show ?thesis using sh z none api_invD(1) [OF i]
    by (cases "H h = 0") (simp_all add: close_detach_def wp_simps det)
qed

lemma free_inv:
  assumes i: "api_inv (s, H, C, D)" and h: "0 < D h"
  shows "wp (shared_free h) (\<lambda>_ s'. api_inv (s', H, C, decr D h)) s"
proof -
  obtain sh where sh: "epfd_shareds s h = Some sh" using shared_live [OF i] h by blast
  have ok: "shared_ok (Some sh) (alias_count (g_epfd_buckets s) h) (H h) (C h) (D h)"
    using api_invD(2) [OF i, of h] sh by simp
  have "api_inv (s \<lparr> epfd_shareds := (epfd_shareds s)(h := None) \<rparr>, H, C, decr D h)"
    by (rule api_inv_at [OF i sh])
      (use api_invD(1) [OF i] ok h in \<open>auto simp: decr_def shared_ok_def split: if_splits\<close>)
  then show ?thesis using sh by (simp add: wp_simps)
qed

lemma allocate_id_rule':
  assumes "\<And>fd nf. fd = - 1 \<or> 0 < fd \<Longrightarrow> Q fd (s \<lparr> g_next_fd := nf \<rparr>)"
  shows "wp epfd_allocate_id_locked Q s"
  unfolding epfd_allocate_id_locked_def by (rule allocate_id_rule) (rule assms)

lemma api_inv_frame:
  assumes "api_inv (s, H, C, D)" "ep_ub s' = ep_ub s" "epfd_shareds s' = epfd_shareds s"
    "epfd_next_addr s' = epfd_next_addr s" "g_epfd_buckets s' = g_epfd_buckets s"
  shows "api_inv (s', H, C, D)"
  using assms by (simp add: api_inv_def)

lemma dup_inv:
  assumes i: "api_inv (s, H, C, D)" and b: "\<forall>h. alias_count (g_epfd_buckets s) h < UINT_MAX_NAT"
  shows "wp (epfd_duplicate sys fd) (\<lambda>_ s'. api_inv (s', H, C, D)) s"
proof (cases "epfd_lookup (g_epfd_buckets s) fd")
  case None
  then show ?thesis using i
    by (simp add: epfd_duplicate_def epfd_find_locked_def wp_simps ep_set_errno_def api_inv_def)
next
  case (Some e)
  let ?h = "snd e" and ?B = "g_epfd_buckets s"
  have "0 < alias_count ?B ?h"
    using alias_count_remove(2) [of e ?B "epfd_bucket fd"] lookup_in [OF Some] by simp
  then obtain sh where sh: "epfd_shareds s ?h = Some sh" and pos: "0 < alias_count ?B ?h" using shared_live [OF i] by blast
  have ok: "shared_ok (Some sh) (alias_count ?B ?h) (H ?h) (C ?h) (D ?h)"
    using api_invD(2) [OF i, of ?h] sh by simp
  have nc: "\<not> es_closing sh" using pos ok by (auto simp: shared_ok_def)
  have ins: "api_inv (s', H, C, D)"
    if "epfd_shareds s' = (epfd_shareds s)(?h \<mapsto> sh \<lparr> es_aliases := es_aliases sh + 1 \<rparr>)" "\<not> ep_ub s'"
      "epfd_next_addr s' = epfd_next_addr s"
      "g_epfd_buckets s' = ?B(epfd_bucket d := (d, ?h) # ?B (epfd_bucket d))" for s' d
    by (rule api_inv_at [OF i sh that(2,1,3)])
      (use that(4) ok nc b in \<open>auto simp: shared_ok_def unat_next alias_count_insert\<close>)
  have alloc: "wp epfd_allocate_id_locked (\<lambda>d. wp (do {
       when_do (d > 0) (do { shared_upd ?h (\<lambda>sh. sh \<lparr> es_aliases := es_aliases sh + 1 \<rparr>); epfd_insert_locked d ?h });
       when_do (d < 0) (ep_set_errno EMFILE);
       return d }) (\<lambda>_ s'. api_inv (s', H, C, D))) (s \<lparr> os_state := os \<rparr>)" for os
  proof (rule allocate_id_rule')
    fix d nf assume d: "d = - 1 \<or> 0 < (d :: int)"
    show "wp (do {
       when_do (d > 0) (do { shared_upd ?h (\<lambda>sh. sh \<lparr> es_aliases := es_aliases sh + 1 \<rparr>); epfd_insert_locked d ?h });
       when_do (d < 0) (ep_set_errno EMFILE);
       return d }) (\<lambda>_ s'. api_inv (s', H, C, D)) (s \<lparr> os_state := os, g_next_fd := nf \<rparr>)"
    proof (cases "0 < d")
      case True
      then show ?thesis using sh api_invD(1) [OF i] by (simp add: wp_simps epfd_insert_locked_def ins)
    next
      case False
      then show ?thesis using d i by (simp add: wp_simps ep_set_errno_def api_inv_def)
    qed
  qed
  have bad: "api_inv (s \<lparr> os_state := os, ep_errno := x, g_last_error_info := y \<rparr>, H, C, D)" for os x y
    by (rule api_inv_frame [OF i]) simp_all
  show ?thesis using Some sh nc alloc i
    by (cases e) (simp add: epfd_duplicate_def epfd_find_locked_def wp_simps wp_bind ep_set_errno_def bad)
qed

lemma alloc_inv:
  assumes i: "api_inv (s, H, C, D)"
  shows "wp (epfd_alloc sys port) (\<lambda>_ s'. api_inv (s', H, C, D)) s"
proof -
  let ?h = "epfd_next_addr s" and ?B = "g_epfd_buckets s"
  have fresh: "epfd_shareds s ?h = None" using api_invD(3) [OF i, of ?h] by simp
  then have z: "alias_count ?B ?h = 0" "H ?h = 0" "C ?h = 0" "D ?h = 0"
    using api_invD(2) [OF i, of ?h] by (simp_all add: shared_ok_def)
  have new: "api_inv (s', H, C, D)" if "epfd_shareds s' = (epfd_shareds s)(?h \<mapsto> sh)" "es_refs sh = 0" "es_aliases sh = 1"
      "\<not> es_closing sh" "\<not> es_detached sh" "\<not> ep_ub s'" "epfd_next_addr s' = Suc ?h"
      "g_epfd_buckets s' = ?B(epfd_bucket d := (d, ?h) # ?B (epfd_bucket d))" for s' sh d
  proof -
    have ac: "alias_count (g_epfd_buckets s') x = alias_count ?B x + (if x = ?h then 1 else 0)" for x
      using that(8) alias_count_insert by simp
    have "shared_ok (epfd_shareds s' x) (alias_count (g_epfd_buckets s') x) (H x) (C x) (D x)" for x
    proof (cases "x = ?h")
      case True
      then show ?thesis using that ac z by (simp add: shared_ok_def)
    next
      case False
      then show ?thesis using that(1) ac api_invD(2) [OF i, of x] by simp
    qed
    moreover have "epfd_shareds s' x = None" if "Suc ?h \<le> x" for x
      using that \<open>epfd_shareds s' = (epfd_shareds s)(?h \<mapsto> sh)\<close> api_invD(3) [OF i, of x] by simp
    ultimately show ?thesis using that(6,7) by (simp add: api_inv_def)
  qed
  have gone: "api_inv (s', H, C, D)" if "epfd_shareds s' = epfd_shareds s" "\<not> ep_ub s'" "epfd_next_addr s' = Suc ?h"
      "g_epfd_buckets s' = ?B" for s'
    using i that by (simp add: api_inv_def)
  have bad: "api_inv (s \<lparr> os_state := os, ep_errno := x, g_last_error_info := y \<rparr>, H, C, D)" for os x y
    by (rule api_inv_frame [OF i]) simp_all
  define m where "m ev = \<lparr> es_port = port, es_refs = 0, es_aliases = 1, es_closing = False,
    es_detached = False, es_refs_drained_event = ev \<rparr>" for ev
  have rest: "wp epfd_allocate_id_locked (\<lambda>d. wp (do {
       when_do (d > 0) (epfd_insert_locked d ?h);
       when_do (d < 0) (do { _ \<leftarrow> syscall (win_CloseHandle sys ev); shared_free ?h; ep_set_errno EMFILE });
       return d }) (\<lambda>_ s'. api_inv (s', H, C, D)))
     (s \<lparr> os_state := os, epfd_next_addr := Suc ?h, epfd_shareds := (epfd_shareds s)(?h \<mapsto> m ev) \<rparr>)" for os ev
  proof (rule allocate_id_rule')
    fix d nf assume d: "d = - 1 \<or> 0 < (d :: int)"
    show "wp (do {
       when_do (d > 0) (epfd_insert_locked d ?h);
       when_do (d < 0) (do { _ \<leftarrow> syscall (win_CloseHandle sys ev); shared_free ?h; ep_set_errno EMFILE });
       return d }) (\<lambda>_ s'. api_inv (s', H, C, D))
       (s \<lparr> os_state := os, epfd_next_addr := Suc ?h, epfd_shareds := (epfd_shareds s)(?h \<mapsto> m ev), g_next_fd := nf \<rparr>)"
    proof (cases "0 < d")
      case True
      have "api_inv (s \<lparr> os_state := os, epfd_next_addr := Suc ?h, epfd_shareds := (epfd_shareds s)(?h \<mapsto> m ev),
          g_next_fd := nf, g_epfd_buckets := ?B(epfd_bucket d := (d, ?h) # ?B (epfd_bucket d)) \<rparr>, H, C, D)"
        by (rule new [of _ "m ev" d]) (use api_invD(1) [OF i] in \<open>simp_all add: m_def\<close>)
      then show ?thesis using True by (simp add: wp_simps epfd_insert_locked_def)
    next
      case False
      then show ?thesis using d fresh api_invD(1) [OF i]
        by (simp add: wp_simps ep_set_errno_def gone fun_upd_idem)
    qed
  qed
  show ?thesis using rest [unfolded m_def] bad i
    by (simp add: epfd_alloc_def wp_simps ep_set_errno_def ep_set_win32_error_def ep_set_native_error_def wp_bind)
qed

lemma api_step_inv:
  assumes "api_step sys c c'" "api_inv c"
  shows "api_inv c'"
  using assms
proof (induction rule: api_step.induct)
  case (api_alloc port s r s' H C D)
  from wp_run [OF alloc_inv [OF api_alloc.prems] api_alloc.hyps] show ?case .
next
  case (api_dup s fd r s' H C D)
  from wp_run [OF dup_inv [OF api_dup.prems api_dup.hyps(1)] api_dup.hyps(2)] show ?case .
next
  case (api_acquire H fd s r s' C D)
  from wp_run [OF acquire_inv [OF api_acquire.prems api_acquire.hyps(1)] api_acquire.hyps(2)] show ?case .
next
  case (api_put H h s r s' C D)
  from wp_run [OF put_inv [OF api_put.prems api_put.hyps(1)] api_put.hyps(2)] show ?case .
next
  case (api_close fd s r s' H C D)
  from wp_run [OF close_inv [OF api_close.prems] api_close.hyps] show ?case .
next
  case (api_detach C h wait_error s r s' H D)
  from wp_run [OF detach_inv [OF api_detach.prems api_detach.hyps(1)] api_detach.hyps(2)] show ?case .
next
  case (api_free D h s r s' H C)
  from wp_run [OF free_inv [OF api_free.prems api_free.hyps(1)] api_free.hyps(2)] show ?case .
qed

text \<open>(C2) However calls, duplications and closes of virtual descriptors interleave, no shared instance
  is used after it was released or released twice: an instance is destroyed by at most one caller, only
  once every call has given its reference back, and only after its last alias was closed.\<close>

theorem api_no_use_after_free:
  assumes "(api_step sys)\<^sup>*\<^sup>* (s, \<lambda>_. 0, \<lambda>_. 0, \<lambda>_. 0) (s', H, C, D)"
    and "\<not> ep_ub s" "epfd_shareds s = Map.empty" "g_epfd_buckets s = (\<lambda>_. [])"
  shows "\<not> ep_ub s' \<and> (\<forall>h. D h \<le> 1 \<and> (0 < D h \<longrightarrow> H h = 0 \<and> C h = 0 \<and> alias_count (g_epfd_buckets s') h = 0) \<and>
    (0 < H h \<or> 0 < alias_count (g_epfd_buckets s') h \<longrightarrow> epfd_shareds s' h \<noteq> None))"
proof -
  have i: "api_inv (s, \<lambda>_. 0, \<lambda>_. 0, \<lambda>_. 0)"
    using assms(2-) by (simp add: api_inv_def shared_ok_def alias_count_def)
  have "api_inv c'" if "(api_step sys)\<^sup>*\<^sup>* c c'" "api_inv c" for c c'
    using that by (induction rule: rtranclp_induct) (auto intro: api_step_inv)
  from this [OF assms(1) i] have j: "api_inv (s', H, C, D)" .
  show ?thesis
  proof (intro conjI allI)
    show "\<not> ep_ub s'" by (rule api_invD(1) [OF j])
    fix h
    show "D h \<le> 1" "0 < D h \<longrightarrow> H h = 0 \<and> C h = 0 \<and> alias_count (g_epfd_buckets s') h = 0"
      "0 < H h \<or> 0 < alias_count (g_epfd_buckets s') h \<longrightarrow> epfd_shareds s' h \<noteq> None"
      using api_invD(2) [OF j, of h] by (auto simp: shared_ok_def split: option.splits if_splits)
  qed
qed

text \<open>A process with no instance yet creates one and a call takes a reference on it.\<close>

definition api_start :: "unit ep_api_world" where
  "api_start = ep_world.extend (ep_world_zero ()) \<lparr> g_epfd_buckets = (\<lambda>_. []), g_next_fd = 1,
     epfd_shareds = Map.empty, epfd_next_addr = 0, g_api_close_timeout_ms = 5000,
     g_api_close_timeout_count = 0, g_api_deferred_destroy_count = 0 \<rparr>"

definition api_quiet :: "unit ep_api_sys" where
  "api_quiet = ep_win.extend win_quiet \<lparr> api_CreateEventW = (\<lambda>os. (7, os)), api_SetEvent = (\<lambda>_ os. (True, os)),
     api_WaitForSingleObject = (\<lambda>_ _ os. (WAIT_OBJECT_0, os)), api_closesocket = (\<lambda>_ os. (True, os)),
     api_WSAGetLastError = (\<lambda>os. (0, os)) \<rparr>"

theorem api_no_use_after_free_witness:
  "\<exists>s'. (api_step api_quiet)\<^sup>*\<^sup>* (api_start, \<lambda>_. 0, \<lambda>_. 0, \<lambda>_. 0) (s', \<lambda>_. 0, \<lambda>_. 0, \<lambda>_. 0) \<and>
     s' = exec (epfd_alloc api_quiet 0) api_start \<and> \<not> ep_ub s'"
proof -
  let ?s = "exec (epfd_alloc api_quiet 0) api_start"
  have "run_state (epfd_alloc api_quiet 0) api_start = (result_of (epfd_alloc api_quiet 0) api_start, ?s)"
    by (simp add: exec_def result_of_def)
  then have st: "(api_step api_quiet)\<^sup>*\<^sup>* (api_start, \<lambda>_. 0, \<lambda>_. 0, \<lambda>_. 0) (?s, \<lambda>_. 0, \<lambda>_. 0, \<lambda>_. 0)"
    by (intro r_into_rtranclp api_alloc)
  have "\<not> ep_ub ?s"
    using api_no_use_after_free [OF st]
    by (simp add: api_start_def ep_world.extend_def ep_world_zero_def)
  with st show ?thesis by blast
qed

end
