(* ===== verification/Ep_Provider.thy ===== *)
theory Ep_Provider
  imports Ep_Timeout
begin

text \<open>
  The provider socket behind a Winsock handle, \<^verbatim>\<open>src/src/wepoll_ex_afd.c\<close>: unwrapping layered
  service providers down to the base handle, classifying the protocol, and reading the endpoint
  identity.  Winsock is a parameter.
\<close>

section \<open>Winsock\<close>

text \<open>\<open>wsa_WSAIoctl\<close> answers whether the call succeeded, the 64-bit value it wrote and the number of
  bytes it reported; \<open>wsa_getsockopt_protocol\<close> the protocol information and its length, if the call
  succeeded.\<close>

record wsa_protocol_info =
  iAddressFamily :: int
  iSocketType :: int
  iProtocol :: int
  iProtocolMaxOffset :: int
  ChainLen :: int

record 'os ep_wsa = "'os ep_win" +
  wsa_WSAIoctl :: "sock_fd \<Rightarrow> dword \<Rightarrow> 'os \<Rightarrow> (bool \<times> uint64 \<times> dword) \<times> 'os"
  wsa_WSAGetLastError :: "'os \<Rightarrow> dword \<times> 'os"
  wsa_WSASetLastError :: "dword \<Rightarrow> 'os \<Rightarrow> unit \<times> 'os"
  wsa_getsockopt_protocol :: "sock_fd \<Rightarrow> 'os \<Rightarrow> (wsa_protocol_info \<times> int) option \<times> 'os"

abbreviation (input) SIO_BSP_HANDLE :: dword where "SIO_BSP_HANDLE \<equiv> 0x4800001B"
abbreviation (input) SIO_BSP_HANDLE_SELECT :: dword where "SIO_BSP_HANDLE_SELECT \<equiv> 0x4800001C"
abbreviation (input) SIO_BSP_HANDLE_POLL :: dword where "SIO_BSP_HANDLE_POLL \<equiv> 0x4800001D"
abbreviation (input) SIO_BASE_HANDLE :: dword where "SIO_BASE_HANDLE \<equiv> 0x48000022"
abbreviation (input) SIO_QUERY_WFP_ALE_ENDPOINT_HANDLE :: dword where
  "SIO_QUERY_WFP_ALE_ENDPOINT_HANDLE \<equiv> 0x580000CD"

abbreviation (input) AF_INET :: int where "AF_INET \<equiv> 2"
abbreviation (input) AF_INET6 :: int where "AF_INET6 \<equiv> 23"
abbreviation (input) SOCK_STREAM :: int where "SOCK_STREAM \<equiv> 1"
abbreviation (input) SOCK_DGRAM :: int where "SOCK_DGRAM \<equiv> 2"
abbreviation (input) IPPROTO_TCP :: int where "IPPROTO_TCP \<equiv> 6"
abbreviation (input) IPPROTO_UDP :: int where "IPPROTO_UDP \<equiv> 17"
abbreviation (input) BASE_PROTOCOL :: int where "BASE_PROTOCOL \<equiv> 1"
abbreviation (input) WSAPROTOCOL_INFOW_SIZE :: int where "WSAPROTOCOL_INFOW_SIZE \<equiv> 628"

section \<open>The base handle\<close>

text \<open>An ioctl returns a socket and the value it stores in the caller's error variable.\<close>

type_synonym ('os, 'z) ioctl_fn = "sock_fd \<Rightarrow> dword \<Rightarrow> (('os, 'z) ep_env_scheme, sock_fd \<times> dword) state"

definition ep_socket_ioctl_handle :: "('os, 'y) ep_wsa_scheme \<Rightarrow> ('os, 'z) ioctl_fn" where
  "ep_socket_ioctl_handle wsa socket ioctl = do {
     (ok, value, bytes) \<leftarrow> syscall (wsa_WSAIoctl wsa socket ioctl);
     if \<not> ok then do {
       error \<leftarrow> syscall (wsa_WSAGetLastError wsa);
       return (INVALID_SOCKET, error)
     }
     else if bytes \<noteq> 8 \<or> value = INVALID_SOCKET then return (INVALID_SOCKET, WSAEINVAL)
     else return (value, 0)
   }"

text \<open>The fallback ioctls in turn: the first result that is a socket not seen before, or whether a
  socket seen before turned up.\<close>

primrec fallback_scan ::
  "('os, 'z) ioctl_fn \<Rightarrow> sock_fd \<Rightarrow> sock_fd list \<Rightarrow> dword list \<Rightarrow> bool \<Rightarrow>
   (('os, 'z) ep_env_scheme, bool + sock_fd) state" where
  "fallback_scan ioctl_fn current visited [] saw_cycle = return (Inl saw_cycle)"
| "fallback_scan ioctl_fn current visited (i # is) saw_cycle = do {
     (candidate, _) \<leftarrow> ioctl_fn current i;
     if candidate = INVALID_SOCKET \<or> candidate = current then fallback_scan ioctl_fn current visited is saw_cycle
     else if candidate \<in> set visited then fallback_scan ioctl_fn current visited is True
     else return (Inr candidate)
   }"

abbreviation (input) EP_VISITED_SIZE :: nat where "EP_VISITED_SIZE \<equiv> 32"

primrec base_loop ::
  "nat \<Rightarrow> ('os, 'z) ioctl_fn \<Rightarrow> sock_fd \<Rightarrow> sock_fd list \<Rightarrow> (('os, 'z) ep_env_scheme, sock_fd) state" where
  "base_loop 0 ioctl_fn current visited = do { ep_set_errno ELOOP; return INVALID_SOCKET }"
| "base_loop (Suc depth) ioctl_fn current visited = do {
     (base, base_error) \<leftarrow> ioctl_fn current SIO_BASE_HANDLE;
     if base \<noteq> INVALID_SOCKET then return base
     else if base_error = WSAENOTSOCK then do { ep_set_errno ENOTSOCK; return INVALID_SOCKET }
     else do {
       r \<leftarrow> fallback_scan ioctl_fn current visited
         [SIO_BSP_HANDLE_SELECT, SIO_BSP_HANDLE_POLL, SIO_BSP_HANDLE] False;
       (case r of
         Inr candidate \<Rightarrow>
           if length visited \<ge> EP_VISITED_SIZE then do { ep_set_errno ELOOP; return INVALID_SOCKET }
           else base_loop depth ioctl_fn candidate (visited @ [candidate])
       | Inl saw_cycle \<Rightarrow>
           if saw_cycle then do { ep_set_errno ELOOP; return INVALID_SOCKET }
           else do { ep_set_winsock_error base_error; return INVALID_SOCKET })
     }
   }"

definition ep_socket_get_base_with_ioctl ::
  "sock_fd \<Rightarrow> ('os, 'z) ioctl_fn option \<Rightarrow> (('os, 'z) ep_env_scheme, sock_fd) state" where
  "ep_socket_get_base_with_ioctl socket ioctl_fn =
     (if socket = INVALID_SOCKET \<or> ioctl_fn = None then do {
        ep_set_errno (if socket = INVALID_SOCKET then ENOTSOCK else EFAULT);
        return INVALID_SOCKET
      } else do {
        fault \<leftarrow> ep_fault_hit EP_FAULT_PROVIDER_BASE;
        if fault \<noteq> 0 then return INVALID_SOCKET
        else base_loop 32 (the ioctl_fn) socket [socket]
      })"

definition ep_socket_get_base :: "('os, 'y) ep_wsa_scheme \<Rightarrow> sock_fd \<Rightarrow> (('os, 'z) ep_env_scheme, sock_fd) state" where
  "ep_socket_get_base wsa socket = ep_socket_get_base_with_ioctl socket (Some (ep_socket_ioctl_handle wsa))"

section \<open>Protocol and endpoint identity\<close>

definition is_inet :: "wsa_protocol_info \<Rightarrow> bool" where
  "is_inet i \<longleftrightarrow> iAddressFamily i = AF_INET \<or> iAddressFamily i = AF_INET6"

definition ep_socket_protocol_from_info :: "wsa_protocol_info option \<Rightarrow> int \<Rightarrow> ep_socket_protocol" where
  "ep_socket_protocol_from_info info len = (case info of
      None \<Rightarrow> EP_SOCKET_PROTOCOL_UNKNOWN
    | Some i \<Rightarrow>
        if len < WSAPROTOCOL_INFOW_SIZE then EP_SOCKET_PROTOCOL_UNKNOWN
        else if is_inet i \<and> iSocketType i = SOCK_DGRAM \<and> iProtocol i = IPPROTO_UDP \<and> iProtocolMaxOffset i = 0
        then EP_SOCKET_PROTOCOL_UDP
        else if is_inet i \<and> iSocketType i = SOCK_STREAM \<and> iProtocol i = IPPROTO_TCP \<and> iProtocolMaxOffset i = 0
        then EP_SOCKET_PROTOCOL_TCP
        else EP_SOCKET_PROTOCOL_UNKNOWN)"

definition ep_socket_udp_afd_qualifier_from_info :: "wsa_protocol_info option \<Rightarrow> int \<Rightarrow> bool" where
  "ep_socket_udp_afd_qualifier_from_info info len \<longleftrightarrow>
     ep_socket_protocol_from_info info len = EP_SOCKET_PROTOCOL_UDP \<and> info \<noteq> None \<and>
     len \<ge> WSAPROTOCOL_INFOW_SIZE \<and> ChainLen (the info) = BASE_PROTOCOL"

text \<open>The protocol, and what is stored through \<open>udp_afd_qualifier_out\<close>.\<close>

definition ep_socket_get_protocol ::
  "('os, 'y) ep_wsa_scheme \<Rightarrow> sock_fd \<Rightarrow> (('os, 'z) ep_env_scheme, ep_socket_protocol \<times> bool) state" where
  "ep_socket_get_protocol wsa socket = do {
     saved_wsa_error \<leftarrow> syscall (wsa_WSAGetLastError wsa);
     saved_error \<leftarrow> ep_get_last_error_info;
     info \<leftarrow> (if socket \<noteq> INVALID_SOCKET then syscall (wsa_getsockopt_protocol wsa socket) else return None);
     let r = (case info of
         None \<Rightarrow> (EP_SOCKET_PROTOCOL_UNKNOWN, False)
       | Some (i, len) \<Rightarrow> (ep_socket_protocol_from_info (Some i) len,
           ep_socket_udp_afd_qualifier_from_info (Some i) len));
     syscall (wsa_WSASetLastError wsa saved_wsa_error);
     ep_restore_last_error_info saved_error;
     return r
   }"

text \<open>The endpoint ioctl returns whether it succeeded, the identity, the byte count and the error.\<close>

type_synonym ('os, 'z) endpoint_ioctl_fn =
  "sock_fd \<Rightarrow> dword \<Rightarrow> (('os, 'z) ep_env_scheme, bool \<times> uint64 \<times> dword \<times> dword) state"

definition ep_socket_ioctl_endpoint_id :: "('os, 'y) ep_wsa_scheme \<Rightarrow> ('os, 'z) endpoint_ioctl_fn" where
  "ep_socket_ioctl_endpoint_id wsa socket ioctl = do {
     (ok, value, bytes) \<leftarrow> syscall (wsa_WSAIoctl wsa socket ioctl);
     if \<not> ok then do {
       error \<leftarrow> syscall (wsa_WSAGetLastError wsa);
       return (False, value, bytes, error)
     } else return (True, value, bytes, 0)
   }"

text \<open>The return value, and the identity stored through \<open>endpoint_id\<close> if one was stored; the flag says
  whether the caller passed a place to store it.\<close>

definition ep_socket_get_endpoint_id_with_ioctl ::
  "sock_fd \<Rightarrow> bool \<Rightarrow> ('os, 'z) endpoint_ioctl_fn option \<Rightarrow>
   (('os, 'z) ep_env_scheme, int \<times> uint64 option) state" where
  "ep_socket_get_endpoint_id_with_ioctl socket has_out ioctl_fn =
     (if socket = INVALID_SOCKET \<or> \<not> has_out \<or> ioctl_fn = None then do {
        ep_set_errno (if socket = INVALID_SOCKET then ENOTSOCK else EFAULT);
        return (- 1, None)
      } else do {
        unavailable \<leftarrow> ep_fault_hit EP_FAULT_ENDPOINT_UNAVAILABLE;
        if unavailable \<noteq> 0 then do { ep_set_errno 0; return (0, None) }
        else do {
          fault \<leftarrow> ep_fault_hit EP_FAULT_ENDPOINT_IDENTITY;
          if fault \<noteq> 0 then return (- 1, None)
          else do {
            (ok, value, bytes, ioctl_error) \<leftarrow> the ioctl_fn socket SIO_QUERY_WFP_ALE_ENDPOINT_HANDLE;
            if \<not> ok then
              if ioctl_error = WSAEOPNOTSUPP \<or> ioctl_error = WSAENOPROTOOPT \<or> ioctl_error = WSAEINVAL
              then return (0, None)
              else do { ep_set_winsock_error ioctl_error; return (- 1, None) }
            else if bytes \<noteq> 8 then do { ep_set_errno EIO; return (- 1, None) }
            else return (1, Some value)
          }
        }
      })"

definition ep_socket_get_endpoint_id ::
  "('os, 'y) ep_wsa_scheme \<Rightarrow> sock_fd \<Rightarrow> (('os, 'z) ep_env_scheme, int \<times> uint64 option) state" where
  "ep_socket_get_endpoint_id wsa socket =
     ep_socket_get_endpoint_id_with_ioctl socket True (Some (ep_socket_ioctl_endpoint_id wsa))"

section \<open>Properties\<close>

lemma base_loop_depth:
  "length visited \<le> EP_VISITED_SIZE \<Longrightarrow> EP_VISITED_SIZE < length visited + n \<Longrightarrow>
   base_loop (n + k) ioctl_fn current visited = base_loop n ioctl_fn current visited"
proof (induction n arbitrary: current visited)
  case 0
  then show ?case by simp
next
  case (Suc n)
  have "base_loop (n + k) ioctl_fn c (visited @ [c]) = base_loop n ioctl_fn c (visited @ [c])"
    if "\<not> length visited \<ge> EP_VISITED_SIZE" for c
    by (rule Suc.IH) (use Suc.prems that in simp_all)
  then have "(\<lambda>c. if length visited \<ge> EP_VISITED_SIZE then do { ep_set_errno ELOOP; return INVALID_SOCKET }
        else base_loop (n + k) ioctl_fn c (visited @ [c])) =
      (\<lambda>c. if length visited \<ge> EP_VISITED_SIZE then do { ep_set_errno ELOOP; return INVALID_SOCKET }
        else base_loop n ioctl_fn c (visited @ [c]))"
    by (auto simp: fun_eq_iff)
  then show ?case by (simp only: base_loop.simps add_Suc)
qed


lemma base_loop_layers:
  fixes f :: "sock_fd \<Rightarrow> dword \<Rightarrow> sock_fd \<times> dword"
  assumes "distinct (pre @ cur # post)" "INVALID_SOCKET \<notin> set post" "length (pre @ cur # post) \<le> 32"
    and "length post < n" "base \<noteq> INVALID_SOCKET" "fst (f (last (cur # post)) SIO_BASE_HANDLE) = base"
    and "\<forall>i < length post. fst (f ((cur # post) ! i) SIO_BASE_HANDLE) = INVALID_SOCKET \<and>
      snd (f ((cur # post) ! i) SIO_BASE_HANDLE) \<noteq> WSAENOTSOCK \<and>
      fst (f ((cur # post) ! i) SIO_BSP_HANDLE_SELECT) = post ! i"
  shows "wp (base_loop n (\<lambda>x i. return (f x i)) cur (pre @ [cur])) (\<lambda>r s'. r = base \<and> s' = s) s"
  using assms
proof (induction post arbitrary: pre cur n)
  case Nil
  obtain e where "f cur SIO_BASE_HANDLE = (base, e)" using Nil.prems(6) by (cases "f cur SIO_BASE_HANDLE") auto
  then show ?case using Nil.prems(4,5) by (cases n) (simp_all add: wp_simps)
next
  case (Cons c post)
  obtain m where n: "n = Suc m" using Cons.prems(4) by (cases n) auto
  obtain be ce where 0: "f cur SIO_BASE_HANDLE = (INVALID_SOCKET, be)" "be \<noteq> WSAENOTSOCK"
      "f cur SIO_BSP_HANDLE_SELECT = (c, ce)"
    using spec [OF Cons.prems(7), of 0] by (cases "f cur SIO_BASE_HANDLE"; cases "f cur SIO_BSP_HANDLE_SELECT") auto
  have rest: "\<forall>i < length post. fst (f ((c # post) ! i) SIO_BASE_HANDLE) = INVALID_SOCKET \<and>
      snd (f ((c # post) ! i) SIO_BASE_HANDLE) \<noteq> WSAENOTSOCK \<and>
      fst (f ((c # post) ! i) SIO_BSP_HANDLE_SELECT) = post ! i"
    using Cons.prems(7) by force
  have IH: "wp (base_loop m (\<lambda>x i. return (f x i)) c ((pre @ [cur]) @ [c])) (\<lambda>r s'. r = base \<and> s' = s) s"
    by (rule Cons.IH) (use Cons.prems rest n in auto)
  have "c \<noteq> INVALID_SOCKET" "c \<noteq> cur" "c \<notin> set (pre @ [cur])" using Cons.prems by auto
  then show ?case using IH 0 Cons.prems(3) n
    by (simp add: wp_simps)
qed

text \<open>(C30) A stack of up to 32 layered provider handles, in which only the innermost answers the
  base-handle query and each other one reveals the next through its select handle, is unwrapped to the
  base handle, with no error recorded.\<close>

theorem provider_unwraps_layers:
  fixes f :: "sock_fd \<Rightarrow> dword \<Rightarrow> sock_fd \<times> dword"
  assumes "distinct (cur # post)" "INVALID_SOCKET \<notin> set (cur # post)" "length (cur # post) \<le> 32"
    and "base \<noteq> INVALID_SOCKET" "fst (f (last (cur # post)) SIO_BASE_HANDLE) = base"
    and "\<forall>i < length post. fst (f ((cur # post) ! i) SIO_BASE_HANDLE) = INVALID_SOCKET \<and>
      snd (f ((cur # post) ! i) SIO_BASE_HANDLE) \<noteq> WSAENOTSOCK \<and>
      fst (f ((cur # post) ! i) SIO_BSP_HANDLE_SELECT) = post ! i"
    and "\<not> fault_armed s EP_FAULT_PROVIDER_BASE"
  shows "wp (ep_socket_get_base_with_ioctl cur (Some (\<lambda>x i. return (f x i)))) (\<lambda>r s'. r = base \<and> s' = s) s"
proof -
  have "wp (ep_fault_hit EP_FAULT_PROVIDER_BASE) (\<lambda>r s'. r = 0 \<and> s' = s) s"
    using fault_hit_disarmed [OF assms(7)] by (simp add: wp_def exec_def result_of_def)
  moreover have "wp (base_loop 32 (\<lambda>x i. return (f x i)) cur ([] @ [cur])) (\<lambda>r s'. r = base \<and> s' = s) s"
    by (rule base_loop_layers) (use assms in auto)
  ultimately have "wp (ep_fault_hit EP_FAULT_PROVIDER_BASE) (\<lambda>x. wp (if x \<noteq> 0 then return INVALID_SOCKET
      else base_loop 32 (\<lambda>x i. return (f x i)) cur [cur]) (\<lambda>r s'. r = base \<and> s' = s)) s"
    by (elim wp_mono) simp
  then show ?thesis using assms(2) unfolding ep_socket_get_base_with_ioctl_def by (auto simp: wp_bind cong: if_cong)
qed

theorem provider_unwraps_layers_witness:
  "wp (ep_socket_get_base_with_ioctl 1 (Some (\<lambda>x i. return
     (if i = SIO_BASE_HANDLE then if x = 2 then (9, 0) else (INVALID_SOCKET, WSAEINVAL)
      else if i = SIO_BSP_HANDLE_SELECT \<and> x = 1 then (2, 0) else (INVALID_SOCKET, WSAEINVAL)))))
     (\<lambda>r s'. r = 9 \<and> s' = ep_world_zero ()) (ep_world_zero ())"
  by (rule provider_unwraps_layers [where cur = 1 and post = "[2]" and f = "\<lambda>x i.
      if i = SIO_BASE_HANDLE then if x = 2 then (9, 0) else (INVALID_SOCKET, WSAEINVAL)
      else if i = SIO_BSP_HANDLE_SELECT \<and> x = 1 then (2, 0) else (INVALID_SOCKET, WSAEINVAL)"])
    (simp_all add: fault_armed_def ep_world_zero_def)

end
