(* ===== verification/Ep_Afd.thy ===== *)
theory Ep_Afd
  imports Ep_Provider Ep_Worklist
begin

text \<open>
  AFD polling, \<^verbatim>\<open>src/src/wepoll_ex_afd.c\<close>: the process-wide index that keeps one active poll per
  numeric target handle, with duplicated targets and slot reservations; opening an AFD control
  handle; submitting and cancelling a poll.  A region under the index lock is one step.
\<close>

section \<open>System calls\<close>

text \<open>A null handle stands for a failed creation; an NT call that could not be resolved is absent.
  \<open>afd_NtDeviceIoControlFile\<close> gets the control handle, the registration whose status block is passed
  and the poll buffer, and returns the status and the buffer.\<close>

record 'os ep_afd_sys = "'os ep_wsa" +
  afd_DuplicateHandle :: "handle \<Rightarrow> 'os \<Rightarrow> handle option \<times> 'os"
  afd_CreateEventW :: "'os \<Rightarrow> handle \<times> 'os"
  afd_realloc :: "uint64 \<Rightarrow> 'os \<Rightarrow> bool \<times> 'os"
  afd_NtCreateFile :: "('os \<Rightarrow> (ntstatus \<times> handle) \<times> 'os) option"
  afd_CreateIoCompletionPort :: "handle \<Rightarrow> handle \<Rightarrow> 'os \<Rightarrow> handle \<times> 'os"
  afd_SetFileCompletionNotificationModes :: "handle \<Rightarrow> uint8 \<Rightarrow> 'os \<Rightarrow> bool \<times> 'os"
  afd_NtDeviceIoControlFile :: "(handle \<Rightarrow> addr \<Rightarrow> afd_poll_info \<Rightarrow> 'os \<Rightarrow> (ntstatus \<times> afd_poll_info) \<times> 'os) option"
  afd_NtCancelIoFileEx :: "(handle \<Rightarrow> addr \<Rightarrow> 'os \<Rightarrow> ntstatus \<times> 'os) option"
  afd_RtlNtStatusToDosError :: "(ntstatus \<Rightarrow> dword) option"

abbreviation (input) EP_AFD_POLL_KEY_BUCKETS :: uint64 where "EP_AFD_POLL_KEY_BUCKETS \<equiv> 256"
abbreviation (input) AFD_POLL_INFO_SIZE :: uint64 where "AFD_POLL_INFO_SIZE \<equiv> 32"

section \<open>The index of active targets\<close>

definition ep_afd_poll_key_bucket :: "handle \<Rightarrow> nat" where
  "ep_afd_poll_key_bucket target =
     (let v = target XOR drop_bit 4 target; v' = v XOR drop_bit 12 v in
      unat (v' AND (EP_AFD_POLL_KEY_BUCKETS - 1)))"

definition key_bucket_upd :: "nat \<Rightarrow> addr option \<Rightarrow> (('os, 'z) ep_world_scheme, unit) state" where
  "key_bucket_upd b h = modify (\<lambda>s. s \<lparr> g_afd_poll_key_buckets := (g_afd_poll_key_buckets s)(b := h) \<rparr>)"

primrec key_active_scan :: "nat \<Rightarrow> addr option \<Rightarrow> handle \<Rightarrow> (('os, 'z) ep_world_scheme, bool) state" where
  "key_active_scan 0 cur target = (case cur of None \<Rightarrow> return False | Some _ \<Rightarrow> do { bad_access; return False })"
| "key_active_scan (Suc n) cur target = (case cur of
      None \<Rightarrow> return False
    | Some a \<Rightarrow> do {
        owned \<leftarrow> sock_read a sk_afd_poll_key_owned;
        assert_that owned;
        t \<leftarrow> sock_read a sk_afd_poll_target;
        if t = target then return True
        else do {
          next_key \<leftarrow> sock_read a sk_afd_poll_key_next;
          key_active_scan n next_key target
        }
      })"

definition ep_afd_poll_key_is_active_locked :: "nat \<Rightarrow> handle \<Rightarrow> (('os, 'z) ep_world_scheme, bool) state" where
  "ep_afd_poll_key_is_active_locked bucket target = do {
     n \<leftarrow> gets pool_next_addr;
     head \<leftarrow> gets (\<lambda>s. g_afd_poll_key_buckets s bucket);
     key_active_scan n head target
   }"

text \<open>The error state around bookkeeping calls.\<close>

record ep_afd_error_state =
  es_error :: int
  es_wsa_error :: dword
  es_last_error :: dword

definition ep_afd_error_state_save ::
  "('os, 'y) ep_afd_sys_scheme \<Rightarrow> (('os, 'z) ep_env_scheme, ep_afd_error_state) state" where
  "ep_afd_error_state_save sys = do {
     error \<leftarrow> ep_last_err;
     wsa_error \<leftarrow> syscall (wsa_WSAGetLastError sys);
     last_error \<leftarrow> syscall (win_GetLastError sys);
     return \<lparr> es_error = error, es_wsa_error = wsa_error, es_last_error = last_error \<rparr>
   }"

definition ep_afd_error_state_restore ::
  "('os, 'y) ep_afd_sys_scheme \<Rightarrow> ep_afd_error_state \<Rightarrow> (('os, 'z) ep_env_scheme, unit) state" where
  "ep_afd_error_state_restore sys st = do {
     ep_set_errno (es_error st);
     syscall (wsa_WSASetLastError sys (es_wsa_error st));
     syscall (win_SetLastError sys (es_last_error st))
   }"

text \<open>The walk along the links to a registration: the link that holds it (the head of the bucket, or
  the link of a registration) and its value.\<close>

primrec key_find_link ::
  "nat \<Rightarrow> addr option \<Rightarrow> addr option \<Rightarrow> addr \<Rightarrow> (('os, 'z) ep_world_scheme, addr option \<times> addr option) state" where
  "key_find_link 0 link cur sock = do { bad_access; return (link, None) }"
| "key_find_link (Suc n) link cur sock = (case cur of
      None \<Rightarrow> return (link, None)
    | Some a \<Rightarrow>
        if a = sock then return (link, Some a)
        else do {
          next_key \<leftarrow> sock_read a sk_afd_poll_key_next;
          key_find_link n (Some a) next_key sock
        })"

definition key_relink :: "nat \<Rightarrow> addr option \<Rightarrow> addr option \<Rightarrow> (('os, 'z) ep_world_scheme, unit) state" where
  "key_relink bucket link v = (case link of
      None \<Rightarrow> key_bucket_upd bucket v
    | Some a \<Rightarrow> sock_upd a (\<lambda>k. k \<lparr> sk_afd_poll_key_next := v \<rparr>))"

definition key_clear :: "addr \<Rightarrow> (('os, 'z) ep_world_scheme, handle) state" where
  "key_clear sock = do {
     reservation \<leftarrow> sock_read sock sk_afd_poll_key_reservation;
     sock_upd sock (\<lambda>k. k \<lparr> sk_afd_poll_target := NULL_HANDLE \<rparr>);
     sock_upd sock (\<lambda>k. k \<lparr> sk_afd_poll_key_reservation := NULL_HANDLE \<rparr>);
     sock_upd sock (\<lambda>k. k \<lparr> sk_afd_poll_key_next := None \<rparr>);
     sock_upd sock (\<lambda>k. k \<lparr> sk_afd_poll_key_owned := False \<rparr>);
     return reservation
   }"

definition ep_afd_poll_key_release_locked :: "nat \<Rightarrow> addr \<Rightarrow> (('os, 'z) ep_world_scheme, handle) state" where
  "ep_afd_poll_key_release_locked bucket sock = do {
     owned \<leftarrow> sock_read sock sk_afd_poll_key_owned;
     assert_that owned;
     n \<leftarrow> gets pool_next_addr;
     head \<leftarrow> gets (\<lambda>s. g_afd_poll_key_buckets s bucket);
     (link, found) \<leftarrow> key_find_link (Suc n) None head sock;
     assert_that (found = Some sock);
     when_do (found = Some sock) (do {
       next_key \<leftarrow> sock_read sock sk_afd_poll_key_next;
       key_relink bucket link next_key
     });
     key_clear sock
   }"

definition ep_afd_poll_key_insert_locked :: "nat \<Rightarrow> addr \<Rightarrow> handle \<Rightarrow> (('os, 'z) ep_world_scheme, unit) state" where
  "ep_afd_poll_key_insert_locked bucket sock target = do {
     k \<leftarrow> sock_read sock id;
     assert_that (\<not> sk_afd_poll_key_owned k);
     assert_that (sk_afd_poll_key_next k = None);
     assert_that (sk_afd_poll_key_reservation k = NULL_HANDLE);
     active \<leftarrow> ep_afd_poll_key_is_active_locked bucket target;
     assert_that (\<not> active);
     head \<leftarrow> gets (\<lambda>s. g_afd_poll_key_buckets s bucket);
     sock_upd sock (\<lambda>k. k \<lparr> sk_afd_poll_target := target \<rparr>);
     sock_upd sock (\<lambda>k. k \<lparr> sk_afd_poll_key_reservation := NULL_HANDLE \<rparr>);
     sock_upd sock (\<lambda>k. k \<lparr> sk_afd_poll_key_next := head \<rparr>);
     sock_upd sock (\<lambda>k. k \<lparr> sk_afd_poll_key_owned := True \<rparr>);
     key_bucket_upd bucket (Some sock)
   }"

definition ep_afd_poll_key_try_claim :: "addr \<Rightarrow> handle \<Rightarrow> (('os, 'z) ep_world_scheme, bool) state" where
  "ep_afd_poll_key_try_claim sock target = do {
     let bucket = ep_afd_poll_key_bucket target;
     active \<leftarrow> ep_afd_poll_key_is_active_locked bucket target;
     if active then return False
     else do { ep_afd_poll_key_insert_locked bucket sock target; return True }
   }"

text \<open>The outcome of the duplication loop: the error to report, the native error, what is stored
  through \<open>duplicated_out\<close> (which the caller clears), and the duplicates that collided.\<close>

record key_claim_result =
  kr_error :: int
  kr_win_error :: dword
  kr_duplicated :: bool
  kr_collisions :: "handle list"

text \<open>Growing the list of collisions: \<open>None\<close> on success with the new capacity.\<close>

definition collision_grow ::
  "('os, 'y) ep_afd_sys_scheme \<Rightarrow> uint64 \<Rightarrow> (('os, 'z) ep_world_scheme, int + uint64) state" where
  "collision_grow sys capacity = do {
     let new_capacity = (if capacity = 0 then 8 else capacity * 2);
     if new_capacity < capacity \<or> new_capacity > (- 1) div 8 then return (Inl ENOMEM)
     else do {
       fault \<leftarrow> ep_fault_hit EP_FAULT_AFD_KEY_COLLISION_GROW;
       if fault \<noteq> 0 then do { error \<leftarrow> ep_last_err; return (Inl error) }
       else do {
         ok \<leftarrow> syscall (afd_realloc sys (new_capacity * 8));
         return (if ok then Inr new_capacity else Inl ENOMEM)
       }
     }
   }"

primrec key_duplicate_loop ::
  "nat \<Rightarrow> ('os, 'y) ep_afd_sys_scheme \<Rightarrow> addr \<Rightarrow> handle \<Rightarrow> handle list \<Rightarrow> uint64 \<Rightarrow>
   (('os, 'z) ep_world_scheme, key_claim_result option) state" where
  "key_duplicate_loop 0 sys sock base_target collisions capacity = return None"
| "key_duplicate_loop (Suc n) sys sock base_target collisions capacity = do {
     dup \<leftarrow> syscall (afd_DuplicateHandle sys base_target);
     (case dup of
       None \<Rightarrow> do {
         win_error \<leftarrow> syscall (win_GetLastError sys);
         return (Some \<lparr> kr_error = ep_winerr_to_errno win_error, kr_win_error = win_error, kr_duplicated = False,
           kr_collisions = collisions \<rparr>)
       }
     | Some duplicate \<Rightarrow> do {
         forced \<leftarrow> ep_fault_hit_through EP_FAULT_AFD_KEY_FORCE_COLLISION;
         claimed \<leftarrow> (if forced \<noteq> 0 then return False else ep_afd_poll_key_try_claim sock duplicate);
         if claimed then return (Some \<lparr> kr_error = 0, kr_win_error = 0, kr_duplicated = True, kr_collisions = collisions \<rparr>)
         else if of_nat (length collisions) = capacity then do {
           g \<leftarrow> collision_grow sys capacity;
           (case g of
             Inl error \<Rightarrow> do {
               _ \<leftarrow> syscall (win_CloseHandle sys duplicate);
               return (Some \<lparr> kr_error = error, kr_win_error = 0, kr_duplicated = False, kr_collisions = collisions \<rparr>)
             }
           | Inr new_capacity \<Rightarrow>
               key_duplicate_loop n sys sock base_target (collisions @ [duplicate]) new_capacity)
         }
         else key_duplicate_loop n sys sock base_target (collisions @ [duplicate]) capacity
       })
   }"

primrec close_all :: "('os, 'y) ep_afd_sys_scheme \<Rightarrow> handle list \<Rightarrow> (('os, 'z) ep_world_scheme, unit) state" where
  "close_all sys [] = skip"
| "close_all sys (h # hs) = do { _ \<leftarrow> syscall (win_CloseHandle sys h); close_all sys hs }"

text \<open>The result is the return value and whether the target is a duplicate; \<open>None\<close> when the bound on
  duplications is exhausted.\<close>

definition ep_afd_poll_key_claim ::
  "nat \<Rightarrow> ('os, 'y) ep_afd_sys_scheme \<Rightarrow> addr \<Rightarrow> handle \<Rightarrow> (('os, 'z) ep_world_scheme, (int \<times> bool) option) state" where
  "ep_afd_poll_key_claim fuel sys sock base_target = do {
     k \<leftarrow> sock_read sock id;
     assert_that (\<not> sk_afd_poll_key_owned k);
     assert_that (sk_afd_poll_key_next k = None);
     assert_that (sk_afd_poll_key_reservation k = NULL_HANDLE);
     claimed \<leftarrow> ep_afd_poll_key_try_claim sock base_target;
     if claimed then return (Some (0, False))
     else do {
       r \<leftarrow> key_duplicate_loop fuel sys sock base_target [] 0;
       (case r of
         None \<Rightarrow> return None
       | Some res \<Rightarrow> do {
           close_all sys (kr_collisions res);
           if kr_error res \<noteq> 0 then do {
             ep_set_errno (kr_error res);
             when_do (kr_win_error res \<noteq> 0) (do {
               syscall (wsa_WSASetLastError sys (kr_win_error res));
               syscall (win_SetLastError sys (kr_win_error res))
             });
             return (Some (- 1, False))
           } else return (Some (0, kr_duplicated res))
         })
     }
   }"

definition ep_afd_poll_duplicate_finish ::
  "('os, 'y) ep_afd_sys_scheme \<Rightarrow> addr \<Rightarrow> bool \<Rightarrow> (('os, 'z) ep_world_scheme, unit) state" where
  "ep_afd_poll_duplicate_finish sys sock reserve_slot = do {
     error_state \<leftarrow> ep_afd_error_state_save sys;
     k \<leftarrow> sock_read sock id;
     let target = sk_afd_poll_target k;
     assert_that (sk_afd_poll_key_owned k);
     assert_that (sk_afd_poll_key_reservation k = NULL_HANDLE);
     closed \<leftarrow> syscall (win_CloseHandle sys target);
     reserve \<leftarrow> (if closed \<and> reserve_slot
       then do { fault \<leftarrow> ep_fault_hit EP_FAULT_AFD_KEY_RESERVATION; return (fault = 0) }
       else return False);
     reservation \<leftarrow> (if reserve then do {
         h \<leftarrow> syscall (afd_CreateEventW sys);
         if h \<noteq> target \<and> h \<noteq> NULL_HANDLE
         then do { _ \<leftarrow> syscall (win_CloseHandle sys h); return NULL_HANDLE }
         else return h
       } else return NULL_HANDLE);
     when_do (reservation \<noteq> NULL_HANDLE) (do {
       k' \<leftarrow> sock_read sock id;
       assert_that (sk_afd_poll_key_owned k');
       assert_that (sk_afd_poll_target k' = target);
       assert_that (sk_afd_poll_key_reservation k' = NULL_HANDLE);
       sock_upd sock (\<lambda>k. k \<lparr> sk_afd_poll_key_reservation := reservation \<rparr>)
     });
     ep_afd_error_state_restore sys error_state
   }"

definition ep_afd_poll_key_release ::
  "('os, 'y) ep_afd_sys_scheme \<Rightarrow> addr option \<Rightarrow> (('os, 'z) ep_world_scheme, unit) state" where
  "ep_afd_poll_key_release sys sock = (case sock of
      None \<Rightarrow> skip
    | Some a \<Rightarrow> do {
        k \<leftarrow> sock_read a id;
        if \<not> sk_afd_poll_key_owned k then do {
          assert_that (sk_afd_poll_key_next k = None);
          assert_that (sk_afd_poll_key_reservation k = NULL_HANDLE)
        } else do {
          reservation \<leftarrow> ep_afd_poll_key_release_locked (ep_afd_poll_key_bucket (sk_afd_poll_target k)) a;
          when_do (reservation \<noteq> NULL_HANDLE) (do {
            error_state \<leftarrow> ep_afd_error_state_save sys;
            _ \<leftarrow> syscall (win_CloseHandle sys reservation);
            ep_afd_error_state_restore sys error_state
          })
        }
      })"

definition ep_afd_poll_duplicate_abandon ::
  "('os, 'y) ep_afd_sys_scheme \<Rightarrow> addr \<Rightarrow> (('os, 'z) ep_world_scheme, unit) state" where
  "ep_afd_poll_duplicate_abandon sys sock = do {
     ep_afd_poll_duplicate_finish sys sock False;
     ep_afd_poll_key_release sys (Some sock)
   }"

section \<open>Control handles\<close>

text \<open>The return value, and the handle stored through \<open>out\<close>; the flag says whether the caller
  passed a place for it.\<close>

definition ep_afd_open ::
  "('os, 'y) ep_afd_sys_scheme \<Rightarrow> handle \<Rightarrow> bool \<Rightarrow> (('os, 'z) ep_world_scheme, int \<times> handle option) state" where
  "ep_afd_open sys iocp has_out = (case afd_NtCreateFile sys of
      None \<Rightarrow> do { ep_set_errno EINVAL; return (- 1, None) }
    | Some create \<Rightarrow>
        if iocp = NULL_HANDLE \<or> \<not> has_out then do { ep_set_errno EINVAL; return (- 1, None) }
        else do {
          fault \<leftarrow> ep_fault_hit EP_FAULT_AFD_OPEN;
          if fault \<noteq> 0 then return (- 1, None)
          else do {
            (status, h) \<leftarrow> syscall create;
            if status \<noteq> STATUS_SUCCESS then do {
              ep_set_ntstatus_error (afd_RtlNtStatusToDosError sys) status;
              return (- 1, None)
            } else do {
              assoc \<leftarrow> syscall (afd_CreateIoCompletionPort sys h iocp);
              if assoc = NULL_HANDLE then do {
                error \<leftarrow> syscall (win_GetLastError sys);
                ep_set_win32_error error;
                _ \<leftarrow> syscall (win_CloseHandle sys h);
                return (- 1, None)
              } else do {
                ok \<leftarrow> syscall (afd_SetFileCompletionNotificationModes sys h 3);
                if \<not> ok then do {
                  error \<leftarrow> syscall (win_GetLastError sys);
                  ep_set_win32_error error;
                  _ \<leftarrow> syscall (win_CloseHandle sys h);
                  return (- 1, None)
                } else return (0, Some h)
              }
            }
          }
        })"

section \<open>Submitting and cancelling a poll\<close>

definition group_afd :: "addr option \<Rightarrow> (('os, 'z) ep_world_scheme, handle) state" where
  "group_afd g = (case g of
      None \<Rightarrow> return NULL_HANDLE
    | Some a \<Rightarrow> do {
        ok \<leftarrow> gets (\<lambda>s. groups s a \<noteq> None);
        when_do (\<not> ok) bad_access;
        gets (\<lambda>s. ag_afd (the (groups s a)))
      })"

definition afd_info_zero :: afd_poll_info where
  "afd_info_zero = \<lparr> api_timeout = 0, api_number_of_handles = 0, api_exclusive = 0, api_handle = 0,
     api_events = 0, api_status = 0 \<rparr>"

definition info_upd :: "addr \<Rightarrow> (afd_poll_info \<Rightarrow> afd_poll_info) \<Rightarrow> (('os, 'z) ep_world_scheme, unit) state" where
  "info_upd i f = modify (\<lambda>s. s \<lparr> afd_infos := (afd_infos s)(i := f (afd_infos s i)) \<rparr>)"

text \<open>The poll buffer of a registration, allocated when it has none: whether there is one.\<close>

definition submit_buffer :: "('os, 'y) ep_afd_sys_scheme \<Rightarrow> addr \<Rightarrow> (('os, 'z) ep_world_scheme, bool) state" where
  "submit_buffer sys sock = do {
     info \<leftarrow> sock_read sock sk_afd_info;
     (case info of
       Some _ \<Rightarrow> return True
     | None \<Rightarrow> do {
         ok \<leftarrow> syscall (sys_malloc sys AFD_POLL_INFO_SIZE);
         if \<not> ok then do { ep_set_errno ENOMEM; return False }
         else do {
           a \<leftarrow> gets pool_next_addr;
           modify (\<lambda>s. s \<lparr> pool_next_addr := a + 1, afd_infos := (afd_infos s)(a := afd_info_zero) \<rparr>);
           sock_upd sock (\<lambda>k. k \<lparr> sk_afd_info := Some a \<rparr>);
           return True
         }
       })
   }"

text \<open>The provider socket, from the cache when it was found for the same endpoint.\<close>

definition submit_base :: "('os, 'y) ep_afd_sys_scheme \<Rightarrow> addr \<Rightarrow> (('os, 'z) ep_world_scheme, bool) state" where
  "submit_base sys sock = do {
     k \<leftarrow> sock_read sock id;
     if sk_base_socket_cached k \<and> sk_endpoint_id_state k \<noteq> EP_SOCKET_ID_UNAVAILABLE \<and>
        sk_base_socket_identity k = sk_endpoint_id k \<and> sk_base_socket k \<noteq> INVALID_SOCKET
     then return True
     else do {
       base \<leftarrow> ep_socket_get_base sys (sk_fd k);
       sock_upd sock (\<lambda>k. k \<lparr> sk_base_socket := base \<rparr>);
       if base = INVALID_SOCKET then do {
         sock_upd sock (\<lambda>k. k \<lparr> sk_base_socket_cached := False \<rparr>);
         return False
       }
       else if sk_endpoint_id_state k \<noteq> EP_SOCKET_ID_UNAVAILABLE then do {
         sock_upd sock (\<lambda>k. k \<lparr> sk_base_socket_identity := sk_endpoint_id k \<rparr>);
         sock_upd sock (\<lambda>k. k \<lparr> sk_base_socket_cached := True \<rparr>);
         return True
       } else do {
         sock_upd sock (\<lambda>k. k \<lparr> sk_base_socket_cached := False \<rparr>);
         return True
       }
     }
   }"

definition submit_release ::
  "('os, 'y) ep_afd_sys_scheme \<Rightarrow> addr \<Rightarrow> bool \<Rightarrow> (('os, 'z) ep_world_scheme, unit) state" where
  "submit_release sys sock target_is_duplicate =
     (if target_is_duplicate then ep_afd_poll_duplicate_abandon sys sock
      else ep_afd_poll_key_release sys (Some sock))"

text \<open>From the claimed target on: the request itself.  The result is the return value and what is
  stored through \<open>pending_out\<close>.\<close>

definition submit_request ::
  "('os, 'y) ep_afd_sys_scheme \<Rightarrow> (handle \<Rightarrow> addr \<Rightarrow> afd_poll_info \<Rightarrow> 'os \<Rightarrow> (ntstatus \<times> afd_poll_info) \<times> 'os) \<Rightarrow>
   addr \<Rightarrow> uint32 \<Rightarrow> handle \<Rightarrow> bool \<Rightarrow> (('os, 'z) ep_world_scheme, int \<times> bool) state" where
  "submit_request sys ioctl sock afd_events afd target_is_duplicate = do {
     k \<leftarrow> sock_read sock id;
     let info = the (sk_afd_info k);
     info_upd info (\<lambda>i. i \<lparr> api_handle := sk_afd_poll_target k \<rparr>);
     sock_upd sock (\<lambda>k. k \<lparr> sk_iosb_status := STATUS_PENDING \<rparr>);
     let old_submitted_afd_events = sk_submitted_afd_events k;
     sock_upd sock (\<lambda>k. k \<lparr> sk_submitted_afd_events := afd_events \<rparr>);
     sock_upd sock (\<lambda>k. k \<lparr> sk_poll_status := EP_POLL_PENDING \<rparr>);
     fault \<leftarrow> ep_fault_hit EP_FAULT_AFD_SUBMIT;
     if fault \<noteq> 0 then do {
       saved_errno \<leftarrow> ep_last_err;
       sock_upd sock (\<lambda>k. k \<lparr> sk_poll_status := EP_POLL_IDLE \<rparr>);
       sock_upd sock (\<lambda>k. k \<lparr> sk_submitted_afd_events := old_submitted_afd_events \<rparr>);
       submit_release sys sock target_is_duplicate;
       ep_set_errno saved_errno;
       return (- 1, False)
     } else do {
       buffer \<leftarrow> gets (\<lambda>s. afd_infos s info);
       (status, output) \<leftarrow> syscall (ioctl afd sock buffer);
       info_upd info (\<lambda>_. output);
       if status \<noteq> STATUS_SUCCESS \<and> status \<noteq> STATUS_PENDING then do {
         sock_upd sock (\<lambda>k. k \<lparr> sk_poll_status := EP_POLL_IDLE \<rparr>);
         sock_upd sock (\<lambda>k. k \<lparr> sk_submitted_afd_events := old_submitted_afd_events \<rparr>);
         submit_release sys sock target_is_duplicate;
         ep_set_ntstatus_error (afd_RtlNtStatusToDosError sys) status;
         return (- 1, False)
       } else do {
         (if status = STATUS_PENDING
          then when_do target_is_duplicate (ep_afd_poll_duplicate_finish sys sock True)
          else do {
            sock_upd sock (\<lambda>k. k \<lparr> sk_iosb_status := STATUS_SUCCESS \<rparr>);
            sock_upd sock (\<lambda>k. k \<lparr> sk_poll_status := EP_POLL_IDLE \<rparr>);
            submit_release sys sock target_is_duplicate
          });
         when_do (status = STATUS_PENDING \<and> sk_user_flags k AND EPOLLET \<noteq> 0)
           (sock_upd sock (\<lambda>k. k \<lparr> sk_observed_events := 0 \<rparr>));
         return (0, status = STATUS_PENDING)
       }
     }
   }"

definition ep_afd_poll_submit ::
  "nat \<Rightarrow> ('os, 'y) ep_afd_sys_scheme \<Rightarrow> addr option \<Rightarrow> uint32 \<Rightarrow>
   (('os, 'z) ep_world_scheme, (int \<times> bool) option) state" where
  "ep_afd_poll_submit fuel sys sock_ptr afd_events = (case sock_ptr of
      None \<Rightarrow> do { ep_set_errno EINVAL; return (Some (- 1, False)) }
    | Some sock \<Rightarrow> do {
        k \<leftarrow> sock_read sock id;
        afd \<leftarrow> group_afd (sk_afd_group k);
        (case afd_NtDeviceIoControlFile sys of
          None \<Rightarrow> do { ep_set_errno EINVAL; return (Some (- 1, False)) }
        | Some ioctl \<Rightarrow>
            if afd = NULL_HANDLE then do { ep_set_errno EINVAL; return (Some (- 1, False)) }
            else if sk_poll_status k \<noteq> EP_POLL_IDLE then do { ep_set_errno EALREADY; return (Some (- 1, False)) }
            else do {
              have_buffer \<leftarrow> submit_buffer sys sock;
              if \<not> have_buffer then return (Some (- 1, False))
              else do {
                have_base \<leftarrow> submit_base sys sock;
                if \<not> have_base then return (Some (- 1, False))
                else do {
                  info \<leftarrow> sock_read sock sk_afd_info;
                  info_upd (the info) (\<lambda>_. afd_info_zero \<lparr> api_timeout := 0x7FFFFFFFFFFFFFFF,
                    api_number_of_handles := 1, api_exclusive := 0, api_events := afd_events \<rparr>);
                  base \<leftarrow> sock_read sock sk_base_socket;
                  claim \<leftarrow> ep_afd_poll_key_claim fuel sys sock base;
                  (case claim of
                    None \<Rightarrow> return None
                  | Some (r, target_is_duplicate) \<Rightarrow>
                      if r \<noteq> 0 then return (Some (- 1, False))
                      else do {
                        v \<leftarrow> submit_request sys ioctl sock afd_events afd target_is_duplicate;
                        return (Some v)
                      })
                }
              }
            })
      })"

definition ep_afd_cancel :: "('os, 'y) ep_afd_sys_scheme \<Rightarrow> addr option \<Rightarrow> (('os, 'z) ep_world_scheme, int) state" where
  "ep_afd_cancel sys sock_ptr = (case sock_ptr of
      None \<Rightarrow> do { ep_set_errno EINVAL; return (- 1) }
    | Some sock \<Rightarrow> do {
        k \<leftarrow> sock_read sock id;
        afd \<leftarrow> group_afd (sk_afd_group k);
        (case afd_NtCancelIoFileEx sys of
          None \<Rightarrow> do { ep_set_errno EINVAL; return (- 1) }
        | Some cancel \<Rightarrow>
            if afd = NULL_HANDLE then do { ep_set_errno EINVAL; return (- 1) }
            else if sk_poll_status k \<noteq> EP_POLL_PENDING \<or> sk_iosb_status k \<noteq> STATUS_PENDING then return 0
            else do {
              fault \<leftarrow> ep_fault_hit EP_FAULT_AFD_CANCEL;
              if fault \<noteq> 0 then return (- 1)
              else do {
                status \<leftarrow> syscall (cancel afd sock);
                if status = STATUS_SUCCESS then do {
                  sock_upd sock (\<lambda>k. k \<lparr> sk_poll_status := EP_POLL_CANCELLED \<rparr>);
                  return 0
                }
                else if status = STATUS_NOT_FOUND then return 0
                else do {
                  ep_set_ntstatus_error (afd_RtlNtStatusToDosError sys) status;
                  return (- 1)
                }
              }
            })
      })"

section \<open>Representation\<close>

text \<open>The target a registration owns, and the index: the chain of each bucket holds exactly the owners
  whose target hashes to it, and no target has two owners.\<close>

definition key_target :: "(addr \<Rightarrow> ep_sock option) \<Rightarrow> addr \<Rightarrow> handle option" where
  "key_target S a = (case S a of None \<Rightarrow> None
     | Some k \<Rightarrow> if sk_afd_poll_key_owned k then Some (sk_afd_poll_target k) else None)"

definition keys_in :: "('os, 'z) ep_world_scheme \<Rightarrow> (nat \<Rightarrow> addr list) \<Rightarrow> bool" where
  "keys_in s L \<longleftrightarrow>
     (\<forall>b. chain (fl sk_afd_poll_key_next (socks s)) (g_afd_poll_key_buckets s b) (L b)) \<and>
     (\<forall>a b. a \<in> set (L b) \<longleftrightarrow> (\<exists>t. key_target (socks s) a = Some t \<and> ep_afd_poll_key_bucket t = b)) \<and>
     (\<forall>a k. socks s a = Some k \<and> \<not> sk_afd_poll_key_owned k \<longrightarrow>
        sk_afd_poll_key_next k = None \<and> sk_afd_poll_key_reservation k = NULL_HANDLE) \<and>
     (\<forall>a. socks s a \<noteq> None \<longrightarrow> a < pool_next_addr s) \<and>
     (\<forall>a b t. key_target (socks s) a = Some t \<and> key_target (socks s) b = Some t \<longrightarrow> a = b)"

lemma key_target_upd: "key_target (S(a \<mapsto> k)) =
    (key_target S)(a := (if sk_afd_poll_key_owned k then Some (sk_afd_poll_target k) else None))"
  by (auto simp: key_target_def fun_eq_iff)

lemma key_target_at: "S a = Some k \<Longrightarrow>
    key_target S a = (if sk_afd_poll_key_owned k then Some (sk_afd_poll_target k) else None)"
  by (simp add: key_target_def)

lemma key_target_Some: "key_target S a = Some t \<Longrightarrow>
    \<exists>k. S a = Some k \<and> sk_afd_poll_key_owned k \<and> sk_afd_poll_target k = t"
  by (auto simp: key_target_def split: option.splits if_splits)

lemma keys_chain: "keys_in s L \<Longrightarrow> chain (fl sk_afd_poll_key_next (socks s)) (g_afd_poll_key_buckets s b) (L b)"
  by (simp add: keys_in_def)

lemma keys_member: "keys_in s L \<Longrightarrow> a \<in> set (L b) \<longleftrightarrow>
    (\<exists>t. key_target (socks s) a = Some t \<and> ep_afd_poll_key_bucket t = b)"
  by (simp add: keys_in_def)

lemma keys_length:
  assumes "keys_in s L"
  shows "length (L b) \<le> pool_next_addr s"
proof (rule bounded_distinct_length)
  show "distinct (L b)" using keys_chain [OF assms] chain_distinct by blast
  fix a assume "a \<in> set (L b)"
  then have "socks s a \<noteq> None" using keys_member [OF assms] key_target_Some by fastforce
  then show "a < pool_next_addr s" using assms by (simp add: keys_in_def)
qed

lemma key_active_rule:
  assumes k: "keys_in s L"
  shows "chain (fl sk_afd_poll_key_next (socks s)) cur ys \<Longrightarrow> set ys \<subseteq> set (L b) \<Longrightarrow> length ys \<le> n \<Longrightarrow>
    Q (\<exists>a \<in> set ys. key_target (socks s) a = Some t) s \<Longrightarrow> wp (key_active_scan n cur t) Q s"
proof (induction ys arbitrary: n cur)
  case Nil
  then show ?case by (cases n) (simp_all add: wp_simps)
next
  case (Cons y ys)
  obtain m where n: "n = Suc m" using Cons.prems(3) by (cases n) auto
  obtain ky where ky: "socks s y = Some ky" "sk_afd_poll_key_owned ky"
    using Cons.prems(2) keys_member [OF k, of y b] key_target_Some by fastforce
  have cur: "cur = Some y" "chain (fl sk_afd_poll_key_next (socks s)) (sk_afd_poll_key_next ky) ys"
    using Cons.prems(1) ky by simp_all
  have kt: "key_target (socks s) y = Some (sk_afd_poll_target ky)" using ky by (simp add: key_target_def)
  show ?case
  proof (cases "sk_afd_poll_target ky = t")
    case True
    then show ?thesis using n cur(1) ky kt Cons.prems(4) by (simp add: wp_simps)
  next
    case False
    have "wp (key_active_scan m (sk_afd_poll_key_next ky) t) Q s"
      by (rule Cons.IH [OF cur(2)]) (use Cons.prems n kt False in auto)
    then show ?thesis using n cur(1) ky False by (simp add: wp_simps)
  qed
qed

lemma is_active_rule:
  assumes k: "keys_in s L" and "Q (\<exists>a. key_target (socks s) a = Some t) s"
  shows "wp (ep_afd_poll_key_is_active_locked (ep_afd_poll_key_bucket t) t) Q s"
proof -
  let ?b = "ep_afd_poll_key_bucket t"
  have "(\<exists>a \<in> set (L ?b). key_target (socks s) a = Some t) \<longleftrightarrow> (\<exists>a. key_target (socks s) a = Some t)"
    using keys_member [OF k] by blast
  then have "wp (key_active_scan (pool_next_addr s) (g_afd_poll_key_buckets s ?b) t) Q s"
    using assms(2) by (intro key_active_rule [OF k keys_chain [OF k, of ?b] subset_refl keys_length [OF k]]) simp
  then show ?thesis by (simp add: ep_afd_poll_key_is_active_locked_def wp_simps)
qed

lemma keys_push:
  assumes k: "keys_in s L" and a: "socks s a = Some ka" "\<not> sk_afd_poll_key_owned ka"
    and free: "\<nexists>x. key_target (socks s) x = Some t"
    and s': "socks s' = (socks s)(a \<mapsto> ka')" "sk_afd_poll_target ka' = t" "sk_afd_poll_key_owned ka'"
      "sk_afd_poll_key_next ka' = g_afd_poll_key_buckets s (ep_afd_poll_key_bucket t)"
      "g_afd_poll_key_buckets s' = (g_afd_poll_key_buckets s)(ep_afd_poll_key_bucket t := Some a)"
      "pool_next_addr s' = pool_next_addr s"
  shows "keys_in s' (L(ep_afd_poll_key_bucket t := a # L (ep_afd_poll_key_bucket t)))"
proof -
  let ?b = "ep_afd_poll_key_bucket t"
  have na: "a \<notin> set (L b)" for b using keys_member [OF k, of a b] a by (simp add: key_target_def)
  have nx: "fl sk_afd_poll_key_next (socks s') = (fl sk_afd_poll_key_next (socks s))(a := g_afd_poll_key_buckets s ?b)"
    using s' by simp
  have kt: "key_target (socks s') = (key_target (socks s))(a \<mapsto> t)" using s' by (simp add: key_target_upd)
  have ch: "chain (fl sk_afd_poll_key_next (socks s')) p (L b) = chain (fl sk_afd_poll_key_next (socks s)) p (L b)" for b p
    using na [of b] by (simp add: nx chain_seg)
  have "chain (fl sk_afd_poll_key_next (socks s')) (g_afd_poll_key_buckets s' b) ((L(?b := a # L ?b)) b)" for b
    using keys_chain [OF k, of b] keys_chain [OF k, of ?b] s'(5) ch nx by (auto simp: fun_upd_def)
  moreover have "x \<in> set ((L(?b := a # L ?b)) b) \<longleftrightarrow>
      (\<exists>u. key_target (socks s') x = Some u \<and> ep_afd_poll_key_bucket u = b)" for x b
    using keys_member [OF k, of x b] na [of b] kt by auto
  moreover have "key_target (socks s') x = Some u \<and> key_target (socks s') y = Some u \<longrightarrow> x = y" for x y u
    using k free kt unfolding keys_in_def by (auto split: if_splits)
  moreover have "socks s' x = Some kx \<and> \<not> sk_afd_poll_key_owned kx \<longrightarrow>
      sk_afd_poll_key_next kx = None \<and> sk_afd_poll_key_reservation kx = NULL_HANDLE" for x kx
    using k s'(1,3) unfolding keys_in_def by auto
  moreover have "socks s' x \<noteq> None \<longrightarrow> x < pool_next_addr s'" for x
    using k s'(1,6) a(1) unfolding keys_in_def by auto
  ultimately show ?thesis unfolding keys_in_def by blast
qed

lemma try_claim_key_rule:
  assumes k: "keys_in s L" and a: "socks s a = Some ka" "\<not> sk_afd_poll_key_owned ka"
    and busy: "\<exists>x. key_target (socks s) x = Some t \<Longrightarrow> Q False s"
    and got: "\<And>s' L'. \<nexists>x. key_target (socks s) x = Some t \<Longrightarrow> keys_in s' L' \<Longrightarrow> key_target (socks s') = (key_target (socks s))(a \<mapsto> t) \<Longrightarrow>
      ep_ub s' = ep_ub s \<Longrightarrow> Q True s'"
  shows "wp (ep_afd_poll_key_try_claim a t) Q s"
proof -
  let ?b = "ep_afd_poll_key_bucket t"
  have f: "sk_afd_poll_key_next ka = None" "sk_afd_poll_key_reservation ka = 0"
    using k a unfolding keys_in_def by auto
  show ?thesis
  proof (cases "\<exists>x. key_target (socks s) x = Some t")
    case True
    have "wp (ep_afd_poll_key_is_active_locked ?b t) (\<lambda>x. wp (if x then return False else do {
        ep_afd_poll_key_insert_locked ?b a t; return True }) Q) s"
      by (rule is_active_rule [OF k]) (use True busy in \<open>simp add: wp_simps\<close>)
    then show ?thesis by (simp add: ep_afd_poll_key_try_claim_def wp_bind Let_def)
  next
    case False
    let ?k = "ka \<lparr> sk_afd_poll_target := t, sk_afd_poll_key_reservation := 0,
      sk_afd_poll_key_next := g_afd_poll_key_buckets s ?b, sk_afd_poll_key_owned := True \<rparr>"
    let ?s = "s \<lparr> socks := (socks s)(a \<mapsto> ?k), g_afd_poll_key_buckets := (g_afd_poll_key_buckets s)(?b := Some a) \<rparr>"
    have "Q True ?s"
      by (rule got [OF False keys_push [OF k a False, where s' = ?s and ka' = ?k]]) (simp_all add: key_target_upd)
    then have "wp (ep_afd_poll_key_is_active_locked ?b t) (\<lambda>x. wp (do { assert_that (\<not> x);
       head \<leftarrow> gets (\<lambda>s. g_afd_poll_key_buckets s ?b);
       sock_upd a (\<lambda>k. k \<lparr> sk_afd_poll_target := t \<rparr>);
       sock_upd a (\<lambda>k. k \<lparr> sk_afd_poll_key_reservation := NULL_HANDLE \<rparr>);
       sock_upd a (\<lambda>k. k \<lparr> sk_afd_poll_key_next := head \<rparr>);
       sock_upd a (\<lambda>k. k \<lparr> sk_afd_poll_key_owned := True \<rparr>);
       key_bucket_upd ?b (Some a) }) (\<lambda>_. wp (return True) Q)) s"
      by (intro is_active_rule [OF k]) (use False a in \<open>simp add: wp_simps key_bucket_upd_def\<close>)
    then have "wp (ep_afd_poll_key_insert_locked ?b a t) (\<lambda>_. wp (return True) Q) s"
      using a f by (simp add: ep_afd_poll_key_insert_locked_def wp_simps)
    then have "wp (ep_afd_poll_key_is_active_locked ?b t) (\<lambda>x. wp (if x then return False else do {
        ep_afd_poll_key_insert_locked ?b a t; return True }) Q) s"
      by (intro is_active_rule [OF k]) (use False in \<open>simp add: wp_bind\<close>)
    then show ?thesis by (simp add: ep_afd_poll_key_try_claim_def wp_bind Let_def)
  qed
qed

lemma key_link_rule:
  assumes k: "keys_in s L"
  shows "chain (fl sk_afd_poll_key_next (socks s)) cur (us @ a # vs) \<Longrightarrow> set (us @ a # vs) \<subseteq> set (L b) \<Longrightarrow>
    length us < n \<Longrightarrow> a \<notin> set us \<Longrightarrow> Q (if us = [] then link else Some (last us), Some a) s \<Longrightarrow>
    wp (key_find_link n link cur a) Q s"
proof (induction us arbitrary: n link cur)
  case Nil
  then show ?case by (cases n) (simp_all add: wp_simps)
next
  case (Cons u us)
  obtain m where n: "n = Suc m" using Cons.prems(3) by (cases n) auto
  obtain ku where ku: "socks s u = Some ku"
    using Cons.prems(2) keys_member [OF k, of u b] key_target_Some by fastforce
  have cur: "cur = Some u" "chain (fl sk_afd_poll_key_next (socks s)) (sk_afd_poll_key_next ku) (us @ a # vs)"
    using Cons.prems(1) ku by simp_all
  have "wp (key_find_link m (Some u) (sk_afd_poll_key_next ku) a) Q s"
    by (rule Cons.IH [OF cur(2)]) (use Cons.prems n in \<open>auto split: if_splits\<close>)
  then show ?case using n cur(1) ku Cons.prems(4) by (simp add: wp_simps)
qed

lemma keys_drop:
  assumes k: "keys_in s L" and a: "socks s a = Some ka" "sk_afd_poll_key_owned ka"
    and L: "L b = us @ a # vs"
    and s': "fl sk_afd_poll_key_next (socks s') = (if us = [] then fl sk_afd_poll_key_next (socks s)
        else (fl sk_afd_poll_key_next (socks s))(last us := sk_afd_poll_key_next ka))(a := None)"
      "g_afd_poll_key_buckets s' = (if us = [] then (g_afd_poll_key_buckets s)(b := sk_afd_poll_key_next ka) else g_afd_poll_key_buckets s)"
      "key_target (socks s') = (key_target (socks s))(a := None)"
      "pool_next_addr s' = pool_next_addr s" "\<And>x. socks s' x = None \<longleftrightarrow> socks s x = None"
      "\<And>x kx. socks s' x = Some kx \<Longrightarrow> \<not> sk_afd_poll_key_owned kx \<Longrightarrow>
         sk_afd_poll_key_next kx = None \<and> sk_afd_poll_key_reservation kx = NULL_HANDLE"
  shows "keys_in s' (L(b := us @ vs))"
proof -
  let ?nx = "fl sk_afd_poll_key_next (socks s)"
  have d: "distinct (us @ a # vs)" using keys_chain [OF k, of b] chain_distinct L by metis
  have nxa: "?nx a = sk_afd_poll_key_next ka" using a by simp
  have uniq: "x \<in> set (L b) \<Longrightarrow> x \<in> set (L c) \<Longrightarrow> b = c" for x c using keys_member [OF k] by auto
  have ina: "a \<in> set (L b)" using L by simp
  have new: "chain (if us = [] then ?nx else ?nx(last us := ?nx a)) (if us = [] then ?nx a else g_afd_poll_key_buckets s b) (us @ vs)"
    by (rule chain_drop) (use keys_chain [OF k, of b] L in simp)
  have "chain (fl sk_afd_poll_key_next (socks s')) (g_afd_poll_key_buckets s' c) ((L(b := us @ vs)) c)" for c
  proof (cases "c = b")
    case True
    then show ?thesis using new d nxa s'(1,2) by (cases "us = []") simp_all
  next
    case False
    have "a \<notin> set (L c)" using uniq [OF ina] False by blast
    moreover have "us \<noteq> [] \<Longrightarrow> last us \<notin> set (L c)" using uniq [of "last us"] L False by auto
    ultimately have "chain (fl sk_afd_poll_key_next (socks s')) p (L c) = chain ?nx p (L c)" for p
      using s'(1) by (cases "us = []") simp_all
    then show ?thesis using False keys_chain [OF k, of c] s'(2) by simp
  qed
  moreover have "x \<in> set ((L(b := us @ vs)) c) \<longleftrightarrow>
      (\<exists>u. key_target (socks s') x = Some u \<and> ep_afd_poll_key_bucket u = c)" for x c
  proof (cases "x = a")
    case True
    have "a \<notin> set ((L(b := us @ vs)) c)" using uniq [OF ina, of c] d by (cases "c = b") auto
    then show ?thesis using True s'(3) by simp
  next
    case False
    then have "x \<in> set ((L(b := us @ vs)) c) \<longleftrightarrow> x \<in> set (L c)" using L by (cases "c = b") simp_all
    then show ?thesis using False keys_member [OF k, of x c] s'(3) by simp
  qed
  moreover have "key_target (socks s') x = Some u \<and> key_target (socks s') y = Some u \<longrightarrow> x = y" for x y u
    using k s'(3) unfolding keys_in_def by (auto split: if_splits)
  moreover have "socks s' x \<noteq> None \<longrightarrow> x < pool_next_addr s'" for x
    using k s'(4) s'(5) [of x] unfolding keys_in_def by simp
  ultimately show ?thesis using s'(6) unfolding keys_in_def by blast
qed

lemma release_key_rule:
  assumes k: "keys_in s L" and a: "socks s a = Some ka" "sk_afd_poll_key_owned ka"
    and Q: "\<And>s' L'. keys_in s' L' \<Longrightarrow> key_target (socks s') = (key_target (socks s))(a := None) \<Longrightarrow>
      ep_ub s' = ep_ub s \<Longrightarrow> Q (sk_afd_poll_key_reservation ka) s'"
  shows "wp (ep_afd_poll_key_release_locked (ep_afd_poll_key_bucket (sk_afd_poll_target ka)) a) Q s"
proof -
  let ?b = "ep_afd_poll_key_bucket (sk_afd_poll_target ka)"
  have "a \<in> set (L ?b)" using keys_member [OF k, of a ?b] a by (simp add: key_target_def)
  then obtain us vs where L: "L ?b = us @ a # vs" by (auto dest: split_list)
  have d: "distinct (us @ a # vs)" using keys_chain [OF k, of ?b] chain_distinct L by metis
  let ?ka = "\<lambda>kk. kk \<lparr> sk_afd_poll_target := 0, sk_afd_poll_key_reservation := 0, sk_afd_poll_key_next := None,
    sk_afd_poll_key_owned := False \<rparr>"
  define s2 where "s2 = (if us = [] then s \<lparr> g_afd_poll_key_buckets := (g_afd_poll_key_buckets s)(?b := sk_afd_poll_key_next ka) \<rparr>
    else s \<lparr> socks := (socks s)(last us \<mapsto> (the (socks s (last us))) \<lparr> sk_afd_poll_key_next := sk_afd_poll_key_next ka \<rparr>) \<rparr>)"
  have lu: "us \<noteq> [] \<Longrightarrow> \<exists>ku. socks s (last us) = Some ku \<and> sk_afd_poll_key_owned ku"
    using keys_member [OF k, of "last us" ?b] L key_target_Some [of "socks s" "last us"] by fastforce
  have la: "us \<noteq> [] \<Longrightarrow> last us \<noteq> a" using d by auto
  have s2a: "socks s2 a = Some ka" using a la by (auto simp: s2_def)
  define s3 where "s3 = s2 \<lparr> socks := (socks s2)(a \<mapsto> ?ka ka) \<rparr>"
  have "keys_in s3 (L(?b := us @ vs))"
  proof (rule keys_drop [OF k a L])
    show "fl sk_afd_poll_key_next (socks s3) = (if us = [] then fl sk_afd_poll_key_next (socks s)
        else (fl sk_afd_poll_key_next (socks s))(last us := sk_afd_poll_key_next ka))(a := None)"
      by (simp add: s3_def s2_def)
    show "g_afd_poll_key_buckets s3 = (if us = [] then (g_afd_poll_key_buckets s)(?b := sk_afd_poll_key_next ka) else g_afd_poll_key_buckets s)"
      by (simp add: s3_def s2_def)
    show "key_target (socks s3) = (key_target (socks s))(a := None)"
      using lu by (cases "us = []") (auto simp: s3_def s2_def key_target_upd key_target_at fun_upd_idem)
    show "pool_next_addr s3 = pool_next_addr s" by (simp add: s3_def s2_def)
    show "socks s3 x = None \<longleftrightarrow> socks s x = None" for x
      using lu a by (cases "us = []") (auto simp: s3_def s2_def)
    show "sk_afd_poll_key_next kx = None \<and> sk_afd_poll_key_reservation kx = NULL_HANDLE"
      if "socks s3 x = Some kx" "\<not> sk_afd_poll_key_owned kx" for x kx
      using that lu k unfolding keys_in_def by (cases "us = []") (auto simp: s3_def s2_def split: if_splits)
  qed
  then have "Q (sk_afd_poll_key_reservation ka) s3"
  proof (rule Q)
    show "key_target (socks s3) = (key_target (socks s))(a := None)"
      using lu by (cases "us = []") (auto simp: s3_def s2_def key_target_upd key_target_at fun_upd_idem)
    show "ep_ub s3 = ep_ub s" by (simp add: s3_def s2_def)
  qed
  then have clear: "wp (key_clear a) Q s2"
    using s2a by (simp add: key_clear_def wp_simps s3_def)
  have relink: "wp (key_relink ?b (if us = [] then None else Some (last us)) (sk_afd_poll_key_next ka))
      (\<lambda>_. wp (key_clear a) Q) s"
    using clear lu by (cases "us = []") (auto simp: key_relink_def key_bucket_upd_def s2_def wp_simps)
  have len: "length us < Suc (pool_next_addr s)" using keys_length [OF k, of ?b] L by simp
  have ch: "chain (fl sk_afd_poll_key_next (socks s)) (g_afd_poll_key_buckets s ?b) (us @ a # vs)"
    using keys_chain [OF k, of ?b] L by simp
  have "wp (key_find_link (Suc (pool_next_addr s)) None (g_afd_poll_key_buckets s ?b) a)
      (\<lambda>x. wp (case x of (link, found) \<Rightarrow> do {
         assert_that (found = Some a);
         when_do (found = Some a) (do { next_key \<leftarrow> sock_read a sk_afd_poll_key_next; key_relink ?b link next_key });
         key_clear a }) Q) s"
    by (rule key_link_rule [OF k ch _ len, where b = ?b]) (use L d a relink in \<open>auto simp: wp_simps\<close>)
  then show ?thesis using a by (simp only: ep_afd_poll_key_release_locked_def wp_bind wp_gets wp_sock_read [OF a(1)] wp_assert_that TrueI)
qed

definition keys_sound :: "('os, 'z) ep_world_scheme \<Rightarrow> bool" where
  "keys_sound s \<longleftrightarrow> (\<exists>L. keys_in s L)"

text \<open>(C14) Two active AFD polls never carry the same numeric target handle: a registration obtains a
  target exactly when no registration owns it, a release frees exactly the released target, and the
  hash chains hold precisely the owners; neither operation follows a dead link.\<close>

theorem afd_key_exclusive:
  assumes "keys_sound s" "socks s a = Some ka"
  shows "(\<forall>x y t. key_target (socks s) x = Some t \<and> key_target (socks s) y = Some t \<longrightarrow> x = y) \<and>
    (\<not> sk_afd_poll_key_owned ka \<longrightarrow> wp (ep_afd_poll_key_try_claim a t) (\<lambda>r s'. keys_sound s' \<and> ep_ub s' = ep_ub s \<and>
      r = (\<nexists>x. key_target (socks s) x = Some t) \<and>
      key_target (socks s') = (if r then (key_target (socks s))(a \<mapsto> t) else key_target (socks s))) s) \<and>
    (sk_afd_poll_key_owned ka \<longrightarrow>
      wp (ep_afd_poll_key_release_locked (ep_afd_poll_key_bucket (sk_afd_poll_target ka)) a) (\<lambda>r s'. keys_sound s' \<and>
        ep_ub s' = ep_ub s \<and> r = sk_afd_poll_key_reservation ka \<and>
        key_target (socks s') = (key_target (socks s))(a := None)) s)"
proof -
  obtain L where k: "keys_in s L" using assms(1) by (auto simp: keys_sound_def)
  have free: "wp (ep_afd_poll_key_try_claim a t) (\<lambda>r s'. keys_sound s' \<and> ep_ub s' = ep_ub s \<and>
      r = (\<nexists>x. key_target (socks s) x = Some t) \<and>
      key_target (socks s') = (if r then (key_target (socks s))(a \<mapsto> t) else key_target (socks s))) s"
    if "\<not> sk_afd_poll_key_owned ka"
  proof (cases "\<exists>x. key_target (socks s) x = Some t")
    case True
    show ?thesis
    proof (rule try_claim_key_rule [OF k assms(2) that])
      show "keys_sound s \<and> ep_ub s = ep_ub s \<and> False = (\<nexists>x. key_target (socks s) x = Some t) \<and>
        key_target (socks s) = (if False then (key_target (socks s))(a \<mapsto> t) else key_target (socks s))"
        using True assms(1) by simp
    qed (use True in \<open>simp add: keys_sound_def\<close>)
  next
    case False
    show ?thesis
      by (rule try_claim_key_rule [OF k assms(2) that]) (use False in \<open>auto simp: keys_sound_def\<close>)
  qed
  have rel: "wp (ep_afd_poll_key_release_locked (ep_afd_poll_key_bucket (sk_afd_poll_target ka)) a) (\<lambda>r s'. keys_sound s' \<and>
        ep_ub s' = ep_ub s \<and> r = sk_afd_poll_key_reservation ka \<and>
        key_target (socks s') = (key_target (socks s))(a := None)) s" if "sk_afd_poll_key_owned ka"
    by (rule release_key_rule [OF k assms(2) that]) (auto simp: keys_sound_def)
  have "key_target (socks s) x = Some u \<and> key_target (socks s) y = Some u \<longrightarrow> x = y" for x y u
    using k unfolding keys_in_def by blast
  with free rel show ?thesis by blast
qed

text \<open>Two registrations, the second of which polls target 64.\<close>

definition keys_demo :: "unit ep_world" where
  "keys_demo = ep_world_zero () \<lparr> pool_next_addr := 3, socks := [1 \<mapsto> ep_sock_zero,
     2 \<mapsto> ep_sock_zero \<lparr> sk_afd_poll_target := 64, sk_afd_poll_key_owned := True \<rparr>],
     g_afd_poll_key_buckets := (\<lambda>_. None)(ep_afd_poll_key_bucket 64 := Some 2) \<rparr>"

lemma keys_demo_target: "key_target (socks keys_demo) x = (if x = 2 then Some 64 else None)"
  by (simp add: keys_demo_def key_target_def ep_sock_zero_def)

lemma keys_demo_sound: "keys_sound keys_demo"
proof -
  have "keys_in keys_demo (\<lambda>b. if b = ep_afd_poll_key_bucket 64 then [2] else [])"
    unfolding keys_in_def keys_demo_target
    by (auto simp: keys_demo_def fl_def ep_sock_zero_def split: if_splits)
  then show ?thesis by (auto simp: keys_sound_def)
qed

theorem afd_key_exclusive_witness:
  "keys_sound keys_demo \<and> wp (ep_afd_poll_key_try_claim 1 64) (\<lambda>r s'. \<not> r \<and> keys_sound s') keys_demo \<and>
   wp (ep_afd_poll_key_try_claim 1 65) (\<lambda>r s'. r \<and> key_target (socks s') 1 = Some 65) keys_demo"
proof -
  have a: "socks keys_demo 1 = Some ep_sock_zero" "\<not> sk_afd_poll_key_owned ep_sock_zero"
    by (simp_all add: keys_demo_def ep_sock_zero_def)
  note t = afd_key_exclusive [OF keys_demo_sound a(1)]
  have c: "wp (ep_afd_poll_key_try_claim 1 h) (\<lambda>r s'. keys_sound s' \<and> ep_ub s' = ep_ub keys_demo \<and>
      r = (\<nexists>x. key_target (socks keys_demo) x = Some h) \<and> key_target (socks s') =
      (if r then (key_target (socks keys_demo))(1 \<mapsto> h) else key_target (socks keys_demo))) keys_demo" for h
    using t [of h] a(2) by blast
  have "wp (ep_afd_poll_key_try_claim 1 64) (\<lambda>r s'. \<not> r \<and> keys_sound s') keys_demo"
    by (rule wp_mono [OF c]) (auto simp: keys_demo_target)
  moreover have "wp (ep_afd_poll_key_try_claim 1 65) (\<lambda>r s'. r \<and> key_target (socks s') 1 = Some 65) keys_demo"
    by (rule wp_mono [OF c]) (auto simp: keys_demo_target)
  ultimately show ?thesis using keys_demo_sound by blast
qed

end
