(* ===== verification/Ep_Target.thy ===== *)
theory Ep_Target
  imports Ep_Afd Ep_Wake Ep_Exclusive
begin

text \<open>
  What a descriptor names, \<^verbatim>\<open>src/src/wepoll_ex_port.c\<close>: the classification of sockets, pipes and
  waitable handles, the endpoint identity of a registered socket, the current level of a connected
  socket and the non-consuming probe of a UDP socket.  The Windows, NT and Winsock calls are a
  record that extends the one of AFD polling; the build keeps the best-effort identity policy.
\<close>

section \<open>System calls\<close>

text \<open>A call that fills a structure returns the fields the program reads.  \<open>ps_spins\<close> bounds the loops
  whose end depends on other threads or on the system.\<close>

datatype select_set = Read_Fds | Write_Fds | Except_Fds

datatype object_query = ObjectBasicInformation | ObjectTypeInformation

record object_info =
  oi_granted_access :: uint32
  oi_type_name :: "string option"

record file_info =
  fi_mode :: uint32
  fi_read_data_available :: uint32
  fi_write_quota_available :: uint32
  fi_named_pipe_state :: uint32
  fi_named_pipe_end :: uint32

record nt_file_answer =
  fa_status :: ntstatus
  fa_iosb_status :: ntstatus
  fa_information :: nat
  fa_info :: file_info

record 'os ep_port_sys = "'os ep_afd_sys" +
  ps_spins :: nat
  wsa_getsockopt :: "sock_fd \<Rightarrow> int \<Rightarrow> 'os \<Rightarrow> int option \<times> 'os"
  wsa_getpeername :: "sock_fd \<Rightarrow> 'os \<Rightarrow> bool \<times> 'os"
  wsa_select :: "sock_fd \<Rightarrow> select_set \<Rightarrow> 'os \<Rightarrow> (int \<times> bool) \<times> 'os"
  wsa_WSAPoll :: "sock_fd \<Rightarrow> 16 word \<Rightarrow> 'os \<Rightarrow> (bool \<times> 16 word) \<times> 'os"
  wsa_shutdown :: "sock_fd \<Rightarrow> int \<Rightarrow> 'os \<Rightarrow> bool \<times> 'os"
  nt_NtQueryObject :: "(handle \<Rightarrow> object_query \<Rightarrow> 'os \<Rightarrow> (ntstatus \<times> object_info) \<times> 'os) option"
  nt_NtQueryEvent :: "(handle \<Rightarrow> 'os \<Rightarrow> (ntstatus \<times> uint32) \<times> 'os) option"
  nt_NtQueryInformationFile :: "(handle \<Rightarrow> nat \<Rightarrow> 'os \<Rightarrow> nt_file_answer \<times> 'os) option"
  win_GetFileType :: "handle \<Rightarrow> 'os \<Rightarrow> dword \<times> 'os"
  win_WaitForSingleObject :: "handle \<Rightarrow> dword \<Rightarrow> 'os \<Rightarrow> dword \<times> 'os"
  win_ResetEvent :: "handle \<Rightarrow> 'os \<Rightarrow> bool \<times> 'os"
  win_DeviceIoControl_recv :: "handle \<Rightarrow> handle \<Rightarrow> 'os \<Rightarrow> bool \<times> 'os"
  win_CancelIoEx :: "handle \<Rightarrow> 'os \<Rightarrow> bool \<times> 'os"
  win_GetOverlappedResult :: "handle \<Rightarrow> 'os \<Rightarrow> bool \<times> 'os"
  win_RegisterWaitForSingleObject :: "handle \<Rightarrow> addr \<Rightarrow> 'os \<Rightarrow> handle option \<times> 'os"
  win_UnregisterWaitEx :: "handle \<Rightarrow> 'os \<Rightarrow> bool \<times> 'os"
  win_CreateTimerQueueTimer :: "addr \<Rightarrow> 'os \<Rightarrow> handle option \<times> 'os"
  win_DeleteTimerQueueTimer :: "handle \<Rightarrow> 'os \<Rightarrow> bool \<times> 'os"
  win_PeekNamedPipe :: "handle \<Rightarrow> 'os \<Rightarrow> dword option \<times> 'os"
  win_WriteFile_empty :: "handle \<Rightarrow> 'os \<Rightarrow> bool \<times> 'os"
  win_CreateWaitableTimerExW :: "('os \<Rightarrow> handle \<times> 'os) option"
  win_CreateThreadpoolWait :: "addr \<Rightarrow> 'os \<Rightarrow> handle \<times> 'os"
  win_SetWaitableTimer :: "handle \<Rightarrow> int \<Rightarrow> 'os \<Rightarrow> bool \<times> 'os"
  win_CancelWaitableTimer :: "handle \<Rightarrow> 'os \<Rightarrow> bool \<times> 'os"
  win_SetThreadpoolWait :: "handle \<Rightarrow> handle \<Rightarrow> 'os \<Rightarrow> unit \<times> 'os"
  win_WaitForThreadpoolWaitCallbacks :: "handle \<Rightarrow> 'os \<Rightarrow> unit \<times> 'os"
  win_CloseThreadpoolWait :: "handle \<Rightarrow> 'os \<Rightarrow> unit \<times> 'os"
  win_QueryPerformanceFrequency :: "'os \<Rightarrow> int option \<times> 'os"
  win_GetQueuedCompletionStatusEx ::
    "handle \<Rightarrow> nat \<Rightarrow> dword \<Rightarrow> 'os \<Rightarrow> (uint64 \<times> addr option \<times> dword) list option \<times> 'os"
  nt_io_result :: "addr \<Rightarrow> 'os \<Rightarrow> (ntstatus \<times> afd_poll_info) option"

abbreviation (input) SO_ACCEPTCONN :: int where "SO_ACCEPTCONN \<equiv> 2"
abbreviation (input) SO_OOBINLINE :: int where "SO_OOBINLINE \<equiv> 0x100"
abbreviation (input) SO_TYPE :: int where "SO_TYPE \<equiv> 0x1008"

abbreviation (input) POLLERR :: "16 word" where "POLLERR \<equiv> 0x1"
abbreviation (input) POLLHUP :: "16 word" where "POLLHUP \<equiv> 0x2"
abbreviation (input) POLLNVAL :: "16 word" where "POLLNVAL \<equiv> 0x4"
abbreviation (input) POLLWRNORM :: "16 word" where "POLLWRNORM \<equiv> 0x10"
abbreviation (input) POLLRDNORM :: "16 word" where "POLLRDNORM \<equiv> 0x100"

abbreviation (input) ERROR_BAD_COMMAND :: dword where "ERROR_BAD_COMMAND \<equiv> 22"
abbreviation (input) ERROR_BAD_PIPE :: dword where "ERROR_BAD_PIPE \<equiv> 230"
abbreviation (input) ERROR_MORE_DATA :: dword where "ERROR_MORE_DATA \<equiv> 234"
abbreviation (input) ERROR_PIPE_LISTENING :: dword where "ERROR_PIPE_LISTENING \<equiv> 536"
abbreviation (input) ERROR_IO_INCOMPLETE :: dword where "ERROR_IO_INCOMPLETE \<equiv> 996"
abbreviation (input) EP_STATUS_INVALID_HANDLE :: ntstatus where "EP_STATUS_INVALID_HANDLE \<equiv> 0xC0000008"
abbreviation (input) WAIT_OBJECT_0 :: dword where "WAIT_OBJECT_0 \<equiv> 0"
abbreviation (input) WAIT_FAILED :: dword where "WAIT_FAILED \<equiv> 0xFFFFFFFF"
abbreviation (input) INFINITE :: dword where "INFINITE \<equiv> 0xFFFFFFFF"

abbreviation (input) FILE_TYPE_UNKNOWN :: dword where "FILE_TYPE_UNKNOWN \<equiv> 0"
abbreviation (input) FILE_TYPE_DISK :: dword where "FILE_TYPE_DISK \<equiv> 1"
abbreviation (input) FILE_TYPE_PIPE :: dword where "FILE_TYPE_PIPE \<equiv> 3"
abbreviation (input) SYNCHRONIZE :: uint32 where "SYNCHRONIZE \<equiv> 0x00100000"
abbreviation (input) FILE_READ_DATA :: uint32 where "FILE_READ_DATA \<equiv> 1"
abbreviation (input) FILE_WRITE_DATA :: uint32 where "FILE_WRITE_DATA \<equiv> 2"
abbreviation (input) GENERIC_READ :: uint32 where "GENERIC_READ \<equiv> 0x80000000"
abbreviation (input) GENERIC_WRITE :: uint32 where "GENERIC_WRITE \<equiv> 0x40000000"
abbreviation (input) GENERIC_ALL :: uint32 where "GENERIC_ALL \<equiv> 0x10000000"

abbreviation (input) EP_PIPE_ACCESS_NONE :: uint8 where "EP_PIPE_ACCESS_NONE \<equiv> 0"
abbreviation (input) EP_PIPE_ACCESS_READ :: uint8 where "EP_PIPE_ACCESS_READ \<equiv> 1"
abbreviation (input) EP_PIPE_ACCESS_WRITE :: uint8 where "EP_PIPE_ACCESS_WRITE \<equiv> 2"

abbreviation (input) EP_FILE_PIPE_LOCAL_INFORMATION_CLASS :: nat where "EP_FILE_PIPE_LOCAL_INFORMATION_CLASS \<equiv> 24"
abbreviation (input) EP_FILE_MODE_INFORMATION_CLASS :: nat where "EP_FILE_MODE_INFORMATION_CLASS \<equiv> 16"
abbreviation (input) EP_FILE_SYNCHRONOUS_IO_ALERT :: uint32 where "EP_FILE_SYNCHRONOUS_IO_ALERT \<equiv> 0x10"
abbreviation (input) EP_FILE_SYNCHRONOUS_IO_NONALERT :: uint32 where "EP_FILE_SYNCHRONOUS_IO_NONALERT \<equiv> 0x20"

section \<open>Waitable handles\<close>

text \<open>\<open>sizeof (ep_file_mode_information_t)\<close> and \<open>sizeof (ep_pipe_local_information_t)\<close>.\<close>

abbreviation (input) FILE_MODE_SIZE :: nat where "FILE_MODE_SIZE \<equiv> 4"
abbreviation (input) PIPE_LOCAL_SIZE :: nat where "PIPE_LOCAL_SIZE \<equiv> 40"

definition ep_object_type_equals :: "string option \<Rightarrow> string \<Rightarrow> bool" where
  "ep_object_type_equals type_name expected \<longleftrightarrow> type_name = Some expected"

definition ep_event_waitable_semantics ::
  "('os, 'y) ep_port_sys_scheme \<Rightarrow> handle \<Rightarrow> (('os, 'z) ep_env_scheme, ep_waitable_semantics) state" where
  "ep_event_waitable_semantics sys h = (case nt_NtQueryEvent sys of
      None \<Rightarrow> return EP_WAITABLE_ET_UNSUPPORTED
    | Some query \<Rightarrow> do {
        (status, event_type) \<leftarrow> syscall (query h);
        return (if status <s 0 then EP_WAITABLE_ET_UNSUPPORTED
                else if event_type = 0 then EP_WAITABLE_PERSISTENT
                else if event_type = 1 then EP_WAITABLE_CONSUMPTIVE
                else EP_WAITABLE_ET_UNSUPPORTED)
      })"

text \<open>A call through the resolved pointer; a null one is a bad access.\<close>

definition query_object ::
  "('os, 'y) ep_port_sys_scheme \<Rightarrow> handle \<Rightarrow> object_query \<Rightarrow>
   (('os, 'z) ep_env_scheme, ntstatus \<times> object_info) state" where
  "query_object sys h c = (case nt_NtQueryObject sys of
      None \<Rightarrow> do { bad_access; return (0, \<lparr> oi_granted_access = 0, oi_type_name = None \<rparr>) }
    | Some query \<Rightarrow> syscall (query h c))"

definition ep_handle_wait_access ::
  "('os, 'y) ep_port_sys_scheme \<Rightarrow> handle \<Rightarrow> (('os, 'z) ep_env_scheme, int) state" where
  "ep_handle_wait_access sys h = do {
     (status, info) \<leftarrow> query_object sys h ObjectBasicInformation;
     if status <s 0 then do { ep_set_ntstatus_error (afd_RtlNtStatusToDosError sys) status; return 0 }
     else return (if tests (oi_granted_access info) SYNCHRONIZE then 1 else - 2)
   }"

text \<open>The return value and what is stored through \<open>semantics_out\<close>.\<close>

definition ep_handle_waitability ::
  "('os, 'y) ep_port_sys_scheme \<Rightarrow> handle \<Rightarrow> dword \<Rightarrow>
   (('os, 'z) ep_env_scheme, int \<times> ep_waitable_semantics) state" where
  "ep_handle_waitability sys h file_type =
    (if h = NULL_HANDLE \<or> h = INVALID_HANDLE_VALUE then return (0, EP_WAITABLE_ET_UNSUPPORTED)
     else if file_type = FILE_TYPE_UNKNOWN then
       if nt_NtQueryObject sys = None then return (0, EP_WAITABLE_ET_UNSUPPORTED)
       else do {
         (status, type_info) \<leftarrow> query_object sys h ObjectTypeInformation;
         if status <s 0 then do {
           ep_set_ntstatus_error (afd_RtlNtStatusToDosError sys) status;
           return (0, EP_WAITABLE_ET_UNSUPPORTED)
         }
         else if ep_object_type_equals (oi_type_name type_info) ''Event'' then do {
           semantics \<leftarrow> ep_event_waitable_semantics sys h;
           r \<leftarrow> ep_handle_wait_access sys h;
           return (r, semantics)
         }
         else if ep_object_type_equals (oi_type_name type_info) ''Semaphore'' then do {
           r \<leftarrow> ep_handle_wait_access sys h;
           return (r, EP_WAITABLE_CONSUMPTIVE)
         }
         else if ep_object_type_equals (oi_type_name type_info) ''Timer'' then do {
           r \<leftarrow> ep_handle_wait_access sys h;
           return (r, EP_WAITABLE_ET_UNSUPPORTED)
         }
         else if ep_object_type_equals (oi_type_name type_info) ''Process'' \<or>
                 ep_object_type_equals (oi_type_name type_info) ''Thread'' then do {
           r \<leftarrow> ep_handle_wait_access sys h;
           return (r, EP_WAITABLE_TERMINAL)
         }
         else return (- 1, EP_WAITABLE_ET_UNSUPPORTED)
       }
     else return (- 1, EP_WAITABLE_ET_UNSUPPORTED))"

definition ep_waitable_interest_events :: "uint32 \<Rightarrow> uint32" where
  "ep_waitable_interest_events user_events = user_events AND
     (EPOLLIN OR EPOLLOUT OR EPOLLPRI OR EPOLLRDNORM OR EPOLLWRNORM OR EPOLLRDBAND OR EPOLLWRBAND OR EPOLLRDHUP)"

definition ep_waitable_level_events :: "ep_sock \<Rightarrow> uint32" where
  "ep_waitable_level_events k = ep_waitable_interest_events (sk_user_events k)"

definition ep_waitable_may_consume :: "ep_sock \<Rightarrow> bool" where
  "ep_waitable_may_consume k \<longleftrightarrow> sk_kind k = EP_REG_WAITABLE \<and>
     sk_waitable_semantics k \<noteq> EP_WAITABLE_PERSISTENT \<and> sk_waitable_semantics k \<noteq> EP_WAITABLE_TERMINAL"

definition ep_waitable_is_dormant :: "ep_sock \<Rightarrow> bool" where
  "ep_waitable_is_dormant k \<longleftrightarrow> sk_kind k = EP_REG_WAITABLE \<and>
     ep_waitable_interest_events (sk_user_events k) = 0"

section \<open>The current level of a socket\<close>

definition ep_socket_select_ready ::
  "('os, 'y) ep_port_sys_scheme \<Rightarrow> sock_fd \<Rightarrow> bool \<Rightarrow> (('os, 'z) ep_env_scheme, int) state" where
  "ep_socket_select_ready sys fd writable = do {
     (result, is_set) \<leftarrow> syscall (wsa_select sys fd (if writable then Write_Fds else Read_Fds));
     return (if result = - 1 then - 1 else if result > 0 \<and> is_set then 1 else 0)
   }"

definition ep_socket_select_priority_ready ::
  "('os, 'y) ep_port_sys_scheme \<Rightarrow> sock_fd \<Rightarrow> (('os, 'z) ep_env_scheme, int) state" where
  "ep_socket_select_priority_ready sys fd = do {
     connected \<leftarrow> syscall (wsa_getpeername sys fd);
     if \<not> connected then return 0
     else do {
       oob_inline \<leftarrow> syscall (wsa_getsockopt sys fd SO_OOBINLINE);
       if oob_inline = None \<or> the oob_inline \<noteq> 0 then return 0
       else do {
         (result, is_set) \<leftarrow> syscall (wsa_select sys fd Except_Fds);
         return (if result = - 1 then - 1 else if result > 0 \<and> is_set then 1 else 0)
       }
     }
   }"

text \<open>The error state the probes save and restore around their calls.\<close>

definition probe_restore ::
  "('os, 'y) ep_port_sys_scheme \<Rightarrow> ep_afd_error_state \<Rightarrow> (('os, 'z) ep_env_scheme, unit) state" where
  "probe_restore sys st = do {
     syscall (wsa_WSASetLastError sys (es_wsa_error st));
     syscall (win_SetLastError sys (es_last_error st));
     ep_set_errno (es_error st)
   }"

text \<open>The returned events, if the poll succeeded.  The registration is never null here.\<close>

definition ep_socket_poll_current ::
  "('os, 'y) ep_port_sys_scheme \<Rightarrow> addr \<Rightarrow> (('os, 'z) ep_world_scheme, 16 word option) state" where
  "ep_socket_poll_current sys sock = do {
     saved \<leftarrow> ep_afd_error_state_save sys;
     k \<leftarrow> sock_read sock id;
     r \<leftarrow> (if sk_socket_protocol k \<noteq> EP_SOCKET_PROTOCOL_TCP then return None
       else do {
         connected \<leftarrow> syscall (wsa_getpeername sys (sk_fd k));
         if \<not> connected then return None
         else do {
           port_upd (sk_port k) (\<lambda>q. q \<lparr> pt_tcp_current_level_probes := pt_tcp_current_level_probes q + 1 \<rparr>);
           (ok, revents) \<leftarrow> syscall (wsa_WSAPoll sys (sk_fd k) (POLLRDNORM OR POLLWRNORM));
           return (if \<not> ok \<or> revents AND POLLNVAL \<noteq> 0 then None else Some revents)
         }
       });
     probe_restore sys saved;
     return r
   }"

text \<open>The events that a poll adds to a delivered mask.\<close>

definition merge_revents :: "uint32 \<Rightarrow> 16 word \<Rightarrow> uint32 \<Rightarrow> uint32" where
  "merge_revents user_events revents delivered =
    (let read_interest = user_events AND (EPOLLIN OR EPOLLRDNORM);
         write_interest = user_events AND (EPOLLOUT OR EPOLLWRNORM);
         delivered =
           (if revents AND POLLERR \<noteq> 0 then delivered OR EPOLLERR OR EPOLLHUP
            else if revents AND POLLHUP \<noteq> 0 then delivered OR read_interest OR (user_events AND EPOLLRDHUP)
            else if revents AND POLLRDNORM \<noteq> 0 then delivered OR read_interest
            else delivered)
     in if revents AND POLLWRNORM \<noteq> 0 then delivered OR write_interest else delivered)"

definition merge_select ::
  "('os, 'y) ep_port_sys_scheme \<Rightarrow> addr \<Rightarrow> uint32 \<Rightarrow> (('os, 'z) ep_world_scheme, uint32) state" where
  "merge_select sys sock delivered = do {
     k \<leftarrow> sock_read sock id;
     let read_interest = sk_user_events k AND (EPOLLIN OR EPOLLRDNORM);
     let write_interest = sk_user_events k AND (EPOLLOUT OR EPOLLWRNORM);
     port_upd (sk_port k) (\<lambda>q. q \<lparr> pt_tcp_current_level_fallbacks := pt_tcp_current_level_fallbacks q + 1 \<rparr>);
     r \<leftarrow> (if read_interest AND NOT delivered \<noteq> 0 then ep_socket_select_ready sys (sk_fd k) False else return 0);
     let delivered = (if r > 0 then delivered OR read_interest else delivered);
     w \<leftarrow> (if write_interest AND NOT delivered \<noteq> 0 then ep_socket_select_ready sys (sk_fd k) True else return 0);
     return (if w > 0 then delivered OR write_interest else delivered)
   }"

text \<open>The merged mask, and the current events when they also qualify an edge.\<close>

definition ep_socket_merge_current_levels ::
  "('os, 'y) ep_port_sys_scheme \<Rightarrow> addr \<Rightarrow> uint32 \<Rightarrow> (('os, 'z) ep_world_scheme, uint32 \<times> 16 word option) state" where
  "ep_socket_merge_current_levels sys sock delivered = do {
     k \<leftarrow> sock_read sock id;
     if sk_socket_protocol k \<noteq> EP_SOCKET_PROTOCOL_TCP \<or> tests delivered (EPOLLERR OR EPOLLHUP)
     then return (delivered, None)
     else do {
       polled \<leftarrow> ep_socket_poll_current sys sock;
       delivered \<leftarrow> (case polled of
           Some revents \<Rightarrow> return (merge_revents (sk_user_events k) revents delivered)
         | None \<Rightarrow> merge_select sys sock delivered);
       priority \<leftarrow> (if tests (sk_user_events k) EPOLLPRI \<and> \<not> tests delivered EPOLLPRI \<and>
                       \<not> tests delivered (EPOLLERR OR EPOLLHUP)
         then ep_socket_select_priority_ready sys (sk_fd k) else return 0);
       let delivered = (if priority > 0 then delivered OR EPOLLPRI else delivered);
       return (delivered, (case polled of
           Some revents \<Rightarrow> if revents AND (POLLERR OR POLLHUP) = 0 then Some revents else None
         | None \<Rightarrow> None))
     }
   }"

section \<open>Endpoint identity\<close>

datatype ep_identity_check = EP_IDENTITY_ERROR | EP_IDENTITY_MATCH | EP_IDENTITY_STALE | EP_IDENTITY_CLOSED

definition ep_socket_identity_is_stable ::
  "('os, 'y) ep_port_sys_scheme \<Rightarrow> sock_fd \<Rightarrow> (('os, 'z) ep_env_scheme, bool) state" where
  "ep_socket_identity_is_stable sys fd = do {
     socket_type \<leftarrow> syscall (wsa_getsockopt sys fd SO_TYPE);
     (case socket_type of
       None \<Rightarrow> return False
     | Some t \<Rightarrow>
         if t \<noteq> SOCK_STREAM then return True
         else do {
           accepting \<leftarrow> syscall (wsa_getsockopt sys fd SO_ACCEPTCONN);
           if accepting \<noteq> None \<and> the accepting \<noteq> 0 then return True
           else syscall (wsa_getpeername sys fd)
         })
   }"

text \<open>A registered socket whose token cannot be read is closed if \<open>SO_TYPE\<close> says so.\<close>

definition identity_failed :: "addr \<Rightarrow> int \<Rightarrow> (('os, 'z) ep_world_scheme, ep_identity_check) state" where
  "identity_failed port error = do {
     port_upd port (\<lambda>q. q \<lparr> pt_identity_failures := pt_identity_failures q + 1 \<rparr>);
     ep_set_errno error;
     return EP_IDENTITY_ERROR
   }"

definition identity_unavailable ::
  "('os, 'y) ep_port_sys_scheme \<Rightarrow> ep_sock \<Rightarrow> (('os, 'z) ep_world_scheme, ep_identity_check) state" where
  "identity_unavailable sys k = do {
     socket_type \<leftarrow> syscall (wsa_getsockopt sys (sk_fd k) SO_TYPE);
     if socket_type \<noteq> None then return EP_IDENTITY_MATCH
     else do {
       wsa \<leftarrow> syscall (wsa_WSAGetLastError sys);
       let error = ep_winerr_to_errno wsa;
       if error = ENOTSOCK \<or> error = EBADF then return EP_IDENTITY_CLOSED
       else identity_failed (sk_port k) (if error \<noteq> 0 then error else EIO)
     }
   }"

definition identity_lost ::
  "('os, 'y) ep_port_sys_scheme \<Rightarrow> ep_sock \<Rightarrow> (('os, 'z) ep_world_scheme, ep_identity_check) state" where
  "identity_lost sys k = do {
     socket_type \<leftarrow> syscall (wsa_getsockopt sys (sk_fd k) SO_TYPE);
     if socket_type = None then do {
       wsa \<leftarrow> syscall (wsa_WSAGetLastError sys);
       let error = ep_winerr_to_errno wsa;
       if error = ENOTSOCK \<or> error = EBADF then return EP_IDENTITY_CLOSED
       else identity_failed (sk_port k) (if error \<noteq> 0 then error else EIO)
     } else identity_failed (sk_port k) EIO
   }"

definition identity_query_error ::
  "('os, 'y) ep_port_sys_scheme \<Rightarrow> ep_sock \<Rightarrow> (('os, 'z) ep_world_scheme, ep_identity_check) state" where
  "identity_query_error sys k = do {
     last \<leftarrow> ep_last_err;
     let error = (if last = 0 then EIO else last);
     when_do (last = 0) (ep_set_errno error);
     if error = ENOTSOCK \<or> error = EBADF then return EP_IDENTITY_CLOSED
     else do {
       socket_type \<leftarrow> syscall (wsa_getsockopt sys (sk_fd k) SO_TYPE);
       closed \<leftarrow> (if socket_type = None then do {
           wsa \<leftarrow> syscall (wsa_WSAGetLastError sys);
           let live_error = ep_winerr_to_errno wsa;
           return (live_error = ENOTSOCK \<or> live_error = EBADF)
         } else return False);
       if closed then return EP_IDENTITY_CLOSED else identity_failed (sk_port k) error
     }
   }"

definition settle_identity ::
  "('os, 'y) ep_port_sys_scheme \<Rightarrow> addr \<Rightarrow> (('os, 'z) ep_world_scheme, unit) state" where
  "settle_identity sys sock = do {
     fd \<leftarrow> sock_read sock sk_fd;
     stable \<leftarrow> ep_socket_identity_is_stable sys fd;
     when_do stable (sock_upd sock (\<lambda>k. k \<lparr> sk_endpoint_id_state := EP_SOCKET_ID_STABLE \<rparr>))
   }"

definition ep_sock_validate_identity_locked ::
  "('os, 'y) ep_port_sys_scheme \<Rightarrow> addr \<Rightarrow> bool \<Rightarrow> (('os, 'z) ep_world_scheme, ep_identity_check) state" where
  "ep_sock_validate_identity_locked sys sock allow_transition = do {
     k \<leftarrow> sock_read sock id;
     if sk_kind k \<noteq> EP_REG_SOCKET then return EP_IDENTITY_MATCH
     else if sk_endpoint_id_state k = EP_SOCKET_ID_UNAVAILABLE then identity_unavailable sys k
     else do {
       (identity_result, endpoint_id) \<leftarrow> ep_socket_get_endpoint_id sys (sk_fd k);
       if identity_result = 0 then identity_lost sys k
       else if identity_result < 0 then identity_query_error sys k
       else if endpoint_id = Some (sk_endpoint_id k) then do {
         when_do (sk_endpoint_id_state k = EP_SOCKET_ID_TRANSITIONAL) (settle_identity sys sock);
         return EP_IDENTITY_MATCH
       }
       else if sk_endpoint_id_state k = EP_SOCKET_ID_TRANSITIONAL \<and> allow_transition then do {
         sock_upd sock (\<lambda>k. k \<lparr> sk_endpoint_id := the endpoint_id \<rparr>);
         settle_identity sys sock;
         return EP_IDENTITY_MATCH
       }
       else return EP_IDENTITY_STALE
     }
   }"

text \<open>The verdict as the integer the registration remembers.\<close>

definition identity_code :: "ep_identity_check \<Rightarrow> int" where
  "identity_code c = (case c of EP_IDENTITY_ERROR \<Rightarrow> - 1 | EP_IDENTITY_MATCH \<Rightarrow> 0
     | EP_IDENTITY_STALE \<Rightarrow> 1 | EP_IDENTITY_CLOSED \<Rightarrow> 2)"

definition identity_of_code :: "int \<Rightarrow> ep_identity_check" where
  "identity_of_code n = (if n = 0 then EP_IDENTITY_MATCH else if n = 1 then EP_IDENTITY_STALE
     else if n = 2 then EP_IDENTITY_CLOSED else EP_IDENTITY_ERROR)"

definition ep_sock_validate_identity_for_delivery_locked ::
  "('os, 'y) ep_port_sys_scheme \<Rightarrow> addr \<Rightarrow> addr \<Rightarrow> (('os, 'z) ep_world_scheme, ep_identity_check) state" where
  "ep_sock_validate_identity_for_delivery_locked sys port sock = do {
     epoch \<leftarrow> port_read port pt_active_wait_epoch;
     k \<leftarrow> sock_read sock id;
     if epoch \<noteq> 0 \<and> sk_identity_checked_epoch k = epoch
     then return (identity_of_code (sk_identity_checked_result k))
     else do {
       result \<leftarrow> ep_sock_validate_identity_locked sys sock False;
       when_do (epoch \<noteq> 0 \<and> result \<noteq> EP_IDENTITY_ERROR) (sock_upd sock (\<lambda>k. k
         \<lparr> sk_identity_checked_epoch := epoch, sk_identity_checked_result := identity_code result \<rparr>));
       return result
     }
   }"

section \<open>Probing a UDP socket\<close>

definition file_mode ::
  "('os, 'y) ep_port_sys_scheme \<Rightarrow> handle \<Rightarrow> (('os, 'z) ep_env_scheme, uint32 option) state" where
  "file_mode sys h = (case nt_NtQueryInformationFile sys of
      None \<Rightarrow> return None
    | Some query \<Rightarrow> do {
        answer \<leftarrow> syscall (query h EP_FILE_MODE_INFORMATION_CLASS);
        return (if fa_status answer \<noteq> STATUS_SUCCESS \<or> fa_iosb_status answer \<noteq> STATUS_SUCCESS \<or>
                   fa_information answer \<noteq> FILE_MODE_SIZE
                then None else Some (fi_mode (fa_info answer)))
      })"

definition ep_socket_async_read_capability ::
  "('os, 'y) ep_port_sys_scheme \<Rightarrow> sock_fd \<Rightarrow> (('os, 'z) ep_env_scheme, ep_socket_async_read_capability) state" where
  "ep_socket_async_read_capability sys base_socket = do {
     saved \<leftarrow> ep_afd_error_state_save sys;
     mode \<leftarrow> file_mode sys base_socket;
     let capability = (case mode of
         None \<Rightarrow> EP_SOCKET_ASYNC_READ_UNKNOWN
       | Some m \<Rightarrow> if tests m (EP_FILE_SYNCHRONOUS_IO_ALERT OR EP_FILE_SYNCHRONOUS_IO_NONALERT)
                  then EP_SOCKET_ASYNC_READ_UNSAFE else EP_SOCKET_ASYNC_READ_SAFE);
     probe_restore sys saved;
     return capability
   }"

datatype ep_udp_read_probe_result =
    EP_UDP_READ_PROBE_NOT_READY | EP_UDP_READ_PROBE_READY | EP_UDP_READ_PROBE_ERROR
  | EP_UDP_READ_PROBE_CLOSED | EP_UDP_READ_PROBE_UNAVAILABLE | EP_UDP_READ_PROBE_IDENTITY_ERROR

definition ep_udp_probe_error_is_unavailable :: "dword \<Rightarrow> bool" where
  "ep_udp_probe_error_is_unavailable error \<longleftrightarrow> error \<in> {ERROR_INVALID_FUNCTION, ERROR_BAD_COMMAND,
     ERROR_NOT_SUPPORTED, ERROR_INVALID_PARAMETER, ERROR_CALL_NOT_IMPLEMENTED, WSAEINVAL, WSAEOPNOTSUPP}"

definition ep_udp_probe_classify_error :: "dword \<Rightarrow> ep_udp_read_probe_result" where
  "ep_udp_probe_classify_error error =
    (if error = ERROR_OPERATION_ABORTED \<or> error = ERROR_IO_INCOMPLETE then EP_UDP_READ_PROBE_NOT_READY
     else if error = ERROR_MORE_DATA then EP_UDP_READ_PROBE_READY
     else if error = WSAENOTSOCK \<or> error = WSAEBADF \<or> error = ERROR_INVALID_HANDLE then EP_UDP_READ_PROBE_CLOSED
     else if ep_udp_probe_error_is_unavailable error then EP_UDP_READ_PROBE_UNAVAILABLE
     else EP_UDP_READ_PROBE_ERROR)"

text \<open>The request on the pinned duplicate; an event that never settles aborts the program.\<close>

definition udp_probe_request ::
  "('os, 'y) ep_port_sys_scheme \<Rightarrow> handle \<Rightarrow> handle \<Rightarrow> (('os, 'z) ep_env_scheme, ep_udp_read_probe_result) state" where
  "udp_probe_request sys probe_handle event = do {
     reset \<leftarrow> syscall (win_ResetEvent sys event);
     if \<not> reset then return EP_UDP_READ_PROBE_UNAVAILABLE
     else do {
       done \<leftarrow> syscall (win_DeviceIoControl_recv sys probe_handle (event OR 1));
       if done then return EP_UDP_READ_PROBE_READY
       else do {
         error \<leftarrow> syscall (win_GetLastError sys);
         if error \<noteq> ERROR_IO_PENDING then return (ep_udp_probe_classify_error error)
         else do {
           first \<leftarrow> syscall (win_WaitForSingleObject sys event 0);
           wait_result \<leftarrow> (if first \<noteq> WAIT_OBJECT_0 then do {
               _ \<leftarrow> syscall (win_CancelIoEx sys probe_handle);
               syscall (win_WaitForSingleObject sys event INFINITE)
             } else return first);
           if wait_result \<noteq> WAIT_OBJECT_0 then do { bad_access; return EP_UDP_READ_PROBE_UNAVAILABLE }
           else do {
             ok \<leftarrow> syscall (win_GetOverlappedResult sys probe_handle);
             if ok then return EP_UDP_READ_PROBE_READY
             else do {
               error \<leftarrow> syscall (win_GetLastError sys);
               return (ep_udp_probe_classify_error error)
             }
           }
         }
       }
     }
   }"

definition udp_probe_duplicate ::
  "('os, 'y) ep_port_sys_scheme \<Rightarrow> addr \<Rightarrow> handle \<Rightarrow> (('os, 'z) ep_world_scheme, ep_udp_read_probe_result) state" where
  "udp_probe_duplicate sys sock probe_handle = do {
     capability \<leftarrow> ep_socket_async_read_capability sys probe_handle;
     if capability \<noteq> EP_SOCKET_ASYNC_READ_SAFE then return EP_UDP_READ_PROBE_UNAVAILABLE
     else do {
       identity_check \<leftarrow> ep_sock_validate_identity_locked sys sock False;
       if identity_check = EP_IDENTITY_STALE \<or> identity_check = EP_IDENTITY_CLOSED
       then return EP_UDP_READ_PROBE_CLOSED
       else if identity_check = EP_IDENTITY_ERROR then return EP_UDP_READ_PROBE_UNAVAILABLE
       else do {
         port \<leftarrow> sock_read sock sk_port;
         event \<leftarrow> port_read port pt_udp_probe_event;
         udp_probe_request sys probe_handle event
       }
     }
   }"

text \<open>The probe result; the identity error stored for the caller is always zero in this build.\<close>

definition ep_udp_probe_read_locked ::
  "('os, 'y) ep_port_sys_scheme \<Rightarrow> addr \<Rightarrow> (('os, 'z) ep_world_scheme, ep_udp_read_probe_result) state" where
  "ep_udp_probe_read_locked sys sock = do {
     saved \<leftarrow> ep_afd_error_state_save sys;
     k \<leftarrow> sock_read sock id;
     event \<leftarrow> port_read (sk_port k) pt_udp_probe_event;
     probe \<leftarrow> (if sk_socket_protocol k \<noteq> EP_SOCKET_PROTOCOL_UDP \<or> \<not> sk_udp_afd_qualifier_eligible k \<or>
                  sk_async_read_capability k \<noteq> EP_SOCKET_ASYNC_READ_SAFE \<or>
                  sk_base_socket k = INVALID_SOCKET \<or> event = NULL_HANDLE
       then return EP_UDP_READ_PROBE_UNAVAILABLE
       else do {
         duplicate \<leftarrow> syscall (afd_DuplicateHandle sys (sk_base_socket k));
         (case duplicate of
           None \<Rightarrow> do {
             error \<leftarrow> syscall (win_GetLastError sys);
             return (if error = ERROR_INVALID_HANDLE then EP_UDP_READ_PROBE_CLOSED
                     else EP_UDP_READ_PROBE_UNAVAILABLE)
           }
         | Some h \<Rightarrow> do {
             probe \<leftarrow> udp_probe_duplicate sys sock h;
             _ \<leftarrow> syscall (win_CloseHandle sys h);
             return probe
           })
       });
     probe_restore sys saved;
     return probe
   }"

section \<open>Classifying a target\<close>

datatype ep_target_kind =
    EP_TARGET_INVALID | EP_TARGET_SOCKET | EP_TARGET_PIPE | EP_TARGET_WAITABLE | EP_TARGET_UNSUPPORTED

record ep_target_info =
  ti_kind :: ep_target_kind
  ti_base_socket :: sock_fd
  ti_pipe_access :: uint8
  ti_pipe_synchronous_io :: bool
  ti_waitable_semantics :: ep_waitable_semantics
  ti_registration_error :: int

definition target_info_init :: ep_target_info where
  "target_info_init = \<lparr> ti_kind = EP_TARGET_INVALID, ti_base_socket = INVALID_SOCKET, ti_pipe_access = 0,
     ti_pipe_synchronous_io = False, ti_waitable_semantics = EP_WAITABLE_NONE, ti_registration_error = 0 \<rparr>"

text \<open>The access bits of a pipe handle, or the failure reported in errno.\<close>

definition ep_pipe_query_access ::
  "('os, 'y) ep_port_sys_scheme \<Rightarrow> handle \<Rightarrow> (('os, 'z) ep_env_scheme, uint8 option) state" where
  "ep_pipe_query_access sys h = do {
     (status, info) \<leftarrow> query_object sys h ObjectBasicInformation;
     if status <s 0 then do { ep_set_ntstatus_error (afd_RtlNtStatusToDosError sys) status; return None }
     else do {
       let r = (if tests (oi_granted_access info) (FILE_READ_DATA OR GENERIC_READ OR GENERIC_ALL)
                then EP_PIPE_ACCESS_READ else EP_PIPE_ACCESS_NONE);
       let access = (if tests (oi_granted_access info) (FILE_WRITE_DATA OR GENERIC_WRITE OR GENERIC_ALL)
                     then r OR EP_PIPE_ACCESS_WRITE else r);
       if access = EP_PIPE_ACCESS_NONE then do { ep_set_errno EACCES; return None }
       else return (Some access)
     }
   }"

definition ep_pipe_has_synchronous_io ::
  "('os, 'y) ep_port_sys_scheme \<Rightarrow> handle \<Rightarrow> (('os, 'z) ep_env_scheme, bool) state" where
  "ep_pipe_has_synchronous_io sys h = do {
     saved \<leftarrow> ep_afd_error_state_save sys;
     mode \<leftarrow> file_mode sys h;
     probe_restore sys saved;
     return (mode \<noteq> None \<and>
       tests (the mode) (EP_FILE_SYNCHRONOUS_IO_ALERT OR EP_FILE_SYNCHRONOUS_IO_NONALERT))
   }"

text \<open>The classification of a duplicated handle that is not a socket; \<open>None\<close> when it failed.\<close>

definition probe_duplicate ::
  "('os, 'y) ep_port_sys_scheme \<Rightarrow> handle \<Rightarrow> (('os, 'z) ep_env_scheme, ep_target_info option) state" where
  "probe_duplicate sys duplicate = do {
     file_type \<leftarrow> syscall (win_GetFileType sys duplicate);
     (waitability, semantics) \<leftarrow>
       (if file_type = FILE_TYPE_PIPE \<or> file_type = FILE_TYPE_DISK then return (0, EP_WAITABLE_ET_UNSUPPORTED)
        else ep_handle_waitability sys duplicate file_type);
     if file_type = FILE_TYPE_PIPE then do {
       access \<leftarrow> ep_pipe_query_access sys duplicate;
       error \<leftarrow> ep_last_err;
       synchronous \<leftarrow> ep_pipe_has_synchronous_io sys duplicate;
       return (Some (target_info_init \<lparr> ti_kind := EP_TARGET_PIPE,
         ti_pipe_access := (case access of None \<Rightarrow> 0 | Some a \<Rightarrow> a),
         ti_registration_error := (if access = None then error else 0),
         ti_pipe_synchronous_io := synchronous \<rparr>))
     }
     else if file_type = FILE_TYPE_DISK then return (Some (target_info_init \<lparr> ti_kind := EP_TARGET_UNSUPPORTED \<rparr>))
     else if waitability = - 2 then return (Some (target_info_init \<lparr> ti_kind := EP_TARGET_WAITABLE,
       ti_waitable_semantics := semantics, ti_registration_error := EACCES \<rparr>))
     else if waitability > 0 then return (Some (target_info_init \<lparr> ti_kind := EP_TARGET_WAITABLE,
       ti_waitable_semantics := semantics \<rparr>))
     else if waitability < 0 then return (Some (target_info_init \<lparr> ti_kind := EP_TARGET_UNSUPPORTED \<rparr>))
     else return None
   }"

text \<open>The part of the probe for a descriptor that is not a socket.\<close>

definition probe_handle ::
  "('os, 'y) ep_port_sys_scheme \<Rightarrow> sock_fd \<Rightarrow> (('os, 'z) ep_env_scheme, ep_target_info option) state" where
  "probe_handle sys fd = do {
     dup \<leftarrow> syscall (afd_DuplicateHandle sys fd);
     (case dup of
       None \<Rightarrow> do {
         last \<leftarrow> syscall (win_GetLastError sys);
         let error = ep_winerr_to_errno last;
         if error = EBADF then return (Some target_info_init)
         else do { ep_set_errno (if error \<noteq> 0 then error else EIO); return None }
       }
     | Some duplicate \<Rightarrow> do {
         target \<leftarrow> probe_duplicate sys duplicate;
         (case target of
           Some t \<Rightarrow> do { _ \<leftarrow> syscall (win_CloseHandle sys duplicate); return (Some t) }
         | None \<Rightarrow> do {
             error \<leftarrow> ep_last_err;
             _ \<leftarrow> syscall (win_CloseHandle sys duplicate);
             ep_set_errno (if error \<noteq> 0 then error else EIO);
             return None
           })
       })
   }"

text \<open>What a descriptor names; \<open>None\<close> when the probe failed.\<close>

definition ep_target_probe ::
  "('os, 'y) ep_port_sys_scheme \<Rightarrow> sock_fd \<Rightarrow> (('os, 'z) ep_env_scheme, ep_target_info option) state" where
  "ep_target_probe sys fd =
    (if fd = INVALID_SOCKET then return (Some target_info_init)
     else do {
       base \<leftarrow> ep_socket_get_base sys fd;
       if base \<noteq> INVALID_SOCKET
       then return (Some (target_info_init \<lparr> ti_kind := EP_TARGET_SOCKET, ti_base_socket := base \<rparr>))
       else do {
         last \<leftarrow> ep_last_err;
         let base_error = (if last = 0 then EIO else last);
         socket_type \<leftarrow> syscall (wsa_getsockopt sys fd SO_TYPE);
         if socket_type \<noteq> None then return (Some (target_info_init \<lparr> ti_kind := EP_TARGET_SOCKET,
           ti_registration_error := base_error \<rparr>))
         else do {
           wsa \<leftarrow> syscall (wsa_WSAGetLastError sys);
           let socket_error = ep_winerr_to_errno wsa;
           if socket_error \<noteq> ENOTSOCK \<and> socket_error \<noteq> EBADF
           then do { ep_set_errno (if socket_error \<noteq> 0 then socket_error else EIO); return None }
           else probe_handle sys fd
         }
       }
     })"

datatype ep_target_validation_mode = VALIDATE_CONTROL | VALIDATE_ADD

definition ep_port_validate_target ::
  "('os, 'y) ep_port_sys_scheme \<Rightarrow> addr option \<Rightarrow> sock_fd \<Rightarrow> ep_target_validation_mode \<Rightarrow>
   (('os, 'z) ep_world_scheme, int) state" where
  "ep_port_validate_target sys port_ptr fd mode = do {
     closing \<leftarrow> (case port_ptr of None \<Rightarrow> return True | Some port \<Rightarrow> port_read port pt_closing);
     if closing then do { ep_set_errno EBADF; return (- 1) }
     else do {
       target \<leftarrow> ep_target_probe sys fd;
       (case target of
         None \<Rightarrow> return (- 1)
       | Some t \<Rightarrow>
           if ti_kind t = EP_TARGET_INVALID then do { ep_set_errno EBADF; return (- 1) }
           else if ti_kind t = EP_TARGET_UNSUPPORTED then do { ep_set_errno EPERM; return (- 1) }
           else if mode = VALIDATE_ADD \<and> ti_registration_error t \<noteq> 0
           then do { ep_set_errno (ti_registration_error t); return (- 1) }
           else return 0)
     }
   }"

definition ep_target_fail_absent ::
  "('os, 'y) ep_port_sys_scheme \<Rightarrow> sock_fd \<Rightarrow> (('os, 'z) ep_env_scheme, int) state" where
  "ep_target_fail_absent sys fd = do {
     target \<leftarrow> ep_target_probe sys fd;
     (case target of
       None \<Rightarrow> return (- 1)
     | Some t \<Rightarrow> do {
         ep_set_errno (case ti_kind t of EP_TARGET_INVALID \<Rightarrow> EBADF | EP_TARGET_UNSUPPORTED \<Rightarrow> EPERM | _ \<Rightarrow> ENOENT);
         return (- 1)
       })
   }"

end
