(* ===== verification/Ep_Aux.thy ===== *)
theory Ep_Aux
  imports Ep_Target
begin

text \<open>
  Auxiliary waits of \<^verbatim>\<open>src/src/wepoll_ex_port.c\<close>: waitable handles through thread-pool waits, pipes
  through snapshots and a timer, and the high-resolution deadline of a precise wait.  A callback of
  the thread pool is one step; it posts the embedded status block of its registration.
\<close>

section \<open>Thread-pool waits\<close>

text \<open>The spin until a callback has returned.  A callback that has not returned after \<open>ps_spins\<close>
  rounds never does, and the loop does not end.\<close>

primrec callback_idle_loop ::
  "nat \<Rightarrow> ('os, 'y) ep_port_sys_scheme \<Rightarrow> addr \<Rightarrow> (('os, 'z) ep_world_scheme, unit) state" where
  "callback_idle_loop 0 sys sock = do {
     active \<leftarrow> sock_read sock sk_callback_active;
     when_do active bad_access
   }"
| "callback_idle_loop (Suc n) sys sock = do {
     active \<leftarrow> sock_read sock sk_callback_active;
     when_do active (do { syscall (win_Sleep sys 0); callback_idle_loop n sys sock })
   }"

definition ep_aux_wait_callback_idle ::
  "('os, 'y) ep_port_sys_scheme \<Rightarrow> addr \<Rightarrow> (('os, 'z) ep_world_scheme, unit) state" where
  "ep_aux_wait_callback_idle sys sock = callback_idle_loop (ps_spins sys) sys sock"

definition ep_waitable_callback ::
  "('os, 'y) ep_port_sys_scheme \<Rightarrow> addr option \<Rightarrow> (('os, 'z) ep_world_scheme, unit) state" where
  "ep_waitable_callback sys parameter = (case parameter of
      None \<Rightarrow> skip
    | Some sock \<Rightarrow> do {
        sock_upd sock (\<lambda>k. k \<lparr> sk_callback_active := True \<rparr>);
        semantics \<leftarrow> sock_read sock sk_waitable_semantics;
        when_do (semantics \<noteq> EP_WAITABLE_PERSISTENT \<and> semantics \<noteq> EP_WAITABLE_TERMINAL)
          (sock_upd sock (\<lambda>k. k \<lparr> sk_waitable_notification_owned := True \<rparr>));
        _ \<leftarrow> ep_aux_post_completion sys sock STATUS_SUCCESS;
        sock_upd sock (\<lambda>k. k \<lparr> sk_callback_active := False \<rparr>)
      })"

definition ep_waitable_register_locked ::
  "('os, 'y) ep_port_sys_scheme \<Rightarrow> addr \<Rightarrow> (('os, 'z) ep_world_scheme, int) state" where
  "ep_waitable_register_locked sys sock = do {
     k \<leftarrow> sock_read sock id;
     if sk_wait_registration k \<noteq> NULL_HANDLE then return 0
     else do {
       registration \<leftarrow> syscall (win_RegisterWaitForSingleObject sys (sk_fd k) sock);
       (case registration of
         None \<Rightarrow> do {
           error \<leftarrow> syscall (win_GetLastError sys);
           ep_set_win32_error error;
           return (- 1)
         }
       | Some h \<Rightarrow> do { sock_upd sock (\<lambda>k. k \<lparr> sk_wait_registration := h \<rparr>); return 0 })
     }
   }"

text \<open>Retiring the thread-pool wait or the timer of a registration; the two differ in the call that
  detaches the handle.\<close>

definition aux_disarm ::
  "('os, 'y) ep_port_sys_scheme \<Rightarrow> (handle \<Rightarrow> 'os \<Rightarrow> bool \<times> 'os) \<Rightarrow> addr \<Rightarrow>
   (('os, 'z) ep_world_scheme, int) state" where
  "aux_disarm sys detach sock = do {
     registration \<leftarrow> sock_read sock sk_wait_registration;
     if registration = NULL_HANDLE then do { ep_aux_wait_callback_idle sys sock; return 0 }
     else do {
       fault \<leftarrow> ep_fault_hit EP_FAULT_AUX_DISARM;
       if fault \<noteq> 0 then do {
         error \<leftarrow> ep_last_err;
         ep_aux_wait_callback_idle sys sock;
         ep_set_errno error;
         return (- 1)
       } else do {
         ok \<leftarrow> syscall (detach registration);
         error \<leftarrow> (if ok then return ERROR_INVALID_HANDLE else syscall (win_GetLastError sys));
         if error \<noteq> ERROR_INVALID_HANDLE then do {
           ep_aux_wait_callback_idle sys sock;
           ep_set_win32_error error;
           return (- 1)
         } else do {
           ep_aux_wait_callback_idle sys sock;
           sock_upd sock (\<lambda>k. k \<lparr> sk_wait_registration := NULL_HANDLE \<rparr>);
           return 0
         }
       }
     }
   }"

definition ep_waitable_unregister_locked ::
  "('os, 'y) ep_port_sys_scheme \<Rightarrow> addr \<Rightarrow> (('os, 'z) ep_world_scheme, int) state" where
  "ep_waitable_unregister_locked sys sock = aux_disarm sys (win_UnregisterWaitEx sys) sock"

section \<open>Pipes\<close>

record ep_pipe_snapshot_t =
  pn_events :: uint32
  pn_local_closed :: bool
  pn_valid :: bool
  pn_native_information :: bool
  pn_server_end :: bool

definition pipe_snapshot_zero :: ep_pipe_snapshot_t where
  "pipe_snapshot_zero = \<lparr> pn_events = 0, pn_local_closed = False, pn_valid = False,
     pn_native_information = False, pn_server_end = False \<rparr>"

definition ep_pipe_read_events :: "ep_sock \<Rightarrow> uint32" where
  "ep_pipe_read_events k = sk_user_events k AND (EPOLLIN OR EPOLLRDNORM)"

definition ep_pipe_write_events :: "ep_sock \<Rightarrow> uint32" where
  "ep_pipe_write_events k = sk_user_events k AND (EPOLLOUT OR EPOLLWRNORM)"

definition ep_pipe_peer_closed_events :: "ep_sock \<Rightarrow> uint32 \<Rightarrow> uint32" where
  "ep_pipe_peer_closed_events k available =
    (let events = 0;
         events = (if has_class (sk_pipe_access k) EP_PIPE_ACCESS_READ
                   then (if available > 0 then events OR ep_pipe_read_events k else events) OR EPOLLHUP
                   else events)
     in if has_class (sk_pipe_access k) EP_PIPE_ACCESS_WRITE
        then events OR ep_pipe_write_events k OR EPOLLERR else events)"

text \<open>The events of a connected pipe with data to read and room to write.\<close>

definition pipe_connected_events :: "ep_sock \<Rightarrow> bool \<Rightarrow> bool \<Rightarrow> uint32" where
  "pipe_connected_events k readable writable =
     (if has_class (sk_pipe_access k) EP_PIPE_ACCESS_READ \<and> readable then ep_pipe_read_events k else 0) OR
     (if has_class (sk_pipe_access k) EP_PIPE_ACCESS_WRITE \<and> writable then ep_pipe_write_events k else 0)"

text \<open>The answer to a denied peek on a handle that can be written.\<close>

definition pipe_null_write ::
  "('os, 'y) ep_port_sys_scheme \<Rightarrow> ep_sock \<Rightarrow> ep_pipe_snapshot_t \<Rightarrow> (('os, 'z) ep_env_scheme, ep_pipe_snapshot_t) state" where
  "pipe_null_write sys k snapshot = do {
     written \<leftarrow> (if \<not> sk_pipe_synchronous_io k then return True else syscall (win_WriteFile_empty sys (sk_fd k)));
     if written then return (snapshot \<lparr> pn_events := pn_events snapshot OR ep_pipe_write_events k \<rparr>)
     else do {
       error \<leftarrow> syscall (win_GetLastError sys);
       return
         (if error = ERROR_INVALID_HANDLE then snapshot \<lparr> pn_local_closed := True, pn_valid := False \<rparr>
          else if error = ERROR_BROKEN_PIPE \<or> error = ERROR_NO_DATA \<or> error = ERROR_PIPE_NOT_CONNECTED \<or>
                  error = ERROR_BAD_PIPE
          then snapshot \<lparr> pn_events := ep_pipe_peer_closed_events k 0 \<rparr>
          else if error = ERROR_PIPE_LISTENING then snapshot
          else snapshot \<lparr> pn_events := pn_events snapshot OR ep_pipe_write_events k \<rparr>)
     }
   }"

definition ep_pipe_fallback_snapshot ::
  "('os, 'y) ep_port_sys_scheme \<Rightarrow> ep_sock \<Rightarrow> (('os, 'z) ep_env_scheme, ep_pipe_snapshot_t) state" where
  "ep_pipe_fallback_snapshot sys k = do {
     available \<leftarrow> syscall (win_PeekNamedPipe sys (sk_fd k));
     (case available of
       Some n \<Rightarrow> return (pipe_snapshot_zero \<lparr> pn_valid := True, pn_events := pipe_connected_events k (n > 0) True \<rparr>)
     | None \<Rightarrow> do {
         error \<leftarrow> syscall (win_GetLastError sys);
         if error = ERROR_INVALID_HANDLE then return (pipe_snapshot_zero \<lparr> pn_local_closed := True \<rparr>)
         else if error = ERROR_BROKEN_PIPE \<or> error = ERROR_PIPE_NOT_CONNECTED \<or> error = ERROR_BAD_PIPE
         then return (pipe_snapshot_zero \<lparr> pn_valid := True, pn_events := ep_pipe_peer_closed_events k 0 \<rparr>)
         else if error = ERROR_ACCESS_DENIED then
           if has_class (sk_pipe_access k) EP_PIPE_ACCESS_WRITE
           then pipe_null_write sys k (pipe_snapshot_zero \<lparr> pn_valid := True \<rparr>)
           else return (pipe_snapshot_zero \<lparr> pn_valid := True \<rparr>)
         else return pipe_snapshot_zero
       })
   }"

abbreviation (input) EP_PIPE_STATE_DISCONNECTED :: uint32 where "EP_PIPE_STATE_DISCONNECTED \<equiv> 1"
abbreviation (input) EP_PIPE_STATE_CONNECTED :: uint32 where "EP_PIPE_STATE_CONNECTED \<equiv> 3"
abbreviation (input) EP_PIPE_STATE_CLOSING :: uint32 where "EP_PIPE_STATE_CLOSING \<equiv> 4"
abbreviation (input) EP_PIPE_SERVER_END :: uint32 where "EP_PIPE_SERVER_END \<equiv> 1"

text \<open>A metadata query that failed.\<close>

definition pipe_query_failed ::
  "('os, 'y) ep_port_sys_scheme \<Rightarrow> ep_sock \<Rightarrow> nt_file_answer \<Rightarrow> (('os, 'z) ep_env_scheme, ep_pipe_snapshot_t) state" where
  "pipe_query_failed sys k answer =
    (if fa_status answer = EP_STATUS_INVALID_HANDLE then return (pipe_snapshot_zero \<lparr> pn_local_closed := True \<rparr>)
     else do {
       let error = ep_ntstatus_to_winerr (afd_RtlNtStatusToDosError sys)
         (if fa_status answer \<noteq> STATUS_SUCCESS then fa_status answer else fa_iosb_status answer);
       if error = ERROR_INVALID_HANDLE then return (pipe_snapshot_zero \<lparr> pn_local_closed := True \<rparr>)
       else if error = ERROR_BROKEN_PIPE \<or> error = ERROR_PIPE_NOT_CONNECTED \<or> error = ERROR_BAD_PIPE
       then return (pipe_snapshot_zero \<lparr> pn_valid := True, pn_events := ep_pipe_peer_closed_events k 0 \<rparr>)
       else if error = ERROR_ACCESS_DENIED then ep_pipe_fallback_snapshot sys k
       else return pipe_snapshot_zero
     })"

definition pipe_snapshot_of :: "ep_sock \<Rightarrow> file_info \<Rightarrow> ep_pipe_snapshot_t" where
  "pipe_snapshot_of k info =
    (let snapshot = pipe_snapshot_zero \<lparr> pn_valid := True, pn_native_information := True,
           pn_server_end := (fi_named_pipe_end info = EP_PIPE_SERVER_END) \<rparr>
     in if fi_named_pipe_state info = EP_PIPE_STATE_CONNECTED
        then snapshot \<lparr> pn_events := pipe_connected_events k (fi_read_data_available info > 0)
               (fi_write_quota_available info > 0) \<rparr>
        else if fi_named_pipe_state info = EP_PIPE_STATE_DISCONNECTED \<or>
                fi_named_pipe_state info = EP_PIPE_STATE_CLOSING
        then snapshot \<lparr> pn_events := ep_pipe_peer_closed_events k (fi_read_data_available info) \<rparr>
        else snapshot)"

definition ep_pipe_snapshot ::
  "('os, 'y) ep_port_sys_scheme \<Rightarrow> ep_sock \<Rightarrow> (('os, 'z) ep_env_scheme, ep_pipe_snapshot_t) state" where
  "ep_pipe_snapshot sys k = (case nt_NtQueryInformationFile sys of
      None \<Rightarrow> ep_pipe_fallback_snapshot sys k
    | Some query \<Rightarrow> do {
        answer \<leftarrow> syscall (query (sk_fd k) EP_FILE_PIPE_LOCAL_INFORMATION_CLASS);
        if fa_status answer \<noteq> STATUS_SUCCESS \<or> fa_iosb_status answer \<noteq> STATUS_SUCCESS \<or>
           fa_information answer \<noteq> PIPE_LOCAL_SIZE
        then pipe_query_failed sys k answer
        else return (pipe_snapshot_of k (fa_info answer))
      })"

definition ep_pipe_et_events_have_final_shape :: "ep_sock \<Rightarrow> uint32 \<Rightarrow> bool" where
  "ep_pipe_et_events_have_final_shape k events \<longleftrightarrow>
     tests events EPOLLHUP \<and> \<not> tests events (EPOLLIN OR EPOLLRDNORM) \<or>
     tests events EPOLLERR \<and> \<not> has_class (sk_pipe_access k) EP_PIPE_ACCESS_READ"

definition ep_pipe_et_snapshot_is_final :: "ep_sock \<Rightarrow> uint32 \<Rightarrow> ep_pipe_snapshot_t \<Rightarrow> bool" where
  "ep_pipe_et_snapshot_is_final k events snapshot \<longleftrightarrow>
     (if \<not> pn_valid snapshot \<or> \<not> pn_native_information snapshot \<or> pn_server_end snapshot then False
      else ep_pipe_et_events_have_final_shape k events)"

text \<open>The events of an edge-triggered pipe and the new latch, from the latch and a snapshot.\<close>

definition pipe_edge :: "uint32 \<Rightarrow> ep_pipe_snapshot_t \<Rightarrow> uint32 \<times> uint32" where
  "pipe_edge previous snapshot =
    (if \<not> pn_valid snapshot then (0, previous)
     else
       let level = pn_events snapshot;
           rising = level AND NOT previous;
           falling = previous AND NOT level;
           delivered =
             (if tests rising (EPOLLHUP OR EPOLLERR) then level
              else if tests level EPOLLHUP \<and> tests falling (EPOLLIN OR EPOLLRDNORM) then level
              else rising)
       in (delivered, level))"

definition ep_pipe_et_events ::
  "addr \<Rightarrow> ep_pipe_snapshot_t \<Rightarrow> (('os, 'z) ep_world_scheme, uint32) state" where
  "ep_pipe_et_events sock snapshot = do {
     previous \<leftarrow> sock_read sock sk_observed_events;
     sock_upd sock (\<lambda>k. k \<lparr> sk_observed_events := snd (pipe_edge previous snapshot) \<rparr>);
     return (fst (pipe_edge previous snapshot))
   }"

definition ep_pipe_timer_callback ::
  "('os, 'y) ep_port_sys_scheme \<Rightarrow> addr option \<Rightarrow> (('os, 'z) ep_world_scheme, unit) state" where
  "ep_pipe_timer_callback sys parameter = (case parameter of
      None \<Rightarrow> skip
    | Some sock \<Rightarrow> do {
        sock_upd sock (\<lambda>k. k \<lparr> sk_callback_active := True \<rparr>);
        _ \<leftarrow> ep_aux_post_completion sys sock STATUS_SUCCESS;
        sock_upd sock (\<lambda>k. k \<lparr> sk_callback_active := False \<rparr>)
      })"

definition ep_pipe_delete_timer_locked ::
  "('os, 'y) ep_port_sys_scheme \<Rightarrow> addr \<Rightarrow> (('os, 'z) ep_world_scheme, int) state" where
  "ep_pipe_delete_timer_locked sys sock = aux_disarm sys (win_DeleteTimerQueueTimer sys) sock"

definition ep_pipe_schedule_locked ::
  "('os, 'y) ep_port_sys_scheme \<Rightarrow> addr \<Rightarrow> uint32 \<Rightarrow> (('os, 'z) ep_world_scheme, int) state" where
  "ep_pipe_schedule_locked sys sock level = do {
     registration \<leftarrow> sock_read sock sk_wait_registration;
     if registration \<noteq> NULL_HANDLE then return 0
     else if level \<noteq> 0 then do {
       posted \<leftarrow> ep_aux_post_completion sys sock STATUS_SUCCESS;
       if posted = 0 then do {
         error \<leftarrow> syscall (win_GetLastError sys);
         ep_set_win32_error error;
         return (- 1)
       } else return 0
     } else do {
       timer \<leftarrow> syscall (win_CreateTimerQueueTimer sys sock);
       (case timer of
         None \<Rightarrow> do {
           error \<leftarrow> syscall (win_GetLastError sys);
           ep_set_win32_error error;
           return (- 1)
         }
       | Some h \<Rightarrow> do { sock_upd sock (\<lambda>k. k \<lparr> sk_wait_registration := h \<rparr>); return 0 })
     }
   }"

section \<open>The precise deadline\<close>

text \<open>A packet of the deadline carries no registration; its key is the generation it was armed with.\<close>

definition ep_precise_timeout_callback ::
  "('os, 'y) ep_port_sys_scheme \<Rightarrow> addr option \<Rightarrow> addr \<Rightarrow> (('os, 'z) ep_world_scheme, unit) state" where
  "ep_precise_timeout_callback sys port_ptr overlapped = (case port_ptr of
      None \<Rightarrow> skip
    | Some port \<Rightarrow> do {
        generation \<leftarrow> port_read port pt_precise_timeout_active_generation;
        if generation = 0 then skip
        else do {
          (posted, error) \<leftarrow> ep_port_post_iocp sys port generation (Some overlapped) EP_FAULT_TIMEOUT_POST;
          when_do (\<not> posted) (do {
            port_upd port (\<lambda>q. q \<lparr> pt_precise_timeout_post_failures := pt_precise_timeout_post_failures q + 1 \<rparr>);
            syscall (win_SetLastError sys error)
          })
        }
      })"

definition precise_timer_create ::
  "('os, 'y) ep_port_sys_scheme \<Rightarrow> addr \<Rightarrow> (('os, 'z) ep_world_scheme, handle \<times> handle) state" where
  "precise_timer_create sys port =
    (case (win_CreateWaitableTimerExW sys, win_query_unbiased_interrupt_time_precise sys) of
       (Some create, Some _) \<Rightarrow> do {
         fault \<leftarrow> ep_fault_hit EP_FAULT_TIMEOUT_INIT;
         if fault \<noteq> 0 then return (NULL_HANDLE, NULL_HANDLE)
         else do {
           timer \<leftarrow> syscall create;
           if timer = NULL_HANDLE then return (NULL_HANDLE, NULL_HANDLE)
           else do {
             w \<leftarrow> syscall (win_CreateThreadpoolWait sys port);
             return (timer, w)
           }
         }
       }
     | _ \<Rightarrow> return (NULL_HANDLE, NULL_HANDLE))"

definition ep_port_precise_timeout_initialize ::
  "('os, 'y) ep_port_sys_scheme \<Rightarrow> addr \<Rightarrow> (('os, 'z) ep_world_scheme, bool) state" where
  "ep_port_precise_timeout_initialize sys port = do {
     saved_errno \<leftarrow> ep_last_err;
     saved_error \<leftarrow> syscall (win_GetLastError sys);
     capability \<leftarrow> port_read port pt_precise_timeout_capability;
     if capability = EP_TIMEOUT_CAPABILITY_AVAILABLE then return True
     else if capability = EP_TIMEOUT_CAPABILITY_UNAVAILABLE then return False
     else do {
       (timer, w) \<leftarrow> precise_timer_create sys port;
       if timer = NULL_HANDLE \<or> w = NULL_HANDLE then do {
         when_do (w \<noteq> NULL_HANDLE) (syscall (win_CloseThreadpoolWait sys w));
         when_do (timer \<noteq> NULL_HANDLE) (do { _ \<leftarrow> syscall (win_CloseHandle sys timer); skip });
         port_upd port (\<lambda>q. q \<lparr> pt_precise_timeout_capability := EP_TIMEOUT_CAPABILITY_UNAVAILABLE \<rparr>);
         ep_set_errno saved_errno;
         syscall (win_SetLastError sys saved_error);
         return False
       } else do {
         port_upd port (\<lambda>q. q \<lparr> pt_precise_timeout_timer := timer, pt_precise_timeout_wait := w,
           pt_precise_timeout_capability := EP_TIMEOUT_CAPABILITY_AVAILABLE \<rparr>);
         ep_set_errno saved_errno;
         syscall (win_SetLastError sys saved_error);
         return True
       }
     }
   }"

definition next_timeout_generation :: "addr \<Rightarrow> (('os, 'z) ep_world_scheme, uint64) state" where
  "next_timeout_generation port = do {
     port_upd port (\<lambda>q. q \<lparr> pt_precise_timeout_generation := pt_precise_timeout_generation q + 1 \<rparr>);
     first \<leftarrow> port_read port pt_precise_timeout_generation;
     when_do (first = 0)
       (port_upd port (\<lambda>q. q \<lparr> pt_precise_timeout_generation := pt_precise_timeout_generation q + 1 \<rparr>));
     port_read port pt_precise_timeout_generation
   }"

text \<open>The generation of the armed deadline, zero if none was armed.\<close>

definition ep_port_precise_timeout_arm ::
  "('os, 'y) ep_port_sys_scheme \<Rightarrow> addr \<Rightarrow> uint64 \<Rightarrow> (('os, 'z) ep_world_scheme, uint64) state" where
  "ep_port_precise_timeout_arm sys port delay_100ns = do {
     saved_errno \<leftarrow> ep_last_err;
     saved_error \<leftarrow> syscall (win_GetLastError sys);
     ready \<leftarrow> (if delay_100ns = 0 then return False else ep_port_precise_timeout_initialize sys port);
     if \<not> ready then return 0
     else do {
       generation \<leftarrow> next_timeout_generation port;
       let timer_delay = (if delay_100ns > 0x7FFFFFFFFFFFFFFF then 0x7FFFFFFFFFFFFFFF else delay_100ns);
       port_upd port (\<lambda>q. q \<lparr> pt_precise_timeout_active_generation := generation \<rparr>);
       timer \<leftarrow> port_read port pt_precise_timeout_timer;
       fault \<leftarrow> ep_fault_hit EP_FAULT_TIMEOUT_ARM;
       armed \<leftarrow> (if fault \<noteq> 0 then return False
         else syscall (win_SetWaitableTimer sys timer (- uint timer_delay)));
       if \<not> armed then do {
         port_upd port (\<lambda>q. q \<lparr> pt_precise_timeout_active_generation := 0 \<rparr>);
         ep_set_errno saved_errno;
         syscall (win_SetLastError sys saved_error);
         return 0
       } else do {
         w \<leftarrow> port_read port pt_precise_timeout_wait;
         syscall (win_SetThreadpoolWait sys w timer);
         port_upd port (\<lambda>q. q \<lparr> pt_precise_timeout_armed := True \<rparr>);
         ep_set_errno saved_errno;
         syscall (win_SetLastError sys saved_error);
         return generation
       }
     }
   }"

definition ep_port_precise_timeout_disarm ::
  "('os, 'y) ep_port_sys_scheme \<Rightarrow> addr \<Rightarrow> (('os, 'z) ep_world_scheme, unit) state" where
  "ep_port_precise_timeout_disarm sys port = do {
     armed \<leftarrow> port_read port pt_precise_timeout_armed;
     when_do armed (do {
       timer \<leftarrow> port_read port pt_precise_timeout_timer;
       w \<leftarrow> port_read port pt_precise_timeout_wait;
       _ \<leftarrow> syscall (win_CancelWaitableTimer sys timer);
       syscall (win_SetThreadpoolWait sys w NULL_HANDLE);
       syscall (win_WaitForThreadpoolWaitCallbacks sys w);
       port_upd port (\<lambda>q. q \<lparr> pt_precise_timeout_active_generation := 0 \<rparr>);
       port_upd port (\<lambda>q. q \<lparr> pt_precise_timeout_armed := False \<rparr>)
     })
   }"

definition ep_port_precise_timeout_destroy ::
  "('os, 'y) ep_port_sys_scheme \<Rightarrow> addr \<Rightarrow> (('os, 'z) ep_world_scheme, unit) state" where
  "ep_port_precise_timeout_destroy sys port = do {
     ep_port_precise_timeout_disarm sys port;
     w \<leftarrow> port_read port pt_precise_timeout_wait;
     when_do (w \<noteq> NULL_HANDLE) (do {
       syscall (win_CloseThreadpoolWait sys w);
       port_upd port (\<lambda>q. q \<lparr> pt_precise_timeout_wait := NULL_HANDLE \<rparr>)
     });
     timer \<leftarrow> port_read port pt_precise_timeout_timer;
     when_do (timer \<noteq> NULL_HANDLE) (do {
       _ \<leftarrow> syscall (win_CloseHandle sys timer);
       port_upd port (\<lambda>q. q \<lparr> pt_precise_timeout_timer := NULL_HANDLE \<rparr>)
     })
   }"

end
