(* ===== verification/Ep_Sock.thy ===== *)
theory Ep_Sock
  imports Ep_Aux
begin

text \<open>
  The life of a registration, \<^verbatim>\<open>src/src/wepoll_ex_port.c\<close>: the AFD groups its polls are submitted
  through, allocation and reclamation, retirement of a closed or replaced socket, cancellation and
  the settlement of a pending poll, and the deferred errors of a port.
\<close>

section \<open>AFD groups\<close>

definition group_read :: "addr \<Rightarrow> (ep_afd_group \<Rightarrow> 'a) \<Rightarrow> (('os, 'z) ep_world_scheme, 'a) state" where
  "group_read g f = do {
     ok \<leftarrow> gets (\<lambda>s. groups s g \<noteq> None);
     when_do (\<not> ok) bad_access;
     gets (\<lambda>s. f (the (groups s g)))
   }"

definition group_upd :: "addr \<Rightarrow> (ep_afd_group \<Rightarrow> ep_afd_group) \<Rightarrow> (('os, 'z) ep_world_scheme, unit) state" where
  "group_upd g f = modify (\<lambda>s. case groups s g of
      None \<Rightarrow> s \<lparr> ep_ub := True \<rparr>
    | Some x \<Rightarrow> s \<lparr> groups := (groups s)(g \<mapsto> f x) \<rparr>)"

definition ep_afd_group_remove_available_locked :: "addr \<Rightarrow> addr \<Rightarrow> (('os, 'z) ep_world_scheme, unit) state" where
  "ep_afd_group_remove_available_locked port grp = do {
     p \<leftarrow> group_read grp ag_available_prev;
     n \<leftarrow> group_read grp ag_available_next;
     (case p of
       Some x \<Rightarrow> group_upd x (\<lambda>g. g \<lparr> ag_available_next := n \<rparr>)
     | None \<Rightarrow> port_upd port (\<lambda>q. q \<lparr> pt_afd_available := n \<rparr>));
     (case n of
       Some x \<Rightarrow> group_upd x (\<lambda>g. g \<lparr> ag_available_prev := p \<rparr>)
     | None \<Rightarrow> skip);
     group_upd grp (\<lambda>g. g \<lparr> ag_available_next := None \<rparr>);
     group_upd grp (\<lambda>g. g \<lparr> ag_available_prev := None \<rparr>)
   }"

definition ep_afd_group_add_available_locked :: "addr \<Rightarrow> addr \<Rightarrow> (('os, 'z) ep_world_scheme, unit) state" where
  "ep_afd_group_add_available_locked port grp = do {
     head \<leftarrow> port_read port pt_afd_available;
     group_upd grp (\<lambda>g. g \<lparr> ag_available_next := head \<rparr>);
     group_upd grp (\<lambda>g. g \<lparr> ag_available_prev := None \<rparr>);
     (case head of
       Some x \<Rightarrow> group_upd x (\<lambda>g. g \<lparr> ag_available_prev := Some grp \<rparr>)
     | None \<Rightarrow> skip);
     port_upd port (\<lambda>q. q \<lparr> pt_afd_available := Some grp \<rparr>)
   }"

abbreviation (input) EP_AFD_GROUP_SIZE :: uint64 where "EP_AFD_GROUP_SIZE \<equiv> 48"

definition group_link :: "addr \<Rightarrow> addr \<Rightarrow> (('os, 'z) ep_world_scheme, unit) state" where
  "group_link port grp = do {
     first \<leftarrow> port_read port pt_afd_group;
     n \<leftarrow> group_read first ag_next;
     group_upd grp (\<lambda>g. g \<lparr> ag_next := n \<rparr>);
     group_upd grp (\<lambda>g. g \<lparr> ag_prev := Some first \<rparr>);
     (case n of Some x \<Rightarrow> group_upd x (\<lambda>g. g \<lparr> ag_prev := Some grp \<rparr>) | None \<Rightarrow> skip);
     group_upd first (\<lambda>g. g \<lparr> ag_next := Some grp \<rparr>)
   }"

text \<open>A new group, linked and available, or \<open>None\<close> when it could not be made.\<close>

definition group_create ::
  "('os, 'y) ep_port_sys_scheme \<Rightarrow> addr \<Rightarrow> (('os, 'z) ep_world_scheme, addr option) state" where
  "group_create sys port = do {
     fault \<leftarrow> ep_fault_hit EP_FAULT_AFD_GROUP_ALLOC;
     if fault \<noteq> 0 then return None
     else do {
       ok \<leftarrow> syscall (sys_malloc sys EP_AFD_GROUP_SIZE);
       if \<not> ok then do { ep_set_errno ENOMEM; return None }
       else do {
         grp \<leftarrow> gets pool_next_addr;
         modify (\<lambda>s. s \<lparr> pool_next_addr := Suc grp, groups := (groups s)(grp \<mapsto> ep_afd_group_zero) \<rparr>);
         iocp \<leftarrow> port_read port pt_iocp;
         (r, h) \<leftarrow> ep_afd_open sys iocp True;
         (case h of Some afd \<Rightarrow> group_upd grp (\<lambda>g. g \<lparr> ag_afd := afd \<rparr>) | None \<Rightarrow> skip);
         if r \<noteq> 0 then do {
           modify (\<lambda>s. s \<lparr> groups := (groups s)(grp := None) \<rparr>);
           return None
         } else do {
           group_link port grp;
           ep_afd_group_add_available_locked port grp;
           return (Some grp)
         }
       }
     }
   }"

definition group_enter :: "addr \<Rightarrow> addr \<Rightarrow> addr \<Rightarrow> (('os, 'z) ep_world_scheme, unit) state" where
  "group_enter port sock grp = do {
     g \<leftarrow> group_read grp id;
     assert_that (ag_afd g \<noteq> NULL_HANDLE);
     assert_that (ag_socket_count g < WEPOLL_AFD_GROUP_SIZE);
     group_upd grp (\<lambda>g. g \<lparr> ag_socket_count := ag_socket_count g + 1 \<rparr>);
     when_do (ag_socket_count g + 1 = WEPOLL_AFD_GROUP_SIZE) (ep_afd_group_remove_available_locked port grp);
     sock_upd sock (\<lambda>k. k \<lparr> sk_afd_group := Some grp \<rparr>)
   }"

definition ep_sock_acquire_afd_group_locked ::
  "('os, 'y) ep_port_sys_scheme \<Rightarrow> addr \<Rightarrow> (('os, 'z) ep_world_scheme, int) state" where
  "ep_sock_acquire_afd_group_locked sys sock = do {
     port \<leftarrow> sock_read sock sk_port;
     current \<leftarrow> sock_read sock sk_afd_group;
     if current \<noteq> None then return 0
     else do {
       available \<leftarrow> port_read port pt_afd_available;
       grp \<leftarrow> (case available of Some g \<Rightarrow> return (Some g) | None \<Rightarrow> group_create sys port);
       (case grp of
         None \<Rightarrow> return (- 1)
       | Some g \<Rightarrow> do { group_enter port sock g; return 0 })
     }
   }"

definition group_unlink ::
  "('os, 'y) ep_port_sys_scheme \<Rightarrow> addr \<Rightarrow> addr \<Rightarrow> (('os, 'z) ep_world_scheme, unit) state" where
  "group_unlink sys port grp = do {
     ep_afd_group_remove_available_locked port grp;
     g \<leftarrow> group_read grp id;
     (case ag_prev g of
       Some x \<Rightarrow> group_upd x (\<lambda>h. h \<lparr> ag_next := ag_next g \<rparr>)
     | None \<Rightarrow> bad_access);
     (case ag_next g of
       Some x \<Rightarrow> group_upd x (\<lambda>h. h \<lparr> ag_prev := ag_prev g \<rparr>)
     | None \<Rightarrow> skip);
     when_do (ag_afd g \<noteq> NULL_HANDLE) (do { _ \<leftarrow> syscall (win_CloseHandle sys (ag_afd g)); skip });
     modify (\<lambda>s. s \<lparr> groups := (groups s)(grp := None) \<rparr>)
   }"

definition ep_sock_release_afd_group_locked ::
  "('os, 'y) ep_port_sys_scheme \<Rightarrow> addr \<Rightarrow> (('os, 'z) ep_world_scheme, unit) state" where
  "ep_sock_release_afd_group_locked sys sock = do {
     port \<leftarrow> sock_read sock sk_port;
     current \<leftarrow> sock_read sock sk_afd_group;
     (case current of
       None \<Rightarrow> skip
     | Some grp \<Rightarrow> do {
         count \<leftarrow> group_read grp ag_socket_count;
         assert_that (count > 0);
         status \<leftarrow> sock_read sock sk_poll_status;
         assert_that (status = EP_POLL_IDLE);
         sock_upd sock (\<lambda>k. k \<lparr> sk_afd_group := None \<rparr>);
         group_upd grp (\<lambda>g. g \<lparr> ag_socket_count := count - 1 \<rparr>);
         when_do (count = WEPOLL_AFD_GROUP_SIZE) (ep_afd_group_add_available_locked port grp);
         first \<leftarrow> port_read port pt_afd_group;
         when_do (count - 1 = 0 \<and> grp \<noteq> first) (group_unlink sys port grp)
       })
   }"

text \<open>The loop over the groups of a port, bounded by the addresses in use.\<close>

primrec close_groups_loop ::
  "nat \<Rightarrow> ('os, 'y) ep_port_sys_scheme \<Rightarrow> addr option \<Rightarrow> (('os, 'z) ep_world_scheme, unit) state" where
  "close_groups_loop 0 sys grp = when_do (grp \<noteq> None) bad_access"
| "close_groups_loop (Suc n) sys grp = (case grp of
      None \<Rightarrow> skip
    | Some a \<Rightarrow> do {
        g \<leftarrow> group_read a id;
        when_do (ag_afd g \<noteq> NULL_HANDLE) (do {
          _ \<leftarrow> syscall (win_CloseHandle sys (ag_afd g));
          group_upd a (\<lambda>g. g \<lparr> ag_afd := NULL_HANDLE \<rparr>)
        });
        close_groups_loop n sys (ag_next g)
      })"

definition ep_port_close_afd_groups ::
  "('os, 'y) ep_port_sys_scheme \<Rightarrow> addr \<Rightarrow> (('os, 'z) ep_world_scheme, unit) state" where
  "ep_port_close_afd_groups sys port = do {
     first \<leftarrow> port_read port pt_afd_group;
     bound \<leftarrow> gets pool_next_addr;
     close_groups_loop (Suc bound) sys (Some first)
   }"

section \<open>Deferred errors\<close>

definition ep_port_record_async_error_locked ::
  "('os, 'y) ep_port_sys_scheme \<Rightarrow> addr \<Rightarrow> int \<Rightarrow> (('os, 'z) ep_world_scheme, unit) state" where
  "ep_port_record_async_error_locked sys port err = do {
     let error = (if err \<le> 0 then EIO else err);
     port_upd port (\<lambda>q. q \<lparr> pt_asynchronous_errors := pt_asynchronous_errors q + 1 \<rparr>);
     q \<leftarrow> port_read port id;
     if pt_async_error q \<noteq> 0 then skip
     else do {
       port_upd port (\<lambda>q. q \<lparr> pt_async_error := error \<rparr>);
       when_do (\<not> pt_closing q \<and> \<not> pt_waiter_active q \<and> \<not> pt_iocp_closed q) (do {
         (posted, win_error) \<leftarrow> ep_port_post_iocp sys port 0 None EP_FAULT_IOCP_POST;
         when_do (\<not> posted) (ep_port_fail_iocp_post sys port win_error)
       })
     }
   }"

definition ep_port_take_async_error_locked :: "addr \<Rightarrow> (('os, 'z) ep_world_scheme, int) state" where
  "ep_port_take_async_error_locked port = do {
     error \<leftarrow> port_read port pt_async_error;
     port_upd port (\<lambda>q. q \<lparr> pt_async_error := 0 \<rparr>);
     return error
   }"

definition ep_port_take_iocp_post_error :: "addr \<Rightarrow> (('os, 'z) ep_world_scheme, int) state" where
  "ep_port_take_iocp_post_error port = do {
     error \<leftarrow> port_read port pt_iocp_post_error;
     port_upd port (\<lambda>q. q \<lparr> pt_iocp_post_error := 0 \<rparr>);
     return error
   }"

section \<open>Ready nodes\<close>

definition ep_ready_node_init :: ep_ready_node where
  "ep_ready_node_init = \<lparr> rn_data = 0, rn_user_ctx = 0, rn_fd = INVALID_SOCKET, rn_sock_generation = 0,
     rn_events = 0, rn_flags = 0, rn_timestamp = 0 \<rparr>"

definition node_upd :: "addr \<Rightarrow> (ep_ready_node \<Rightarrow> ep_ready_node) \<Rightarrow> (('os, 'z) ep_world_scheme, unit) state" where
  "node_upd n f = modify (\<lambda>s. s \<lparr> ready_nodes_mem := (ready_nodes_mem s)(n := f (ready_nodes_mem s n)) \<rparr>)"

definition queue_upd :: "addr \<Rightarrow> (ep_ready_queue \<Rightarrow> ep_ready_queue) \<Rightarrow> (('os, 'z) ep_world_scheme, unit) state" where
  "queue_upd port f = port_upd port (\<lambda>q. q \<lparr> pt_ready_queue := f (pt_ready_queue q) \<rparr>)"

definition ep_ready_node_alloc ::
  "('os, 'y) ep_sys_scheme \<Rightarrow> addr option \<Rightarrow> (('os, 'z) ep_world_scheme, addr option) state" where
  "ep_ready_node_alloc sys port = (case port of
      None \<Rightarrow> do { ep_set_errno EFAULT; return None }
    | Some p \<Rightarrow> do {
        buf \<leftarrow> ep_afd_pool_take sys (Some (Ready_Node_Pool p));
        (case buf of
          None \<Rightarrow> return None
        | Some n \<Rightarrow> do {
            queue_upd p (set_next n None);
            node_upd n (\<lambda>_. ep_ready_node_init);
            return (Some n)
          })
      })"

definition ep_ready_node_free ::
  "('os, 'y) ep_sys_scheme \<Rightarrow> addr option \<Rightarrow> addr option \<Rightarrow> (('os, 'z) ep_world_scheme, unit) state" where
  "ep_ready_node_free sys port n = (case (port, n) of
      (Some p, Some a) \<Rightarrow> ep_afd_pool_give sys (Some (Ready_Node_Pool p)) (Some a)
    | _ \<Rightarrow> skip)"

section \<open>Registrations\<close>

abbreviation (input) EP_SOCK_SIZE :: uint64 where "EP_SOCK_SIZE \<equiv> 336"

definition sock_free :: "addr \<Rightarrow> (('os, 'z) ep_world_scheme, unit) state" where
  "sock_free sock = modify (\<lambda>s. s \<lparr> socks := (socks s)(sock := None) \<rparr>)"

text \<open>A fresh generation number; zero is never used.\<close>

definition next_generation :: "addr \<Rightarrow> addr \<Rightarrow> (('os, 'z) ep_world_scheme, unit) state" where
  "next_generation port sock = do {
     port_upd port (\<lambda>q. q \<lparr> pt_next_sock_generation := pt_next_sock_generation q + 1 \<rparr>);
     g \<leftarrow> port_read port pt_next_sock_generation;
     sock_upd sock (\<lambda>k. k \<lparr> sk_generation := g \<rparr>);
     when_do (g = 0) (do {
       port_upd port (\<lambda>q. q \<lparr> pt_next_sock_generation := 1 \<rparr>);
       sock_upd sock (\<lambda>k. k \<lparr> sk_generation := 1 \<rparr>)
     })
   }"

text \<open>The part of the allocation for a socket: protocol, identity and poll buffer.\<close>

definition alloc_socket ::
  "('os, 'y) ep_port_sys_scheme \<Rightarrow> addr \<Rightarrow> addr \<Rightarrow> sock_fd \<Rightarrow> (('os, 'z) ep_world_scheme, bool) state" where
  "alloc_socket sys port sock fd = do {
     (protocol, eligible) \<leftarrow> ep_socket_get_protocol sys fd;
     sock_upd sock (\<lambda>k. k \<lparr> sk_socket_protocol := protocol, sk_udp_afd_qualifier_eligible := eligible \<rparr>);
     when_do eligible (do {
       base \<leftarrow> sock_read sock sk_base_socket;
       capability \<leftarrow> ep_socket_async_read_capability sys base;
       sock_upd sock (\<lambda>k. k \<lparr> sk_async_read_capability := capability \<rparr>)
     });
     (identity_result, endpoint_id) \<leftarrow> ep_socket_get_endpoint_id sys fd;
     (case endpoint_id of
       Some i \<Rightarrow> sock_upd sock (\<lambda>k. k \<lparr> sk_endpoint_id := i \<rparr>)
     | None \<Rightarrow> skip);
     if identity_result < 0 then do {
       port_upd port (\<lambda>q. q \<lparr> pt_identity_failures := pt_identity_failures q + 1 \<rparr>);
       return False
     } else do {
       id_state \<leftarrow> (if identity_result = 0 then return EP_SOCKET_ID_UNAVAILABLE
         else do {
           stable \<leftarrow> ep_socket_identity_is_stable sys fd;
           return (if stable then EP_SOCKET_ID_STABLE else EP_SOCKET_ID_TRANSITIONAL)
         });
       sock_upd sock (\<lambda>k. k \<lparr> sk_endpoint_id_state := id_state \<rparr>);
       info \<leftarrow> ep_afd_pool_take sys (Some (Afd_Info_Pool port));
       sock_upd sock (\<lambda>k. k \<lparr> sk_afd_info := info \<rparr>);
       return (info \<noteq> None)
     }
   }"

definition ep_sock_alloc_locked ::
  "('os, 'y) ep_port_sys_scheme \<Rightarrow> addr \<Rightarrow> sock_fd \<Rightarrow> ep_target_info \<Rightarrow>
   (('os, 'z) ep_world_scheme, addr option) state" where
  "ep_sock_alloc_locked sys port fd target =
    (if ti_kind target = EP_TARGET_INVALID then do { ep_set_errno EBADF; return None }
     else if ti_kind target = EP_TARGET_UNSUPPORTED then do { ep_set_errno EPERM; return None }
     else if ti_registration_error target \<noteq> 0 then do { ep_set_errno (ti_registration_error target); return None }
     else do {
       allocated \<leftarrow> syscall (sys_malloc sys EP_SOCK_SIZE);
       if \<not> allocated then do { ep_set_errno ENOMEM; return None }
       else do {
         sock \<leftarrow> gets pool_next_addr;
         modify (\<lambda>s. s \<lparr> pool_next_addr := Suc sock, socks := (socks s)(sock \<mapsto> ep_sock_zero) \<rparr>);
         sock_upd sock (\<lambda>k. k \<lparr> sk_kind := EP_REG_SOCKET, sk_wait_registration := NULL_HANDLE,
           sk_exclusive_claim_base := INVALID_SOCKET, sk_base_socket := ti_base_socket target \<rparr>);
         ok \<leftarrow> (if ti_kind target = EP_TARGET_PIPE then do {
             sock_upd sock (\<lambda>k. k \<lparr> sk_kind := EP_REG_PIPE, sk_pipe_access := ti_pipe_access target,
               sk_pipe_synchronous_io := ti_pipe_synchronous_io target, sk_base_socket := fd,
               sk_afd_info := None, sk_endpoint_id := 0, sk_endpoint_id_state := EP_SOCKET_ID_UNAVAILABLE \<rparr>);
             return True
           }
           else if ti_kind target = EP_TARGET_WAITABLE then do {
             sock_upd sock (\<lambda>k. k \<lparr> sk_kind := EP_REG_WAITABLE,
               sk_waitable_semantics := ti_waitable_semantics target, sk_base_socket := fd,
               sk_afd_info := None, sk_endpoint_id := 0, sk_endpoint_id_state := EP_SOCKET_ID_UNAVAILABLE \<rparr>);
             return True
           }
           else alloc_socket sys port sock fd);
         if \<not> ok then do { sock_free sock; return None }
         else do {
           sock_upd sock (\<lambda>k. k \<lparr> sk_fd := fd, sk_port := port \<rparr>);
           next_generation port sock;
           sock_upd sock (\<lambda>k. k \<lparr> sk_state := EP_SOCK_REGISTERED, sk_poll_status := EP_POLL_IDLE,
             sk_delete_pending := False, sk_ready_queued := False, sk_callback_active := False,
             sk_completion_posted := False, sk_waitable_notification_owned := False \<rparr>);
           return (Some sock)
         }
       }
     })"

definition give_afd_info ::
  "('os, 'y) ep_port_sys_scheme \<Rightarrow> addr \<Rightarrow> addr \<Rightarrow> (('os, 'z) ep_world_scheme, unit) state" where
  "give_afd_info sys port sock = do {
     info \<leftarrow> sock_read sock sk_afd_info;
     when_do (info \<noteq> None) (ep_afd_pool_give sys (Some (Afd_Info_Pool port)) info)
   }"

definition ep_sock_free_locked ::
  "('os, 'y) ep_port_sys_scheme \<Rightarrow> addr \<Rightarrow> addr \<Rightarrow> (('os, 'z) ep_world_scheme, unit) state" where
  "ep_sock_free_locked sys port sock = do {
     k \<leftarrow> sock_read sock id;
     assert_that (\<not> sk_afd_poll_key_owned k);
     assert_that (sk_afd_poll_target k = NULL_HANDLE);
     assert_that (sk_afd_poll_key_reservation k = NULL_HANDLE);
     assert_that (sk_afd_poll_key_next k = None);
     ep_sock_release_afd_group_locked sys sock;
     ep_sock_set_needs_rearm_locked sock False;
     ep_sock_set_oneshot_fired_locked sock False;
     when_do (tests (sk_user_flags k) EPOLLEXCLUSIVE) (ep_exclusive_release_owner sock);
     sock_upd sock (\<lambda>k. k \<lparr> sk_observed_events := 0, sk_pipe_terminal_delivered := False,
       sk_et_holdoff := False \<rparr>);
     when_do (sk_kind k = EP_REG_WAITABLE \<or> sk_kind k = EP_REG_PIPE) (do {
       assert_that (sk_wait_registration k = NULL_HANDLE);
       assert_that (\<not> sk_callback_active k);
       assert_that (\<not> sk_completion_posted k)
     });
     ep_sock_list_remove_locked port sock;
     give_afd_info sys port sock;
     sock_upd sock (\<lambda>k. k \<lparr> sk_afd_info := None \<rparr>);
     sock_free sock
   }"

definition ep_sock_drop_closed_locked ::
  "('os, 'y) ep_port_sys_scheme \<Rightarrow> addr \<Rightarrow> addr \<Rightarrow> (('os, 'z) ep_world_scheme, unit) state" where
  "ep_sock_drop_closed_locked sys port sock = do {
     k \<leftarrow> sock_read sock id;
     found \<leftarrow> ep_fd_table_lookup port (sk_fd k);
     when_do (found = Some sock) (ep_fd_table_remove port sock);
     when_do (tests (sk_user_flags k) EPOLLEXCLUSIVE) (ep_exclusive_release_owner sock);
     sock_upd sock (\<lambda>k. k \<lparr> sk_delete_pending := True \<rparr>);
     sock_upd sock (\<lambda>k. k \<lparr> sk_state := EP_SOCK_DELETED \<rparr>);
     ep_sock_set_needs_rearm_locked sock False;
     ep_sock_set_oneshot_fired_locked sock False;
     next_generation port sock;
     status \<leftarrow> sock_read sock sk_poll_status;
     when_do (status = EP_POLL_IDLE) (ep_sock_free_locked sys port sock)
   }"

section \<open>Pending polls\<close>

text \<open>Whether the pending poll was settled; a registration that has none is a broken invariant.\<close>

definition ep_sock_complete_pending_locked ::
  "('os, 'y) ep_port_sys_scheme \<Rightarrow> addr \<Rightarrow> (('os, 'z) ep_world_scheme, int) state" where
  "ep_sock_complete_pending_locked sys sock = do {
     port \<leftarrow> sock_read sock sk_port;
     poll_status \<leftarrow> sock_read sock sk_poll_status;
     pending \<leftarrow> port_read port pt_pending_poll_count;
     if poll_status = EP_POLL_IDLE \<or> pending = 0 then do {
       bad_access;
       sock_upd sock (\<lambda>k. k \<lparr> sk_poll_status := EP_POLL_IDLE \<rparr>);
       ep_port_record_async_error_locked sys port EIO;
       ep_set_errno EIO;
       return (- 1)
     } else do {
       sock_upd sock (\<lambda>k. k \<lparr> sk_poll_status := EP_POLL_IDLE \<rparr>);
       port_upd port (\<lambda>q. q \<lparr> pt_pending_poll_count := pt_pending_poll_count q - 1 \<rparr>);
       return 0
     }
   }"

definition aux_retire ::
  "('os, 'y) ep_port_sys_scheme \<Rightarrow> addr \<Rightarrow> (('os, 'z) ep_world_scheme, int) state" where
  "aux_retire sys sock = do {
     kind \<leftarrow> sock_read sock sk_kind;
     if kind = EP_REG_WAITABLE then ep_waitable_unregister_locked sys sock
     else ep_pipe_delete_timer_locked sys sock
   }"

text \<open>After an auxiliary wait was disarmed: a posted packet keeps the poll, otherwise it settles now.\<close>

definition aux_cancelled ::
  "('os, 'y) ep_port_sys_scheme \<Rightarrow> addr \<Rightarrow> (('os, 'z) ep_world_scheme, int) state" where
  "aux_cancelled sys sock = do {
     sock_upd sock (\<lambda>k. k \<lparr> sk_pending_events := 0 \<rparr>);
     k \<leftarrow> sock_read sock id;
     if sk_completion_posted k then do {
       sock_upd sock (\<lambda>k. k \<lparr> sk_poll_status := EP_POLL_CANCELLED \<rparr>);
       return 0
     } else do {
       assert_that (sk_wait_registration k = NULL_HANDLE);
       assert_that (\<not> sk_callback_active k);
       settled \<leftarrow> ep_sock_complete_pending_locked sys sock;
       if settled \<noteq> 0 then return (- 1)
       else do {
         closing \<leftarrow> port_read (sk_port k) pt_closing;
         when_do (\<not> sk_delete_pending k \<and> \<not> closing)
           (sock_upd sock (\<lambda>k. k \<lparr> sk_state := EP_SOCK_REGISTERED \<rparr>));
         return 0
       }
     }
   }"

definition ep_sock_cancel_locked ::
  "('os, 'y) ep_port_sys_scheme \<Rightarrow> addr \<Rightarrow> (('os, 'z) ep_world_scheme, int) state" where
  "ep_sock_cancel_locked sys sock = do {
     k \<leftarrow> sock_read sock id;
     if sk_poll_status k \<noteq> EP_POLL_PENDING then return 0
     else if sk_kind k = EP_REG_WAITABLE \<or> sk_kind k = EP_REG_PIPE then do {
       disarm_result \<leftarrow> aux_retire sys sock;
       if disarm_result \<noteq> 0 then return (- 1) else aux_cancelled sys sock
     } else do {
       cancelled \<leftarrow> ep_afd_cancel sys (Some sock);
       if cancelled \<noteq> 0 then return (- 1)
       else do {
         sock_upd sock (\<lambda>k. k \<lparr> sk_pending_events := 0 \<rparr>);
         return 0
       }
     }
   }"

section \<open>Stale registrations\<close>

definition ep_sock_retire_stale_locked ::
  "('os, 'y) ep_port_sys_scheme \<Rightarrow> addr \<Rightarrow> addr \<Rightarrow> (('os, 'z) ep_world_scheme, unit) state" where
  "ep_sock_retire_stale_locked sys port sock = do {
     saved_errno \<leftarrow> ep_last_err;
     status \<leftarrow> sock_read sock sk_poll_status;
     when_do (status = EP_POLL_PENDING) (do { _ \<leftarrow> ep_sock_cancel_locked sys sock; skip });
     port_upd port (\<lambda>q. q \<lparr> pt_generation := pt_generation q + 1 \<rparr>);
     port_upd port (\<lambda>q. q \<lparr> pt_stale_events_dropped := pt_stale_events_dropped q + 1 \<rparr>);
     ep_sock_drop_closed_locked sys port sock;
     ep_set_errno saved_errno
   }"

definition retire_closed ::
  "('os, 'y) ep_port_sys_scheme \<Rightarrow> addr \<Rightarrow> addr \<Rightarrow> (('os, 'z) ep_world_scheme, int) state" where
  "retire_closed sys port sock = do {
     fd \<leftarrow> sock_read sock sk_fd;
     target \<leftarrow> ep_target_probe sys fd;
     error \<leftarrow> (case target of
         Some t \<Rightarrow> return (if ti_kind t = EP_TARGET_INVALID then EBADF
                           else if ti_kind t = EP_TARGET_UNSUPPORTED then EPERM else ENOENT)
       | None \<Rightarrow> ep_last_err);
     ep_sock_retire_stale_locked sys port sock;
     ep_set_errno (if error \<noteq> 0 then error else EIO);
     return (if target = None then - 1 else 1)
   }"

definition ep_sock_validate_control_locked ::
  "('os, 'y) ep_port_sys_scheme \<Rightarrow> addr \<Rightarrow> addr \<Rightarrow> (('os, 'z) ep_world_scheme, int) state" where
  "ep_sock_validate_control_locked sys port sock = do {
     kind \<leftarrow> sock_read sock sk_kind;
     if kind = EP_REG_WAITABLE \<or> kind = EP_REG_PIPE then return 0
     else do {
       identity_check \<leftarrow> ep_sock_validate_identity_locked sys sock False;
       (case identity_check of
         EP_IDENTITY_MATCH \<Rightarrow> return 0
       | EP_IDENTITY_ERROR \<Rightarrow> return (- 1)
       | EP_IDENTITY_STALE \<Rightarrow> do {
           ep_sock_retire_stale_locked sys port sock;
           ep_set_errno ENOENT;
           return 1
         }
       | EP_IDENTITY_CLOSED \<Rightarrow> retire_closed sys port sock)
     }
   }"

end
