(* ===== verification/Ep_Submit.thy ===== *)
theory Ep_Submit
  imports Ep_Sock
begin

text \<open>
  Submitting the poll of a registration, \<^verbatim>\<open>src/src/wepoll_ex_port.c\<close>: locally recorded shutdowns, the
  AFD mask of a registration, the submission policy for sockets, waitable handles and pipes, and the
  pass over the deferred work of a port.
\<close>

section \<open>Local shutdown\<close>

abbreviation (input) SD_RECEIVE :: int where "SD_RECEIVE \<equiv> 0"
abbreviation (input) SD_SEND :: int where "SD_SEND \<equiv> 1"
abbreviation (input) SD_BOTH :: int where "SD_BOTH \<equiv> 2"

definition ep_local_shutdown_mask :: "int \<Rightarrow> (('os, 'z) ep_env_scheme, uint8 option) state" where
  "ep_local_shutdown_mask how =
    (if how = SD_RECEIVE then return (Some EP_LOCAL_SHUTDOWN_READ)
     else if how = SD_SEND then return (Some EP_LOCAL_SHUTDOWN_WRITE)
     else if how = SD_BOTH then return (Some (EP_LOCAL_SHUTDOWN_READ OR EP_LOCAL_SHUTDOWN_WRITE))
     else do { ep_set_winsock_error WSAEINVAL; return None })"

definition ep_sock_merge_local_shutdown_locked :: "ep_sock \<Rightarrow> uint32 \<Rightarrow> uint32" where
  "ep_sock_merge_local_shutdown_locked k level =
    (if sk_kind k \<noteq> EP_REG_SOCKET \<or> sk_socket_protocol k \<noteq> EP_SOCKET_PROTOCOL_TCP then level
     else
       let level = (if has_class (sk_local_shutdown k) EP_LOCAL_SHUTDOWN_READ
                    then level OR (sk_user_events k AND (EPOLLIN OR EPOLLRDNORM OR EPOLLRDHUP)) else level)
       in if sk_local_shutdown k = EP_LOCAL_SHUTDOWN_READ OR EP_LOCAL_SHUTDOWN_WRITE
          then level OR EPOLLHUP else level)"

text \<open>The classes of a mask that an explicit rearm mode has disarmed are removed.\<close>

definition filter_disarmed :: "addr \<Rightarrow> uint32 \<Rightarrow> (('os, 'z) ep_world_scheme, uint32) state" where
  "filter_disarmed sock level = do {
     explicit \<leftarrow> ep_explicit_rearm_enabled sock;
     disarmed \<leftarrow> sock_read sock sk_explicit_disarmed_classes;
     return (if explicit then ep_readiness_filter_classes level disarmed else level)
   }"

definition ep_sock_local_shutdown_level_locked ::
  "('os, 'y) ep_port_sys_scheme \<Rightarrow> addr \<Rightarrow> (('os, 'z) ep_world_scheme, uint32) state" where
  "ep_sock_local_shutdown_level_locked sys sock = do {
     k \<leftarrow> sock_read sock id;
     if sk_kind k \<noteq> EP_REG_SOCKET \<or> sk_socket_protocol k \<noteq> EP_SOCKET_PROTOCOL_TCP \<or> sk_local_shutdown k = 0
     then return 0
     else do {
       (level, _) \<leftarrow> ep_socket_merge_current_levels sys sock 0;
       filter_disarmed sock (ep_sock_merge_local_shutdown_locked k level AND
         (sk_user_events k OR EPOLLERR OR EPOLLHUP))
     }
   }"

section \<open>Publishing a ready node\<close>

abbreviation (input) WEPOLL_FLAG_ET_DELIVERED :: uint32 where "WEPOLL_FLAG_ET_DELIVERED \<equiv> 2"
abbreviation (input) WEPOLL_FLAG_EDGE_ARMED :: uint32 where "WEPOLL_FLAG_EDGE_ARMED \<equiv> 4"

definition delivery_flags :: "uint32 \<Rightarrow> uint32" where
  "delivery_flags user_flags =
     (if tests user_flags EPOLLET then WEPOLL_FLAG_ET_DELIVERED OR WEPOLL_FLAG_EDGE_ARMED else 0) OR
     (if tests user_flags EPOLLONESHOT then WEPOLL_FLAG_ONESHOT_FIRED else 0)"

text \<open>The snapshot of a registration in a node.\<close>

definition node_fill ::
  "('os, 'y) ep_port_sys_scheme \<Rightarrow> addr \<Rightarrow> addr \<Rightarrow> addr \<Rightarrow> uint32 \<Rightarrow> (('os, 'z) ep_world_scheme, unit) state" where
  "node_fill sys port sock node delivered = do {
     k \<leftarrow> sock_read sock id;
     node_upd node (\<lambda>n. n \<lparr> rn_data := sk_user_data k, rn_user_ctx := sk_user_ctx k, rn_fd := sk_fd k,
       rn_sock_generation := sk_generation k, rn_events := delivered,
       rn_flags := delivery_flags (sk_user_flags k) \<rparr>);
     now \<leftarrow> ep_now_ns sys port;
     node_upd node (\<lambda>n. n \<lparr> rn_timestamp := now \<rparr>)
   }"

definition node_publish :: "addr \<Rightarrow> addr \<Rightarrow> addr \<Rightarrow> uint32 \<Rightarrow> (('os, 'z) ep_world_scheme, unit) state" where
  "node_publish port sock node delivered = do {
     sock_upd sock (\<lambda>k. k \<lparr> sk_pending_events := delivered \<rparr>);
     sock_upd sock (\<lambda>k. k \<lparr> sk_et_holdoff := False \<rparr>);
     sock_upd sock (\<lambda>k. k \<lparr> sk_ready_queued := True \<rparr>);
     sock_upd sock (\<lambda>k. k \<lparr> sk_state := EP_SOCK_READY \<rparr>);
     queue_upd port (ep_ready_push (Some node))
   }"

text \<open>The edge latch: the events that are new in a level, and the latch afterwards.\<close>

definition edge_latch :: "uint32 \<Rightarrow> uint32 \<Rightarrow> uint32 \<Rightarrow> uint32 \<times> uint32" where
  "edge_latch observed interest level =
    (let observed = observed AND level AND interest;
         edge = level AND NOT observed
     in (edge, observed OR edge))"

definition disarm_delivered :: "addr \<Rightarrow> uint32 \<Rightarrow> (('os, 'z) ep_world_scheme, unit) state" where
  "disarm_delivered sock delivered = do {
     explicit \<leftarrow> ep_explicit_rearm_enabled sock;
     when_do explicit (sock_upd sock (\<lambda>k. k \<lparr> sk_explicit_disarmed_classes :=
       sk_explicit_disarmed_classes k OR ep_explicit_delivery_classes delivered \<rparr>))
   }"

text \<open>A ready node, unless the fault point fires or the pool fails.\<close>

definition node_obtain ::
  "('os, 'y) ep_port_sys_scheme \<Rightarrow> addr \<Rightarrow> (('os, 'z) ep_world_scheme, addr option) state" where
  "node_obtain sys port = do {
     fault \<leftarrow> ep_fault_hit EP_FAULT_READY_NODE_ALLOC;
     if fault = 0 then ep_ready_node_alloc sys (Some port) else return None
   }"

text \<open>The part of the shutdown delivery that has a node.\<close>

definition queue_shutdown_node ::
  "('os, 'y) ep_port_sys_scheme \<Rightarrow> addr \<Rightarrow> addr \<Rightarrow> addr \<Rightarrow> uint32 \<Rightarrow> uint32 \<Rightarrow> bool \<Rightarrow>
   (('os, 'z) ep_world_scheme, int) state" where
  "queue_shutdown_node sys port sock node delivered observed already_ready = do {
     k \<leftarrow> sock_read sock id;
     sock_upd sock (\<lambda>k. k \<lparr> sk_observed_events := (if tests (sk_user_flags k) EPOLLET then observed else 0) \<rparr>);
     (granted, delivered) \<leftarrow> (if tests (sk_user_flags k) EPOLLEXCLUSIVE
       then ep_exclusive_try_claim sock delivered else return (True, delivered));
     if \<not> granted then do {
       ep_ready_node_free sys (Some port) (Some node);
       sock_upd sock (\<lambda>k. k \<lparr> sk_et_holdoff := True \<rparr>);
       ep_sock_set_needs_rearm_locked sock True;
       return 0
     } else do {
       when_do already_ready (next_generation port sock);
       ep_sock_set_needs_rearm_locked sock False;
       when_do (tests (sk_user_flags k) EPOLLONESHOT) (ep_sock_set_oneshot_fired_locked sock True);
       disarm_delivered sock delivered;
       node_fill sys port sock node delivered;
       node_publish port sock node delivered;
       return 1
     }
   }"

definition ep_sock_queue_local_shutdown_locked ::
  "('os, 'y) ep_port_sys_scheme \<Rightarrow> addr \<Rightarrow> addr option \<Rightarrow> (('os, 'z) ep_world_scheme, int) state" where
  "ep_sock_queue_local_shutdown_locked sys sock node = do {
     level \<leftarrow> ep_sock_local_shutdown_level_locked sys sock;
     k \<leftarrow> sock_read sock id;
     let port = sk_port k;
     let already_ready = sk_ready_queued k;
     if \<not> already_ready \<and> sk_oneshot_fired k then do {
       ep_ready_node_free sys (Some port) node;
       return 0
     } else do {
       let pending = (if already_ready then sk_pending_events k else 0);
       let (edge, observed) = edge_latch (sk_observed_events k) (sk_user_events k OR EPOLLERR OR EPOLLHUP) level;
       let et = tests (sk_user_flags k) EPOLLET;
       let delivered = pending OR (if et then edge else level);
       if delivered = 0 \<or> already_ready \<and> delivered = sk_pending_events k then do {
         when_do et (sock_upd sock (\<lambda>k. k \<lparr> sk_observed_events := observed \<rparr>));
         ep_ready_node_free sys (Some port) node;
         return 0
       } else do {
         obtained \<leftarrow> (case node of Some n \<Rightarrow> return (Some n) | None \<Rightarrow> node_obtain sys port);
         (case obtained of
           None \<Rightarrow> do {
             last \<leftarrow> ep_last_err;
             when_do (last = 0) (ep_set_errno ENOMEM);
             return (- 1)
           }
         | Some n \<Rightarrow> queue_shutdown_node sys port sock n delivered observed already_ready)
       }
     }
   }"

section \<open>The AFD mask of a registration\<close>

abbreviation (input) AFD_POLL_ALL_EVENTS :: uint32 where
  "AFD_POLL_ALL_EVENTS \<equiv> AFD_POLL_RECEIVE OR AFD_POLL_RECEIVE_EXPEDITED OR AFD_POLL_SEND OR
     AFD_POLL_DISCONNECT OR AFD_POLL_ABORT OR AFD_POLL_LOCAL_CLOSE OR AFD_POLL_ACCEPT OR AFD_POLL_CONNECT_FAIL"

text \<open>The probe hook of a port is set when the port is created.\<close>

definition ep_sock_afd_events_for_state_locked ::
  "addr \<Rightarrow> uint32 \<Rightarrow> bool \<Rightarrow> uint8 \<Rightarrow> (('os, 'z) ep_world_scheme, uint32) state" where
  "ep_sock_afd_events_for_state_locked sock user_events parked disarmed = do {
     k \<leftarrow> sock_read sock id;
     event \<leftarrow> port_read (sk_port k) pt_udp_probe_event;
     let afd_events = ep_epoll_to_afd_events user_events;
     let afd_events =
       (if sk_socket_protocol k = EP_SOCKET_PROTOCOL_UDP \<and> sk_udp_afd_qualifier_eligible k \<and>
           sk_async_read_capability k = EP_SOCKET_ASYNC_READ_SAFE \<and> event \<noteq> NULL_HANDLE \<and>
           \<not> tests user_events (EPOLLIN OR EPOLLRDNORM) \<and> \<not> parked
        then afd_events OR AFD_POLL_RECEIVE else afd_events);
     let afd_events =
       (if sk_endpoint_id_state k = EP_SOCKET_ID_TRANSITIONAL then AFD_POLL_ALL_EVENTS else afd_events);
     return (afd_events AND NOT (ep_readiness_classes_afd_events disarmed))
   }"

definition ep_sock_afd_events_locked ::
  "addr \<Rightarrow> uint32 \<Rightarrow> (('os, 'z) ep_world_scheme, uint32) state" where
  "ep_sock_afd_events_locked sock user_events = do {
     explicit \<leftarrow> ep_explicit_rearm_enabled sock;
     k \<leftarrow> sock_read sock id;
     ep_sock_afd_events_for_state_locked sock user_events (sk_udp_readless_receive_parked k)
       (if explicit then sk_explicit_disarmed_classes k else 0)
   }"

section \<open>Submission\<close>

text \<open>The bookkeeping of a poll that is now pending.\<close>

definition mark_pending :: "addr \<Rightarrow> addr \<Rightarrow> (('os, 'z) ep_world_scheme, unit) state" where
  "mark_pending port sock = do {
     ep_sock_set_needs_rearm_locked sock False;
     sock_upd sock (\<lambda>k. k \<lparr> sk_poll_status := EP_POLL_PENDING \<rparr>);
     sock_upd sock (\<lambda>k. k \<lparr> sk_state := EP_SOCK_POLLING \<rparr>);
     port_upd port (\<lambda>q. q \<lparr> pt_pending_poll_count := pt_pending_poll_count q + 1 \<rparr>)
   }"

definition submit_dormant ::
  "('os, 'y) ep_port_sys_scheme \<Rightarrow> addr \<Rightarrow> (('os, 'z) ep_world_scheme, int) state" where
  "submit_dormant sys sock = do {
     poll_status \<leftarrow> sock_read sock sk_poll_status;
     cancelled \<leftarrow> (if poll_status = EP_POLL_PENDING then ep_sock_cancel_locked sys sock else return 0);
     if cancelled \<noteq> 0 then return (- 1)
     else do {
       ep_sock_set_needs_rearm_locked sock False;
       sock_upd sock (\<lambda>k. k \<lparr> sk_et_holdoff := False \<rparr>);
       status \<leftarrow> sock_read sock sk_poll_status;
       when_do (status = EP_POLL_IDLE) (sock_upd sock (\<lambda>k. k \<lparr> sk_state := EP_SOCK_REGISTERED \<rparr>));
       return 0
     }
   }"

text \<open>A pending auxiliary wait that must be retired before it can be armed again: \<open>Some r\<close> when the
  submission returns \<open>r\<close>.\<close>

definition submit_retry ::
  "('os, 'y) ep_port_sys_scheme \<Rightarrow> addr \<Rightarrow> addr \<Rightarrow> (('os, 'z) ep_world_scheme, int option) state" where
  "submit_retry sys port sock = do {
     cancelled \<leftarrow> ep_sock_cancel_locked sys sock;
     if cancelled \<noteq> 0 then do {
       error \<leftarrow> ep_last_err;
       ep_sock_drop_closed_locked sys port sock;
       ep_set_errno error;
       return (Some (- 1))
     } else do {
       status \<leftarrow> sock_read sock sk_poll_status;
       if status \<noteq> EP_POLL_IDLE then return (Some 0)
       else do {
         closing \<leftarrow> port_read port pt_closing;
         return (if closing then Some 0 else None)
       }
     }
   }"

definition drop_with ::
  "('os, 'y) ep_port_sys_scheme \<Rightarrow> addr \<Rightarrow> addr \<Rightarrow> int \<Rightarrow> (('os, 'z) ep_world_scheme, int) state" where
  "drop_with sys port sock error = do {
     ep_sock_drop_closed_locked sys port sock;
     ep_set_errno error;
     return 1
   }"

definition fail_last ::
  "('os, 'y) ep_port_sys_scheme \<Rightarrow> (('os, 'z) ep_env_scheme, int) state" where
  "fail_last sys = do {
     error \<leftarrow> syscall (win_GetLastError sys);
     ep_set_win32_error error;
     return (- 1)
   }"

text \<open>The zero-time wait on a handle whose notification is not yet owned.\<close>

definition waitable_probe ::
  "('os, 'y) ep_port_sys_scheme \<Rightarrow> addr \<Rightarrow> addr \<Rightarrow> (('os, 'z) ep_world_scheme, int) state" where
  "waitable_probe sys port sock = do {
     k \<leftarrow> sock_read sock id;
     let may_consume = ep_waitable_may_consume k;
     when_do may_consume (sock_upd sock (\<lambda>k. k \<lparr> sk_waitable_notification_owned := True \<rparr>));
     wait_result \<leftarrow> syscall (win_WaitForSingleObject sys (sk_fd k) 0);
     if wait_result = WAIT_FAILED then do {
       error \<leftarrow> syscall (win_GetLastError sys);
       when_do may_consume (sock_upd sock (\<lambda>k. k \<lparr> sk_waitable_notification_owned := False \<rparr>));
       if error = ERROR_INVALID_HANDLE then drop_with sys port sock EBADF
       else do { ep_set_win32_error error; return (- 1) }
     } else do {
       when_do (wait_result \<noteq> WAIT_OBJECT_0 \<and> may_consume)
         (sock_upd sock (\<lambda>k. k \<lparr> sk_waitable_notification_owned := False \<rparr>));
       when_do (wait_result \<noteq> WAIT_OBJECT_0 \<and> tests (sk_user_flags k) EPOLLET)
         (sock_upd sock (\<lambda>k. k \<lparr> sk_observed_events := 0 \<rparr>));
       failed \<leftarrow> (if wait_result = WAIT_OBJECT_0 then do {
           posted \<leftarrow> ep_aux_post_completion sys sock STATUS_SUCCESS;
           if posted = 0 then fail_last sys else return 0
         } else ep_waitable_register_locked sys sock);
       if failed \<noteq> 0 then return (- 1)
       else do { mark_pending port sock; return 0 }
     }
   }"

definition submit_waitable ::
  "('os, 'y) ep_port_sys_scheme \<Rightarrow> addr \<Rightarrow> addr \<Rightarrow> (('os, 'z) ep_world_scheme, int) state" where
  "submit_waitable sys port sock = do {
     k \<leftarrow> sock_read sock id;
     if sk_oneshot_fired k then return 0
     else if \<not> sk_needs_rearm k then return 0
     else do {
       sock_upd sock (\<lambda>k. k \<lparr> sk_et_holdoff := False \<rparr>);
       if sk_waitable_notification_owned k then do {
         posted \<leftarrow> ep_aux_post_completion sys sock STATUS_SUCCESS;
         if posted = 0 then fail_last sys
         else do { mark_pending port sock; return 0 }
       }
       else waitable_probe sys port sock
     }
   }"

definition submit_pipe ::
  "('os, 'y) ep_port_sys_scheme \<Rightarrow> addr \<Rightarrow> addr \<Rightarrow> (('os, 'z) ep_world_scheme, int) state" where
  "submit_pipe sys port sock = do {
     k \<leftarrow> sock_read sock id;
     snapshot \<leftarrow> ep_pipe_snapshot sys k;
     if pn_local_closed snapshot then drop_with sys port sock EBADF
     else if sk_oneshot_fired k then return 0
     else if \<not> sk_needs_rearm k then return 0
     else do {
       sock_upd sock (\<lambda>k. k \<lparr> sk_et_holdoff := False \<rparr>);
       when_do (pn_valid snapshot \<and> pn_events snapshot = 0 \<and> tests (sk_user_flags k) EPOLLET)
         (sock_upd sock (\<lambda>k. k \<lparr> sk_observed_events := 0, sk_pipe_terminal_delivered := False \<rparr>));
       scheduled \<leftarrow> ep_pipe_schedule_locked sys sock (pn_events snapshot);
       if scheduled \<noteq> 0 then return (- 1)
       else do { mark_pending port sock; return 0 }
     }
   }"

text \<open>A fired one-shot registration has no request; the probe notices a socket that was closed.\<close>

definition submit_fired ::
  "('os, 'y) ep_port_sys_scheme \<Rightarrow> addr \<Rightarrow> addr \<Rightarrow> (('os, 'z) ep_world_scheme, int) state" where
  "submit_fired sys port sock = do {
     fd \<leftarrow> sock_read sock sk_fd;
     base \<leftarrow> ep_socket_get_base sys fd;
     if base = INVALID_SOCKET then do {
       error \<leftarrow> ep_last_err;
       if error = ENOTSOCK \<or> error = EBADF then drop_with sys port sock ENOTSOCK
       else return (- 1)
     } else do {
       sock_upd sock (\<lambda>k. k \<lparr> sk_base_socket := base \<rparr>);
       return 0
     }
   }"

text \<open>A poll that completed at once, for an active wait: its packet is posted by the program.\<close>

definition submit_post ::
  "('os, 'y) ep_port_sys_scheme \<Rightarrow> addr \<Rightarrow> addr \<Rightarrow> (('os, 'z) ep_world_scheme, int) state" where
  "submit_post sys port sock = do {
     mark_pending port sock;
     (posted, post_error) \<leftarrow> ep_port_post_iocp sys port 0 (Some sock) EP_FAULT_IOCP_POST;
     if \<not> posted then do {
       pending \<leftarrow> port_read port pt_pending_poll_count;
       assert_that (pending > 0);
       port_upd port (\<lambda>q. q \<lparr> pt_pending_poll_count := pt_pending_poll_count q - 1 \<rparr>);
       sock_upd sock (\<lambda>k. k \<lparr> sk_poll_status := EP_POLL_IDLE \<rparr>);
       sock_upd sock (\<lambda>k. k \<lparr> sk_state := EP_SOCK_REGISTERED \<rparr>);
       ep_sock_set_needs_rearm_locked sock True;
       ep_port_fail_iocp_post sys port post_error;
       ep_set_win32_error post_error;
       return (- 1)
     } else return 0
   }"

text \<open>What follows a successful AFD request: whether it is pending decides the bookkeeping.  The result
  is the return value and what is stored through \<open>immediate_out\<close>.\<close>

definition submit_settle ::
  "('os, 'y) ep_port_sys_scheme \<Rightarrow> addr \<Rightarrow> addr \<Rightarrow> bool \<Rightarrow> uint32 \<Rightarrow> bool \<Rightarrow>
   (('os, 'z) ep_world_scheme, int \<times> bool) state" where
  "submit_settle sys port sock want_immediate afd_events poll_pending =
    (if poll_pending then do {
       ep_exclusive_release_quiescent sock afd_events;
       ep_sock_set_needs_rearm_locked sock False;
       sock_upd sock (\<lambda>k. k \<lparr> sk_state := EP_SOCK_POLLING \<rparr>);
       port_upd port (\<lambda>q. q \<lparr> pt_pending_poll_count := pt_pending_poll_count q + 1 \<rparr>);
       return (0, False)
     }
     else if want_immediate then do {
       ep_sock_set_needs_rearm_locked sock False;
       sock_upd sock (\<lambda>k. k \<lparr> sk_state := EP_SOCK_REGISTERED \<rparr>);
       return (0, True)
     }
     else do {
       epoch \<leftarrow> sock_read sock sk_submitted_wait_epoch;
       if epoch = 0 then do {
         sock_upd sock (\<lambda>k. k \<lparr> sk_state := EP_SOCK_REGISTERED \<rparr>);
         return (0, False)
       } else do {
         r \<leftarrow> submit_post sys port sock;
         return (r, False)
       }
     })"

text \<open>The AFD request itself.  A key loop that outruns its bound is a bad access.\<close>

definition submit_afd ::
  "('os, 'y) ep_port_sys_scheme \<Rightarrow> addr \<Rightarrow> addr \<Rightarrow> bool \<Rightarrow> uint32 \<Rightarrow>
   (('os, 'z) ep_world_scheme, int \<times> bool) state" where
  "submit_afd sys port sock want_immediate afd_events = do {
     acquired \<leftarrow> ep_sock_acquire_afd_group_locked sys sock;
     if acquired \<noteq> 0 then return (- 1, False)
     else do {
       old_epoch \<leftarrow> sock_read sock sk_submitted_wait_epoch;
       epoch \<leftarrow> port_read port pt_active_wait_epoch;
       sock_upd sock (\<lambda>k. k \<lparr> sk_submitted_wait_epoch := epoch \<rparr>);
       submitted \<leftarrow> ep_afd_poll_submit (ps_spins sys) sys (Some sock) afd_events;
       (case submitted of
         None \<Rightarrow> do { bad_access; return (- 1, False) }
       | Some (r, poll_pending) \<Rightarrow>
           if r \<noteq> 0 then do {
             sock_upd sock (\<lambda>k. k \<lparr> sk_submitted_wait_epoch := old_epoch \<rparr>);
             error \<leftarrow> ep_last_err;
             if error = ENOTSOCK \<or> error = EBADF then do {
               v \<leftarrow> drop_with sys port sock ENOTSOCK;
               return (v, False)
             } else return (- 1, False)
           }
           else submit_settle sys port sock want_immediate afd_events poll_pending)
     }
   }"

definition submit_socket ::
  "('os, 'y) ep_port_sys_scheme \<Rightarrow> addr \<Rightarrow> addr \<Rightarrow> bool \<Rightarrow> (('os, 'z) ep_world_scheme, int \<times> bool) state" where
  "submit_socket sys port sock want_immediate = do {
     k \<leftarrow> sock_read sock id;
     if sk_oneshot_fired k then do { r \<leftarrow> submit_fired sys port sock; return (r, False) }
     else if \<not> sk_needs_rearm k then return (0, False)
     else do {
       sock_upd sock (\<lambda>k. k \<lparr> sk_et_holdoff := False \<rparr>);
       local_result \<leftarrow> (if sk_local_shutdown k \<noteq> 0
         then ep_sock_queue_local_shutdown_locked sys sock None else return 0);
       if local_result < 0 then return (- 1, False)
       else if local_result > 0 then return (0, False)
       else do {
         afd_events \<leftarrow> ep_sock_afd_events_locked sock (sk_user_events k);
         if afd_events = 0 then do {
           ep_sock_set_needs_rearm_locked sock False;
           sock_upd sock (\<lambda>k. k \<lparr> sk_state := EP_SOCK_REGISTERED \<rparr>);
           return (0, False)
         }
         else submit_afd sys port sock want_immediate afd_events
       }
     }
   }"

text \<open>The submission of an idle registration, after its identity was checked.\<close>

definition submit_idle ::
  "('os, 'y) ep_port_sys_scheme \<Rightarrow> addr \<Rightarrow> addr \<Rightarrow> bool \<Rightarrow> bool \<Rightarrow> (('os, 'z) ep_world_scheme, int \<times> bool) state" where
  "submit_idle sys port sock identity_validated want_immediate = do {
     check \<leftarrow> (if identity_validated then return EP_IDENTITY_MATCH
       else ep_sock_validate_identity_for_delivery_locked sys port sock);
     if check = EP_IDENTITY_ERROR then return (- 1, False)
     else if check = EP_IDENTITY_STALE \<or> check = EP_IDENTITY_CLOSED then do {
       r \<leftarrow> drop_with sys port sock (if check = EP_IDENTITY_STALE then ENOENT else ENOTSOCK);
       return (r, False)
     } else do {
       kind \<leftarrow> sock_read sock sk_kind;
       (case kind of
         EP_REG_WAITABLE \<Rightarrow> do { r \<leftarrow> submit_waitable sys port sock; return (r, False) }
       | EP_REG_PIPE \<Rightarrow> do { r \<leftarrow> submit_pipe sys port sock; return (r, False) }
       | EP_REG_SOCKET \<Rightarrow> submit_socket sys port sock want_immediate)
     }
   }"

definition ep_sock_submit_locked ::
  "('os, 'y) ep_port_sys_scheme \<Rightarrow> addr \<Rightarrow> bool \<Rightarrow> bool \<Rightarrow> (('os, 'z) ep_world_scheme, int \<times> bool) state" where
  "ep_sock_submit_locked sys sock identity_validated want_immediate = do {
     k \<leftarrow> sock_read sock id;
     let port = sk_port k;
     closing \<leftarrow> port_read port pt_closing;
     if closing \<or> sk_delete_pending k \<or> sk_ready_queued k then return (0, False)
     else if ep_waitable_is_dormant k then do { r \<leftarrow> submit_dormant sys sock; return (r, False) }
     else do {
       retry \<leftarrow> (if (sk_kind k = EP_REG_WAITABLE \<or> sk_kind k = EP_REG_PIPE) \<and>
                     sk_poll_status k = EP_POLL_PENDING \<and> sk_needs_rearm k
         then submit_retry sys port sock
         else return (if sk_poll_status k = EP_POLL_IDLE then None else Some 0));
       (case retry of
         Some r \<Rightarrow> return (r, False)
       | None \<Rightarrow> do {
           holdoff \<leftarrow> sock_read sock sk_et_holdoff;
           if holdoff then return (0, False)
           else submit_idle sys port sock identity_validated want_immediate
         })
     }
   }"

section \<open>The pass over deferred work\<close>

text \<open>One visit of the rearm or one-shot list; the first error is kept.\<close>

definition arm_visit ::
  "('os, 'y) ep_port_sys_scheme \<Rightarrow> addr \<Rightarrow> addr \<Rightarrow> (ep_sock \<Rightarrow> bool) \<Rightarrow>
   (addr \<Rightarrow> addr \<Rightarrow> (('os, 'z) ep_world_scheme, unit) state) \<Rightarrow> int \<Rightarrow> (('os, 'z) ep_world_scheme, int) state" where
  "arm_visit sys port sock listed move_last first_error = do {
     (submit_result, _) \<leftarrow> ep_sock_submit_locked sys sock False False;
     if submit_result < 0 then do {
       error \<leftarrow> ep_last_err;
       ep_port_record_async_error_locked sys port error;
       on_list \<leftarrow> sock_read sock listed;
       when_do on_list (move_last port sock);
       return (if first_error = 0 then (if error = 0 then EIO else error) else first_error)
     } else do {
       when_do (submit_result = 0) (do {
         on_list \<leftarrow> sock_read sock listed;
         when_do on_list (move_last port sock)
       });
       return first_error
     }
   }"

primrec rearm_pass ::
  "nat \<Rightarrow> ('os, 'y) ep_port_sys_scheme \<Rightarrow> addr \<Rightarrow> int \<Rightarrow> (('os, 'z) ep_world_scheme, int) state" where
  "rearm_pass 0 sys port first_error = return first_error"
| "rearm_pass (Suc budget) sys port first_error = do {
     head \<leftarrow> port_read port pt_rearm_head;
     (case head of
       None \<Rightarrow> do { bad_access; return first_error }
     | Some sock \<Rightarrow> do {
         port_upd port (\<lambda>q. q \<lparr> pt_rearm_work_visits := pt_rearm_work_visits q + 1 \<rparr>);
         e \<leftarrow> arm_visit sys port sock sk_needs_rearm ep_rearm_list_rotate_locked first_error;
         rearm_pass budget sys port e
       })
   }"

primrec oneshot_pass ::
  "nat \<Rightarrow> ('os, 'y) ep_port_sys_scheme \<Rightarrow> addr \<Rightarrow> int \<Rightarrow> (('os, 'z) ep_world_scheme, int) state" where
  "oneshot_pass 0 sys port first_error = return first_error"
| "oneshot_pass (Suc budget) sys port first_error = do {
     head \<leftarrow> port_read port pt_oneshot_head;
     (case head of
       None \<Rightarrow> do { bad_access; return first_error }
     | Some sock \<Rightarrow> do {
         port_upd port (\<lambda>q. q \<lparr> pt_oneshot_probe_visits := pt_oneshot_probe_visits q + 1 \<rparr>);
         e \<leftarrow> arm_visit sys port sock sk_oneshot_fired ep_oneshot_list_rotate_locked first_error;
         oneshot_pass budget sys port e
       })
   }"

definition ep_port_arm_pending_locked ::
  "('os, 'y) ep_port_sys_scheme \<Rightarrow> addr \<Rightarrow> (('os, 'z) ep_world_scheme, int) state" where
  "ep_port_arm_pending_locked sys port = do {
     rearm_budget \<leftarrow> port_read port pt_needs_rearm_count;
     oneshot_budget \<leftarrow> port_read port pt_oneshot_fired_count;
     e \<leftarrow> rearm_pass rearm_budget sys port 0;
     first_error \<leftarrow> oneshot_pass oneshot_budget sys port e;
     if first_error \<noteq> 0 then do { ep_set_errno first_error; return (- 1) }
     else return 0
   }"

end
