(* ===== verification/Ep_Completion.thy ===== *)
theory Ep_Completion
  imports Ep_Submit
begin

text \<open>
  Handling a completion packet, \<^verbatim>\<open>src/src/wepoll_ex_port.c\<close>: settling the poll, refreshing a stale
  snapshot, translating it to epoll events, the edge latch, and queueing a ready node.
\<close>

section \<open>Settling the poll\<close>

text \<open>A submission from a completion: its error is deferred to the next wait.\<close>

definition resubmit ::
  "('os, 'y) ep_port_sys_scheme \<Rightarrow> addr \<Rightarrow> addr \<Rightarrow> (('os, 'z) ep_world_scheme, unit) state" where
  "resubmit sys port sock = do {
     (r, _) \<leftarrow> ep_sock_submit_locked sys sock False False;
     when_do (r < 0) (do {
       error \<leftarrow> ep_last_err;
       ep_sock_set_needs_rearm_locked sock True;
       ep_port_record_async_error_locked sys port error
     })
   }"

text \<open>An auxiliary wait that could not be retired keeps its pending slot.\<close>

definition disarm_failed ::
  "('os, 'y) ep_port_sys_scheme \<Rightarrow> addr \<Rightarrow> addr \<Rightarrow> (('os, 'z) ep_world_scheme, unit) state" where
  "disarm_failed sys port sock = do {
     error \<leftarrow> ep_last_err;
     sock_upd sock (\<lambda>k. k \<lparr> sk_completion_posted := False \<rparr>);
     ep_port_record_async_error_locked sys port error;
     deleted \<leftarrow> sock_read sock sk_delete_pending;
     closing \<leftarrow> port_read port pt_closing;
     if deleted \<or> closing then do {
       cancel_result \<leftarrow> ep_sock_cancel_locked sys sock;
       status \<leftarrow> sock_read sock sk_poll_status;
       when_do (cancel_result = 0 \<and> status = EP_POLL_IDLE \<and> deleted) (ep_sock_free_locked sys port sock)
     }
     else ep_sock_set_needs_rearm_locked sock True
   }"

text \<open>The accounting of the packet; the result is whether the handler goes on.\<close>

definition completion_account ::
  "('os, 'y) ep_port_sys_scheme \<Rightarrow> addr \<Rightarrow> addr \<Rightarrow> (('os, 'z) ep_world_scheme, bool) state" where
  "completion_account sys port sock = do {
     settled \<leftarrow> ep_sock_complete_pending_locked sys sock;
     deleted \<leftarrow> sock_read sock sk_delete_pending;
     if settled \<noteq> 0 \<or> deleted then do {
       when_do deleted (ep_sock_free_locked sys port sock);
       return False
     } else do {
       closing \<leftarrow> port_read port pt_closing;
       when_do closing (sock_upd sock (\<lambda>k. k \<lparr> sk_state := EP_SOCK_REGISTERED \<rparr>));
       return (\<not> closing)
     }
   }"

section \<open>Translating a snapshot\<close>

definition info_of :: "ep_sock \<Rightarrow> ('os, 'z) ep_world_scheme \<Rightarrow> afd_poll_info" where
  "info_of k s = afd_infos s (the (sk_afd_info k))"

text \<open>Whether a snapshot has poll output: the registration has a buffer with at least one handle.\<close>

definition has_output :: "addr \<Rightarrow> ntstatus \<Rightarrow> (('os, 'z) ep_world_scheme, bool) state" where
  "has_output sock status = do {
     k \<leftarrow> sock_read sock id;
     info \<leftarrow> gets (info_of k);
     return (\<not> status <s 0 \<and> sk_afd_info k \<noteq> None \<and> api_number_of_handles info > 0)
   }"

text \<open>Whether the snapshot shows that the socket was closed or replaced; it is dropped then.\<close>

definition snapshot_closed ::
  "('os, 'y) ep_port_sys_scheme \<Rightarrow> addr \<Rightarrow> addr \<Rightarrow> ntstatus \<Rightarrow> (('os, 'z) ep_world_scheme, bool) state" where
  "snapshot_closed sys port sock status = do {
     k \<leftarrow> sock_read sock id;
     output \<leftarrow> has_output sock status;
     info \<leftarrow> gets (info_of k);
     if \<not> (sk_kind k = EP_REG_SOCKET \<and> output) then return False
     else if tests (api_events info) AFD_POLL_LOCAL_CLOSE then do {
       ep_sock_drop_closed_locked sys port sock;
       return True
     }
     else if sk_endpoint_id_state k = EP_SOCKET_ID_TRANSITIONAL then do {
       check \<leftarrow> ep_sock_validate_identity_locked sys sock True;
       if check = EP_IDENTITY_STALE \<or> check = EP_IDENTITY_CLOSED then do {
         ep_sock_drop_closed_locked sys port sock;
         return True
       } else return False
     }
     else return False
   }"

text \<open>A snapshot that is older than the active wait or does not cover the interest is replaced.\<close>

datatype refresh_result = Snapshot_Current | Snapshot_Replaced | Snapshot_Gone

definition snapshot_refresh ::
  "('os, 'y) ep_port_sys_scheme \<Rightarrow> addr \<Rightarrow> addr \<Rightarrow> ntstatus \<Rightarrow> (('os, 'z) ep_world_scheme, refresh_result) state" where
  "snapshot_refresh sys port sock status = do {
     k \<leftarrow> sock_read sock id;
     if \<not> (sk_kind k = EP_REG_SOCKET \<and> \<not> status <s 0) then return Snapshot_Current
     else do {
       active_wait_epoch \<leftarrow> port_read port pt_active_wait_epoch;
       current_afd_events \<leftarrow> ep_sock_afd_events_locked sock (sk_user_events k);
       let stale_wait_epoch = (active_wait_epoch \<noteq> 0 \<and> sk_submitted_wait_epoch k \<noteq> active_wait_epoch);
       let uncovered_interest = (current_afd_events AND NOT (sk_submitted_afd_events k) \<noteq> 0);
       if \<not> (stale_wait_epoch \<or> uncovered_interest) then return Snapshot_Current
       else do {
         sock_upd sock (\<lambda>k. k \<lparr> sk_state := EP_SOCK_REGISTERED \<rparr>);
         ep_sock_set_needs_rearm_locked sock True;
         (submit_result, immediate) \<leftarrow> ep_sock_submit_locked sys sock False True;
         when_do (submit_result < 0) (do {
           error \<leftarrow> ep_last_err;
           ep_sock_set_needs_rearm_locked sock True;
           ep_port_record_async_error_locked sys port error
         });
         return (if submit_result = 0 \<and> immediate then Snapshot_Replaced else Snapshot_Gone)
       }
     }
   }"

text \<open>What a snapshot says before it is merged with the current level.\<close>

record raw_events =
  rw_delivered :: uint32
  rw_parked_now :: bool
  rw_pipe :: ep_pipe_snapshot_t

definition raw_zero :: raw_events where
  "raw_zero = \<lparr> rw_delivered = 0, rw_parked_now = False, rw_pipe = pipe_snapshot_zero \<rparr>"

text \<open>The output of an AFD poll, with the receive bit of a UDP socket qualified by a probe.  \<open>None\<close> when
  the handler returns.\<close>

definition translate_afd ::
  "('os, 'y) ep_port_sys_scheme \<Rightarrow> addr \<Rightarrow> addr \<Rightarrow> (('os, 'z) ep_world_scheme, raw_events option) state" where
  "translate_afd sys port sock = do {
     k \<leftarrow> sock_read sock id;
     info \<leftarrow> gets (info_of k);
     if tests (api_events info) AFD_POLL_RECEIVE \<and> \<not> api_status info <s 0 \<and>
        sk_socket_protocol k = EP_SOCKET_PROTOCOL_UDP
     then do {
       let readless = (\<not> tests (sk_user_events k) (EPOLLIN OR EPOLLRDNORM));
       probe \<leftarrow> ep_udp_probe_read_locked sys sock;
       if probe = EP_UDP_READ_PROBE_CLOSED then do {
         ep_sock_drop_closed_locked sys port sock;
         return None
       }
       else if probe = EP_UDP_READ_PROBE_IDENTITY_ERROR then do {
         sock_upd sock (\<lambda>k. k \<lparr> sk_state := EP_SOCK_REGISTERED \<rparr>);
         ep_sock_set_needs_rearm_locked sock True;
         ep_port_record_async_error_locked sys port EIO;
         return None
       }
       else do {
         let quiet = (probe = EP_UDP_READ_PROBE_READY \<or> probe = EP_UDP_READ_PROBE_UNAVAILABLE);
         let afd_events =
           (if probe = EP_UDP_READ_PROBE_NOT_READY \<or> probe = EP_UDP_READ_PROBE_ERROR \<or> readless \<and> quiet
            then api_events info AND NOT AFD_POLL_RECEIVE else api_events info);
         when_do readless (sock_upd sock (\<lambda>k. k \<lparr> sk_udp_readless_receive_parked := quiet \<rparr>));
         let delivered = ep_afd_to_epoll_events afd_events (api_status info) (sk_socket_protocol k);
         return (Some (raw_zero \<lparr> rw_parked_now := readless \<and> quiet,
           rw_delivered := (if probe = EP_UDP_READ_PROBE_ERROR
                            then (delivered OR EPOLLERR) AND NOT EPOLLHUP else delivered) \<rparr>))
       }
     }
     else return (Some (raw_zero \<lparr> rw_delivered :=
       ep_afd_to_epoll_events (api_events info) (api_status info) (sk_socket_protocol k) \<rparr>))
   }"

definition translate_waitable ::
  "('os, 'y) ep_port_sys_scheme \<Rightarrow> ep_sock \<Rightarrow> ntstatus \<Rightarrow> (('os, 'z) ep_env_scheme, uint32) state" where
  "translate_waitable sys k status =
    (if \<not> status <s 0 \<and> (sk_waitable_semantics k = EP_WAITABLE_PERSISTENT \<or>
          sk_waitable_semantics k = EP_WAITABLE_TERMINAL)
     then do {
       wait_result \<leftarrow> syscall (win_WaitForSingleObject sys (sk_fd k) 0);
       return (if wait_result = WAIT_OBJECT_0 then ep_waitable_level_events k
               else if wait_result = WAIT_FAILED then EPOLLERR OR EPOLLHUP else 0)
     }
     else if \<not> status <s 0 then return (ep_waitable_level_events k)
     else return (EPOLLERR OR EPOLLHUP))"

definition translate_snapshot ::
  "('os, 'y) ep_port_sys_scheme \<Rightarrow> addr \<Rightarrow> addr \<Rightarrow> ntstatus \<Rightarrow>
   (('os, 'z) ep_world_scheme, raw_events option) state" where
  "translate_snapshot sys port sock status = do {
     k \<leftarrow> sock_read sock id;
     output \<leftarrow> has_output sock status;
     if output then translate_afd sys port sock
     else if sk_kind k = EP_REG_WAITABLE then do {
       delivered \<leftarrow> translate_waitable sys k status;
       return (Some (raw_zero \<lparr> rw_delivered := delivered \<rparr>))
     }
     else if sk_kind k = EP_REG_PIPE then do {
       snapshot \<leftarrow> ep_pipe_snapshot sys k;
       if pn_local_closed snapshot then do {
         ep_sock_drop_closed_locked sys port sock;
         return None
       }
       else return (Some (raw_zero \<lparr> rw_delivered := pn_events snapshot, rw_pipe := snapshot \<rparr>))
     }
     else return (Some (raw_zero \<lparr> rw_delivered := (if status <s 0 then EPOLLERR else 0) \<rparr>))
   }"

text \<open>Whether a direction is ready now: from the current events, or by a select call; \<open>- 1\<close> unknown.\<close>

definition sample_direction ::
  "('os, 'y) ep_port_sys_scheme \<Rightarrow> sock_fd \<Rightarrow> 16 word option \<Rightarrow> bool \<Rightarrow> bool \<Rightarrow>
   (('os, 'z) ep_env_scheme, int) state" where
  "sample_direction sys fd current writable wanted =
    (if \<not> wanted then return (- 1)
     else (case current of
       Some revents \<Rightarrow> return (if revents AND (if writable then POLLWRNORM else POLLRDNORM) \<noteq> 0 then 1 else 0)
     | None \<Rightarrow> ep_socket_select_ready sys fd writable))"

text \<open>Directions that are no longer ready leave an edge-triggered or exclusive snapshot.\<close>

definition qualify_directions ::
  "('os, 'y) ep_port_sys_scheme \<Rightarrow> addr \<Rightarrow> 16 word option \<Rightarrow> uint32 \<Rightarrow> (('os, 'z) ep_world_scheme, uint32) state" where
  "qualify_directions sys sock current delivered = do {
     k \<leftarrow> sock_read sock id;
     if \<not> (sk_kind k = EP_REG_SOCKET \<and> tests (sk_user_flags k) (EPOLLET OR EPOLLEXCLUSIVE))
     then return delivered
     else do {
       let sample_all = tests (sk_user_flags k) EPOLLEXCLUSIVE;
       read_ready \<leftarrow> sample_direction sys (sk_fd k) current False
         (sample_all \<or> tests delivered (EPOLLIN OR EPOLLRDNORM OR EPOLLRDHUP));
       write_ready \<leftarrow> sample_direction sys (sk_fd k) current True
         (sample_all \<or> tests delivered (EPOLLOUT OR EPOLLWRNORM));
       let delivered = (if read_ready = 0 then delivered AND NOT (EPOLLIN OR EPOLLRDNORM OR EPOLLRDHUP) else delivered);
       let delivered = (if write_ready = 0 then delivered AND NOT (EPOLLOUT OR EPOLLWRNORM) else delivered);
       let inactive = (if read_ready = 0 then EP_READINESS_CLASS_READ else 0) OR
                      (if write_ready = 0 then EP_READINESS_CLASS_WRITE else 0);
       when_do (sample_all \<and> inactive \<noteq> 0) (ep_exclusive_release_inactive sock inactive);
       return delivered
     }
   }"

text \<open>From the translated snapshot to the level the caller asked about.\<close>

definition current_level ::
  "('os, 'y) ep_port_sys_scheme \<Rightarrow> addr \<Rightarrow> uint32 \<Rightarrow> (('os, 'z) ep_world_scheme, uint32) state" where
  "current_level sys sock raw = do {
     k \<leftarrow> sock_read sock id;
     (merged, current) \<leftarrow> (if sk_kind k = EP_REG_SOCKET then ep_socket_merge_current_levels sys sock raw
       else return (raw, None));
     filtered \<leftarrow> filter_disarmed sock merged;
     qualified \<leftarrow> qualify_directions sys sock current filtered;
     delivered \<leftarrow> (if sk_kind k = EP_REG_SOCKET \<and> sk_local_shutdown k \<noteq> 0
       then filter_disarmed sock (ep_sock_merge_local_shutdown_locked k qualified)
       else return qualified);
     return (delivered AND (sk_user_events k OR EPOLLERR OR EPOLLHUP))
   }"

text \<open>The edge of an edge-triggered registration; a level-triggered one reports its level.\<close>

definition latch_events :: "addr \<Rightarrow> ep_pipe_snapshot_t \<Rightarrow> uint32 \<Rightarrow> (('os, 'z) ep_world_scheme, uint32) state" where
  "latch_events sock pipe_snapshot level = do {
     k \<leftarrow> sock_read sock id;
     if tests (sk_user_flags k) EPOLLET then
       if sk_kind k = EP_REG_PIPE then ep_pipe_et_events sock pipe_snapshot
       else do {
         let (edge, observed) = edge_latch (sk_observed_events k) (sk_user_events k OR EPOLLERR OR EPOLLHUP) level;
         sock_upd sock (\<lambda>k. k \<lparr> sk_observed_events := observed \<rparr>);
         return edge
       }
     else do {
       sock_upd sock (\<lambda>k. k \<lparr> sk_observed_events := 0, sk_et_holdoff := False \<rparr>);
       return level
     }
   }"

section \<open>Delivery\<close>

text \<open>A snapshot with nothing to deliver.\<close>

definition deliver_nothing ::
  "('os, 'y) ep_port_sys_scheme \<Rightarrow> addr \<Rightarrow> addr \<Rightarrow> raw_events \<Rightarrow> (('os, 'z) ep_world_scheme, unit) state" where
  "deliver_nothing sys port sock raw = do {
     k \<leftarrow> sock_read sock id;
     if rw_parked_now raw then do {
       sock_upd sock (\<lambda>k. k \<lparr> sk_et_holdoff := False \<rparr>);
       ep_sock_set_needs_rearm_locked sock True;
       resubmit sys port sock
     }
     else if sk_kind k = EP_REG_PIPE \<and> tests (sk_user_flags k) EPOLLET \<and> pn_valid (rw_pipe raw) \<and>
             sk_pipe_terminal_delivered k \<and>
             ep_pipe_et_snapshot_is_final k (pn_events (rw_pipe raw)) (rw_pipe raw)
     then do {
       sock_upd sock (\<lambda>k. k \<lparr> sk_et_holdoff := False \<rparr>);
       ep_sock_set_needs_rearm_locked sock False;
       sock_upd sock (\<lambda>k. k \<lparr> sk_state := EP_SOCK_REGISTERED \<rparr>)
     }
     else do {
       sock_upd sock (\<lambda>k. k \<lparr> sk_et_holdoff := tests (sk_user_flags k) EPOLLET \<rparr>);
       ep_sock_set_needs_rearm_locked sock True;
       when_do (\<not> tests (sk_user_flags k) EPOLLET) (resubmit sys port sock)
     }
   }"

text \<open>A snapshot that becomes a ready node.\<close>

definition deliver_node ::
  "('os, 'y) ep_port_sys_scheme \<Rightarrow> addr \<Rightarrow> addr \<Rightarrow> addr \<Rightarrow> uint32 \<Rightarrow> (('os, 'z) ep_world_scheme, unit) state" where
  "deliver_node sys port sock node events = do {
     k \<leftarrow> sock_read sock id;
     when_do (tests (sk_user_flags k) EPOLLONESHOT) (ep_sock_set_oneshot_fired_locked sock True);
     node_fill sys port sock node events;
     (granted, delivered) \<leftarrow> (if tests (sk_user_flags k) EPOLLEXCLUSIVE
       then ep_exclusive_try_claim sock events else return (True, events));
     if \<not> granted then do {
       ep_ready_node_free sys (Some port) (Some node);
       sock_upd sock (\<lambda>k. k \<lparr> sk_et_holdoff := True \<rparr>);
       ep_sock_set_needs_rearm_locked sock True
     } else do {
       node_upd node (\<lambda>n. n \<lparr> rn_events := delivered \<rparr>);
       disarm_delivered sock delivered;
       node_publish port sock node delivered;
       when_do (ep_waitable_may_consume k)
         (sock_upd sock (\<lambda>k. k \<lparr> sk_waitable_notification_owned := False \<rparr>))
     }
   }"

definition deliver_events ::
  "('os, 'y) ep_port_sys_scheme \<Rightarrow> addr \<Rightarrow> addr \<Rightarrow> uint32 \<Rightarrow> uint32 \<Rightarrow> (('os, 'z) ep_world_scheme, unit) state" where
  "deliver_events sys port sock old_observed delivered = do {
     obtained \<leftarrow> node_obtain sys port;
     (case obtained of
       Some node \<Rightarrow> deliver_node sys port sock node delivered
     | None \<Rightarrow> do {
         error \<leftarrow> ep_last_err;
         flags \<leftarrow> sock_read sock sk_user_flags;
         when_do (tests flags EPOLLET) (sock_upd sock (\<lambda>k. k \<lparr> sk_observed_events := old_observed \<rparr>));
         ep_sock_set_needs_rearm_locked sock True;
         ep_port_record_async_error_locked sys port (if error = 0 then ENOMEM else error)
       })
   }"

definition deliver_snapshot ::
  "('os, 'y) ep_port_sys_scheme \<Rightarrow> addr \<Rightarrow> addr \<Rightarrow> ntstatus \<Rightarrow> (('os, 'z) ep_world_scheme, unit) state" where
  "deliver_snapshot sys port sock status = do {
     translated \<leftarrow> translate_snapshot sys port sock status;
     (case translated of
       None \<Rightarrow> skip
     | Some raw \<Rightarrow> do {
         level \<leftarrow> current_level sys sock (rw_delivered raw);
         old_observed \<leftarrow> sock_read sock sk_observed_events;
         delivered \<leftarrow> latch_events sock (rw_pipe raw) level;
         if delivered = 0 then deliver_nothing sys port sock raw
         else deliver_events sys port sock old_observed delivered
       })
   }"

text \<open>The loop of the label \<open>process_socket_snapshot\<close>.\<close>

primrec process_socket_snapshot ::
  "nat \<Rightarrow> ('os, 'y) ep_port_sys_scheme \<Rightarrow> addr \<Rightarrow> addr \<Rightarrow> ntstatus \<Rightarrow> (('os, 'z) ep_world_scheme, unit) state" where
  "process_socket_snapshot 0 sys port sock status = bad_access"
| "process_socket_snapshot (Suc n) sys port sock status = do {
     closed \<leftarrow> snapshot_closed sys port sock status;
     if closed then skip
     else do {
       refreshed \<leftarrow> snapshot_refresh sys port sock status;
       (case refreshed of
         Snapshot_Gone \<Rightarrow> skip
       | Snapshot_Replaced \<Rightarrow> process_socket_snapshot n sys port sock status
       | Snapshot_Current \<Rightarrow> deliver_snapshot sys port sock status)
     }
   }"

definition completion_process ::
  "('os, 'y) ep_port_sys_scheme \<Rightarrow> addr \<Rightarrow> addr \<Rightarrow> ep_poll_status \<Rightarrow> ntstatus \<Rightarrow>
   (('os, 'z) ep_world_scheme, unit) state" where
  "completion_process sys port sock old_poll_status status =
    (if old_poll_status = EP_POLL_CANCELLED \<or> status = STATUS_CANCELLED then resubmit sys port sock
     else do {
       k \<leftarrow> sock_read sock id;
       if ep_waitable_is_dormant k then do {
         ep_sock_set_needs_rearm_locked sock False;
         sock_upd sock (\<lambda>k. k \<lparr> sk_et_holdoff := False \<rparr>);
         sock_upd sock (\<lambda>k. k \<lparr> sk_state := EP_SOCK_REGISTERED \<rparr>)
       }
       else process_socket_snapshot (ps_spins sys) sys port sock status
     })"

definition ep_sock_handle_completion ::
  "('os, 'y) ep_port_sys_scheme \<Rightarrow> addr \<Rightarrow> ntstatus \<Rightarrow> (('os, 'z) ep_world_scheme, unit) state" where
  "ep_sock_handle_completion sys sock status = do {
     k \<leftarrow> sock_read sock id;
     let port = sk_port k;
     let old_poll_status = sk_poll_status k;
     if old_poll_status = EP_POLL_IDLE then skip
     else do {
       when_do (sk_kind k = EP_REG_SOCKET) (ep_afd_poll_key_release sys (Some sock));
       when_do (old_poll_status = EP_POLL_PENDING \<and> \<not> status <s 0 \<and> ep_waitable_may_consume k)
         (sock_upd sock (\<lambda>k. k \<lparr> sk_waitable_notification_owned := True \<rparr>));
       disarm_result \<leftarrow> (if sk_kind k = EP_REG_WAITABLE \<or> sk_kind k = EP_REG_PIPE
         then aux_retire sys sock else return 0);
       if disarm_result \<noteq> 0 then disarm_failed sys port sock
       else do {
         when_do (sk_kind k = EP_REG_WAITABLE \<or> sk_kind k = EP_REG_PIPE)
           (sock_upd sock (\<lambda>k. k \<lparr> sk_completion_posted := False \<rparr>));
         go_on \<leftarrow> completion_account sys port sock;
         when_do go_on (completion_process sys port sock old_poll_status status)
       }
     }
   }"

end
