(* ===== verification/Ep_Control.thy ===== *)
theory Ep_Control
  imports Ep_Completion
begin

text \<open>
  The control operations of a port, \<^verbatim>\<open>src/src/wepoll_ex_port.c\<close>: registering, modifying and removing
  a descriptor, recording a shutdown, and rearming a one-shot or explicitly rearmed registration.
  Each runs under the lock of the fd table.
\<close>

section \<open>Register\<close>

text \<open>A registration that was not inserted is given back.\<close>

definition discard_sock ::
  "('os, 'y) ep_port_sys_scheme \<Rightarrow> addr \<Rightarrow> addr \<Rightarrow> (('os, 'z) ep_world_scheme, unit) state" where
  "discard_sock sys port sock = do { give_afd_info sys port sock; sock_free sock }"

text \<open>The combination of kind and flags that a new registration is refused for, if any.\<close>

definition register_refusal :: "bool \<Rightarrow> ep_sock \<Rightarrow> uint32 \<Rightarrow> uint32 \<Rightarrow> int option" where
  "register_refusal explicit_rearm k events flags =
    (if explicit_rearm \<and> tests flags EPOLLET \<and> sk_kind k \<noteq> EP_REG_SOCKET then Some EOPNOTSUPP
     else if explicit_rearm \<and> tests flags EPOLLET \<and> tests flags EPOLLEXCLUSIVE then Some EINVAL
     else if (sk_kind k = EP_REG_WAITABLE \<or> sk_kind k = EP_REG_PIPE) \<and> tests flags EPOLLEXCLUSIVE then Some EINVAL
     else if sk_kind k = EP_REG_WAITABLE \<and> tests flags EPOLLET \<and> ep_waitable_interest_events events \<noteq> 0 \<and>
             sk_waitable_semantics k = EP_WAITABLE_ET_UNSUPPORTED then Some EINVAL
     else None)"

definition waiter_listening :: "addr \<Rightarrow> (('os, 'z) ep_world_scheme, bool) state" where
  "waiter_listening port = port_read port (\<lambda>q. pt_waiter_active q \<and> \<not> pt_waiter_coalescing q)"

definition bump_generation :: "addr \<Rightarrow> (('os, 'z) ep_world_scheme, unit) state" where
  "bump_generation port = port_upd port (\<lambda>q. q \<lparr> pt_generation := pt_generation q + 1 \<rparr>)"

text \<open>The first submission of a registration that was inserted.\<close>

definition register_submit ::
  "('os, 'y) ep_port_sys_scheme \<Rightarrow> addr \<Rightarrow> addr \<Rightarrow> (('os, 'z) ep_world_scheme, int) state" where
  "register_submit sys port sock = do {
     (submit_result, _) \<leftarrow> ep_sock_submit_locked sys sock True False;
     if submit_result < 0 then do {
       saved_error \<leftarrow> ep_get_last_error_info;
       ep_fd_table_remove port sock;
       ep_sock_free_locked sys port sock;
       ep_restore_last_error_info saved_error;
       return (- 1)
     }
     else if submit_result > 0 then do {
       saved_error \<leftarrow> ep_get_last_error_info;
       ep_restore_last_error_info saved_error;
       return (- 1)
     }
     else do { bump_generation port; return 0 }
   }"

definition register_insert ::
  "('os, 'y) ep_port_sys_scheme \<Rightarrow> addr \<Rightarrow> addr \<Rightarrow> (('os, 'z) ep_world_scheme, int) state" where
  "register_insert sys port sock = do {
     inserted \<leftarrow> ep_fd_table_insert sys port sock;
     if inserted \<noteq> 0 then do { discard_sock sys port sock; return (- 1) }
     else do {
       ep_sock_list_add_locked port sock;
       k \<leftarrow> sock_read sock id;
       when_do (\<not> ep_waitable_is_dormant k) (ep_sock_set_needs_rearm_locked sock True);
       listening \<leftarrow> waiter_listening port;
       if \<not> ep_waitable_is_dormant k \<and> (sk_kind k = EP_REG_SOCKET \<or> listening)
       then register_submit sys port sock
       else do { bump_generation port; return 0 }
     }
   }"

definition register_new ::
  "('os, 'y) ep_port_sys_scheme \<Rightarrow> addr \<Rightarrow> sock_fd \<Rightarrow> uint32 \<Rightarrow> uint32 \<Rightarrow> epoll_data \<Rightarrow> uint64 \<Rightarrow>
   (('os, 'z) ep_world_scheme, int) state" where
  "register_new sys port fd events flags data ctx = do {
     target \<leftarrow> ep_target_probe sys fd;
     (case target of
       None \<Rightarrow> return (- 1)
     | Some t \<Rightarrow> do {
         allocated \<leftarrow> ep_sock_alloc_locked sys port fd t;
         (case allocated of
           None \<Rightarrow> return (- 1)
         | Some sock \<Rightarrow> do {
             sock_upd sock (\<lambda>k. k \<lparr> sk_user_events := events, sk_user_flags := flags, sk_user_data := data,
               sk_user_ctx := ctx, sk_observed_events := 0, sk_explicit_disarmed_classes := 0,
               sk_pipe_terminal_delivered := False, sk_et_holdoff := False \<rparr>);
             explicit \<leftarrow> port_read port pt_explicit_rearm;
             k \<leftarrow> sock_read sock id;
             (case register_refusal explicit k events flags of
               Some error \<Rightarrow> do { discard_sock sys port sock; ep_set_errno error; return (- 1) }
             | None \<Rightarrow> register_insert sys port sock)
           })
       })
   }"

definition ep_port_register ::
  "('os, 'y) ep_port_sys_scheme \<Rightarrow> addr \<Rightarrow> sock_fd \<Rightarrow> uint32 \<Rightarrow> uint32 \<Rightarrow> epoll_data \<Rightarrow> uint64 \<Rightarrow>
   (('os, 'z) ep_world_scheme, int) state" where
  "ep_port_register sys port fd events flags data ctx =
    (if fd = INVALID_SOCKET then do { ep_set_errno EBADF; return (- 1) }
     else do {
       closing \<leftarrow> port_read port pt_closing;
       if closing then do { ep_set_errno EBADF; return (- 1) }
       else do {
         existing \<leftarrow> ep_fd_table_lookup port fd;
         (case existing of
           None \<Rightarrow> register_new sys port fd events flags data ctx
         | Some old \<Rightarrow> do {
             identity_result \<leftarrow> ep_sock_validate_control_locked sys port old;
             error \<leftarrow> ep_last_err;
             if identity_result = 0 then do { ep_set_errno EEXIST; return (- 1) }
             else if identity_result < 0 \<or> error \<noteq> ENOENT then return (- 1)
             else register_new sys port fd events flags data ctx
           })
       }
     })"

section \<open>Modify\<close>

text \<open>What happens to a pending poll when the mask changes: \<open>None\<close> on failure, otherwise whether the
  pending request covers the new mask.\<close>

definition modify_pending ::
  "('os, 'y) ep_port_sys_scheme \<Rightarrow> addr \<Rightarrow> bool \<Rightarrow> uint32 \<Rightarrow> (('os, 'z) ep_world_scheme, bool option) state" where
  "modify_pending sys sock new_dormant new_afd_events = do {
     k \<leftarrow> sock_read sock id;
     if sk_poll_status k \<noteq> EP_POLL_PENDING then return (Some False)
     else if (sk_kind k = EP_REG_WAITABLE \<and> \<not> new_dormant) \<or> sk_kind k = EP_REG_PIPE then return (Some True)
     else if sk_kind k = EP_REG_SOCKET \<and> sk_local_shutdown k = 0 \<and>
             new_afd_events AND NOT (sk_submitted_afd_events k) = 0 then return (Some True)
     else do {
       cancelled \<leftarrow> ep_sock_cancel_locked sys sock;
       return (if cancelled \<noteq> 0 then None else Some False)
     }
   }"

text \<open>The fields a failed modification or rearm puts back.\<close>

definition restore_registration :: "addr \<Rightarrow> ep_sock \<Rightarrow> (('os, 'z) ep_world_scheme, unit) state" where
  "restore_registration sock old = do {
     sock_upd sock (\<lambda>k. k \<lparr> sk_user_events := sk_user_events old, sk_user_flags := sk_user_flags old,
       sk_user_data := sk_user_data old, sk_user_ctx := sk_user_ctx old,
       sk_pending_events := sk_pending_events old, sk_observed_events := sk_observed_events old,
       sk_explicit_disarmed_classes := sk_explicit_disarmed_classes old \<rparr>);
     ep_sock_restore_worklist_state_locked sock (sk_needs_rearm old) (sk_oneshot_fired old);
     sock_upd sock (\<lambda>k. k \<lparr> sk_pipe_terminal_delivered := sk_pipe_terminal_delivered old,
       sk_et_holdoff := sk_et_holdoff old,
       sk_udp_readless_receive_parked := sk_udp_readless_receive_parked old,
       sk_waitable_notification_owned := sk_waitable_notification_owned old,
       sk_base_socket := sk_base_socket old, sk_endpoint_id := sk_endpoint_id old,
       sk_endpoint_id_state := sk_endpoint_id_state old, sk_generation := sk_generation old,
       sk_ready_queued := sk_ready_queued old, sk_state := sk_state old \<rparr>)
   }"

text \<open>What becomes of a queued notification that a wait has consumed: nothing to keep, a replacement
  node for it, or its return to the registration.\<close>

datatype ready_transfer = Keep_Nothing | Replace_Node addr | Return_Notification | Transfer_Failed

definition modify_transfer ::
  "('os, 'y) ep_port_sys_scheme \<Rightarrow> addr \<Rightarrow> ep_sock \<Rightarrow> uint32 \<Rightarrow> (('os, 'z) ep_world_scheme, ready_transfer) state" where
  "modify_transfer sys port old new_interest =
    (if sk_ready_queued old \<and> ep_waitable_may_consume old \<and>
        sk_pending_events old AND NOT (EPOLLERR OR EPOLLHUP) \<noteq> 0
     then
       if new_interest \<noteq> 0 then do {
         replacement \<leftarrow> ep_ready_node_alloc sys (Some port);
         return (case replacement of None \<Rightarrow> Transfer_Failed | Some n \<Rightarrow> Replace_Node n)
       }
       else return Return_Notification
     else return Keep_Nothing)"

text \<open>The new mask, data and generation, with the state of the old observation cleared.\<close>

definition modify_fields ::
  "('os, 'y) ep_port_sys_scheme \<Rightarrow> addr \<Rightarrow> addr \<Rightarrow> uint32 \<Rightarrow> uint32 \<Rightarrow> epoll_data \<Rightarrow> uint64 \<Rightarrow> bool \<Rightarrow> uint32 \<Rightarrow>
   bool \<Rightarrow> ready_transfer \<Rightarrow> (('os, 'z) ep_world_scheme, unit) state" where
  "modify_fields sys port sock events flags data ctx new_dormant new_interest covers transfer = do {
     let preserve = (case transfer of Replace_Node _ \<Rightarrow> True | _ \<Rightarrow> False);
     sock_upd sock (\<lambda>k. k \<lparr> sk_user_events := events, sk_user_flags := flags, sk_user_data := data,
       sk_user_ctx := ctx, sk_pending_events := (if preserve then new_interest else 0),
       sk_observed_events := 0, sk_explicit_disarmed_classes := 0, sk_pipe_terminal_delivered := False,
       sk_et_holdoff := False, sk_udp_readless_receive_parked := False \<rparr>);
     ep_sock_set_oneshot_fired_locked sock False;
     when_do (transfer = Return_Notification)
       (sock_upd sock (\<lambda>k. k \<lparr> sk_waitable_notification_owned := True \<rparr>));
     (if new_dormant \<or> preserve then ep_sock_set_needs_rearm_locked sock False
      else when_do (\<not> covers) (ep_sock_set_needs_rearm_locked sock True));
     sock_upd sock (\<lambda>k. k \<lparr> sk_ready_queued := preserve \<rparr>);
     next_generation port sock;
     (case transfer of
       Replace_Node node \<Rightarrow> do {
         when_do (tests flags EPOLLET) (sock_upd sock (\<lambda>k. k \<lparr> sk_observed_events := new_interest \<rparr>));
         when_do (tests flags EPOLLONESHOT) (ep_sock_set_oneshot_fired_locked sock True);
         sock_upd sock (\<lambda>k. k \<lparr> sk_state := EP_SOCK_READY \<rparr>);
         node_fill sys port sock node new_interest;
         queue_upd port (ep_ready_push (Some node))
       }
     | _ \<Rightarrow> when_do new_dormant (sock_upd sock (\<lambda>k. k \<lparr> sk_state := EP_SOCK_REGISTERED \<rparr>)))
   }"

text \<open>A wake-up for the waiter after the lock was released.\<close>

definition wake_waiter ::
  "('os, 'y) ep_port_sys_scheme \<Rightarrow> addr \<Rightarrow> (('os, 'z) ep_world_scheme, int) state" where
  "wake_waiter sys port = do {
     (posted, post_error) \<leftarrow> ep_port_post_iocp sys port 0 None EP_FAULT_IOCP_POST;
     if \<not> posted then do {
       ep_port_fail_iocp_post sys port post_error;
       ep_set_win32_error post_error;
       return (- 1)
     } else return 0
   }"

text \<open>The submission after a change under a listening waiter: the return value of the operation and
  whether the waiter has to be woken.  A failed submission puts the old registration back.\<close>

definition resubmit_changed ::
  "('os, 'y) ep_port_sys_scheme \<Rightarrow> addr \<Rightarrow> (('os, 'z) ep_world_scheme, unit) state \<Rightarrow>
   (('os, 'z) ep_world_scheme, int \<times> bool) state" where
  "resubmit_changed sys sock put_back = do {
     (submit_result, _) \<leftarrow> ep_sock_submit_locked sys sock True False;
     if submit_result > 0 then do {
       saved_error \<leftarrow> ep_get_last_error_info;
       ep_restore_last_error_info saved_error;
       return (- 1, False)
     }
     else if submit_result < 0 then do {
       saved_error \<leftarrow> ep_get_last_error_info;
       put_back;
       ep_restore_last_error_info saved_error;
       return (- 1, False)
     }
     else do {
       k \<leftarrow> sock_read sock id;
       return (0, sk_local_shutdown k \<noteq> 0 \<and> sk_ready_queued k)
     }
   }"

definition modify_apply ::
  "('os, 'y) ep_port_sys_scheme \<Rightarrow> addr \<Rightarrow> addr \<Rightarrow> uint32 \<Rightarrow> uint32 \<Rightarrow> epoll_data \<Rightarrow> uint64 \<Rightarrow> bool \<Rightarrow> uint32 \<Rightarrow>
   bool \<Rightarrow> (('os, 'z) ep_world_scheme, int \<times> bool) state" where
  "modify_apply sys port sock events flags data ctx new_dormant new_interest covers = do {
     old \<leftarrow> sock_read sock id;
     transfer \<leftarrow> modify_transfer sys port old new_interest;
     if transfer = Transfer_Failed then return (- 1, False)
     else do {
       modify_fields sys port sock events flags data ctx new_dormant new_interest covers transfer;
       status \<leftarrow> sock_read sock sk_poll_status;
       listening \<leftarrow> waiter_listening port;
       (r, wake) \<leftarrow> (if \<not> new_dormant \<and> status = EP_POLL_IDLE \<and> listening
         then resubmit_changed sys sock (restore_registration sock old) else return (0, False));
       when_do (r = 0) (bump_generation port);
       return (r, wake)
     }
   }"

definition modify_locked ::
  "('os, 'y) ep_port_sys_scheme \<Rightarrow> addr \<Rightarrow> sock_fd \<Rightarrow> uint32 \<Rightarrow> uint32 \<Rightarrow> epoll_data \<Rightarrow> uint64 \<Rightarrow>
   (('os, 'z) ep_world_scheme, int \<times> bool) state" where
  "modify_locked sys port fd events flags data ctx = do {
     found \<leftarrow> ep_fd_table_lookup port fd;
     (case found of
       None \<Rightarrow> do { r \<leftarrow> ep_target_fail_absent sys fd; return (r, False) }
     | Some sock \<Rightarrow> do {
         valid \<leftarrow> ep_sock_validate_control_locked sys port sock;
         if valid \<noteq> 0 then return (- 1, False)
         else do {
           k \<leftarrow> sock_read sock id;
           explicit \<leftarrow> port_read port pt_explicit_rearm;
           let new_interest = (if sk_kind k = EP_REG_WAITABLE then ep_waitable_interest_events events else 0);
           let new_dormant = (sk_kind k = EP_REG_WAITABLE \<and> new_interest = 0);
           if tests (sk_user_flags k) EPOLLEXCLUSIVE then do { ep_set_errno EINVAL; return (- 1, False) }
           else if sk_kind k = EP_REG_WAITABLE \<and> tests flags EPOLLET \<and> \<not> new_dormant \<and>
                   sk_waitable_semantics k = EP_WAITABLE_ET_UNSUPPORTED
           then do { ep_set_errno EINVAL; return (- 1, False) }
           else if explicit \<and> tests flags EPOLLET \<and> sk_kind k \<noteq> EP_REG_SOCKET
           then do { ep_set_errno EOPNOTSUPP; return (- 1, False) }
           else do {
             new_afd_events \<leftarrow> ep_sock_afd_events_for_state_locked sock events False 0;
             covers \<leftarrow> modify_pending sys sock new_dormant new_afd_events;
             (case covers of
               None \<Rightarrow> return (- 1, False)
             | Some c \<Rightarrow> modify_apply sys port sock events flags data ctx new_dormant new_interest c)
           }
         }
       })
   }"

definition ep_port_modify ::
  "('os, 'y) ep_port_sys_scheme \<Rightarrow> addr \<Rightarrow> sock_fd \<Rightarrow> uint32 \<Rightarrow> uint32 \<Rightarrow> epoll_data \<Rightarrow> uint64 \<Rightarrow>
   (('os, 'z) ep_world_scheme, int) state" where
  "ep_port_modify sys port fd events flags data ctx = do {
     (r, wake) \<leftarrow> modify_locked sys port fd events flags data ctx;
     if r = 0 \<and> wake then wake_waiter sys port else return r
   }"

section \<open>Unregister\<close>

text \<open>The logical detach of a registration; its storage stays while a poll is pending.\<close>

definition unregister_detach ::
  "('os, 'y) ep_port_sys_scheme \<Rightarrow> addr \<Rightarrow> addr \<Rightarrow> (('os, 'z) ep_world_scheme, unit) state" where
  "unregister_detach sys port sock = do {
     k \<leftarrow> sock_read sock id;
     when_do (tests (sk_user_flags k) EPOLLEXCLUSIVE) (ep_exclusive_release_owner sock);
     when_do (sk_poll_status k = EP_POLL_PENDING) (do { _ \<leftarrow> ep_sock_cancel_locked sys sock; skip });
     ep_fd_table_remove port sock;
     sock_upd sock (\<lambda>k. k \<lparr> sk_delete_pending := True \<rparr>);
     sock_upd sock (\<lambda>k. k \<lparr> sk_state := EP_SOCK_DELETED \<rparr>);
     ep_sock_set_needs_rearm_locked sock False;
     next_generation port sock;
     bump_generation port;
     status \<leftarrow> sock_read sock sk_poll_status;
     when_do (status = EP_POLL_IDLE) (ep_sock_free_locked sys port sock)
   }"

definition ep_port_unregister ::
  "('os, 'y) ep_port_sys_scheme \<Rightarrow> addr \<Rightarrow> sock_fd \<Rightarrow> (('os, 'z) ep_world_scheme, int) state" where
  "ep_port_unregister sys port fd = do {
     saved_errno \<leftarrow> ep_last_err;
     found \<leftarrow> ep_fd_table_lookup port fd;
     (case found of
       None \<Rightarrow> ep_target_fail_absent sys fd
     | Some sock \<Rightarrow> do {
         valid \<leftarrow> ep_sock_validate_control_locked sys port sock;
         if valid \<noteq> 0 then return (- 1)
         else do {
           unregister_detach sys port sock;
           ep_set_errno saved_errno;
           return 0
         }
       })
   }"

section \<open>Shutdown\<close>

definition native_shutdown ::
  "('os, 'y) ep_port_sys_scheme \<Rightarrow> sock_fd \<Rightarrow> int \<Rightarrow> (('os, 'z) ep_env_scheme, dword option) state" where
  "native_shutdown sys fd how = do {
     ok \<leftarrow> syscall (wsa_shutdown sys fd how);
     if ok then return None
     else do { error \<leftarrow> syscall (wsa_WSAGetLastError sys); return (Some error) }
   }"

text \<open>A socket that is not registered is only shut down.\<close>

definition shutdown_unregistered ::
  "('os, 'y) ep_port_sys_scheme \<Rightarrow> sock_fd \<Rightarrow> int \<Rightarrow> (('os, 'z) ep_env_scheme, int) state" where
  "shutdown_unregistered sys fd how = do {
     target \<leftarrow> ep_target_probe sys fd;
     (case target of
       None \<Rightarrow> return (- 1)
     | Some t \<Rightarrow>
         if ti_kind t \<noteq> EP_TARGET_SOCKET then do {
           ep_set_errno (if ti_kind t = EP_TARGET_INVALID then EBADF else ENOTSOCK);
           return (- 1)
         } else do {
           mask \<leftarrow> ep_local_shutdown_mask how;
           (case mask of
             None \<Rightarrow> return (- 1)
           | Some _ \<Rightarrow> do {
               failed \<leftarrow> native_shutdown sys fd how;
               (case failed of
                 Some error \<Rightarrow> do { ep_set_winsock_error error; return (- 1) }
               | None \<Rightarrow> return 0)
             })
         })
   }"

text \<open>Publishing the recorded shutdown: the return value, and whether the waiter has to be woken.  The
  reserved node is consumed or given back.\<close>

definition shutdown_publish ::
  "('os, 'y) ep_port_sys_scheme \<Rightarrow> addr \<Rightarrow> addr \<Rightarrow> addr option \<Rightarrow> (('os, 'z) ep_world_scheme, int \<times> bool) state" where
  "shutdown_publish sys port sock reserved_node = do {
     status \<leftarrow> sock_read sock sk_poll_status;
     cancelled \<leftarrow> (if status = EP_POLL_PENDING then do {
         ep_sock_set_needs_rearm_locked sock True;
         ep_sock_cancel_locked sys sock
       } else return 0);
     if cancelled \<noteq> 0 then do {
       saved_error \<leftarrow> ep_get_last_error_info;
       ep_ready_node_free sys (Some port) reserved_node;
       bump_generation port;
       ep_restore_last_error_info saved_error;
       return (- 1, False)
     } else do {
       k \<leftarrow> sock_read sock id;
       if sk_poll_status k = EP_POLL_IDLE \<or> sk_ready_queued k then do {
         queue_result \<leftarrow> ep_sock_queue_local_shutdown_locked sys sock reserved_node;
         if queue_result < 0 then do {
           saved_error \<leftarrow> ep_get_last_error_info;
           ep_sock_set_needs_rearm_locked sock True;
           bump_generation port;
           ep_restore_last_error_info saved_error;
           return (- 1, False)
         } else do {
           listening \<leftarrow> waiter_listening port;
           return (0, queue_result > 0 \<and> listening)
         }
       } else do {
         ep_ready_node_free sys (Some port) reserved_node;
         return (0, False)
       }
     }
   }"

definition shutdown_registered ::
  "('os, 'y) ep_port_sys_scheme \<Rightarrow> addr \<Rightarrow> addr \<Rightarrow> sock_fd \<Rightarrow> int \<Rightarrow> uint8 \<Rightarrow>
   (('os, 'z) ep_world_scheme, int \<times> bool) state" where
  "shutdown_registered sys port sock fd how requested_shutdown = do {
     k \<leftarrow> sock_read sock id;
     let proposed_shutdown = sk_local_shutdown k OR requested_shutdown;
     let tcp = (sk_socket_protocol k = EP_SOCKET_PROTOCOL_TCP);
     let state_changed = (tcp \<and> proposed_shutdown \<noteq> sk_local_shutdown k);
     let publication_required = (tcp \<and> (state_changed \<or> sk_needs_rearm k));
     let reserve = (publication_required \<and> (sk_poll_status k = EP_POLL_IDLE \<or> sk_ready_queued k) \<and>
       (sk_ready_queued k \<or> \<not> sk_oneshot_fired k));
     reserved_node \<leftarrow> (if reserve then node_obtain sys port else return None);
     if reserve \<and> reserved_node = None then do {
       error \<leftarrow> ep_last_err;
       when_do (error = 0) (ep_set_errno ENOMEM);
       return (- 1, False)
     } else do {
       failed \<leftarrow> (if \<not> tcp \<or> state_changed then native_shutdown sys fd how else return None);
       (case failed of
         Some error \<Rightarrow> do {
           ep_ready_node_free sys (Some port) reserved_node;
           ep_set_winsock_error error;
           return (- 1, False)
         }
       | None \<Rightarrow> do {
           when_do state_changed (sock_upd sock (\<lambda>k. k \<lparr> sk_local_shutdown := proposed_shutdown \<rparr>));
           (r, wake) \<leftarrow> (if publication_required then shutdown_publish sys port sock reserved_node
             else do { ep_ready_node_free sys (Some port) reserved_node; return (0, False) });
           when_do (r = 0 \<and> state_changed) (bump_generation port);
           return (r, wake)
         })
     }
   }"

definition ep_port_shutdown_socket ::
  "('os, 'y) ep_port_sys_scheme \<Rightarrow> addr \<Rightarrow> sock_fd \<Rightarrow> int \<Rightarrow> (('os, 'z) ep_world_scheme, int) state" where
  "ep_port_shutdown_socket sys port fd how = do {
     found \<leftarrow> ep_fd_table_lookup port fd;
     (case found of
       None \<Rightarrow> shutdown_unregistered sys fd how
     | Some sock \<Rightarrow> do {
         valid \<leftarrow> ep_sock_validate_control_locked sys port sock;
         if valid \<noteq> 0 then return (- 1)
         else do {
           kind \<leftarrow> sock_read sock sk_kind;
           if kind \<noteq> EP_REG_SOCKET then do { ep_set_errno ENOTSOCK; return (- 1) }
           else do {
             mask \<leftarrow> ep_local_shutdown_mask how;
             (case mask of
               None \<Rightarrow> return (- 1)
             | Some requested \<Rightarrow> do {
                 (r, wake) \<leftarrow> shutdown_registered sys port sock fd how requested;
                 if r = 0 \<and> wake then wake_waiter sys port else return r
               })
           }
         }
       })
   }"

section \<open>Rearm\<close>

abbreviation (input) WEPOLL_EX_REARM_ALL :: uint32 where "WEPOLL_EX_REARM_ALL \<equiv> 7"

text \<open>The pending poll when classes are rearmed: \<open>None\<close> on failure, otherwise whether it covers them.\<close>

definition rearm_pending ::
  "('os, 'y) ep_port_sys_scheme \<Rightarrow> addr \<Rightarrow> bool \<Rightarrow> uint32 \<Rightarrow> (('os, 'z) ep_world_scheme, bool option) state" where
  "rearm_pending sys sock rearm_oneshot new_afd_events = do {
     k \<leftarrow> sock_read sock id;
     if sk_poll_status k \<noteq> EP_POLL_PENDING then return (Some False)
     else if \<not> rearm_oneshot \<and> sk_local_shutdown k = 0 \<and>
             new_afd_events AND NOT (sk_submitted_afd_events k) = 0 then return (Some True)
     else do {
       cancelled \<leftarrow> ep_sock_cancel_locked sys sock;
       return (if cancelled \<noteq> 0 then None else Some False)
     }
   }"

definition restore_classes :: "addr \<Rightarrow> ep_sock \<Rightarrow> (('os, 'z) ep_world_scheme, unit) state" where
  "restore_classes sock old = do {
     sock_upd sock (\<lambda>k. k \<lparr> sk_explicit_disarmed_classes := sk_explicit_disarmed_classes old,
       sk_pending_events := sk_pending_events old, sk_observed_events := sk_observed_events old \<rparr>);
     ep_sock_restore_worklist_state_locked sock (sk_needs_rearm old) (sk_oneshot_fired old);
     sock_upd sock (\<lambda>k. k \<lparr> sk_et_holdoff := sk_et_holdoff old,
       sk_udp_readless_receive_parked := sk_udp_readless_receive_parked old,
       sk_generation := sk_generation old, sk_state := sk_state old \<rparr>)
   }"

text \<open>The change of state once the pending poll was dealt with.\<close>

definition rearm_fields ::
  "addr \<Rightarrow> addr \<Rightarrow> uint8 \<Rightarrow> uint8 \<Rightarrow> bool \<Rightarrow> bool \<Rightarrow> uint32 \<Rightarrow> (('os, 'z) ep_world_scheme, unit) state" where
  "rearm_fields port sock classes new_disarmed rearm_oneshot covers new_afd_events = do {
     sock_upd sock (\<lambda>k. k \<lparr> sk_explicit_disarmed_classes := new_disarmed \<rparr>);
     (if rearm_oneshot then do {
        sock_upd sock (\<lambda>k. k \<lparr> sk_pending_events := 0, sk_observed_events := 0 \<rparr>);
        ep_sock_set_oneshot_fired_locked sock False;
        next_generation port sock;
        sock_upd sock (\<lambda>k. k \<lparr> sk_state := EP_SOCK_REGISTERED \<rparr>)
      }
      else sock_upd sock (\<lambda>k. k \<lparr> sk_observed_events :=
        ep_readiness_filter_classes (sk_observed_events k) classes \<rparr>));
     sock_upd sock (\<lambda>k. k \<lparr> sk_et_holdoff := False \<rparr>);
     local_shutdown \<leftarrow> sock_read sock sk_local_shutdown;
     when_do (\<not> covers)
       (ep_sock_set_needs_rearm_locked sock (new_afd_events \<noteq> 0 \<or> local_shutdown \<noteq> 0))
   }"

definition rearm_submit ::
  "('os, 'y) ep_port_sys_scheme \<Rightarrow> addr \<Rightarrow> addr \<Rightarrow> ep_sock \<Rightarrow> uint32 \<Rightarrow> (('os, 'z) ep_world_scheme, int \<times> bool) state" where
  "rearm_submit sys port sock old new_afd_events = do {
     k \<leftarrow> sock_read sock id;
     listening \<leftarrow> waiter_listening port;
     (r, wake) \<leftarrow> (if sk_poll_status k = EP_POLL_IDLE \<and>
         (new_afd_events \<noteq> 0 \<or> sk_local_shutdown k \<noteq> 0) \<and> listening
       then resubmit_changed sys sock (restore_classes sock old) else return (0, False));
     when_do (r = 0) (bump_generation port);
     return (r, wake)
   }"

definition ep_sock_rearm_classes_locked ::
  "('os, 'y) ep_port_sys_scheme \<Rightarrow> addr \<Rightarrow> addr \<Rightarrow> uint8 \<Rightarrow> (('os, 'z) ep_world_scheme, int \<times> bool) state" where
  "ep_sock_rearm_classes_locked sys port sock classes = do {
     old \<leftarrow> sock_read sock id;
     let new_disarmed = sk_explicit_disarmed_classes old AND NOT classes;
     if sk_ready_queued old then do { ep_set_errno EBUSY; return (- 1, False) }
     else if new_disarmed = sk_explicit_disarmed_classes old then return (0, False)
     else do {
       let rearm_oneshot = (sk_oneshot_fired old \<and> new_disarmed = 0);
       when_do (has_class classes (EP_READINESS_CLASS_READ OR EP_READINESS_CLASS_TERMINAL))
         (sock_upd sock (\<lambda>k. k \<lparr> sk_udp_readless_receive_parked := False \<rparr>));
       if sk_oneshot_fired old \<and> \<not> rearm_oneshot then do {
         sock_upd sock (\<lambda>k. k \<lparr> sk_explicit_disarmed_classes := new_disarmed,
           sk_observed_events := ep_readiness_filter_classes (sk_observed_events k) classes,
           sk_et_holdoff := False \<rparr>);
         bump_generation port;
         return (0, False)
       } else do {
         when_do rearm_oneshot (sock_upd sock (\<lambda>k. k \<lparr> sk_udp_readless_receive_parked := False \<rparr>));
         parked \<leftarrow> sock_read sock sk_udp_readless_receive_parked;
         new_afd_events \<leftarrow> ep_sock_afd_events_for_state_locked sock (sk_user_events old) parked new_disarmed;
         covers \<leftarrow> rearm_pending sys sock rearm_oneshot new_afd_events;
         (case covers of
           None \<Rightarrow> do {
             sock_upd sock (\<lambda>k. k \<lparr> sk_udp_readless_receive_parked := sk_udp_readless_receive_parked old \<rparr>);
             return (- 1, False)
           }
         | Some c \<Rightarrow> do {
             rearm_fields port sock classes new_disarmed rearm_oneshot c new_afd_events;
             rearm_submit sys port sock old new_afd_events
           })
       }
     }
   }"

text \<open>The class word of the public call: none or unknown classes are refused.\<close>

definition rearm_classes_ok :: "uint32 \<Rightarrow> bool" where
  "rearm_classes_ok classes \<longleftrightarrow> classes \<noteq> 0 \<and> classes AND NOT WEPOLL_EX_REARM_ALL = 0"

definition rearm_found ::
  "('os, 'y) ep_port_sys_scheme \<Rightarrow> addr \<Rightarrow> sock_fd \<Rightarrow> uint32 \<Rightarrow> (('os, 'z) ep_world_scheme, int \<times> bool) state" where
  "rearm_found sys port fd classes = do {
     found \<leftarrow> ep_fd_table_lookup port fd;
     (case found of
       None \<Rightarrow> do { r \<leftarrow> ep_target_fail_absent sys fd; return (r, False) }
     | Some sock \<Rightarrow> do {
         valid \<leftarrow> ep_sock_validate_control_locked sys port sock;
         if valid \<noteq> 0 then return (- 1, False)
         else do {
           explicit \<leftarrow> ep_explicit_rearm_enabled sock;
           if \<not> explicit then do { ep_set_errno EOPNOTSUPP; return (- 1, False) }
           else ep_sock_rearm_classes_locked sys port sock (ucast classes)
         }
       })
   }"

definition ep_port_rearm_classes ::
  "('os, 'y) ep_port_sys_scheme \<Rightarrow> addr \<Rightarrow> sock_fd \<Rightarrow> uint32 \<Rightarrow> (('os, 'z) ep_world_scheme, int) state" where
  "ep_port_rearm_classes sys port fd classes =
    (if \<not> rearm_classes_ok classes then do { ep_set_errno EINVAL; return (- 1) }
     else do {
       (r, wake) \<leftarrow> rearm_found sys port fd classes;
       if r = 0 \<and> wake then wake_waiter sys port else return r
     })"

text \<open>The batch: entries are handled in chunks of 64 under the lock.  The state of the loop is the list
  of errors so far and the first error.\<close>

definition rearm_entry ::
  "('os, 'y) ep_port_sys_scheme \<Rightarrow> addr \<Rightarrow> sock_fd \<Rightarrow> uint32 \<Rightarrow> (('os, 'z) ep_world_scheme, int \<times> bool) state" where
  "rearm_entry sys port fd classes = do {
     closing \<leftarrow> port_read port pt_closing;
     if closing \<or> fd = INVALID_SOCKET then do { ep_set_errno EBADF; return (- 1, False) }
     else if \<not> rearm_classes_ok classes then do { ep_set_errno EINVAL; return (- 1, False) }
     else rearm_found sys port fd classes
   }"

definition note_failure ::
  "wepoll_ex_error_info option \<Rightarrow> bool \<Rightarrow> (('os, 'z) ep_world_scheme, wepoll_ex_error_info option) state" where
  "note_failure first_error failing = (if failing \<and> first_error = None
     then do { i \<leftarrow> ep_get_last_error_info; return (Some i) } else return first_error)"

primrec rearm_chunk ::
  "('os, 'y) ep_port_sys_scheme \<Rightarrow> addr \<Rightarrow> (sock_fd \<times> uint32) list \<Rightarrow> wepoll_ex_error_info option \<Rightarrow> bool \<Rightarrow>
   (('os, 'z) ep_world_scheme, int list \<times> wepoll_ex_error_info option \<times> bool) state" where
  "rearm_chunk sys port [] first_error wake = return ([], first_error, wake)"
| "rearm_chunk sys port (e # es) first_error wake = do {
     (r, w) \<leftarrow> rearm_entry sys port (fst e) (snd e);
     last \<leftarrow> ep_last_err;
     f \<leftarrow> note_failure first_error (r \<noteq> 0);
     (errors, f', wake') \<leftarrow> rearm_chunk sys port es f (wake \<or> w);
     return ((if r = 0 then 0 else last) # errors, f', wake')
   }"

abbreviation (input) REARM_CHUNK_SIZE :: nat where "REARM_CHUNK_SIZE \<equiv> 64"

function rearm_batch ::
  "('os, 'y) ep_port_sys_scheme \<Rightarrow> addr \<Rightarrow> (sock_fd \<times> uint32) list \<Rightarrow> wepoll_ex_error_info option \<Rightarrow>
   (('os, 'z) ep_world_scheme, int list \<times> wepoll_ex_error_info option) state" where
  "rearm_batch sys port es first_error =
    (if es = [] then return ([], first_error)
     else do {
       (errors, f, wake) \<leftarrow> rearm_chunk sys port (take REARM_CHUNK_SIZE es) first_error False;
       r \<leftarrow> (if wake then wake_waiter sys port else return 0);
       f' \<leftarrow> note_failure f (r \<noteq> 0);
       (rest, f'') \<leftarrow> rearm_batch sys port (drop REARM_CHUNK_SIZE es) f';
       return (errors @ rest, f'')
     })"
  by pat_completeness auto
termination
  by (relation "measure (\<lambda>(_, _, es, _). length es)") (auto simp: not_less Suc_le_eq)

text \<open>The return value and the error of each entry.\<close>

definition ep_port_rearm_classes_batch ::
  "('os, 'y) ep_port_sys_scheme \<Rightarrow> addr \<Rightarrow> (sock_fd \<times> uint32) list \<Rightarrow> (('os, 'z) ep_world_scheme, int \<times> int list) state" where
  "ep_port_rearm_classes_batch sys port batch = do {
     (errors, first_error) \<leftarrow> rearm_batch sys port batch None;
     (case first_error of
       Some i \<Rightarrow> do { ep_restore_last_error_info i; return (- 1, errors) }
     | None \<Rightarrow> return (0, errors))
   }"

text \<open>Rearming a fired one-shot registration.\<close>

definition rearm_oneshot_fields :: "addr \<Rightarrow> addr \<Rightarrow> (('os, 'z) ep_world_scheme, unit) state" where
  "rearm_oneshot_fields port sock = do {
     k \<leftarrow> sock_read sock id;
     when_do (sk_ready_queued k \<and> ep_waitable_may_consume k \<and>
         sk_pending_events k AND NOT (EPOLLERR OR EPOLLHUP) \<noteq> 0)
       (sock_upd sock (\<lambda>k. k \<lparr> sk_waitable_notification_owned := True \<rparr>));
     ep_sock_set_oneshot_fired_locked sock False;
     sock_upd sock (\<lambda>k. k \<lparr> sk_pending_events := 0, sk_observed_events := 0, sk_pipe_terminal_delivered := False,
       sk_et_holdoff := False, sk_udp_readless_receive_parked := False \<rparr>);
     ep_sock_set_needs_rearm_locked sock True;
     sock_upd sock (\<lambda>k. k \<lparr> sk_ready_queued := False \<rparr>);
     next_generation port sock
   }"

definition restore_oneshot :: "addr \<Rightarrow> ep_sock \<Rightarrow> (('os, 'z) ep_world_scheme, unit) state" where
  "restore_oneshot sock old = do {
     sock_upd sock (\<lambda>k. k \<lparr> sk_pending_events := sk_pending_events old, sk_observed_events := sk_observed_events old \<rparr>);
     ep_sock_restore_worklist_state_locked sock (sk_needs_rearm old) (sk_oneshot_fired old);
     sock_upd sock (\<lambda>k. k \<lparr> sk_pipe_terminal_delivered := sk_pipe_terminal_delivered old,
       sk_et_holdoff := sk_et_holdoff old, sk_udp_readless_receive_parked := sk_udp_readless_receive_parked old,
       sk_waitable_notification_owned := sk_waitable_notification_owned old,
       sk_base_socket := sk_base_socket old, sk_endpoint_id := sk_endpoint_id old,
       sk_endpoint_id_state := sk_endpoint_id_state old, sk_generation := sk_generation old,
       sk_ready_queued := sk_ready_queued old, sk_state := sk_state old \<rparr>)
   }"

definition rearm_oneshot_locked ::
  "('os, 'y) ep_port_sys_scheme \<Rightarrow> addr \<Rightarrow> addr \<Rightarrow> (('os, 'z) ep_world_scheme, int \<times> bool) state" where
  "rearm_oneshot_locked sys port sock = do {
     old \<leftarrow> sock_read sock id;
     if \<not> sk_oneshot_fired old then return (0, False)
     else do {
       rearm_oneshot_fields port sock;
       listening \<leftarrow> waiter_listening port;
       (r, wake) \<leftarrow> (if listening then resubmit_changed sys sock (restore_oneshot sock old)
         else return (0, False));
       when_do (r = 0) (bump_generation port);
       return (r, wake)
     }
   }"

definition ep_port_rearm ::
  "('os, 'y) ep_port_sys_scheme \<Rightarrow> addr \<Rightarrow> sock_fd \<Rightarrow> (('os, 'z) ep_world_scheme, int) state" where
  "ep_port_rearm sys port fd = do {
     found \<leftarrow> ep_fd_table_lookup port fd;
     (case found of
       None \<Rightarrow> ep_target_fail_absent sys fd
     | Some sock \<Rightarrow> do {
         valid \<leftarrow> ep_sock_validate_control_locked sys port sock;
         if valid \<noteq> 0 then return (- 1)
         else do {
           explicit \<leftarrow> ep_explicit_rearm_enabled sock;
           (r, wake) \<leftarrow> (if explicit then ep_sock_rearm_classes_locked sys port sock (ucast WEPOLL_EX_REARM_ALL)
             else rearm_oneshot_locked sys port sock);
           if r = 0 \<and> wake then wake_waiter sys port else return r
         }
       })
   }"

end
