(* ===== verification/Ep_Wait.thy ===== *)
theory Ep_Wait
  imports Ep_Control Ep_Api
begin

text \<open>
  Waiting on a port, \<^verbatim>\<open>src/src/wepoll_ex_port.c\<close>: draining the ready queue into the caller's array,
  dispatching completion packets and the wait loop.
\<close>

section \<open>Draining the ready queue\<close>

abbreviation (input) EP_WAIT_COALESCE_THRESHOLD :: nat where "EP_WAIT_COALESCE_THRESHOLD \<equiv> 4096"

text \<open>Taking one node from the queue of a port.\<close>

definition queue_pop :: "addr \<Rightarrow> (('os, 'z) ep_world_scheme, addr option) state" where
  "queue_pop port = do {
     q \<leftarrow> port_read port pt_ready_queue;
     port_upd port (\<lambda>p. p \<lparr> pt_ready_queue := snd (ep_ready_drain 1 q) \<rparr>);
     return (fst (ep_ready_drain 1 q))
   }"

text \<open>Whether the node belongs to a live registration of the same generation, and that registration.\<close>

definition node_owner ::
  "addr \<Rightarrow> ep_ready_node \<Rightarrow> (('os, 'z) ep_world_scheme, addr option) state" where
  "node_owner port n = do {
     found \<leftarrow> ep_fd_table_lookup port (rn_fd n);
     (case found of
       None \<Rightarrow> return None
     | Some sock \<Rightarrow> do {
         k \<leftarrow> sock_read sock id;
         return (if sk_generation k = rn_sock_generation n \<and> \<not> sk_delete_pending k then Some sock else None)
       })
   }"

text \<open>The registration after its node is delivered.\<close>

definition drain_registration ::
  "('os, 'y) ep_port_sys_scheme \<Rightarrow> addr \<Rightarrow> ep_ready_node \<Rightarrow> (('os, 'z) ep_world_scheme, unit) state" where
  "drain_registration sys sock n = do {
     k \<leftarrow> sock_read sock id;
     let et = tests (sk_user_flags k) EPOLLET;
     let pipe_et = (sk_kind k = EP_REG_PIPE \<and> et);
     snapshot \<leftarrow> (if pipe_et then ep_pipe_snapshot sys k else return pipe_snapshot_zero);
     let final_pipe_et = (pipe_et \<and> pn_valid snapshot \<and> \<not> pn_local_closed snapshot \<and>
       pn_events snapshot = rn_events n \<and> ep_pipe_et_snapshot_is_final k (rn_events n) snapshot);
     sock_upd sock (\<lambda>k. k \<lparr> sk_pending_events := 0 \<rparr>);
     sock_upd sock (\<lambda>k. k \<lparr> sk_ready_queued := False \<rparr>);
     sock_upd sock (\<lambda>k. k \<lparr> sk_state := EP_SOCK_REGISTERED \<rparr>);
     when_do pipe_et (sock_upd sock (\<lambda>k. k \<lparr> sk_pipe_terminal_delivered :=
       ep_pipe_et_events_have_final_shape k (rn_events n) \<rparr>));
     when_do (sk_kind k = EP_REG_WAITABLE \<and> et \<and> sk_waitable_semantics k = EP_WAITABLE_CONSUMPTIVE \<or>
         pipe_et \<and> pn_valid snapshot \<and> \<not> pn_local_closed snapshot \<and> pn_events snapshot = 0)
       (sock_upd sock (\<lambda>k. k \<lparr> sk_observed_events := 0 \<rparr>));
     when_do (\<not> sk_oneshot_fired k \<and>
         \<not> (sk_kind k = EP_REG_WAITABLE \<and> et \<and> sk_waitable_semantics k = EP_WAITABLE_TERMINAL) \<and>
         \<not> final_pipe_et) (do {
       sock_upd sock (\<lambda>k. k \<lparr> sk_et_holdoff := False \<rparr>);
       explicit \<leftarrow> ep_explicit_rearm_enabled sock;
       nothing \<leftarrow> (if explicit then do {
           mask \<leftarrow> ep_sock_afd_events_locked sock (sk_user_events k);
           return (mask = 0)
         } else return False);
       ep_sock_set_needs_rearm_locked sock (\<not> nothing)
     })
   }"

text \<open>Whether a node is delivered; a stale one is dropped, a replaced registration retired.\<close>

definition drain_node ::
  "('os, 'y) ep_port_sys_scheme \<Rightarrow> addr \<Rightarrow> ep_ready_node \<Rightarrow> bool \<Rightarrow> (('os, 'z) ep_world_scheme, bool) state" where
  "drain_node sys port n coalesce = do {
     owner \<leftarrow> node_owner port n;
     (case owner of
       None \<Rightarrow> do {
         port_upd port (\<lambda>q. q \<lparr> pt_stale_events_dropped := pt_stale_events_dropped q + 1 \<rparr>);
         return False
       }
     | Some sock \<Rightarrow> do {
         check \<leftarrow> ep_sock_validate_identity_for_delivery_locked sys port sock;
         if check = EP_IDENTITY_STALE \<or> check = EP_IDENTITY_CLOSED then do {
           ep_sock_retire_stale_locked sys port sock;
           return False
         } else do {
           drain_registration sys sock n;
           when_do coalesce (port_upd port (\<lambda>q. q \<lparr> pt_waiter_coalescing := True \<rparr>));
           return True
         }
       })
   }"

definition node_output :: "bool \<Rightarrow> ep_ready_node \<Rightarrow> wait_output" where
  "node_output basic_events n =
    (if basic_events then Basic_Event \<lparr> ev_events = rn_events n, ev_data = rn_data n \<rparr>
     else Extended_Event \<lparr> ex_events = rn_events n, ex_data = rn_data n, ex_flags = rn_flags n,
       ex_timestamp = rn_timestamp n, ex_user_ctx = rn_user_ctx n \<rparr>)"

text \<open>The loop; its bound is the number of nodes that were queued.  The result is what was written to
  the caller's array, in order.\<close>

primrec drain_loop ::
  "nat \<Rightarrow> ('os, 'y) ep_port_sys_scheme \<Rightarrow> addr \<Rightarrow> nat \<Rightarrow> bool \<Rightarrow> wait_output list \<Rightarrow>
   (('os, 'z) ep_world_scheme, wait_output list) state" where
  "drain_loop 0 sys port maxevents basic_events out =
    (if length out < maxevents then do {
       node \<leftarrow> queue_pop port;
       when_do (node \<noteq> None) bad_access;
       return out
     } else return out)"
| "drain_loop (Suc fuel) sys port maxevents basic_events out =
    (if length out < maxevents then do {
       node \<leftarrow> queue_pop port;
       (case node of
         None \<Rightarrow> return out
       | Some a \<Rightarrow> do {
           n \<leftarrow> gets (\<lambda>s. ready_nodes_mem s a);
           valid \<leftarrow> drain_node sys port n (out = [] \<and> maxevents > EP_WAIT_COALESCE_THRESHOLD);
           ep_ready_node_free sys (Some port) (Some a);
           drain_loop fuel sys port maxevents basic_events (if valid then out @ [node_output basic_events n] else out)
         })
     } else return out)"

definition ep_drain_to_buffer ::
  "('os, 'y) ep_port_sys_scheme \<Rightarrow> addr \<Rightarrow> nat \<Rightarrow> bool \<Rightarrow> (('os, 'z) ep_world_scheme, wait_output list) state" where
  "ep_drain_to_buffer sys port maxevents basic_events = do {
     queued \<leftarrow> port_read port (\<lambda>q. rq_queued (pt_ready_queue q));
     drain_loop queued sys port maxevents basic_events []
   }"

section \<open>Dispatching packets\<close>

text \<open>A packet: its key, its overlapped structure and the number of bytes.  The overlapped structure of
  a registration is its embedded status block and stands for the registration's address; that of the
  port's deadline is embedded in the port and stands for the port's address.\<close>

type_synonym iocp_entry = "uint64 \<times> addr option \<times> dword"

definition precise_timeout_overlapped :: "addr \<Rightarrow> addr" where
  "precise_timeout_overlapped port = port"

text \<open>Taking packets from the completion port.  By the time a packet of a kernel request is taken the
  kernel has stored the status of the request and its output; \<open>nt_io_result\<close> says what it stored.  A packet
  the program posted itself has no such result.\<close>

definition kernel_stores :: "addr \<Rightarrow> ntstatus \<Rightarrow> afd_poll_info \<Rightarrow> (('os, 'z) ep_world_scheme, unit) state" where
  "kernel_stores sock status output = do {
     sock_upd sock (\<lambda>k. k \<lparr> sk_iosb_status := status \<rparr>);
     info \<leftarrow> sock_read sock sk_afd_info;
     (case info of None \<Rightarrow> skip | Some i \<Rightarrow> info_upd i (\<lambda>_. output))
   }"

primrec kernel_results ::
  "('os, 'y) ep_port_sys_scheme \<Rightarrow> iocp_entry list \<Rightarrow> (('os, 'z) ep_world_scheme, unit) state" where
  "kernel_results sys [] = skip"
| "kernel_results sys (e # es) = do {
     os \<leftarrow> gets os_state;
     (case fst (snd e) of
       None \<Rightarrow> skip
     | Some a \<Rightarrow> (case nt_io_result sys a os of
         None \<Rightarrow> skip
       | Some (status, output) \<Rightarrow> kernel_stores a status output));
     kernel_results sys es
   }"

definition dequeue_packets ::
  "('os, 'y) ep_port_sys_scheme \<Rightarrow> addr \<Rightarrow> dword \<Rightarrow> (('os, 'z) ep_world_scheme, iocp_entry list option) state" where
  "dequeue_packets sys port wait_ms = do {
     iocp \<leftarrow> port_read port pt_iocp;
     batch_size \<leftarrow> port_read port pt_iocp_batch_size;
     packets \<leftarrow> syscall (win_GetQueuedCompletionStatusEx sys iocp batch_size wait_ms);
     (case packets of
       None \<Rightarrow> return None
     | Some es \<Rightarrow> do { kernel_results sys es; return (Some es) })
   }"

definition ep_port_dispatch_iocp_entry ::
  "('os, 'y) ep_port_sys_scheme \<Rightarrow> addr \<Rightarrow> iocp_entry \<Rightarrow> uint64 \<Rightarrow> (('os, 'z) ep_world_scheme, bool) state" where
  "ep_port_dispatch_iocp_entry sys port entry timeout_generation = (case entry of
      (key, overlapped, bytes) \<Rightarrow> (case overlapped of
        None \<Rightarrow> return False
      | Some a \<Rightarrow>
          if a = precise_timeout_overlapped port then return (timeout_generation \<noteq> 0 \<and> key = timeout_generation)
          else do {
            status \<leftarrow> sock_read a sk_iosb_status;
            ep_sock_handle_completion sys a status;
            return False
          }))"

primrec dispatch_all ::
  "('os, 'y) ep_port_sys_scheme \<Rightarrow> addr \<Rightarrow> iocp_entry list \<Rightarrow> uint64 \<Rightarrow> (('os, 'z) ep_world_scheme, bool) state" where
  "dispatch_all sys port [] timeout_generation = return False"
| "dispatch_all sys port (e # es) timeout_generation = do {
     p \<leftarrow> ep_port_dispatch_iocp_entry sys port e timeout_generation;
     q \<leftarrow> dispatch_all sys port es timeout_generation;
     return (p \<or> q)
   }"

section \<open>The wait loop\<close>

abbreviation (input) EP_ZERO_TIMEOUT_DRAIN_BUDGET_MS :: uint64 where "EP_ZERO_TIMEOUT_DRAIN_BUDGET_MS \<equiv> 10"
abbreviation (input) EP_ZERO_TIMEOUT_MIN_DEQUEUES :: nat where "EP_ZERO_TIMEOUT_MIN_DEQUEUES \<equiv> 16"
abbreviation (input) EP_WAIT_COALESCE_BUDGET_MS :: uint64 where "EP_WAIT_COALESCE_BUDGET_MS \<equiv> 10"
abbreviation (input) EP_WAIT_COALESCE_MIN_DEQUEUES :: nat where "EP_WAIT_COALESCE_MIN_DEQUEUES \<equiv> 64"
abbreviation (input) EP_WAIT_COALESCE_MAX_DEQUEUES :: nat where "EP_WAIT_COALESCE_MAX_DEQUEUES \<equiv> 128"
abbreviation (input) EP_DEFERRED_REARM_RETRY_MS :: dword where "EP_DEFERRED_REARM_RETRY_MS \<equiv> 1"

text \<open>The arguments of a wait and the deadline of a wait with timeout zero.\<close>

record wait_call =
  wc_maxevents :: nat
  wc_basic :: bool
  wc_timeout :: ep_wait_timeout
  wc_zero_deadline :: uint64

text \<open>The variables of the loop.\<close>

record wait_vars =
  wv_state :: ep_wait_state
  wv_zero_dequeues :: nat

definition zero_timeout :: "wait_call \<Rightarrow> bool" where
  "zero_timeout c \<longleftrightarrow> \<not> wt_infinite (wc_timeout c) \<and> wt_milliseconds (wc_timeout c) = 0"

definition positive_timeout :: "wait_call \<Rightarrow> bool" where
  "positive_timeout c \<longleftrightarrow> \<not> wt_infinite (wc_timeout c) \<and> wt_milliseconds (wc_timeout c) \<noteq> 0"

text \<open>A pass either ends the wait with a return value and the events written, or goes on.\<close>

datatype wait_step = Wait_Done int "wait_output list" | Wait_Again

definition wait_fail :: "int \<Rightarrow> (('os, 'z) ep_world_scheme, wait_step) state" where
  "wait_fail error = do { ep_set_errno error; return (Wait_Done (- 1) []) }"

text \<open>The errors of the completion port: \<open>Some e\<close> ends the wait with error \<open>e\<close>.\<close>

definition port_failed :: "addr \<Rightarrow> (('os, 'z) ep_world_scheme, int option) state" where
  "port_failed port = do {
     post_error \<leftarrow> ep_port_take_iocp_post_error port;
     if post_error \<noteq> 0 then return (Some post_error)
     else do {
       closing \<leftarrow> port_read port pt_closing;
       if \<not> closing then return None
       else do {
         again \<leftarrow> ep_port_take_iocp_post_error port;
         return (Some (if again \<noteq> 0 then again else EBADF))
       }
     }
   }"

definition zero_budget_hit :: "addr \<Rightarrow> (('os, 'z) ep_world_scheme, unit) state" where
  "zero_budget_hit port =
     port_upd port (\<lambda>q. q \<lparr> pt_zero_timeout_budget_hits := pt_zero_timeout_budget_hits q + 1 \<rparr>)"

text \<open>Whether a wait with timeout zero has used up its budget.\<close>

definition zero_exhausted ::
  "('os, 'y) ep_port_sys_scheme \<Rightarrow> wait_call \<Rightarrow> nat \<Rightarrow> (('os, 'z) ep_env_scheme, bool) state" where
  "zero_exhausted sys c dequeues =
    (if zero_timeout c \<and> dequeues \<ge> EP_ZERO_TIMEOUT_MIN_DEQUEUES then do {
       now \<leftarrow> syscall (win_GetTickCount64 sys);
       return (now \<ge> wc_zero_deadline c)
     } else return False)"

text \<open>Filling the rest of a large array from packets that are already queued.\<close>

primrec coalesce_loop ::
  "nat \<Rightarrow> ('os, 'y) ep_port_sys_scheme \<Rightarrow> addr \<Rightarrow> wait_call \<Rightarrow> uint64 \<Rightarrow> uint64 \<Rightarrow> nat \<Rightarrow> nat \<Rightarrow> wait_output list \<Rightarrow>
   (('os, 'z) ep_world_scheme, wait_output list) state" where
  "coalesce_loop 0 sys port c generation deadline dequeues zero_dequeues out = return out"
| "coalesce_loop (Suc n) sys port c generation deadline dequeues zero_dequeues out =
    (if \<not> (wc_maxevents c > EP_WAIT_COALESCE_THRESHOLD \<and> length out < wc_maxevents c) then return out
     else do {
       fault \<leftarrow> ep_fault_hit EP_FAULT_IOCP_DEQUEUE;
       if fault \<noteq> 0 then do {
         error \<leftarrow> ep_last_err;
         ep_port_record_async_error_locked sys port error;
         return out
       } else do {
         packets \<leftarrow> dequeue_packets sys port 0;
         (case packets of
           None \<Rightarrow> do {
             error \<leftarrow> syscall (win_GetLastError sys);
             when_do (error \<noteq> WAIT_TIMEOUT)
               (ep_port_record_async_error_locked sys port (ep_winerr_to_errno error));
             return out
           }
         | Some es \<Rightarrow>
             if es = [] then return out
             else do {
               _ \<leftarrow> dispatch_all sys port es generation;
               more \<leftarrow> ep_drain_to_buffer sys port (wc_maxevents c - length out) (wc_basic c);
               let out' = out @ more;
               let zero' = (if zero_timeout c then zero_dequeues + 1 else zero_dequeues);
               exhausted \<leftarrow> zero_exhausted sys c zero';
               if exhausted then do { zero_budget_hit port; return out' }
               else do {
                 closing \<leftarrow> port_read port pt_closing;
                 if closing then return out'
                 else do {
                   late \<leftarrow> (if dequeues + 1 \<ge> EP_WAIT_COALESCE_MIN_DEQUEUES then do {
                       now \<leftarrow> syscall (win_GetTickCount64 sys);
                       return (now \<ge> deadline)
                     } else return False);
                   if late then return out'
                   else coalesce_loop n sys port c generation deadline (dequeues + 1) zero' out'
                 }
               }
             })
       }
     })"

definition wait_coalesce ::
  "('os, 'y) ep_port_sys_scheme \<Rightarrow> addr \<Rightarrow> wait_call \<Rightarrow> wait_vars \<Rightarrow> wait_output list \<Rightarrow>
   (('os, 'z) ep_world_scheme, wait_step) state" where
  "wait_coalesce sys port c v out = do {
     now \<leftarrow> syscall (win_GetTickCount64 sys);
     out' \<leftarrow> coalesce_loop EP_WAIT_COALESCE_MAX_DEQUEUES sys port c (ws_timeout_generation (wv_state v))
       (now + EP_WAIT_COALESCE_BUDGET_MS) 0 (wv_zero_dequeues v) out;
     return (Wait_Done (int (length out')) out')
   }"

text \<open>A failed pass over the deferred work, when no event is ready.\<close>

definition arm_failed :: "addr \<Rightarrow> int \<Rightarrow> (('os, 'z) ep_world_scheme, wait_step) state" where
  "arm_failed port arm_error = do {
     post_error \<leftarrow> ep_port_take_iocp_post_error port;
     reported \<leftarrow> ep_port_take_async_error_locked port;
     wait_fail (if reported \<noteq> 0 then reported else if post_error \<noteq> 0 then post_error else arm_error)
   }"

text \<open>Whether a wait with a positive timeout has reached it.\<close>

definition wait_past ::
  "('os, 'y) ep_port_sys_scheme \<Rightarrow> wait_call \<Rightarrow> ep_wait_state \<Rightarrow> (('os, 'z) ep_env_scheme, bool) state" where
  "wait_past sys c ws = (if positive_timeout c then ep_wait_expired sys ws else return False)"

text \<open>The precise deadline is set up at most once.\<close>

definition wait_attempt_precise ::
  "('os, 'y) ep_port_sys_scheme \<Rightarrow> addr \<Rightarrow> wait_call \<Rightarrow> ep_wait_state \<Rightarrow>
   (('os, 'z) ep_world_scheme, ep_wait_state) state" where
  "wait_attempt_precise sys port c ws =
    (if wt_precise (wc_timeout c) \<and> \<not> wt_infinite (wc_timeout c) \<and>
        wt_intervals_100ns (wc_timeout c) \<noteq> 0 \<and> \<not> ws_precise_attempted ws
     then do {
       enabled \<leftarrow> (if ws_precise_clock ws then ep_port_precise_timeout_initialize sys port else return False);
       return (ws \<lparr> ws_precise_attempted := True, ws_precise_enabled := (enabled \<or> ws_precise_enabled ws) \<rparr>)
     } else return ws)"

text \<open>The state of the wait before it blocks, and whether its time is up.\<close>

definition wait_deadline ::
  "('os, 'y) ep_port_sys_scheme \<Rightarrow> addr \<Rightarrow> wait_call \<Rightarrow> ep_wait_state \<Rightarrow>
   (('os, 'z) ep_world_scheme, ep_wait_state \<times> bool) state" where
  "wait_deadline sys port c ws0 = do {
     ws \<leftarrow> wait_attempt_precise sys port c ws0;
     past \<leftarrow> wait_past sys c ws;
     if past then return (ws, True)
     else if \<not> (ws_precise_enabled ws \<and> ws_timeout_generation ws = 0) then return (ws, False)
     else do {
       remaining \<leftarrow> ep_wait_remaining_100ns sys ws;
       if remaining = 0 then return (ws, True)
       else do {
         generation \<leftarrow> ep_port_precise_timeout_arm sys port remaining;
         let ws = ws \<lparr> ws_timeout_generation := generation \<rparr>;
         if generation \<noteq> 0 then return (ws, False)
         else do {
           let ws = ws \<lparr> ws_precise_enabled := False \<rparr>;
           late \<leftarrow> wait_past sys c ws;
           return (ws, late)
         }
       }
     }
   }"

text \<open>The time to block for, and whether it is the short retry of a deferred rearm.\<close>

definition wait_interval ::
  "('os, 'y) ep_port_sys_scheme \<Rightarrow> addr \<Rightarrow> wait_call \<Rightarrow> ep_wait_state \<Rightarrow> bool \<Rightarrow>
   (('os, 'z) ep_world_scheme, dword \<times> bool) state" where
  "wait_interval sys port c ws deferred_rearm = do {
     backstop \<leftarrow> ep_wait_backstop_milliseconds sys ws;
     let short = (deferred_rearm \<and> (wt_infinite (wc_timeout c) \<or> wt_milliseconds (wc_timeout c) \<noteq> 0) \<and>
       (backstop = INFINITE \<or> backstop > EP_DEFERRED_REARM_RETRY_MS));
     pending \<leftarrow> port_read port pt_wake_pending;
     return (if pending \<noteq> EP_WAKE_NONE then (0, False)
             else if short then (EP_DEFERRED_REARM_RETRY_MS, True) else (backstop, False))
   }"

text \<open>A wake-up ends the wait with its event, if it carries one.\<close>

definition taken_wake :: "wait_output option \<Rightarrow> wait_step" where
  "taken_wake e = (case e of None \<Rightarrow> Wait_Done 0 [] | Some out \<Rightarrow> Wait_Done 1 [out])"

text \<open>The dequeue failed.\<close>

definition wait_no_packet ::
  "('os, 'y) ep_port_sys_scheme \<Rightarrow> addr \<Rightarrow> wait_call \<Rightarrow> wait_vars \<Rightarrow> bool \<Rightarrow> (('os, 'z) ep_world_scheme, wait_step) state" where
  "wait_no_packet sys port c v deferred_rearm_wait = do {
     error \<leftarrow> syscall (win_GetLastError sys);
     post_error \<leftarrow> ep_port_take_iocp_post_error port;
     if post_error \<noteq> 0 then wait_fail post_error
     else if error \<noteq> WAIT_TIMEOUT then do { ep_set_win32_error error; return (Wait_Done (- 1) []) }
     else do {
       wake \<leftarrow> ep_port_take_wake sys port (wc_basic c);
       (case wake of
         Some e \<Rightarrow> return (taken_wake e)
       | None \<Rightarrow>
           if deferred_rearm_wait then do {
             ep_port_release_deferred_rearms_locked port;
             return Wait_Again
           } else do {
             expired \<leftarrow> ep_wait_expired sys (wv_state v);
             if expired then return (Wait_Done 0 [])
             else do {
               syscall (win_Sleep sys (if ws_precise_enabled (wv_state v) then 0 else 1));
               return Wait_Again
             }
           })
     }
   }"

text \<open>Packets were dispatched and nothing is ready: the other reasons to end the wait.\<close>

definition wait_after_dispatch ::
  "('os, 'y) ep_port_sys_scheme \<Rightarrow> addr \<Rightarrow> wait_call \<Rightarrow> wait_vars \<Rightarrow> bool \<Rightarrow> (('os, 'z) ep_world_scheme, wait_step) state" where
  "wait_after_dispatch sys port c v timeout_packet = do {
     post_error \<leftarrow> ep_port_take_iocp_post_error port;
     if post_error \<noteq> 0 then wait_fail post_error
     else do {
       async_error \<leftarrow> ep_port_take_async_error_locked port;
       if async_error \<noteq> 0 then wait_fail async_error
       else do {
         closing \<leftarrow> port_read port pt_closing;
         if closing then do {
           again \<leftarrow> ep_port_take_iocp_post_error port;
           wait_fail (if again \<noteq> 0 then again else EBADF)
         } else do {
           wake \<leftarrow> ep_port_take_wake sys port (wc_basic c);
           (case wake of
             Some e \<Rightarrow> return (taken_wake e)
           | None \<Rightarrow> do {
               timed_out \<leftarrow> (if timeout_packet then ep_wait_expired sys (wv_state v) else return False);
               if timed_out then return (Wait_Done 0 [])
               else do {
                 exhausted \<leftarrow> zero_exhausted sys c (wv_zero_dequeues v);
                 if exhausted then do { zero_budget_hit port; return (Wait_Done 0 []) }
                 else do {
                   expired \<leftarrow> wait_past sys c (wv_state v);
                   return (if expired then Wait_Done 0 [] else Wait_Again)
                 }
               }
             })
         }
       }
     }
   }"

text \<open>The completion port was asked for packets.\<close>

definition wait_packets ::
  "('os, 'y) ep_port_sys_scheme \<Rightarrow> addr \<Rightarrow> wait_call \<Rightarrow> wait_vars \<Rightarrow> bool \<Rightarrow> iocp_entry list option \<Rightarrow>
   (('os, 'z) ep_world_scheme, wait_vars \<times> wait_step) state" where
  "wait_packets sys port c v deferred_rearm_wait packets = (case packets of
      None \<Rightarrow> do { r \<leftarrow> wait_no_packet sys port c v deferred_rearm_wait; return (v, r) }
    | Some es \<Rightarrow>
        if es = [] then do {
          wake \<leftarrow> ep_port_take_wake sys port (wc_basic c);
          (case wake of
            Some e \<Rightarrow> return (v, taken_wake e)
          | None \<Rightarrow> do {
              expired \<leftarrow> ep_wait_expired sys (wv_state v);
              return (v, if expired then Wait_Done 0 [] else Wait_Again)
            })
        } else do {
          timeout_packet \<leftarrow> dispatch_all sys port es (ws_timeout_generation (wv_state v));
          let v = v \<lparr> wv_zero_dequeues := wv_zero_dequeues v + (if zero_timeout c then 1 else 0) \<rparr>;
          out \<leftarrow> ep_drain_to_buffer sys port (wc_maxevents c) (wc_basic c);
          r \<leftarrow> (if out \<noteq> [] then wait_coalesce sys port c v out
               else wait_after_dispatch sys port c v timeout_packet);
          return (v, r)
        })"

text \<open>The blocking part of a pass.\<close>

definition wait_block ::
  "('os, 'y) ep_port_sys_scheme \<Rightarrow> addr \<Rightarrow> wait_call \<Rightarrow> wait_vars \<Rightarrow>
   (('os, 'z) ep_world_scheme, wait_vars \<times> wait_step) state" where
  "wait_block sys port c v0 = do {
     deferred_rearm \<leftarrow> ep_port_has_deferred_rearm_locked port;
     (ws, past) \<leftarrow> wait_deadline sys port c (wv_state v0);
     let v = v0 \<lparr> wv_state := ws \<rparr>;
     if past then return (v, Wait_Done 0 [])
     else do {
       (wait_ms, deferred_rearm_wait) \<leftarrow> wait_interval sys port c ws deferred_rearm;
       fault \<leftarrow> ep_fault_hit EP_FAULT_IOCP_DEQUEUE;
       if fault \<noteq> 0 then return (v, Wait_Done (- 1) [])
       else do {
         packets \<leftarrow> dequeue_packets sys port wait_ms;
         wait_packets sys port c v deferred_rearm_wait packets
       }
     }
   }"

text \<open>One pass of the loop: the variables after it and whether the wait ends.\<close>

definition wait_pass ::
  "('os, 'y) ep_port_sys_scheme \<Rightarrow> addr \<Rightarrow> wait_call \<Rightarrow> wait_vars \<Rightarrow>
   (('os, 'z) ep_world_scheme, wait_vars \<times> wait_step) state" where
  "wait_pass sys port c v = do {
     failed \<leftarrow> port_failed port;
     (case failed of
       Some error \<Rightarrow> do { r \<leftarrow> wait_fail error; return (v, r) }
     | None \<Rightarrow> do {
         out \<leftarrow> ep_drain_to_buffer sys port (wc_maxevents c) (wc_basic c);
         if out \<noteq> [] then do { r \<leftarrow> wait_coalesce sys port c v out; return (v, r) }
         else do {
           async_error \<leftarrow> ep_port_take_async_error_locked port;
           if async_error \<noteq> 0 then do { r \<leftarrow> wait_fail async_error; return (v, r) }
           else do {
             arm_result \<leftarrow> ep_port_arm_pending_locked sys port;
             if arm_result \<noteq> 0 then do {
               arm_error \<leftarrow> ep_last_err;
               out \<leftarrow> ep_drain_to_buffer sys port (wc_maxevents c) (wc_basic c);
               r \<leftarrow> (if out \<noteq> [] then return (Wait_Done (int (length out)) out)
                    else arm_failed port arm_error);
               return (v, r)
             } else do {
               out \<leftarrow> ep_drain_to_buffer sys port (wc_maxevents c) (wc_basic c);
               if out \<noteq> [] then do { r \<leftarrow> wait_coalesce sys port c v out; return (v, r) }
               else wait_block sys port c v
             }
           }
         }
       })
   }"

text \<open>The loop with a bound on its passes; \<open>None\<close> when the wait is still going on.\<close>

primrec wait_loop ::
  "nat \<Rightarrow> ('os, 'y) ep_port_sys_scheme \<Rightarrow> addr \<Rightarrow> wait_call \<Rightarrow> wait_vars \<Rightarrow>
   (('os, 'z) ep_world_scheme, (int \<times> wait_output list) option) state" where
  "wait_loop 0 sys port c v = return None"
| "wait_loop (Suc n) sys port c v = do {
     (v', r) \<leftarrow> wait_pass sys port c v;
     (case r of
       Wait_Done result out \<Rightarrow> do {
         when_do (ws_timeout_generation (wv_state v') \<noteq> 0) (ep_port_precise_timeout_disarm sys port);
         return (Some (result, out))
       }
     | Wait_Again \<Rightarrow> wait_loop n sys port c v')
   }"

text \<open>The checks at the start of a wait that holds the lock.\<close>

definition wait_begin :: "addr \<Rightarrow> (('os, 'z) ep_world_scheme, int option) state" where
  "wait_begin port = do {
     port_upd port (\<lambda>q. q \<lparr> pt_next_wait_epoch := pt_next_wait_epoch q + 1 \<rparr>);
     epoch \<leftarrow> port_read port pt_next_wait_epoch;
     when_do (epoch = 0) (port_upd port (\<lambda>q. q \<lparr> pt_next_wait_epoch := 1 \<rparr>));
     port_upd port (\<lambda>q. q \<lparr> pt_active_wait_epoch := pt_next_wait_epoch q \<rparr>);
     port_upd port (\<lambda>q. q \<lparr> pt_waiter_active := True \<rparr>);
     failed \<leftarrow> port_failed port;
     (case failed of
       Some error \<Rightarrow> return (Some error)
     | None \<Rightarrow> do {
         ep_port_release_deferred_rearms_locked port;
         deferred_error \<leftarrow> ep_port_take_async_error_locked port;
         return (if deferred_error \<noteq> 0 then Some deferred_error else None)
       })
   }"

definition wait_end :: "addr \<Rightarrow> (('os, 'z) ep_world_scheme, unit) state" where
  "wait_end port = do {
     port_upd port (\<lambda>q. q \<lparr> pt_waiter_coalescing := False \<rparr>);
     port_upd port (\<lambda>q. q \<lparr> pt_waiter_active := False \<rparr>);
     port_upd port (\<lambda>q. q \<lparr> pt_active_wait_epoch := 0 \<rparr>)
   }"

text \<open>The wait under the lock, with a bound on the passes of its loop.\<close>

definition wait_locked ::
  "nat \<Rightarrow> ('os, 'y) ep_port_sys_scheme \<Rightarrow> addr \<Rightarrow> wait_call \<Rightarrow> ep_wait_state \<Rightarrow>
   (('os, 'z) ep_world_scheme, (int \<times> wait_output list) option) state" where
  "wait_locked fuel sys port c ws = do {
     failed \<leftarrow> wait_begin port;
     (case failed of
       Some error \<Rightarrow> do { ep_set_errno error; wait_end port; return (Some (- 1, [])) }
     | None \<Rightarrow> do {
         r \<leftarrow> wait_loop fuel sys port c \<lparr> wv_state = ws, wv_zero_dequeues = 0 \<rparr>;
         (case r of
           None \<Rightarrow> return None
         | Some v \<Rightarrow> do { wait_end port; return (Some v) })
       })
   }"

text \<open>The caller's array is given by whether there is one; the result is the return value and what was
  written.\<close>

definition ep_port_wait_timeout_impl ::
  "nat \<Rightarrow> ('os, 'y) ep_port_sys_scheme \<Rightarrow> addr \<Rightarrow> bool \<Rightarrow> int \<Rightarrow> ep_wait_timeout option \<Rightarrow> bool \<Rightarrow>
   (('os, 'z) ep_world_scheme, (int \<times> wait_output list) option) state" where
  "ep_port_wait_timeout_impl fuel sys port has_out maxevents timeout_ptr basic_events =
    (if \<not> has_out \<or> timeout_ptr = None then do { ep_set_errno EFAULT; return (Some (- 1, [])) }
     else if maxevents \<le> 0 \<or> maxevents > (if basic_events then WEPOLL_EPOLL_MAX_EVENTS else WEPOLL_EPOLL_EX_MAX_EVENTS)
     then do { ep_set_errno EINVAL; return (Some (- 1, [])) }
     else do {
       let timeout = the timeout_ptr;
       ws \<leftarrow> ep_wait_state_initialize sys timeout;
       zero_deadline \<leftarrow> (if \<not> wt_infinite timeout \<and> wt_milliseconds timeout = 0 then do {
           now \<leftarrow> syscall (win_GetTickCount64 sys);
           return (now + EP_ZERO_TIMEOUT_DRAIN_BUDGET_MS)
         } else return 0);
       lock_result \<leftarrow> ep_wait_lock_acquire fuel sys port ws;
       (case lock_result of
         None \<Rightarrow> return None
       | Some l \<Rightarrow>
           if l = 0 then return (Some (0, []))
           else if l < 0 then return (Some (- 1, []))
           else wait_locked fuel sys port \<lparr> wc_maxevents = nat maxevents, wc_basic = basic_events,
             wc_timeout = timeout, wc_zero_deadline = zero_deadline \<rparr> ws)
     })"

definition ep_port_wait_timeout ::
  "nat \<Rightarrow> ('os, 'y) ep_port_sys_scheme \<Rightarrow> addr \<Rightarrow> bool \<Rightarrow> int \<Rightarrow> ep_wait_timeout option \<Rightarrow>
   (('os, 'z) ep_world_scheme, (int \<times> wait_output list) option) state" where
  "ep_port_wait_timeout fuel sys port has_out maxevents timeout =
     ep_port_wait_timeout_impl fuel sys port has_out maxevents timeout False"

definition ep_port_wait_basic_timeout ::
  "nat \<Rightarrow> ('os, 'y) ep_port_sys_scheme \<Rightarrow> addr \<Rightarrow> bool \<Rightarrow> int \<Rightarrow> ep_wait_timeout option \<Rightarrow>
   (('os, 'z) ep_world_scheme, (int \<times> wait_output list) option) state" where
  "ep_port_wait_basic_timeout fuel sys port has_out maxevents timeout =
     ep_port_wait_timeout_impl fuel sys port has_out maxevents timeout True"

definition ep_port_wait ::
  "nat \<Rightarrow> ('os, 'y) ep_port_sys_scheme \<Rightarrow> addr \<Rightarrow> bool \<Rightarrow> int \<Rightarrow> 32 word \<Rightarrow>
   (('os, 'z) ep_world_scheme, (int \<times> wait_output list) option) state" where
  "ep_port_wait fuel sys port has_out maxevents timeout_ms =
     ep_port_wait_timeout fuel sys port has_out maxevents (Some (ep_wait_timeout_from_milliseconds timeout_ms))"

end
