(* ===== verification/Ep_Close.thy ===== *)
theory Ep_Close
  imports Ep_Wait
begin

text \<open>
  Closing a port, \<^verbatim>\<open>src/src/wepoll_ex_port.c\<close>: announcing the close, detaching every registration,
  draining the polls the kernel still owns, and releasing the port.
\<close>

abbreviation (input) EP_CLOSE_DRAIN_SLICE_MS :: uint64 where "EP_CLOSE_DRAIN_SLICE_MS \<equiv> 100"

section \<open>Announcing the close\<close>

text \<open>A port whose wake-up packet cannot be posted loses its completion port at once.\<close>

definition begin_close_revoke ::
  "('os, 'y) ep_port_sys_scheme \<Rightarrow> addr \<Rightarrow> handle \<Rightarrow> (('os, 'z) ep_world_scheme, unit) state" where
  "begin_close_revoke sys port iocp_to_close = do {
     port_upd port (\<lambda>q. q \<lparr> pt_iocp_post_handle := NULL_HANDLE \<rparr>);
     port_upd port (\<lambda>q. q \<lparr> pt_iocp_closed := True \<rparr>);
     when_do (iocp_to_close \<noteq> NULL_HANDLE) (do { _ \<leftarrow> syscall (win_CloseHandle sys iocp_to_close); skip })
   }"

definition ep_port_begin_close ::
  "('os, 'y) ep_port_sys_scheme \<Rightarrow> addr option \<Rightarrow> (('os, 'z) ep_world_scheme, unit) state" where
  "ep_port_begin_close sys port_ptr = (case port_ptr of
      None \<Rightarrow> skip
    | Some port \<Rightarrow> do {
        closing \<leftarrow> port_read port pt_closing;
        port_upd port (\<lambda>q. q \<lparr> pt_closing := True \<rparr>);
        if closing then skip
        else do {
          h \<leftarrow> port_read port pt_iocp_post_handle;
          posted \<leftarrow> (if h = NULL_HANDLE then return False
            else do {
              fault \<leftarrow> ep_fault_hit EP_FAULT_IOCP_POST;
              if fault \<noteq> 0 then return False
              else syscall (win_PostQueuedCompletionStatus sys h 0 None)
            });
          when_do (\<not> posted) (begin_close_revoke sys port h)
        }
      })"

section \<open>Draining\<close>

definition ep_port_pending_count :: "addr \<Rightarrow> (('os, 'z) ep_world_scheme, nat) state" where
  "ep_port_pending_count port = port_read port pt_pending_poll_count"

text \<open>The loop that consumes cancellation packets: 0 when no poll is left, 1 at the deadline, \<open>- 1\<close> when
  the completion port is unusable.  Its passes are bounded by fuel.\<close>

primrec ep_port_drain_pending_until ::
  "nat \<Rightarrow> ('os, 'y) ep_port_sys_scheme \<Rightarrow> addr \<Rightarrow> uint64 \<Rightarrow> (('os, 'z) ep_world_scheme, int option) state" where
  "ep_port_drain_pending_until 0 sys port deadline = return None"
| "ep_port_drain_pending_until (Suc n) sys port deadline = do {
     pending \<leftarrow> ep_port_pending_count port;
     if pending = 0 then return (Some 0)
     else do {
       closed \<leftarrow> port_read port pt_iocp_closed;
       if closed then do { ep_set_errno EIO; return (Some (- 1)) }
       else do {
         now \<leftarrow> syscall (win_GetTickCount64 sys);
         if now \<ge> deadline then do { ep_set_errno ETIMEDOUT; return (Some 1) }
         else do {
           let remaining = deadline - now;
           let wait_ms = (if remaining < EP_CLOSE_DRAIN_SLICE_MS then remaining else EP_CLOSE_DRAIN_SLICE_MS);
           fault \<leftarrow> ep_fault_hit EP_FAULT_IOCP_DEQUEUE;
           if fault \<noteq> 0 then return (Some (- 1))
           else do {
             packets \<leftarrow> dequeue_packets sys port (ucast wait_ms);
             (case packets of
               None \<Rightarrow> do {
                 error \<leftarrow> syscall (win_GetLastError sys);
                 if error = WAIT_TIMEOUT then ep_port_drain_pending_until n sys port deadline
                 else do { ep_set_win32_error error; return (Some (- 1)) }
               }
             | Some es \<Rightarrow> do {
                 _ \<leftarrow> dispatch_all sys port es 0;
                 ep_port_drain_pending_until n sys port deadline
               })
           }
         }
       }
     }
   }"

section \<open>Detaching the registrations\<close>

text \<open>One registration of a port that is destroyed; the result is whether its poll could be cancelled.\<close>

definition destroy_detach ::
  "('os, 'y) ep_port_sys_scheme \<Rightarrow> addr \<Rightarrow> (('os, 'z) ep_world_scheme, bool) state" where
  "destroy_detach sys sock = do {
     flags \<leftarrow> sock_read sock sk_user_flags;
     when_do (tests flags EPOLLEXCLUSIVE) (ep_exclusive_release_owner sock);
     sock_upd sock (\<lambda>k. k \<lparr> sk_delete_pending := True \<rparr>);
     sock_upd sock (\<lambda>k. k \<lparr> sk_state := EP_SOCK_DELETED \<rparr>);
     ep_sock_set_needs_rearm_locked sock False;
     ep_sock_set_oneshot_fired_locked sock False;
     cancelled \<leftarrow> ep_sock_cancel_locked sys sock;
     return (cancelled = 0)
   }"

text \<open>The two passes over the list of registrations; the list has at most as many elements as addresses
  are in use.\<close>

primrec destroy_detach_all ::
  "nat \<Rightarrow> ('os, 'y) ep_port_sys_scheme \<Rightarrow> addr option \<Rightarrow> bool \<Rightarrow> (('os, 'z) ep_world_scheme, bool) state" where
  "destroy_detach_all 0 sys cur cancel_failed = do { when_do (cur \<noteq> None) bad_access; return cancel_failed }"
| "destroy_detach_all (Suc n) sys cur cancel_failed = (case cur of
      None \<Rightarrow> return cancel_failed
    | Some sock \<Rightarrow> do {
        ok \<leftarrow> destroy_detach sys sock;
        nxt \<leftarrow> sock_read sock sk_next;
        destroy_detach_all n sys nxt (cancel_failed \<or> \<not> ok)
      })"

primrec destroy_free_idle ::
  "nat \<Rightarrow> ('os, 'y) ep_port_sys_scheme \<Rightarrow> addr \<Rightarrow> addr option \<Rightarrow> (('os, 'z) ep_world_scheme, unit) state" where
  "destroy_free_idle 0 sys port cur = when_do (cur \<noteq> None) bad_access"
| "destroy_free_idle (Suc n) sys port cur = (case cur of
      None \<Rightarrow> skip
    | Some sock \<Rightarrow> do {
        nxt \<leftarrow> sock_read sock sk_next;
        status \<leftarrow> sock_read sock sk_poll_status;
        when_do (status = EP_POLL_IDLE) (ep_sock_free_locked sys port sock);
        destroy_free_idle n sys port nxt
      })"

text \<open>The locked part of a destruction: afterwards only registrations with an active poll are left.\<close>

definition destroy_registrations ::
  "('os, 'y) ep_port_sys_scheme \<Rightarrow> addr \<Rightarrow> (('os, 'z) ep_world_scheme, unit) state" where
  "destroy_registrations sys port = do {
     bound \<leftarrow> gets pool_next_addr;
     head \<leftarrow> port_read port pt_sock_list_head;
     cancel_failed \<leftarrow> destroy_detach_all bound sys head False;
     when_do cancel_failed (ep_port_close_afd_groups sys port);
     port_upd port (\<lambda>q. q \<lparr> pt_fd_table := replicate (length (pt_fd_table q)) None \<rparr>);
     port_upd port (\<lambda>q. q \<lparr> pt_fd_table_count := 0 \<rparr>);
     head \<leftarrow> port_read port pt_sock_list_head;
     destroy_free_idle bound sys port head
   }"

text \<open>A destruction up to the point where the port is released, quarantined or abandoned: the result of
  the drain, or \<open>None\<close> while it goes on.\<close>

definition destroy_drain ::
  "nat \<Rightarrow> ('os, 'y) ep_port_sys_scheme \<Rightarrow> addr \<Rightarrow> (('os, 'z) ep_world_scheme, int option) state" where
  "destroy_drain fuel sys port = do {
     ep_port_begin_close sys (Some port);
     destroy_registrations sys port;
     now \<leftarrow> syscall (win_GetTickCount64 sys);
     timeout \<leftarrow> port_read port pt_close_drain_timeout_ms;
     ep_port_drain_pending_until fuel sys port (now + timeout)
   }"

end
