(* ===== verification/Ep_Frame.thy ===== *)
theory Ep_Frame
  imports Ep_Close
begin

text \<open>
  The pending-poll accounting of a port: \<open>pending_poll_count\<close> is the number of registrations of the port
  whose poll is not idle.  This theory has the view of the state the accounting depends on and shows
  which operations leave it alone.
\<close>

named_theorems calm_intros "operations that leave the poll accounting alone"

text \<open>What the accounting depends on: the port of a registration, whether its poll is active (hidden for
  the registrations in \<open>X\<close>) and the counter of each port.\<close>

definition polls_view :: "addr set \<Rightarrow> ('os, 'z) ep_world_scheme \<Rightarrow>
    (addr \<Rightarrow> (addr \<times> bool option) option) \<times> (addr \<Rightarrow> nat option)" where
  "polls_view X s =
    (\<lambda>a. map_option (\<lambda>k. (sk_port k, if a \<in> X then None else Some (sk_poll_status k \<noteq> EP_POLL_IDLE))) (socks s a),
     \<lambda>p. map_option pt_pending_poll_count (ports s p))"

definition calm :: "addr set \<Rightarrow> (('os, 'z) ep_world_scheme, 'a) state \<Rightarrow> bool" where
  "calm X m \<longleftrightarrow> (\<forall>s. polls_view X (exec m s) = polls_view X s \<and> (ep_ub s \<longrightarrow> ep_ub (exec m s)) \<and>
     pool_next_addr s \<le> pool_next_addr (exec m s))"

lemma calm_return [calm_intros]: "calm X (return x)"
  by (simp add: calm_def)

lemma calm_gets [calm_intros]: "calm X (gets g)"
  by (simp add: calm_def)

lemma calm_bind [calm_intros]:
  "calm X m \<Longrightarrow> (\<And>x. calm X (k x)) \<Longrightarrow> calm X (State_Monad.bind m k)"
  unfolding calm_def exec_simps by (metis order_trans)

lemma calm_if [calm_intros]:
  "(b \<Longrightarrow> calm X m) \<Longrightarrow> (\<not> b \<Longrightarrow> calm X n) \<Longrightarrow> calm X (if b then m else n)"
  by simp

lemma calm_when [calm_intros]: "(b \<Longrightarrow> calm X m) \<Longrightarrow> calm X (when_do b m)"
  by (simp add: calm_def)

lemma calm_option [calm_intros]:
  "calm X m \<Longrightarrow> (\<And>x. calm X (k x)) \<Longrightarrow> calm X (case v of None \<Rightarrow> m | Some x \<Rightarrow> k x)"
  by (cases v) simp_all

lemma calm_prod [calm_intros]:
  "(\<And>x y. calm X (k x y)) \<Longrightarrow> calm X (case v of (x, y) \<Rightarrow> k x y)"
  by (cases v) simp

lemma calm_let [calm_intros]: "(\<And>x. calm X (k x)) \<Longrightarrow> calm X (Let v k)"
  by (simp add: Let_def)

lemma calm_modify [calm_intros]:
  "(\<And>s. socks (g s) = socks s) \<Longrightarrow> (\<And>s. ports (g s) = ports s) \<Longrightarrow> (\<And>s. ep_ub s \<Longrightarrow> ep_ub (g s)) \<Longrightarrow>
   (\<And>s. pool_next_addr s \<le> pool_next_addr (g s)) \<Longrightarrow> calm X (modify g)"
  by (simp add: calm_def polls_view_def)

lemma calm_alloc:
  assumes "\<And>a s. socks (g a s) = socks s" "\<And>a s. ports (g a s) = ports s" "\<And>a s. ep_ub s \<Longrightarrow> ep_ub (g a s)"
    and "\<And>s. pool_next_addr s \<le> pool_next_addr (g (pool_next_addr s) s)" and k: "\<And>a u. calm X (k a u)"
  shows "calm X (State_Monad.bind (gets pool_next_addr) (\<lambda>a. State_Monad.bind (modify (g a)) (k a)))"
proof -
  have "polls_view X (g (pool_next_addr s) s) = polls_view X s" for s using assms(1,2) by (simp add: polls_view_def)
  moreover have "pool_next_addr s \<le> pool_next_addr (exec (k (pool_next_addr s) ()) (g (pool_next_addr s) s))" for s
    using k assms(4) [of s] unfolding calm_def by (meson order_trans)
  moreover have "polls_view X (exec (k a u) s) = polls_view X s \<and> (ep_ub s \<longrightarrow> ep_ub (exec (k a u) s))" for a u s
    using k unfolding calm_def by blast
  ultimately show ?thesis using assms(3) unfolding calm_def by simp
qed

lemma calm_sock_upd [calm_intros]:
  "(\<And>k. sk_port (f k) = sk_port k) \<Longrightarrow>
   (\<And>k. a \<notin> X \<Longrightarrow> (sk_poll_status (f k) = EP_POLL_IDLE) = (sk_poll_status k = EP_POLL_IDLE)) \<Longrightarrow>
   calm X (sock_upd a f)"
  by (auto simp: calm_def polls_view_def sock_upd_def fun_eq_iff split: option.split)

lemma calm_port_upd [calm_intros]:
  "(\<And>q. pt_pending_poll_count (f q) = pt_pending_poll_count q) \<Longrightarrow> calm X (port_upd p f)"
  by (auto simp: calm_def polls_view_def port_upd_def fun_eq_iff split: option.split)

lemma calm_environment [calm_intros]:
  "calm X (syscall f)" "calm X bad_access" "calm X (ep_set_errno e)" "calm X (ep_set_native_error e d c)"
  "calm X (ep_set_win32_error w)" "calm X (ep_set_winsock_error w)" "calm X (ep_set_ntstatus_error rtl st)"
  "calm X (ep_restore_last_error_info i)" "calm X ep_last_err" "calm X ep_get_last_error_info"
  by (simp_all add: calm_def polls_view_def syscall_def bad_access_def ep_error_setters ep_set_errno_def
    ep_last_err_def ep_get_last_error_info_def)

lemma calm_fault [calm_intros]: "calm X (ep_fault_hit p)" "calm X (ep_fault_hit_through p)"
  by (simp_all add: calm_def polls_view_def fault_defs)

lemma calm_removal [calm_intros]:
  "(\<And>t. calm X (f t)) \<Longrightarrow> calm X m \<Longrightarrow> calm X n \<Longrightarrow>
   calm X (case v of Removed t \<Rightarrow> f t | Not_There \<Rightarrow> m | Diverges \<Rightarrow> n)"
  by (cases v) simp_all

lemma calm_sum [calm_intros]:
  "(\<And>x. calm X (f x)) \<Longrightarrow> (\<And>y. calm X (g y)) \<Longrightarrow> calm X (case v of Inl x \<Rightarrow> f x | Inr y \<Rightarrow> g y)"
  by (cases v) simp_all

lemma calm_transfer [calm_intros]:
  "calm X m \<Longrightarrow> (\<And>n. calm X (f n)) \<Longrightarrow> calm X r \<Longrightarrow> calm X t \<Longrightarrow>
   calm X (case v of Keep_Nothing \<Rightarrow> m | Replace_Node n \<Rightarrow> f n | Return_Notification \<Rightarrow> r | Transfer_Failed \<Rightarrow> t)"
  by (cases v) simp_all

lemma calm_kind [calm_intros]:
  "calm X m \<Longrightarrow> calm X n \<Longrightarrow> calm X r \<Longrightarrow>
   calm X (case v of EP_REG_SOCKET \<Rightarrow> m | EP_REG_WAITABLE \<Rightarrow> n | EP_REG_PIPE \<Rightarrow> r)"
  by (cases v) simp_all

lemma calm_pool_upd [calm_intros]: "calm X (pool_upd p f)"
  unfolding pool_upd_def by (intro calm_intros; simp)

lemma calm_entry_upd [calm_intros]: "calm X (entry_upd a f)"
  unfolding entry_upd_def by (intro calm_intros) (simp_all split: option.split)

lemma calm_entry_get [calm_intros]: "calm X (entry_get a)"
  unfolding entry_get_def by (intro calm_intros; simp)

lemma calm_ep_pool_entry_alloc [calm_intros]: "calm X (ep_pool_entry_alloc sys p in_pool)"
  unfolding ep_pool_entry_alloc_def by (intro calm_alloc calm_intros; simp)

lemma calm_pool_take_account [calm_intros]: "calm X (pool_take_account p a)"
  unfolding pool_take_account_def by (intro calm_intros; simp)

lemma calm_ep_afd_pool_take [calm_intros]: "calm X (ep_afd_pool_take sys p)"
  unfolding ep_afd_pool_take_def by (intro calm_intros; simp)

lemma calm_ep_afd_pool_give [calm_intros]: "calm X (ep_afd_pool_give sys p buf)"
  unfolding ep_afd_pool_give_def by (intro calm_intros; simp)

lemma calm_port_read [calm_intros]: "calm X (port_read p f)"
  unfolding port_read_def by (intro calm_intros; simp)

lemma calm_sock_read [calm_intros]: "calm X (sock_read a f)"
  unfolding sock_read_def by (intro calm_intros; simp)

lemma calm_assert_that [calm_intros]: "calm X (assert_that b)"
  unfolding assert_that_def by (intro calm_intros; simp)

lemma calm_table_fds [calm_intros]: "calm X (table_fds tbl)"
  unfolding table_fds_def by (intro calm_intros; simp)

lemma calm_ep_fd_table_grow [calm_intros]: "calm X (ep_fd_table_grow sys port new_size)"
  unfolding ep_fd_table_grow_def by (intro calm_intros; simp)

lemma calm_ep_fd_table_lookup [calm_intros]: "calm X (ep_fd_table_lookup port fd)"
  unfolding ep_fd_table_lookup_def by (intro calm_intros; simp)

lemma calm_fd_table_make_room [calm_intros]: "calm X (fd_table_make_room sys port)"
  unfolding fd_table_make_room_def by (intro calm_intros; simp)

lemma calm_ep_fd_table_insert [calm_intros]: "calm X (ep_fd_table_insert sys port sock)"
  unfolding ep_fd_table_insert_def by (intro calm_intros; simp)

lemma calm_ep_fd_table_remove [calm_intros]: "calm X (ep_fd_table_remove port sock)"
  unfolding ep_fd_table_remove_def by (intro calm_intros; simp)

lemma calm_ep_rearm_list_append_locked [calm_intros]: "calm X (ep_rearm_list_append_locked port sock)"
  unfolding ep_rearm_list_append_locked_def by (intro calm_intros; simp)

lemma calm_ep_rearm_list_remove_locked [calm_intros]: "calm X (ep_rearm_list_remove_locked port sock)"
  unfolding ep_rearm_list_remove_locked_def by (intro calm_intros; simp)

lemma calm_ep_rearm_list_rotate_locked [calm_intros]: "calm X (ep_rearm_list_rotate_locked port sock)"
  unfolding ep_rearm_list_rotate_locked_def by (intro calm_intros; simp)

lemma calm_ep_oneshot_list_append_locked [calm_intros]: "calm X (ep_oneshot_list_append_locked port sock)"
  unfolding ep_oneshot_list_append_locked_def by (intro calm_intros; simp)

lemma calm_ep_oneshot_list_remove_locked [calm_intros]: "calm X (ep_oneshot_list_remove_locked port sock)"
  unfolding ep_oneshot_list_remove_locked_def by (intro calm_intros; simp)

lemma calm_ep_oneshot_list_rotate_locked [calm_intros]: "calm X (ep_oneshot_list_rotate_locked port sock)"
  unfolding ep_oneshot_list_rotate_locked_def by (intro calm_intros; simp)

lemma calm_ep_sock_set_needs_rearm_locked [calm_intros]: "calm X (ep_sock_set_needs_rearm_locked sock requested)"
  unfolding ep_sock_set_needs_rearm_locked_def by (intro calm_intros; simp)

lemma calm_ep_sock_set_oneshot_fired_locked [calm_intros]: "calm X (ep_sock_set_oneshot_fired_locked sock requested)"
  unfolding ep_sock_set_oneshot_fired_locked_def by (intro calm_intros; simp)

lemma calm_ep_sock_restore_worklist_state_locked [calm_intros]: "calm X (ep_sock_restore_worklist_state_locked sock needs_rearm oneshot_fired)"
  unfolding ep_sock_restore_worklist_state_locked_def by (intro calm_intros; simp)

lemma calm_deferred_scan [calm_intros]: "calm X (deferred_scan n cur)"
  by (induction n arbitrary: cur) (auto intro!: calm_intros)

lemma calm_ep_port_has_deferred_rearm_locked [calm_intros]: "calm X (ep_port_has_deferred_rearm_locked port)"
  unfolding ep_port_has_deferred_rearm_locked_def by (intro calm_intros; simp)

lemma calm_release_deferred [calm_intros]: "calm X (release_deferred n cur)"
  by (induction n arbitrary: cur) (auto intro!: calm_intros)

lemma calm_ep_port_release_deferred_rearms_locked [calm_intros]: "calm X (ep_port_release_deferred_rearms_locked port)"
  unfolding ep_port_release_deferred_rearms_locked_def by (intro calm_intros; simp)

lemma calm_ep_sock_list_add_locked [calm_intros]: "calm X (ep_sock_list_add_locked port sock)"
  unfolding ep_sock_list_add_locked_def by (intro calm_intros; simp)

lemma calm_ep_sock_list_remove_locked [calm_intros]: "calm X (ep_sock_list_remove_locked port sock)"
  unfolding ep_sock_list_remove_locked_def by (intro calm_intros; simp)

lemma calm_ep_explicit_rearm_enabled [calm_intros]: "calm X (ep_explicit_rearm_enabled sock)"
  unfolding ep_explicit_rearm_enabled_def by (intro calm_intros; simp)

lemma calm_bucket_upd [calm_intros]: "calm X (bucket_upd b v)"
  unfolding bucket_upd_def by (intro calm_intros; simp)

lemma calm_ep_exclusive_unlink_locked [calm_intros]: "calm X (ep_exclusive_unlink_locked sock)"
  unfolding ep_exclusive_unlink_locked_def by (intro calm_intros; simp)

lemma calm_ep_exclusive_remove_classes_locked [calm_intros]: "calm X (ep_exclusive_remove_classes_locked sock classes)"
  unfolding ep_exclusive_remove_classes_locked_def by (intro calm_intros; simp)

lemma calm_drop_other_base [calm_intros]: "calm X (drop_other_base sock base)"
  unfolding drop_other_base_def by (intro calm_intros; simp)

lemma calm_exclusive_push [calm_intros]: "calm X (exclusive_push sock base)"
  unfolding exclusive_push_def by (intro calm_intros; simp)

lemma calm_ep_exclusive_add_classes_locked [calm_intros]: "calm X (ep_exclusive_add_classes_locked sock base classes)"
  unfolding ep_exclusive_add_classes_locked_def by (intro calm_intros; simp)

lemma calm_claim_scan [calm_intros]: "calm X (claim_scan n cur sock base requested v)"
  by (induction n arbitrary: cur sock base requested v) (auto intro!: calm_intros)

lemma calm_claims_remove [calm_intros]: "calm X (claims_remove n cur base classes)"
  by (induction n arbitrary: cur base classes) (auto intro!: calm_intros)

lemma calm_bucket_remove [calm_intros]: "calm X (bucket_remove base classes)"
  unfolding bucket_remove_def by (intro calm_intros; simp)

lemma calm_ep_exclusive_try_claim [calm_intros]: "calm X (ep_exclusive_try_claim sock delivered)"
  unfolding ep_exclusive_try_claim_def by (intro calm_intros; simp)

lemma calm_ep_exclusive_release_owner [calm_intros]: "calm X (ep_exclusive_release_owner sock)"
  unfolding ep_exclusive_release_owner_def by (intro calm_intros; simp)

lemma calm_ep_exclusive_release_quiescent [calm_intros]: "calm X (ep_exclusive_release_quiescent sock submitted_afd_events)"
  unfolding ep_exclusive_release_quiescent_def by (intro calm_intros; simp)

lemma calm_ep_exclusive_release_inactive [calm_intros]: "calm X (ep_exclusive_release_inactive sock inactive_classes)"
  unfolding ep_exclusive_release_inactive_def by (intro calm_intros; simp)

lemma calm_ep_now_ns [calm_intros]: "calm X (ep_now_ns win port)"
  unfolding ep_now_ns_def by (intro calm_intros; simp)

lemma calm_ep_wait_state_initialize [calm_intros]: "calm X (ep_wait_state_initialize win timeout)"
  unfolding ep_wait_state_initialize_def by (intro calm_intros; simp)

lemma calm_precise_now [calm_intros]: "calm X (precise_now win)"
  unfolding precise_now_def by (intro calm_intros; simp)

lemma calm_ep_wait_remaining_100ns [calm_intros]: "calm X (ep_wait_remaining_100ns win ws)"
  unfolding ep_wait_remaining_100ns_def by (intro calm_intros; simp)

lemma calm_ep_wait_remaining_milliseconds [calm_intros]: "calm X (ep_wait_remaining_milliseconds win ws)"
  unfolding ep_wait_remaining_milliseconds_def by (intro calm_intros; simp)

lemma calm_ep_wait_expired [calm_intros]: "calm X (ep_wait_expired win ws)"
  unfolding ep_wait_expired_def by (intro calm_intros; simp)

lemma calm_ep_wait_backstop_milliseconds [calm_intros]: "calm X (ep_wait_backstop_milliseconds win ws)"
  unfolding ep_wait_backstop_milliseconds_def by (intro calm_intros; simp)

lemma calm_wait_lock_attempt [calm_intros]: "calm X retry \<Longrightarrow> calm X (wait_lock_attempt win port ws retry)"
  unfolding wait_lock_attempt_def by (intro calm_intros; simp)

lemma calm_wait_lock_loop [calm_intros]: "calm X (wait_lock_loop n win port ws first_attempt)"
  by (induction n arbitrary: first_attempt) (auto intro!: calm_intros)

lemma calm_ep_wait_lock_acquire [calm_intros]: "calm X (ep_wait_lock_acquire fuel win port ws)"
  unfolding ep_wait_lock_acquire_def by (intro calm_intros; simp)

lemma calm_ep_port_post_iocp [calm_intros]: "calm X (ep_port_post_iocp win port completion_key overlapped fault_point)"
  unfolding ep_port_post_iocp_def by (intro calm_intros; simp)

lemma calm_ep_port_revoke_iocp_posts [calm_intros]: "calm X (ep_port_revoke_iocp_posts port)"
  unfolding ep_port_revoke_iocp_posts_def by (intro calm_intros; simp)

lemma calm_ep_port_fail_iocp_post [calm_intros]: "calm X (ep_port_fail_iocp_post win port win_error)"
  unfolding ep_port_fail_iocp_post_def by (intro calm_intros; simp)

lemma calm_port_unusable [calm_intros]: "calm X (port_unusable port)"
  unfolding port_unusable_def by (intro calm_intros; simp)

lemma calm_ep_port_take_wake [calm_intros]: "calm X (ep_port_take_wake win port basic_events)"
  unfolding ep_port_take_wake_def by (intro calm_intros; simp)

lemma calm_ep_aux_post_completion [calm_intros]: "calm X (ep_aux_post_completion win sock status)"
  unfolding ep_aux_post_completion_def by (intro calm_intros; simp)

lemma calm_fallback_scan [calm_intros]:
  "(\<And>a b. calm X (ioctl_fn a b)) \<Longrightarrow> calm X (fallback_scan ioctl_fn current visited xs saw_cycle)"
  by (induction xs arbitrary: saw_cycle) (auto intro!: calm_intros)

lemma calm_base_loop [calm_intros]:
  "(\<And>a b. calm X (ioctl_fn a b)) \<Longrightarrow> calm X (base_loop n ioctl_fn current visited)"
  by (induction n arbitrary: current visited) (auto intro!: calm_intros)

lemma calm_ep_socket_get_base_with_ioctl [calm_intros]:
  "(\<And>g a b. ioctl_fn = Some g \<Longrightarrow> calm X (g a b)) \<Longrightarrow> calm X (ep_socket_get_base_with_ioctl socket ioctl_fn)"
  unfolding ep_socket_get_base_with_ioctl_def by (auto intro!: calm_intros split: option.split)

lemma calm_ep_socket_ioctl_handle [calm_intros]: "calm X (ep_socket_ioctl_handle wsa a b)"
  unfolding ep_socket_ioctl_handle_def by (intro calm_intros; simp)

lemma calm_ep_socket_ioctl_endpoint_id [calm_intros]: "calm X (ep_socket_ioctl_endpoint_id wsa a b)"
  unfolding ep_socket_ioctl_endpoint_id_def by (intro calm_intros; simp)

lemma calm_ep_socket_get_base [calm_intros]: "calm X (ep_socket_get_base wsa socket)"
  unfolding ep_socket_get_base_def by (auto intro!: calm_intros)

lemma calm_ep_socket_get_protocol [calm_intros]: "calm X (ep_socket_get_protocol wsa socket)"
  unfolding ep_socket_get_protocol_def by (intro calm_intros; simp)

lemma calm_ep_socket_get_endpoint_id_with_ioctl [calm_intros]:
  "(\<And>g a b. ioctl_fn = Some g \<Longrightarrow> calm X (g a b)) \<Longrightarrow>
   calm X (ep_socket_get_endpoint_id_with_ioctl socket has_out ioctl_fn)"
  unfolding ep_socket_get_endpoint_id_with_ioctl_def by (auto intro!: calm_intros split: option.split)

lemma calm_ep_socket_get_endpoint_id [calm_intros]: "calm X (ep_socket_get_endpoint_id wsa socket)"
  unfolding ep_socket_get_endpoint_id_def by (auto intro!: calm_intros)

lemma calm_key_bucket_upd [calm_intros]: "calm X (key_bucket_upd b h)"
  unfolding key_bucket_upd_def by (intro calm_intros; simp)

lemma calm_key_active_scan [calm_intros]: "calm X (key_active_scan n cur target)"
  by (induction n arbitrary: cur target) (auto intro!: calm_intros)

lemma calm_ep_afd_poll_key_is_active_locked [calm_intros]: "calm X (ep_afd_poll_key_is_active_locked bucket target)"
  unfolding ep_afd_poll_key_is_active_locked_def by (intro calm_intros; simp)

lemma calm_ep_afd_error_state_save [calm_intros]: "calm X (ep_afd_error_state_save sys)"
  unfolding ep_afd_error_state_save_def by (intro calm_intros; simp)

lemma calm_ep_afd_error_state_restore [calm_intros]: "calm X (ep_afd_error_state_restore sys st)"
  unfolding ep_afd_error_state_restore_def by (intro calm_intros; simp)

lemma calm_key_find_link [calm_intros]: "calm X (key_find_link n link cur sock)"
  by (induction n arbitrary: link cur sock) (auto intro!: calm_intros)

lemma calm_key_relink [calm_intros]: "calm X (key_relink bucket link v)"
  unfolding key_relink_def by (intro calm_intros; simp)

lemma calm_key_clear [calm_intros]: "calm X (key_clear sock)"
  unfolding key_clear_def by (intro calm_intros; simp)

lemma calm_ep_afd_poll_key_release_locked [calm_intros]: "calm X (ep_afd_poll_key_release_locked bucket sock)"
  unfolding ep_afd_poll_key_release_locked_def by (intro calm_intros; simp)

lemma calm_ep_afd_poll_key_insert_locked [calm_intros]: "calm X (ep_afd_poll_key_insert_locked bucket sock target)"
  unfolding ep_afd_poll_key_insert_locked_def by (intro calm_intros; simp)

lemma calm_ep_afd_poll_key_try_claim [calm_intros]: "calm X (ep_afd_poll_key_try_claim sock target)"
  unfolding ep_afd_poll_key_try_claim_def by (intro calm_intros; simp)

lemma calm_collision_grow [calm_intros]: "calm X (collision_grow sys capacity)"
  unfolding collision_grow_def by (intro calm_intros; simp)

lemma calm_key_duplicate_loop [calm_intros]: "calm X (key_duplicate_loop n sys sock base_target collisions capacity)"
  by (induction n arbitrary: sys sock base_target collisions capacity) (auto intro!: calm_intros)

lemma calm_close_all [calm_intros]: "calm X (close_all sys xs)"
  by (induction xs arbitrary: sys) (auto intro!: calm_intros)

lemma calm_ep_afd_poll_key_claim [calm_intros]: "calm X (ep_afd_poll_key_claim fuel sys sock base_target)"
  unfolding ep_afd_poll_key_claim_def by (intro calm_intros; simp)

lemma calm_ep_afd_poll_duplicate_finish [calm_intros]: "calm X (ep_afd_poll_duplicate_finish sys sock reserve_slot)"
  unfolding ep_afd_poll_duplicate_finish_def by (intro calm_intros; simp)

lemma calm_ep_afd_poll_key_release [calm_intros]: "calm X (ep_afd_poll_key_release sys sock)"
  unfolding ep_afd_poll_key_release_def by (intro calm_intros; simp)

lemma calm_ep_afd_poll_duplicate_abandon [calm_intros]: "calm X (ep_afd_poll_duplicate_abandon sys sock)"
  unfolding ep_afd_poll_duplicate_abandon_def by (intro calm_intros; simp)

lemma calm_ep_afd_open [calm_intros]: "calm X (ep_afd_open sys iocp has_out)"
  unfolding ep_afd_open_def by (intro calm_intros; simp)

lemma calm_group_afd [calm_intros]: "calm X (group_afd g)"
  unfolding group_afd_def by (intro calm_intros; simp)

lemma calm_info_upd [calm_intros]: "calm X (info_upd i f)"
  unfolding info_upd_def by (intro calm_intros; simp)

lemma calm_submit_buffer [calm_intros]: "calm X (submit_buffer sys sock)"
  unfolding submit_buffer_def by (intro calm_alloc calm_intros; simp)

lemma calm_submit_base [calm_intros]: "calm X (submit_base sys sock)"
  unfolding submit_base_def by (intro calm_intros; simp)

lemma calm_submit_release [calm_intros]: "calm X (submit_release sys sock target_is_duplicate)"
  unfolding submit_release_def by (intro calm_intros; simp)

lemma calm_ep_event_waitable_semantics [calm_intros]: "calm X (ep_event_waitable_semantics sys h)"
  unfolding ep_event_waitable_semantics_def by (intro calm_intros; simp)

lemma calm_query_object [calm_intros]: "calm X (query_object sys h c)"
  unfolding query_object_def by (intro calm_intros; simp)

lemma calm_ep_handle_wait_access [calm_intros]: "calm X (ep_handle_wait_access sys h)"
  unfolding ep_handle_wait_access_def by (intro calm_intros; simp)

lemma calm_ep_handle_waitability [calm_intros]: "calm X (ep_handle_waitability sys h file_type)"
  unfolding ep_handle_waitability_def by (intro calm_intros; simp)

lemma calm_ep_socket_select_ready [calm_intros]: "calm X (ep_socket_select_ready sys fd writable)"
  unfolding ep_socket_select_ready_def by (intro calm_intros; simp)

lemma calm_ep_socket_select_priority_ready [calm_intros]: "calm X (ep_socket_select_priority_ready sys fd)"
  unfolding ep_socket_select_priority_ready_def by (intro calm_intros; simp)

lemma calm_probe_restore [calm_intros]: "calm X (probe_restore sys st)"
  unfolding probe_restore_def by (intro calm_intros; simp)

lemma calm_ep_socket_poll_current [calm_intros]: "calm X (ep_socket_poll_current sys sock)"
  unfolding ep_socket_poll_current_def by (intro calm_intros; simp)

lemma calm_merge_select [calm_intros]: "calm X (merge_select sys sock delivered)"
  unfolding merge_select_def by (intro calm_intros; simp)

lemma calm_ep_socket_merge_current_levels [calm_intros]: "calm X (ep_socket_merge_current_levels sys sock delivered)"
  unfolding ep_socket_merge_current_levels_def by (intro calm_intros; simp)

lemma calm_ep_socket_identity_is_stable [calm_intros]: "calm X (ep_socket_identity_is_stable sys fd)"
  unfolding ep_socket_identity_is_stable_def by (intro calm_intros; simp)

lemma calm_identity_failed [calm_intros]: "calm X (identity_failed port error)"
  unfolding identity_failed_def by (intro calm_intros; simp)

lemma calm_identity_unavailable [calm_intros]: "calm X (identity_unavailable sys k)"
  unfolding identity_unavailable_def by (intro calm_intros; simp)

lemma calm_identity_lost [calm_intros]: "calm X (identity_lost sys k)"
  unfolding identity_lost_def by (intro calm_intros; simp)

lemma calm_identity_query_error [calm_intros]: "calm X (identity_query_error sys k)"
  unfolding identity_query_error_def by (intro calm_intros; simp)

lemma calm_settle_identity [calm_intros]: "calm X (settle_identity sys sock)"
  unfolding settle_identity_def by (intro calm_intros; simp)

lemma calm_ep_sock_validate_identity_locked [calm_intros]: "calm X (ep_sock_validate_identity_locked sys sock allow_transition)"
  unfolding ep_sock_validate_identity_locked_def by (intro calm_intros; simp)

lemma calm_ep_sock_validate_identity_for_delivery_locked [calm_intros]: "calm X (ep_sock_validate_identity_for_delivery_locked sys port sock)"
  unfolding ep_sock_validate_identity_for_delivery_locked_def by (intro calm_intros; simp)

lemma calm_file_mode [calm_intros]: "calm X (file_mode sys h)"
  unfolding file_mode_def by (intro calm_intros; simp)

lemma calm_ep_socket_async_read_capability [calm_intros]: "calm X (ep_socket_async_read_capability sys base_socket)"
  unfolding ep_socket_async_read_capability_def by (intro calm_intros; simp)

lemma calm_udp_probe_request [calm_intros]: "calm X (udp_probe_request sys h event)"
  unfolding udp_probe_request_def by (intro calm_intros; simp)

lemma calm_udp_probe_duplicate [calm_intros]: "calm X (udp_probe_duplicate sys sock h)"
  unfolding udp_probe_duplicate_def by (intro calm_intros; simp)

lemma calm_ep_udp_probe_read_locked [calm_intros]: "calm X (ep_udp_probe_read_locked sys sock)"
  unfolding ep_udp_probe_read_locked_def by (intro calm_intros; simp)

lemma calm_ep_pipe_query_access [calm_intros]: "calm X (ep_pipe_query_access sys h)"
  unfolding ep_pipe_query_access_def by (intro calm_intros; simp)

lemma calm_ep_pipe_has_synchronous_io [calm_intros]: "calm X (ep_pipe_has_synchronous_io sys h)"
  unfolding ep_pipe_has_synchronous_io_def by (intro calm_intros; simp)

lemma calm_probe_duplicate [calm_intros]: "calm X (probe_duplicate sys duplicate)"
  unfolding probe_duplicate_def by (intro calm_intros; simp)

lemma calm_probe_handle [calm_intros]: "calm X (probe_handle sys fd)"
  unfolding probe_handle_def by (intro calm_intros; simp)

lemma calm_ep_target_probe [calm_intros]: "calm X (ep_target_probe sys fd)"
  unfolding ep_target_probe_def by (intro calm_intros; simp)

lemma calm_ep_port_validate_target [calm_intros]: "calm X (ep_port_validate_target sys port_ptr fd mode)"
  unfolding ep_port_validate_target_def by (intro calm_intros; simp)

lemma calm_ep_target_fail_absent [calm_intros]: "calm X (ep_target_fail_absent sys fd)"
  unfolding ep_target_fail_absent_def by (intro calm_intros; simp)

lemma calm_callback_idle_loop [calm_intros]: "calm X (callback_idle_loop n sys sock)"
  by (induction n arbitrary: sys sock) (auto intro!: calm_intros)

lemma calm_ep_aux_wait_callback_idle [calm_intros]: "calm X (ep_aux_wait_callback_idle sys sock)"
  unfolding ep_aux_wait_callback_idle_def by (intro calm_intros; simp)

lemma calm_ep_waitable_callback [calm_intros]: "calm X (ep_waitable_callback sys parameter)"
  unfolding ep_waitable_callback_def by (intro calm_intros; simp)

lemma calm_ep_waitable_register_locked [calm_intros]: "calm X (ep_waitable_register_locked sys sock)"
  unfolding ep_waitable_register_locked_def by (intro calm_intros; simp)

lemma calm_aux_disarm [calm_intros]: "calm X (aux_disarm sys detach sock)"
  unfolding aux_disarm_def by (intro calm_intros; simp)

lemma calm_ep_waitable_unregister_locked [calm_intros]: "calm X (ep_waitable_unregister_locked sys sock)"
  unfolding ep_waitable_unregister_locked_def by (intro calm_intros; simp)

lemma calm_pipe_null_write [calm_intros]: "calm X (pipe_null_write sys k snapshot)"
  unfolding pipe_null_write_def by (intro calm_intros; simp)

lemma calm_ep_pipe_fallback_snapshot [calm_intros]: "calm X (ep_pipe_fallback_snapshot sys k)"
  unfolding ep_pipe_fallback_snapshot_def by (intro calm_intros; simp)

lemma calm_pipe_query_failed [calm_intros]: "calm X (pipe_query_failed sys k answer)"
  unfolding pipe_query_failed_def by (intro calm_intros; simp)

lemma calm_ep_pipe_snapshot [calm_intros]: "calm X (ep_pipe_snapshot sys k)"
  unfolding ep_pipe_snapshot_def by (intro calm_intros; simp)

lemma calm_ep_pipe_et_events [calm_intros]: "calm X (ep_pipe_et_events sock snapshot)"
  unfolding ep_pipe_et_events_def by (intro calm_intros; simp)

lemma calm_ep_pipe_timer_callback [calm_intros]: "calm X (ep_pipe_timer_callback sys parameter)"
  unfolding ep_pipe_timer_callback_def by (intro calm_intros; simp)

lemma calm_ep_pipe_delete_timer_locked [calm_intros]: "calm X (ep_pipe_delete_timer_locked sys sock)"
  unfolding ep_pipe_delete_timer_locked_def by (intro calm_intros; simp)

lemma calm_ep_pipe_schedule_locked [calm_intros]: "calm X (ep_pipe_schedule_locked sys sock level)"
  unfolding ep_pipe_schedule_locked_def by (intro calm_intros; simp)

lemma calm_ep_precise_timeout_callback [calm_intros]: "calm X (ep_precise_timeout_callback sys port_ptr overlapped)"
  unfolding ep_precise_timeout_callback_def by (intro calm_intros; simp)

lemma calm_precise_timer_create [calm_intros]: "calm X (precise_timer_create sys port)"
  unfolding precise_timer_create_def by (intro calm_intros; simp)

lemma calm_ep_port_precise_timeout_initialize [calm_intros]: "calm X (ep_port_precise_timeout_initialize sys port)"
  unfolding ep_port_precise_timeout_initialize_def by (intro calm_intros; simp)

lemma calm_next_timeout_generation [calm_intros]: "calm X (next_timeout_generation port)"
  unfolding next_timeout_generation_def by (intro calm_intros; simp)

lemma calm_ep_port_precise_timeout_arm [calm_intros]: "calm X (ep_port_precise_timeout_arm sys port delay_100ns)"
  unfolding ep_port_precise_timeout_arm_def by (intro calm_intros; simp)

lemma calm_ep_port_precise_timeout_disarm [calm_intros]: "calm X (ep_port_precise_timeout_disarm sys port)"
  unfolding ep_port_precise_timeout_disarm_def by (intro calm_intros; simp)

lemma calm_ep_port_precise_timeout_destroy [calm_intros]: "calm X (ep_port_precise_timeout_destroy sys port)"
  unfolding ep_port_precise_timeout_destroy_def by (intro calm_intros; simp)

lemma calm_group_read [calm_intros]: "calm X (group_read g f)"
  unfolding group_read_def by (intro calm_intros; simp)

lemma calm_group_upd [calm_intros]: "calm X (group_upd g f)"
  unfolding group_upd_def by (intro calm_intros) (simp_all split: option.split)

lemma calm_ep_afd_group_remove_available_locked [calm_intros]: "calm X (ep_afd_group_remove_available_locked port grp)"
  unfolding ep_afd_group_remove_available_locked_def by (intro calm_intros; simp)

lemma calm_ep_afd_group_add_available_locked [calm_intros]: "calm X (ep_afd_group_add_available_locked port grp)"
  unfolding ep_afd_group_add_available_locked_def by (intro calm_intros; simp)

lemma calm_group_link [calm_intros]: "calm X (group_link port grp)"
  unfolding group_link_def by (intro calm_intros; simp)

lemma calm_group_create [calm_intros]: "calm X (group_create sys port)"
  unfolding group_create_def by (intro calm_alloc calm_intros; simp)

lemma calm_group_enter [calm_intros]: "calm X (group_enter port sock grp)"
  unfolding group_enter_def by (intro calm_intros; simp)

lemma calm_ep_sock_acquire_afd_group_locked [calm_intros]: "calm X (ep_sock_acquire_afd_group_locked sys sock)"
  unfolding ep_sock_acquire_afd_group_locked_def by (intro calm_intros; simp)

lemma calm_group_unlink [calm_intros]: "calm X (group_unlink sys port grp)"
  unfolding group_unlink_def by (intro calm_intros; simp)

lemma calm_ep_sock_release_afd_group_locked [calm_intros]: "calm X (ep_sock_release_afd_group_locked sys sock)"
  unfolding ep_sock_release_afd_group_locked_def by (intro calm_intros; simp)

lemma calm_close_groups_loop [calm_intros]: "calm X (close_groups_loop n sys grp)"
  by (induction n arbitrary: sys grp) (auto intro!: calm_intros)

lemma calm_ep_port_close_afd_groups [calm_intros]: "calm X (ep_port_close_afd_groups sys port)"
  unfolding ep_port_close_afd_groups_def by (intro calm_intros; simp)

lemma calm_ep_port_record_async_error_locked [calm_intros]: "calm X (ep_port_record_async_error_locked sys port err)"
  unfolding ep_port_record_async_error_locked_def by (intro calm_intros; simp)

lemma calm_ep_port_take_async_error_locked [calm_intros]: "calm X (ep_port_take_async_error_locked port)"
  unfolding ep_port_take_async_error_locked_def by (intro calm_intros; simp)

lemma calm_ep_port_take_iocp_post_error [calm_intros]: "calm X (ep_port_take_iocp_post_error port)"
  unfolding ep_port_take_iocp_post_error_def by (intro calm_intros; simp)

lemma calm_node_upd [calm_intros]: "calm X (node_upd n f)"
  unfolding node_upd_def by (intro calm_intros; simp)

lemma calm_queue_upd [calm_intros]: "calm X (queue_upd port f)"
  unfolding queue_upd_def by (intro calm_intros; simp)

lemma calm_ep_ready_node_alloc [calm_intros]: "calm X (ep_ready_node_alloc sys port)"
  unfolding ep_ready_node_alloc_def by (intro calm_intros; simp)

lemma calm_ep_ready_node_free [calm_intros]: "calm X (ep_ready_node_free sys port n)"
  unfolding ep_ready_node_free_def by (intro calm_intros; simp)

lemma calm_next_generation [calm_intros]: "calm X (next_generation port sock)"
  unfolding next_generation_def by (intro calm_intros; simp)

lemma calm_give_afd_info [calm_intros]: "calm X (give_afd_info sys port sock)"
  unfolding give_afd_info_def by (intro calm_intros; simp)

lemma calm_aux_retire [calm_intros]: "calm X (aux_retire sys sock)"
  unfolding aux_retire_def by (intro calm_intros; simp)

lemma calm_ep_local_shutdown_mask [calm_intros]: "calm X (ep_local_shutdown_mask how)"
  unfolding ep_local_shutdown_mask_def by (intro calm_intros; simp)

lemma calm_filter_disarmed [calm_intros]: "calm X (filter_disarmed sock level)"
  unfolding filter_disarmed_def by (intro calm_intros; simp)

lemma calm_ep_sock_local_shutdown_level_locked [calm_intros]: "calm X (ep_sock_local_shutdown_level_locked sys sock)"
  unfolding ep_sock_local_shutdown_level_locked_def by (intro calm_intros; simp)

lemma calm_node_fill [calm_intros]: "calm X (node_fill sys port sock node delivered)"
  unfolding node_fill_def by (intro calm_intros; simp)

lemma calm_node_publish [calm_intros]: "calm X (node_publish port sock node delivered)"
  unfolding node_publish_def by (intro calm_intros; simp)

lemma calm_disarm_delivered [calm_intros]: "calm X (disarm_delivered sock delivered)"
  unfolding disarm_delivered_def by (intro calm_intros; simp)

lemma calm_node_obtain [calm_intros]: "calm X (node_obtain sys port)"
  unfolding node_obtain_def by (intro calm_intros; simp)

lemma calm_queue_shutdown_node [calm_intros]: "calm X (queue_shutdown_node sys port sock node delivered observed already_ready)"
  unfolding queue_shutdown_node_def by (intro calm_intros; simp)

lemma calm_ep_sock_queue_local_shutdown_locked [calm_intros]: "calm X (ep_sock_queue_local_shutdown_locked sys sock node)"
  unfolding ep_sock_queue_local_shutdown_locked_def by (intro calm_intros; simp)

lemma calm_ep_sock_afd_events_for_state_locked [calm_intros]: "calm X (ep_sock_afd_events_for_state_locked sock user_events parked disarmed)"
  unfolding ep_sock_afd_events_for_state_locked_def by (intro calm_intros; simp)

lemma calm_ep_sock_afd_events_locked [calm_intros]: "calm X (ep_sock_afd_events_locked sock user_events)"
  unfolding ep_sock_afd_events_locked_def by (intro calm_intros; simp)

lemma calm_fail_last [calm_intros]: "calm X (fail_last sys)"
  unfolding fail_last_def by (intro calm_intros; simp)

lemma calm_has_output [calm_intros]: "calm X (has_output sock status)"
  unfolding has_output_def by (intro calm_intros; simp)

lemma calm_translate_waitable [calm_intros]: "calm X (translate_waitable sys k status)"
  unfolding translate_waitable_def by (intro calm_intros; simp)

lemma calm_sample_direction [calm_intros]: "calm X (sample_direction sys fd current writable wanted)"
  unfolding sample_direction_def by (intro calm_intros; simp)

lemma calm_qualify_directions [calm_intros]: "calm X (qualify_directions sys sock current delivered)"
  unfolding qualify_directions_def by (intro calm_intros; simp)

lemma calm_current_level [calm_intros]: "calm X (current_level sys sock raw)"
  unfolding current_level_def by (intro calm_intros; simp)

lemma calm_latch_events [calm_intros]: "calm X (latch_events sock pipe_snapshot level)"
  unfolding latch_events_def by (intro calm_intros; simp)

lemma calm_deliver_node [calm_intros]: "calm X (deliver_node sys port sock node events)"
  unfolding deliver_node_def by (intro calm_intros; simp)

lemma calm_deliver_events [calm_intros]: "calm X (deliver_events sys port sock old_observed delivered)"
  unfolding deliver_events_def by (intro calm_intros; simp)

lemma calm_waiter_listening [calm_intros]: "calm X (waiter_listening port)"
  unfolding waiter_listening_def by (intro calm_intros; simp)

lemma calm_bump_generation [calm_intros]: "calm X (bump_generation port)"
  unfolding bump_generation_def by (intro calm_intros; simp)

lemma calm_restore_registration [calm_intros]: "calm X (restore_registration sock old)"
  unfolding restore_registration_def by (intro calm_intros; simp)

lemma calm_modify_transfer [calm_intros]: "calm X (modify_transfer sys port old new_interest)"
  unfolding modify_transfer_def by (intro calm_intros; simp)

lemma calm_modify_fields [calm_intros]: "calm X (modify_fields sys port sock events flags data ctx new_dormant new_interest covers transfer)"
  unfolding modify_fields_def by (intro calm_intros; simp)

lemma calm_wake_waiter [calm_intros]: "calm X (wake_waiter sys port)"
  unfolding wake_waiter_def by (intro calm_intros; simp)

lemma calm_native_shutdown [calm_intros]: "calm X (native_shutdown sys fd how)"
  unfolding native_shutdown_def by (intro calm_intros; simp)

lemma calm_shutdown_unregistered [calm_intros]: "calm X (shutdown_unregistered sys fd how)"
  unfolding shutdown_unregistered_def by (intro calm_intros; simp)

lemma calm_restore_classes [calm_intros]: "calm X (restore_classes sock old)"
  unfolding restore_classes_def by (intro calm_intros; simp)

lemma calm_rearm_fields [calm_intros]: "calm X (rearm_fields port sock classes new_disarmed rearm_oneshot covers new_afd_events)"
  unfolding rearm_fields_def by (intro calm_intros; simp)

lemma calm_note_failure [calm_intros]: "calm X (note_failure first_error failing)"
  unfolding note_failure_def by (intro calm_intros; simp)

lemma calm_rearm_oneshot_fields [calm_intros]: "calm X (rearm_oneshot_fields port sock)"
  unfolding rearm_oneshot_fields_def by (intro calm_intros; simp)

lemma calm_restore_oneshot [calm_intros]: "calm X (restore_oneshot sock old)"
  unfolding restore_oneshot_def by (intro calm_intros; simp)

lemma calm_queue_pop [calm_intros]: "calm X (queue_pop port)"
  unfolding queue_pop_def by (intro calm_intros; simp)

lemma calm_node_owner [calm_intros]: "calm X (node_owner port n)"
  unfolding node_owner_def by (intro calm_intros; simp)

lemma calm_drain_registration [calm_intros]: "calm X (drain_registration sys sock n)"
  unfolding drain_registration_def by (intro calm_intros; simp)

lemma calm_kernel_stores [calm_intros]: "calm X (kernel_stores sock status output)"
  unfolding kernel_stores_def by (intro calm_intros; simp)

lemma calm_kernel_results [calm_intros]: "calm X (kernel_results sys xs)"
  by (induction xs arbitrary: sys) (auto intro!: calm_intros)

lemma calm_dequeue_packets [calm_intros]: "calm X (dequeue_packets sys port wait_ms)"
  unfolding dequeue_packets_def by (intro calm_intros; simp)

lemma calm_wait_fail [calm_intros]: "calm X (wait_fail error)"
  unfolding wait_fail_def by (intro calm_intros; simp)

lemma calm_port_failed [calm_intros]: "calm X (port_failed port)"
  unfolding port_failed_def by (intro calm_intros; simp)

lemma calm_zero_budget_hit [calm_intros]: "calm X (zero_budget_hit port)"
  unfolding zero_budget_hit_def by (intro calm_intros; simp)

lemma calm_zero_exhausted [calm_intros]: "calm X (zero_exhausted sys c dequeues)"
  unfolding zero_exhausted_def by (intro calm_intros; simp)

lemma calm_arm_failed [calm_intros]: "calm X (arm_failed port arm_error)"
  unfolding arm_failed_def by (intro calm_intros; simp)

lemma calm_wait_past [calm_intros]: "calm X (wait_past sys c ws)"
  unfolding wait_past_def by (intro calm_intros; simp)

lemma calm_wait_attempt_precise [calm_intros]: "calm X (wait_attempt_precise sys port c ws)"
  unfolding wait_attempt_precise_def by (intro calm_intros; simp)

lemma calm_wait_deadline [calm_intros]: "calm X (wait_deadline sys port c ws0)"
  unfolding wait_deadline_def by (intro calm_intros; simp)

lemma calm_wait_interval [calm_intros]: "calm X (wait_interval sys port c ws deferred_rearm)"
  unfolding wait_interval_def by (intro calm_intros; simp)

lemma calm_wait_no_packet [calm_intros]: "calm X (wait_no_packet sys port c v deferred_rearm_wait)"
  unfolding wait_no_packet_def by (intro calm_intros; simp)

lemma calm_wait_after_dispatch [calm_intros]: "calm X (wait_after_dispatch sys port c v timeout_packet)"
  unfolding wait_after_dispatch_def by (intro calm_intros; simp)

lemma calm_wait_begin [calm_intros]: "calm X (wait_begin port)"
  unfolding wait_begin_def by (intro calm_intros; simp)

lemma calm_wait_end [calm_intros]: "calm X (wait_end port)"
  unfolding wait_end_def by (intro calm_intros; simp)

lemma calm_begin_close_revoke [calm_intros]: "calm X (begin_close_revoke sys port iocp_to_close)"
  unfolding begin_close_revoke_def by (intro calm_intros; simp)

lemma calm_ep_port_begin_close [calm_intros]: "calm X (ep_port_begin_close sys port_ptr)"
  unfolding ep_port_begin_close_def by (intro calm_intros; simp)

lemma calm_ep_port_pending_count [calm_intros]: "calm X (ep_port_pending_count port)"
  unfolding ep_port_pending_count_def by (intro calm_intros; simp)

end
