(* ===== verification/Ep_Accounting.thy ===== *)
theory Ep_Accounting
  imports Ep_Frame
begin

text \<open>
  The accounting of pending polls: the predicate \<open>poll_acct\<close>, the triples \<open>tri\<close> for programs that pass
  through states where one registration is not accounted for, and the operations of the port, each shown
  to keep the accounting (\<open>sane\<close>) unless it makes a bad access.
\<close>

section \<open>The accounting\<close>

definition active :: "ep_sock \<Rightarrow> bool" where
  "active k \<longleftrightarrow> sk_poll_status k \<noteq> EP_POLL_IDLE"

text \<open>The registrations of a port whose poll is active, and the accounting: every port counts them.  In
  \<open>acct_but a\<close> the registration \<open>a\<close> is left out of the count.\<close>

definition active_socks :: "('os, 'z) ep_world_scheme \<Rightarrow> addr \<Rightarrow> addr set" where
  "active_socks s p = {a. \<exists>k. socks s a = Some k \<and> sk_port k = p \<and> active k}"

text \<open>Registrations live at addresses that were handed out.\<close>

definition addrs_ok :: "('os, 'z) ep_world_scheme \<Rightarrow> bool" where
  "addrs_ok s \<longleftrightarrow> (\<forall>a. socks s a \<noteq> None \<longrightarrow> a < pool_next_addr s)"

definition poll_acct :: "('os, 'z) ep_world_scheme \<Rightarrow> bool" where
  "poll_acct s \<longleftrightarrow> addrs_ok s \<and> (\<forall>p q. ports s p = Some q \<longrightarrow>
     finite (active_socks s p) \<and> pt_pending_poll_count q = card (active_socks s p))"

definition acct_but :: "addr \<Rightarrow> addr \<Rightarrow> bool \<Rightarrow> ('os, 'z) ep_world_scheme \<Rightarrow> bool" where
  "acct_but p a b s \<longleftrightarrow> addrs_ok s \<and> (\<exists>k. socks s a = Some k \<and> sk_port k = p \<and> active k = b) \<and>
     (\<forall>r q. ports s r = Some q \<longrightarrow>
       finite (active_socks s r) \<and> pt_pending_poll_count q = card (active_socks s r - {a}))"

definition acct_busy :: "addr \<Rightarrow> addr \<Rightarrow> ('os, 'z) ep_world_scheme \<Rightarrow> bool" where
  "acct_busy p a s \<longleftrightarrow> poll_acct s \<and> (\<exists>k. socks s a = Some k \<and> sk_port k = p \<and> active k)"

text \<open>A program from \<open>P\<close> to \<open>Q\<close>, unless it makes a bad access, which is never forgotten.\<close>

definition tri :: "(('os, 'z) ep_world_scheme \<Rightarrow> bool) \<Rightarrow> (('os, 'z) ep_world_scheme, 'a) state \<Rightarrow>
    ('a \<Rightarrow> ('os, 'z) ep_world_scheme \<Rightarrow> bool) \<Rightarrow> bool" where
  "tri P m Q \<longleftrightarrow> (\<forall>s. (ep_ub s \<longrightarrow> ep_ub (exec m s)) \<and>
     (P s \<longrightarrow> ep_ub (exec m s) \<or> Q (result_of m s) (exec m s)))"

definition stable :: "(('os, 'z) ep_world_scheme \<Rightarrow> bool) \<Rightarrow> bool" where
  "stable P \<longleftrightarrow> (\<forall>s s'. polls_view {} s' = polls_view {} s \<longrightarrow>
     pool_next_addr s \<le> pool_next_addr s' \<longrightarrow> P s \<longrightarrow> P s')"

lemma view_socks:
  assumes "polls_view {} s' = polls_view {} s"
  shows "(\<exists>k. socks s' a = Some k \<and> sk_port k = p \<and> active k = b) \<longleftrightarrow>
         (\<exists>k. socks s a = Some k \<and> sk_port k = p \<and> active k = b)"
proof -
  have "map_option (\<lambda>k. (sk_port k, Some (active k))) (socks s' a) =
        map_option (\<lambda>k. (sk_port k, Some (active k))) (socks s a)"
    using assms by (simp add: polls_view_def active_def fun_eq_iff)
  then show ?thesis by (cases "socks s' a"; cases "socks s a") auto
qed

lemma view_ports:
  "polls_view {} s' = polls_view {} s \<Longrightarrow> ports s' p = Some q \<Longrightarrow>
   \<exists>q'. ports s p = Some q' \<and> pt_pending_poll_count q' = pt_pending_poll_count q"
  by (cases "ports s p") (auto simp: polls_view_def fun_eq_iff dest: spec [of _ p])

lemma view_active_socks: "polls_view {} s' = polls_view {} s \<Longrightarrow> active_socks s' p = active_socks s p"
  using view_socks [of s' s _ p True] by (simp add: active_socks_def)

lemma view_addrs:
  assumes v: "polls_view {} s' = polls_view {} s" and n: "pool_next_addr s \<le> pool_next_addr s'" and s: "addrs_ok s"
  shows "addrs_ok s'"
  unfolding addrs_ok_def
proof (intro allI impI)
  fix a assume "socks s' a \<noteq> None"
  then obtain k where "socks s' a = Some k" by blast
  then have "socks s a \<noteq> None" using view_socks [OF v, of a "sk_port k" "active k"] by auto
  then show "a < pool_next_addr s'" using s n unfolding addrs_ok_def by (meson order_less_le_trans)
qed

lemma stable_acct: "stable poll_acct"
  unfolding stable_def
proof (intro allI impI)
  fix s s' :: "('a, 'b) ep_world_scheme"
  assume v: "polls_view {} s' = polls_view {} s" and n: "pool_next_addr s \<le> pool_next_addr s'" and s: "poll_acct s"
  have "finite (active_socks s' r) \<and> pt_pending_poll_count q = card (active_socks s' r)"
    if q: "ports s' r = Some q" for r q
  proof -
    obtain q' where q': "ports s r = Some q'" "pt_pending_poll_count q' = pt_pending_poll_count q"
      using view_ports [OF v q] by blast
    have "finite (active_socks s r) \<and> pt_pending_poll_count q' = card (active_socks s r)"
      using s q'(1) unfolding poll_acct_def by blast
    then show ?thesis unfolding view_active_socks [OF v] q'(2) .
  qed
  moreover have "addrs_ok s'" using view_addrs [OF v n] s by (simp add: poll_acct_def)
  ultimately show "poll_acct s'" unfolding poll_acct_def by blast
qed

lemma stable_but: "stable (acct_but p a b)"
  unfolding stable_def
proof (intro allI impI)
  fix s s' :: "('a, 'b) ep_world_scheme"
  assume v: "polls_view {} s' = polls_view {} s" and n: "pool_next_addr s \<le> pool_next_addr s'" and s: "acct_but p a b s"
  have "\<exists>k. socks s' a = Some k \<and> sk_port k = p \<and> active k = b"
    using s unfolding view_socks [OF v] acct_but_def by blast
  moreover have "finite (active_socks s' r) \<and> pt_pending_poll_count q = card (active_socks s' r - {a})"
    if q: "ports s' r = Some q" for r q
  proof -
    obtain q' where q': "ports s r = Some q'" "pt_pending_poll_count q' = pt_pending_poll_count q"
      using view_ports [OF v q] by blast
    have "finite (active_socks s r) \<and> pt_pending_poll_count q' = card (active_socks s r - {a})"
      using s q'(1) unfolding acct_but_def by blast
    then show ?thesis unfolding view_active_socks [OF v] q'(2) .
  qed
  moreover have "addrs_ok s'" using view_addrs [OF v n] s unfolding acct_but_def by blast
  ultimately show "acct_but p a b s'" unfolding acct_but_def by blast
qed

lemma stable_busy: "stable (acct_busy p a)"
  unfolding stable_def
proof (intro allI impI)
  fix s s' :: "('a, 'b) ep_world_scheme"
  assume v: "polls_view {} s' = polls_view {} s" and n: "pool_next_addr s \<le> pool_next_addr s'" and s: "acct_busy p a s"
  have "\<exists>k. socks s' a = Some k \<and> sk_port k = p \<and> active k = True"
    unfolding view_socks [OF v] using s by (auto simp: acct_busy_def)
  moreover have "poll_acct s'" using s stable_acct v n unfolding acct_busy_def stable_def by blast
  ultimately show "acct_busy p a s'" by (simp add: acct_busy_def)
qed

lemmas stables = stable_acct stable_but stable_busy

section \<open>Rules\<close>

lemma tri_calm: "calm {} m \<Longrightarrow> stable P \<Longrightarrow> tri P m (\<lambda>_. P)"
  unfolding tri_def calm_def stable_def by blast

lemma tri_bind: "tri P m R \<Longrightarrow> (\<And>r. tri (R r) (k r) Q) \<Longrightarrow> tri P (State_Monad.bind m k) Q"
  unfolding tri_def by (auto 4 3)

lemma tri_calm_bind:
  "calm {} m \<Longrightarrow> stable P \<Longrightarrow> (\<And>r. tri P (k r) Q) \<Longrightarrow> tri P (State_Monad.bind m k) Q"
  using tri_bind tri_calm by blast

lemma tri_weaken:
  "tri P m Q \<Longrightarrow> (\<And>s. P' s \<Longrightarrow> P s) \<Longrightarrow> (\<And>r s. Q r s \<Longrightarrow> Q' r s) \<Longrightarrow> tri P' m Q'"
  unfolding tri_def by blast

lemma tri_absurd: "tri P m Q \<Longrightarrow> (\<And>s. \<not> P' s) \<Longrightarrow> tri P' m Q'"
  unfolding tri_def by blast

lemma tri_return: "(\<And>s. P s \<Longrightarrow> Q x s) \<Longrightarrow> tri P (return x) Q"
  by (simp add: tri_def)

lemma tri_if: "(b \<Longrightarrow> tri P m Q) \<Longrightarrow> (\<not> b \<Longrightarrow> tri P n Q) \<Longrightarrow> tri P (if b then m else n) Q"
  by simp

lemma tri_when: "(b \<Longrightarrow> tri P m Q) \<Longrightarrow> (\<not> b \<Longrightarrow> tri P skip Q) \<Longrightarrow> tri P (when_do b m) Q"
  by (cases b) (simp_all add: tri_def)

lemma tri_option:
  "(v = None \<Longrightarrow> tri P m Q) \<Longrightarrow> (\<And>x. v = Some x \<Longrightarrow> tri P (k x) Q) \<Longrightarrow>
   tri P (case v of None \<Rightarrow> m | Some x \<Rightarrow> k x) Q"
  by (cases v) simp_all

lemma tri_prod: "(\<And>x y. v = (x, y) \<Longrightarrow> tri P (k x y) Q) \<Longrightarrow> tri P (case v of (x, y) \<Rightarrow> k x y) Q"
  by (cases v) simp

lemma tri_let: "(\<And>x. x = v \<Longrightarrow> tri P (k x) Q) \<Longrightarrow> tri P (Let v k) Q"
  by (simp add: Let_def)

lemma tri_kind:
  "tri P m Q \<Longrightarrow> tri P n Q \<Longrightarrow> tri P r Q \<Longrightarrow>
   tri P (case v of EP_REG_SOCKET \<Rightarrow> m | EP_REG_WAITABLE \<Rightarrow> n | EP_REG_PIPE \<Rightarrow> r) Q"
  by (cases v) simp_all

lemmas tri_cases = tri_if tri_when tri_option tri_prod tri_let tri_kind

text \<open>Reading a registration splits on whether its poll is active.\<close>

lemma acct_addrs: "poll_acct s \<Longrightarrow> addrs_ok s" "acct_but p a b s \<Longrightarrow> addrs_ok s"
  unfolding poll_acct_def acct_but_def by blast+

lemma poll_acctI:
  "addrs_ok s \<Longrightarrow>
   (\<And>r q. ports s r = Some q \<Longrightarrow> finite (active_socks s r) \<and> pt_pending_poll_count q = card (active_socks s r)) \<Longrightarrow>
   poll_acct s"
  unfolding poll_acct_def by blast

lemma acct_butI:
  "addrs_ok s \<Longrightarrow> socks s a = Some k \<Longrightarrow> sk_port k = p \<Longrightarrow> active k = b \<Longrightarrow>
   (\<And>r q. ports s r = Some q \<Longrightarrow> finite (active_socks s r) \<and> pt_pending_poll_count q = card (active_socks s r - {a})) \<Longrightarrow>
   acct_but p a b s"
  unfolding acct_but_def by blast

lemma acct_butD:
  "acct_but p a b s \<Longrightarrow> ports s r = Some q \<Longrightarrow>
   finite (active_socks s r) \<and> pt_pending_poll_count q = card (active_socks s r - {a})"
  unfolding acct_but_def by blast

lemma poll_acctD:
  "poll_acct s \<Longrightarrow> ports s r = Some q \<Longrightarrow>
   finite (active_socks s r) \<and> pt_pending_poll_count q = card (active_socks s r)"
  unfolding poll_acct_def by blast

lemma acct_idle:
  assumes s: "poll_acct s" "socks s a = Some k" "\<not> active k"
  shows "acct_but (sk_port k) a False s"
proof -
  have "active_socks s r - {a} = active_socks s r" for r using s(2,3) by (auto simp: active_socks_def)
  note d = this
  show ?thesis
  proof (rule acct_butI [OF acct_addrs(1) [OF s(1)] s(2)])
    show "active k = False" using s(3) by simp
    show "finite (active_socks s r) \<and> pt_pending_poll_count q = card (active_socks s r - {a})"
      if "ports s r = Some q" for r q using poll_acctD [OF s(1) that] by (simp add: d)
  qed simp
qed

lemma idle_acct:
  assumes s: "acct_but p a False s"
  shows "poll_acct s"
proof -
  have "active_socks s r - {a} = active_socks s r" for r using s by (auto simp: active_socks_def acct_but_def)
  note d = this
  show ?thesis
  proof (rule poll_acctI [OF acct_addrs(2) [OF s]])
    show "finite (active_socks s r) \<and> pt_pending_poll_count q = card (active_socks s r)"
      if "ports s r = Some q" for r q using acct_butD [OF s that] by (simp add: d)
  qed
qed

lemma tri_read:
  assumes "\<And>k. \<not> active k \<Longrightarrow> tri (acct_but (sk_port k) a False) (c (f k)) Q"
    and "\<And>k. active k \<Longrightarrow> tri (acct_busy (sk_port k) a) (c (f k)) Q"
  shows "tri poll_acct (State_Monad.bind (sock_read a f) c) Q"
  unfolding tri_def
proof (intro allI conjI impI)
  fix s :: "('a, 'b) ep_world_scheme"
  let ?k = "the (socks s a)"
  have r: "result_of (sock_read a f) s = f ?k" and e: "socks s a \<noteq> None \<Longrightarrow> exec (sock_read a f) s = s"
    and u: "ep_ub s \<or> socks s a = None \<Longrightarrow> ep_ub (exec (sock_read a f) s)"
    by (auto simp: sock_read_def bad_access_def)
  have m: "ep_ub t \<Longrightarrow> ep_ub (exec (c (f ?k)) t)" for t
    using assms [of ?k] by (cases "active ?k") (auto simp: tri_def)
  show "ep_ub (exec (sock_read a f \<bind> c) s)" if "ep_ub s" using m u r that by simp
  show "ep_ub (exec (sock_read a f \<bind> c) s) \<or>
      Q (result_of (sock_read a f \<bind> c) s) (exec (sock_read a f \<bind> c) s)" if p: "poll_acct s"
  proof (cases "socks s a")
    case None
    then show ?thesis using m u r by simp
  next
    case (Some k)
    then show ?thesis
      using assms [of k] acct_idle [OF p Some] p e r
      by (cases "active k") (auto simp: tri_def acct_busy_def)
  qed
qed

section \<open>The steps that change the accounting\<close>

lemma active_socks_upd:
  "active_socks (s \<lparr> socks := (socks s)(a \<mapsto> k) \<rparr>) p =
     (if sk_port k = p \<and> active k then insert a (active_socks s p) else active_socks s p - {a})"
  by (auto simp: active_socks_def)

lemma active_socks_ports [simp]: "active_socks (s \<lparr> ports := P \<rparr>) p = active_socks s p"
  by (simp add: active_socks_def)

lemma tri_set_status:
  "tri (acct_but p a b) (sock_upd a (\<lambda>k. k \<lparr> sk_poll_status := v \<rparr>)) (\<lambda>_. acct_but p a (v \<noteq> EP_POLL_IDLE))"
  unfolding tri_def
proof (intro allI conjI impI)
  fix s :: "('a, 'b) ep_world_scheme"
  let ?m = "sock_upd a (\<lambda>k. k \<lparr> sk_poll_status := v \<rparr>) :: (('a, 'b) ep_world_scheme, unit) state"
  show "ep_ub s \<Longrightarrow> ep_ub (exec ?m s)" by (simp add: sock_upd_def split: option.split)
  assume s: "acct_but p a b s"
  then obtain k where k: "socks s a = Some k" "sk_port k = p" by (auto simp: acct_but_def)
  let ?k = "k \<lparr> sk_poll_status := v \<rparr>"
  let ?s = "s \<lparr> socks := (socks s)(a \<mapsto> ?k) \<rparr>"
  have e: "exec ?m s = ?s" using k by (simp add: sock_upd_def)
  have "active_socks ?s r - {a} = active_socks s r - {a}" and "finite (active_socks ?s r) = finite (active_socks s r)" for r
    by (auto simp: active_socks_upd)
  note d = this
  have o: "addrs_ok ?s" using acct_addrs(2) [OF s] k(1) by (auto simp: addrs_ok_def)
  have "acct_but p a (v \<noteq> EP_POLL_IDLE) ?s"
  proof (rule acct_butI [OF o, of _ ?k])
    show "finite (active_socks ?s r) \<and> pt_pending_poll_count q = card (active_socks ?s r - {a})"
      if "ports ?s r = Some q" for r q using acct_butD [OF s, of r q] that by (simp add: d)
  qed (use k in \<open>simp_all add: active_def\<close>)
  then show "ep_ub (exec ?m s) \<or> acct_but p a (v \<noteq> EP_POLL_IDLE) (exec ?m s)" by (simp add: e)
qed

text \<open>Counting one poll more or less on the port of the registration.\<close>

lemma port_upd_exec:
  "exec (port_upd p f) s = (case ports s p of None \<Rightarrow> s \<lparr> ep_ub := True \<rparr>
     | Some q \<Rightarrow> s \<lparr> ports := (ports s)(p \<mapsto> f q) \<rparr>)"
  by (simp add: port_upd_def)

lemma active_at:
  assumes k: "socks s a = Some k" "sk_port k = p" "active k"
  shows "finite (active_socks s p) \<Longrightarrow> card (active_socks s p) = Suc (card (active_socks s p - {a}))"
    and "r \<noteq> p \<Longrightarrow> active_socks s r - {a} = active_socks s r"
proof -
  have "a \<in> active_socks s p" using k by (auto simp: active_socks_def)
  then show "finite (active_socks s p) \<Longrightarrow> card (active_socks s p) = Suc (card (active_socks s p - {a}))"
    by (metis card.remove)
  show "r \<noteq> p \<Longrightarrow> active_socks s r - {a} = active_socks s r" using k by (auto simp: active_socks_def)
qed

lemma tri_count_up:
  "tri (acct_but p a True) (port_upd p (\<lambda>q. q \<lparr> pt_pending_poll_count := pt_pending_poll_count q + 1 \<rparr>))
     (\<lambda>_. acct_busy p a)"
  unfolding tri_def
proof (intro allI conjI impI)
  fix s :: "('a, 'b) ep_world_scheme"
  let ?f = "\<lambda>q. q \<lparr> pt_pending_poll_count := pt_pending_poll_count q + 1 \<rparr>"
  show "ep_ub s \<Longrightarrow> ep_ub (exec (port_upd p ?f) s)" by (simp add: port_upd_exec split: option.split)
  assume s: "acct_but p a True s"
  then obtain k where k: "socks s a = Some k" "sk_port k = p" "active k" by (auto simp: acct_but_def)
  show "ep_ub (exec (port_upd p ?f) s) \<or> acct_busy p a (exec (port_upd p ?f) s)"
  proof (cases "ports s p")
    case None
    then show ?thesis by (simp add: port_upd_exec)
  next
    case (Some q)
    let ?s = "s \<lparr> ports := (ports s)(p \<mapsto> ?f q) \<rparr>"
    have "finite (active_socks ?s r) \<and> pt_pending_poll_count g = card (active_socks ?s r)"
      if "ports ?s r = Some g" for r g
    proof (cases "r = p")
      case True
      then show ?thesis using that acct_butD [OF s Some] active_at(1) [OF k] by auto
    next
      case False
      then have "ports s r = Some g" using that by simp
      then show ?thesis using acct_butD [OF s, of r g] active_at(2) [OF k False] by simp
    qed
    moreover have "addrs_ok ?s" using acct_addrs(2) [OF s] by (simp add: addrs_ok_def)
    ultimately have "poll_acct ?s" unfolding poll_acct_def by blast
    then have "acct_busy p a ?s" using k by (simp add: acct_busy_def)
    then show ?thesis using Some by (simp add: port_upd_exec)
  qed
qed

lemma tri_count_down:
  "tri (acct_busy p a) (port_upd p (\<lambda>q. q \<lparr> pt_pending_poll_count := pt_pending_poll_count q - 1 \<rparr>))
     (\<lambda>_. acct_but p a True)"
  unfolding tri_def
proof (intro allI conjI impI)
  fix s :: "('a, 'b) ep_world_scheme"
  let ?f = "\<lambda>q. q \<lparr> pt_pending_poll_count := pt_pending_poll_count q - 1 \<rparr>"
  show "ep_ub s \<Longrightarrow> ep_ub (exec (port_upd p ?f) s)" by (simp add: port_upd_exec split: option.split)
  assume s: "acct_busy p a s"
  then obtain k where k: "socks s a = Some k" "sk_port k = p" "active k" by (auto simp: acct_busy_def)
  have s': "poll_acct s" using s by (simp add: acct_busy_def)
  show "ep_ub (exec (port_upd p ?f) s) \<or> acct_but p a True (exec (port_upd p ?f) s)"
  proof (cases "ports s p")
    case None
    then show ?thesis by (simp add: port_upd_exec)
  next
    case (Some q)
    let ?s = "s \<lparr> ports := (ports s)(p \<mapsto> ?f q) \<rparr>"
    have "finite (active_socks ?s r) \<and> pt_pending_poll_count g = card (active_socks ?s r - {a})"
      if "ports ?s r = Some g" for r g
    proof (cases "r = p")
      case True
      then show ?thesis using that poll_acctD [OF s' Some] active_at(1) [OF k] by auto
    next
      case False
      then have "ports s r = Some g" using that by simp
      then show ?thesis using poll_acctD [OF s', of r g] active_at(2) [OF k False] by simp
    qed
    note d = this
    have o: "addrs_ok ?s" using acct_addrs(1) [OF s'] by (simp add: addrs_ok_def)
    have "acct_but p a True ?s"
    proof (rule acct_butI [OF o, of _ k])
      show "finite (active_socks ?s r) \<and> pt_pending_poll_count g = card (active_socks ?s r - {a})"
        if "ports ?s r = Some g" for r g by (rule d [OF that])
    qed (use k in simp_all)
    then show ?thesis using Some by (simp add: port_upd_exec)
  qed
qed

lemma tri_sock_free: "tri (acct_but p a False) (sock_free a) (\<lambda>_. poll_acct)"
  unfolding tri_def
proof (intro allI conjI impI)
  fix s :: "('a, 'b) ep_world_scheme"
  let ?s = "s \<lparr> socks := (socks s)(a := None) \<rparr>"
  show "ep_ub s \<Longrightarrow> ep_ub (exec (sock_free a) s)" by (simp add: sock_free_def)
  assume s: "acct_but p a False s"
  have d: "active_socks ?s r = active_socks s r - {a}" for r by (auto simp: active_socks_def)
  have o: "addrs_ok ?s" using acct_addrs(2) [OF s] by (simp add: addrs_ok_def)
  have "poll_acct ?s"
  proof (rule poll_acctI [OF o])
    show "finite (active_socks ?s r) \<and> pt_pending_poll_count q = card (active_socks ?s r)"
      if "ports ?s r = Some q" for r q using acct_butD [OF s, of r q] that by (simp add: d)
  qed
  then show "ep_ub (exec (sock_free a) s) \<or> poll_acct (exec (sock_free a) s)" by (simp add: sock_free_def)
qed

section \<open>Bad accesses are never forgotten\<close>

definition sound :: "(('os, 'z) ep_world_scheme, 'a) state \<Rightarrow> bool" where
  "sound m \<longleftrightarrow> (\<forall>s. ep_ub s \<longrightarrow> ep_ub (exec m s))"

lemma tri_sound: "tri P m Q \<Longrightarrow> sound m"
  by (simp add: tri_def sound_def)

lemma calm_sound: "calm X m \<Longrightarrow> sound m"
  by (simp add: calm_def sound_def)

lemma sound_bind: "sound m \<Longrightarrow> (\<And>x. sound (k x)) \<Longrightarrow> sound (State_Monad.bind m k)"
  by (simp add: sound_def)

lemma sound_if: "sound m \<Longrightarrow> sound n \<Longrightarrow> sound (if b then m else n)"
  by simp

lemma sound_when: "sound m \<Longrightarrow> sound (when_do b m)"
  by (simp add: sound_def)

lemma sound_option: "sound m \<Longrightarrow> (\<And>x. sound (k x)) \<Longrightarrow> sound (case v of None \<Rightarrow> m | Some x \<Rightarrow> k x)"
  by (cases v) simp_all

lemma sound_prod: "(\<And>x y. sound (k x y)) \<Longrightarrow> sound (case v of (x, y) \<Rightarrow> k x y)"
  by (cases v) simp

lemma sound_let: "(\<And>x. sound (k x)) \<Longrightarrow> sound (Let v k)"
  by (simp add: Let_def)

lemma sound_upd: "sound (sock_upd a f)" "sound (port_upd p g)"
  by (simp_all add: sound_def sock_upd_def port_upd_def split: option.split)

lemmas sound_structure = sound_bind sound_if sound_when sound_option sound_prod sound_let sound_upd

lemma tri_bad: "(\<And>x. sound (c x)) \<Longrightarrow> tri P (State_Monad.bind bad_access c) Q"
  unfolding tri_def sound_def by (simp add: bad_access_def)

text \<open>Reading a registration whose state is known.\<close>

lemma tri_read_known:
  assumes kn: "\<And>s. P s \<Longrightarrow> \<exists>k. socks s a = Some k \<and> \<phi> k"
    and c: "\<And>k. \<phi> k \<Longrightarrow> tri P (c (f k)) Q" and u: "\<And>k. sound (c (f k))"
  shows "tri P (State_Monad.bind (sock_read a f) c) Q"
  unfolding tri_def
proof (intro allI conjI impI)
  fix s :: "('a, 'b) ep_world_scheme"
  let ?k = "the (socks s a)"
  have r: "result_of (sock_read a f) s = f ?k" and e: "socks s a \<noteq> None \<Longrightarrow> exec (sock_read a f) s = s"
    and v: "ep_ub s \<Longrightarrow> ep_ub (exec (sock_read a f) s)"
    by (auto simp: sock_read_def bad_access_def)
  show "ep_ub (exec (sock_read a f \<bind> c) s)" if "ep_ub s" using u [of ?k] v r that by (simp add: sound_def)
  show "ep_ub (exec (sock_read a f \<bind> c) s) \<or>
      Q (result_of (sock_read a f \<bind> c) s) (exec (sock_read a f \<bind> c) s)" if p: "P s"
  proof -
    obtain k where "socks s a = Some k" "\<phi> k" using kn [OF p] by blast
    then show ?thesis using c [of k] p e r by (auto simp: tri_def)
  qed
qed

lemma tri_busy_read:
  assumes "\<And>k. sk_port k = p \<Longrightarrow> active k \<Longrightarrow> tri (acct_busy p a) (c (f k)) Q" "\<And>k. sound (c (f k))"
  shows "tri (acct_busy p a) (State_Monad.bind (sock_read a f) c) Q"
  by (rule tri_read_known [where \<phi> = "\<lambda>k. sk_port k = p \<and> active k"]) (use assms in \<open>auto simp: acct_busy_def\<close>)

lemma tri_but_read:
  assumes "\<And>k. sk_port k = p \<Longrightarrow> active k = b \<Longrightarrow> tri (acct_but p a b) (c (f k)) Q" "\<And>k. sound (c (f k))"
  shows "tri (acct_but p a b) (State_Monad.bind (sock_read a f) c) Q"
  by (rule tri_read_known [where \<phi> = "\<lambda>k. sk_port k = p \<and> active k = b"]) (use assms in \<open>auto simp: acct_but_def\<close>)

lemma tri_from_idle: "tri poll_acct m Q \<Longrightarrow> tri (acct_but p a False) m Q"
  by (erule tri_weaken) (auto intro: idle_acct)

lemma tri_from_busy: "tri poll_acct m Q \<Longrightarrow> tri (acct_busy p a) m Q"
  by (erule tri_weaken) (auto simp: acct_busy_def)

lemma tri_to_acct: "tri P m (\<lambda>_. acct_but p a False) \<Longrightarrow> tri P m (\<lambda>_. poll_acct)"
  by (erule tri_weaken) (auto intro: idle_acct)

lemmas tri_calms = tri_calm [OF _ stable_acct] tri_calm [OF _ stable_but] tri_calm [OF _ stable_busy]
lemmas tri_calm_binds =
  tri_calm_bind [OF _ stable_acct] tri_calm_bind [OF _ stable_but] tri_calm_bind [OF _ stable_busy]

section \<open>Settling and cancelling\<close>

lemma upd_swap:
  "State_Monad.bind (sock_upd a f) (\<lambda>_. State_Monad.bind (port_upd p g) c) =
   State_Monad.bind (port_upd p g) (\<lambda>x. State_Monad.bind (sock_upd a f) (\<lambda>_. c x))"
proof (rule state.expand, rule ext)
  fix s :: "('a, 'b) ep_world_scheme"
  have e: "exec (port_upd p g) (exec (sock_upd a f) s) = exec (sock_upd a f) (exec (port_upd p g) s)"
    by (cases "socks s a"; cases "ports s p") (simp_all add: sock_upd_def port_upd_def)
  show "run_state (State_Monad.bind (sock_upd a f) (\<lambda>_. State_Monad.bind (port_upd p g) c)) s =
    run_state (State_Monad.bind (port_upd p g) (\<lambda>x. State_Monad.bind (sock_upd a f) (\<lambda>_. c x))) s"
    by (simp add: run_state_result_exec e)
qed

lemma tri_settle:
  "tri (acct_busy p a) (do {
     sock_upd a (\<lambda>k. k \<lparr> sk_poll_status := EP_POLL_IDLE \<rparr>);
     port_upd p (\<lambda>q. q \<lparr> pt_pending_poll_count := pt_pending_poll_count q - 1 \<rparr>);
     return x }) (\<lambda>_. acct_but p a False)"
  unfolding upd_swap
  by (rule tri_bind [OF tri_count_down], rule tri_bind [OF tri_set_status], rule tri_return) simp

lemma sound_complete_pending: "sound (ep_sock_complete_pending_locked sys a)"
  unfolding ep_sock_complete_pending_locked_def
  by (rule sound_structure | (rule calm_sound [of "{a}"]; intro calm_intros; simp))+

lemma tri_complete_pending:
  "tri (acct_busy p a) (ep_sock_complete_pending_locked sys a) (\<lambda>_. acct_but p a False)"
  unfolding ep_sock_complete_pending_locked_def
  apply (rule tri_busy_read)
   apply (rule tri_busy_read)
    apply (rule tri_calm_binds; (intro calm_intros; simp)?)
    apply (rule tri_if)
     apply (rule tri_bad, rule calm_sound [of "{a}"]; intro calm_intros; simp)
    apply (hypsubst, rule tri_settle)
   apply (rule sound_structure | (rule calm_sound [of "{a}"]; intro calm_intros; simp))+
  done

text \<open>A cancelled poll stays in the count until its packet arrives.\<close>

lemma tri_set_busy:
  "v \<noteq> EP_POLL_IDLE \<Longrightarrow>
   tri (acct_busy p a) (sock_upd a (\<lambda>k. k \<lparr> sk_poll_status := v \<rparr>)) (\<lambda>_. acct_busy p a)"
  unfolding tri_def
proof (intro allI conjI impI)
  fix s :: "('a, 'b) ep_world_scheme"
  let ?m = "sock_upd a (\<lambda>k. k \<lparr> sk_poll_status := v \<rparr>) :: (('a, 'b) ep_world_scheme, unit) state"
  show "ep_ub s \<Longrightarrow> ep_ub (exec ?m s)" by (simp add: sock_upd_def split: option.split)
  assume v: "v \<noteq> EP_POLL_IDLE" and s: "acct_busy p a s"
  then obtain k where k: "socks s a = Some k" "sk_port k = p" "active k" by (auto simp: acct_busy_def)
  have "polls_view {} (exec ?m s) = polls_view {} s"
    using k v by (auto simp: polls_view_def sock_upd_def active_def fun_eq_iff)
  moreover have "pool_next_addr s \<le> pool_next_addr (exec ?m s)" using k by (simp add: sock_upd_def)
  ultimately show "ep_ub (exec ?m s) \<or> acct_busy p a (exec ?m s)"
    using s stable_busy [of p a] unfolding stable_def by blast
qed

lemma tri_afd_cancel: "tri (acct_busy p a) (ep_afd_cancel sys (Some a)) (\<lambda>_. acct_busy p a)"
  unfolding ep_afd_cancel_def option.case
  by (rule tri_bind [OF tri_set_busy] tri_cases ep_poll_status.distinct | (rule tri_calm_binds; (intro calm_intros; simp)?) |
      (rule tri_calms; intro calm_intros; simp))+

lemma tri_aux_cancelled: "tri (acct_busy p a) (aux_cancelled sys a) (\<lambda>_. poll_acct)"
  unfolding aux_cancelled_def
  apply (rule tri_calm_binds; (intro calm_intros; simp)?)
  apply (rule tri_busy_read)
   apply (rule tri_if)
    apply (rule tri_bind [OF tri_set_busy], simp, rule tri_return, simp add: acct_busy_def)
   apply (rule tri_bind [OF tri_complete_pending] tri_from_idle tri_cases |
      (rule tri_calm_binds; (intro calm_intros; simp)?) | (rule tri_calms; intro calm_intros; simp))+
  apply (rule sound_structure sound_complete_pending | (rule calm_sound [of "{a}"]; intro calm_intros; simp))+
  done

lemma tri_cancel: "tri poll_acct (ep_sock_cancel_locked sys a) (\<lambda>_. poll_acct)"
  unfolding ep_sock_cancel_locked_def
  apply (rule tri_read)
   apply (simp add: active_def, rule tri_return, erule idle_acct)
  apply (rule tri_if, rule tri_return, simp add: acct_busy_def)
  apply (rule tri_if)
   apply (rule tri_calm_binds; (intro calm_intros; simp)?)
   apply (rule tri_if, rule tri_return, simp add: acct_busy_def, rule tri_aux_cancelled)
  apply (rule tri_bind [OF tri_afd_cancel])
  apply (rule tri_from_busy)
  apply (rule tri_calms; intro calm_intros; simp)
  done

text \<open>The accounting together with the port of one registration.\<close>

definition acct_at :: "addr \<Rightarrow> addr \<Rightarrow> ('os, 'z) ep_world_scheme \<Rightarrow> bool" where
  "acct_at p a s \<longleftrightarrow> poll_acct s \<and> (\<exists>k. socks s a = Some k \<and> sk_port k = p)"

lemma at_acct: "acct_at p a s \<Longrightarrow> poll_acct s"
  by (simp add: acct_at_def)

lemma idle_at: "acct_but p a False s \<Longrightarrow> acct_at p a s"
  unfolding acct_at_def using idle_acct [of p a s] by (metis acct_but_def)

lemma busy_at: "acct_busy p a s \<Longrightarrow> acct_at p a s"
  by (auto simp: acct_at_def acct_busy_def)

lemma stable_at: "stable (acct_at p a)"
  unfolding stable_def
proof (intro allI impI)
  fix s s' :: "('a, 'b) ep_world_scheme"
  assume v: "polls_view {} s' = polls_view {} s" and n: "pool_next_addr s \<le> pool_next_addr s'" and s: "acct_at p a s"
  have "poll_acct s'" using s stable_acct v n unfolding acct_at_def stable_def by blast
  moreover have "\<exists>b k. socks s' a = Some k \<and> sk_port k = p \<and> active k = b"
    unfolding view_socks [OF v] using s by (auto simp: acct_at_def)
  ultimately show "acct_at p a s'" by (auto simp: acct_at_def)
qed

lemma tri_at_read:
  assumes i: "\<And>k. sk_port k = p \<Longrightarrow> \<not> active k \<Longrightarrow> tri (acct_but p a False) (c (f k)) Q"
    and b: "\<And>k. sk_port k = p \<Longrightarrow> active k \<Longrightarrow> tri (acct_busy p a) (c (f k)) Q"
    and u: "\<And>k. sound (c (f k))"
  shows "tri (acct_at p a) (State_Monad.bind (sock_read a f) c) Q"
  unfolding tri_def
proof (intro allI conjI impI)
  fix s :: "('a, 'b) ep_world_scheme"
  let ?k = "the (socks s a)"
  have r: "result_of (sock_read a f) s = f ?k" and e: "socks s a \<noteq> None \<Longrightarrow> exec (sock_read a f) s = s"
    and v: "ep_ub s \<Longrightarrow> ep_ub (exec (sock_read a f) s)"
    by (auto simp: sock_read_def bad_access_def)
  show "ep_ub (exec (sock_read a f \<bind> c) s)" if "ep_ub s" using u [of ?k] v r that by (simp add: sound_def)
  show "ep_ub (exec (sock_read a f \<bind> c) s) \<or>
      Q (result_of (sock_read a f \<bind> c) s) (exec (sock_read a f \<bind> c) s)" if s: "acct_at p a s"
  proof -
    obtain k where k: "socks s a = Some k" "sk_port k = p" using s by (auto simp: acct_at_def)
    show ?thesis
    proof (cases "active k")
      case True
      then have "acct_busy p a s" using s k by (auto simp: acct_at_def acct_busy_def)
      then show ?thesis using b [of k] True k e r by (auto simp: tri_def)
    next
      case False
      then have "acct_but p a False s" using acct_idle [OF at_acct [OF s] k(1)] k(2) by simp
      then show ?thesis using i [of k] False k e r by (auto simp: tri_def)
    qed
  qed
qed

lemma tri_at_idle: "tri (acct_at p a) m Q \<Longrightarrow> tri (acct_but p a False) m Q"
  by (erule tri_weaken) (auto intro: idle_at)

lemma tri_at_busy: "tri (acct_at p a) m Q \<Longrightarrow> tri (acct_busy p a) m Q"
  by (erule tri_weaken) (auto intro: busy_at)

lemma tri_acct_at: "tri poll_acct m Q \<Longrightarrow> tri (acct_at p a) m Q"
  by (erule tri_weaken) (auto intro: at_acct)

lemmas tri_calms' = tri_calms tri_calm [OF _ stable_at]
lemmas tri_calm_binds' = tri_calm_binds tri_calm_bind [OF _ stable_at]

lemma tri_aux_cancelled_at: "tri (acct_busy p a) (aux_cancelled sys a) (\<lambda>_. acct_at p a)"
  unfolding aux_cancelled_def
  apply (rule tri_calm_binds; (intro calm_intros; simp)?)
  apply (rule tri_busy_read)
   apply (rule tri_if)
    apply (rule tri_bind [OF tri_set_busy], simp, rule tri_return, erule busy_at)
   apply (rule tri_bind [OF tri_complete_pending] tri_at_idle tri_cases |
      (rule tri_calm_binds'; (intro calm_intros; simp)?) | (rule tri_calms'; intro calm_intros; simp))+
  apply (rule sound_structure sound_complete_pending | (rule calm_sound [of "{a}"]; intro calm_intros; simp))+
  done

lemma sound_cancel: "sound (ep_sock_cancel_locked sys a)"
  by (rule tri_sound [OF tri_cancel])

lemma tri_cancel_at: "tri (acct_at p a) (ep_sock_cancel_locked sys a) (\<lambda>_. acct_at p a)"
  unfolding ep_sock_cancel_locked_def
  apply (rule tri_at_read)
    apply (simp add: active_def, rule tri_return, erule idle_at)
   apply (rule tri_if, rule tri_return, erule busy_at)
   apply (rule tri_if)
    apply (rule tri_calm_binds; (intro calm_intros; simp)?)
    apply (rule tri_if, rule tri_return, erule busy_at, rule tri_aux_cancelled_at)
   apply (rule tri_bind [OF tri_afd_cancel])
   apply (rule tri_at_busy)
   apply (rule tri_calms'; intro calm_intros; simp)
  apply (rule sound_structure tri_sound [OF tri_aux_cancelled] tri_sound [OF tri_afd_cancel] |
     (rule calm_sound [of "{}"]; intro calm_intros; simp))+
  done

section \<open>Releasing and retiring registrations\<close>

lemma tri_free: "tri (acct_but p a False) (ep_sock_free_locked sys port a) (\<lambda>_. poll_acct)"
  unfolding ep_sock_free_locked_def
  by (rule tri_sock_free | (rule tri_calm_binds; (intro calm_intros; simp)?))+

lemma tri_drop: "tri poll_acct (ep_sock_drop_closed_locked sys port a) (\<lambda>_. poll_acct)"
  unfolding ep_sock_drop_closed_locked_def
  apply (rule tri_calm_binds, (rule calm_intros))
  apply (rule tri_calm_binds; (intro calm_intros; simp; fail)?)
  apply (rule tri_calm_binds; (intro calm_intros; simp; fail)?)
  apply (rule tri_calm_binds; (intro calm_intros; simp; fail)?)
  apply (rule tri_calm_binds; (intro calm_intros; simp; fail)?)
  apply (rule tri_calm_binds; (intro calm_intros; simp; fail)?)
  apply (rule tri_calm_binds; (intro calm_intros; simp; fail)?)
  apply (rule tri_calm_binds; (intro calm_intros; simp; fail)?)
  apply (rule tri_calm_binds; (intro calm_intros; simp; fail)?)
  apply (rule tri_read)
   apply (rule tri_when, rule tri_free, rule tri_return, erule idle_acct)
  apply (rule tri_when, simp add: active_def, rule tri_return, simp add: acct_busy_def)
  done

lemma tri_retire: "tri poll_acct (ep_sock_retire_stale_locked sys port a) (\<lambda>_. poll_acct)"
  unfolding ep_sock_retire_stale_locked_def
  by (rule tri_bind [OF tri_cancel] tri_bind [OF tri_drop] |
      rule tri_bind [OF tri_when [OF tri_bind [OF tri_cancel]]] | (rule tri_calm_binds; (intro calm_intros; simp; fail)?) |
      (rule tri_calms; intro calm_intros; simp; fail))+

lemma tri_identity:
  "tri P m1 Q \<Longrightarrow> tri P m2 Q \<Longrightarrow> tri P m3 Q \<Longrightarrow> tri P m4 Q \<Longrightarrow>
   tri P (case v of EP_IDENTITY_ERROR \<Rightarrow> m1 | EP_IDENTITY_MATCH \<Rightarrow> m2 | EP_IDENTITY_STALE \<Rightarrow> m3
     | EP_IDENTITY_CLOSED \<Rightarrow> m4) Q"
  by (cases v) simp_all

lemma tri_retire_closed: "tri poll_acct (retire_closed sys port a) (\<lambda>_. poll_acct)"
  unfolding retire_closed_def
  by (rule tri_bind [OF tri_retire] | (rule tri_calm_binds; (intro calm_intros; simp; fail)?) |
      (rule tri_calms; intro calm_intros; simp; fail))+

lemma tri_validate_control: "tri poll_acct (ep_sock_validate_control_locked sys port a) (\<lambda>_. poll_acct)"
  unfolding ep_sock_validate_control_locked_def
  by (rule tri_bind [OF tri_retire] tri_retire_closed tri_cases tri_identity |
      (rule tri_calm_binds; (intro calm_intros; simp; fail)?) | (rule tri_calms; intro calm_intros; simp; fail))+

section \<open>Submission\<close>

text \<open>After a submission of an idle registration: the accounting holds, and a failure left it idle.\<close>

definition submitted :: "addr \<Rightarrow> addr \<Rightarrow> int \<Rightarrow> ('os, 'z) ep_world_scheme \<Rightarrow> bool" where
  "submitted p a r s \<longleftrightarrow> (if r < 0 then acct_but p a False s else poll_acct s)"

lemma submitted_idle: "acct_but p a False s \<Longrightarrow> submitted p a r s"
  by (simp add: submitted_def idle_acct)

lemma submitted_done: "poll_acct s \<Longrightarrow> \<not> r < 0 \<Longrightarrow> submitted p a r s"
  by (simp add: submitted_def)

lemma tri_idle_return: "tri (acct_but p a False) (return r) (\<lambda>r. submitted p a r)"
  by (rule tri_return, rule submitted_idle)

lemma tri_busy_return: "\<not> r < 0 \<Longrightarrow> tri (acct_busy p a) (return r) (\<lambda>r. submitted p a r)"
  by (rule tri_return, rule submitted_done) (simp_all add: acct_busy_def)

lemma tri_set_idle:
  "tri (acct_but p a b) (sock_upd a (\<lambda>k. k \<lparr> sk_poll_status := EP_POLL_IDLE \<rparr>)) (\<lambda>_. acct_but p a False)"
  using tri_set_status [of p a b EP_POLL_IDLE] by simp

lemma tri_set_pending:
  "tri (acct_but p a b) (sock_upd a (\<lambda>k. k \<lparr> sk_poll_status := EP_POLL_PENDING \<rparr>)) (\<lambda>_. acct_but p a True)"
  using tri_set_status [of p a b EP_POLL_PENDING] by simp

lemma tri_mark: "tri (acct_but p a False) (mark_pending p a) (\<lambda>_. acct_busy p a)"
  unfolding mark_pending_def
  by (rule tri_bind [OF tri_set_pending] tri_count_up | (rule tri_calm_binds; (intro calm_intros; simp; fail)?))+

lemma tri_mark_done:
  "tri (acct_but p a False) (do { mark_pending p a; return 0 }) (\<lambda>r. submitted p a r)"
  by (rule tri_bind [OF tri_mark], rule tri_busy_return) simp

lemma tri_drop_with: "tri (acct_but p a False) (drop_with sys port a e) (\<lambda>r. submitted p a r)"
  unfolding drop_with_def
  apply (rule tri_from_idle, rule tri_bind [OF tri_drop])
  apply (rule tri_calm_binds, intro calm_intros, rule tri_return, rule submitted_done; simp)
  done

lemma tri_idle_calm: "calm {} m \<Longrightarrow> tri (acct_but p a False) m (\<lambda>r. submitted p a r)"
  by (rule tri_weaken [OF tri_calm [OF _ stable_but]]) (auto intro: submitted_idle)

lemmas submit_steps = tri_mark_done tri_drop_with tri_idle_return tri_cases

lemma tri_waitable_probe: "tri (acct_but p a False) (waitable_probe sys p a) (\<lambda>r. submitted p a r)"
  unfolding waitable_probe_def
  by (rule submit_steps | (rule tri_calm_binds; (intro calm_intros; simp; fail)?) |
      (rule tri_idle_calm; intro calm_intros; simp; fail))+

lemma tri_submit_waitable: "tri (acct_but p a False) (submit_waitable sys p a) (\<lambda>r. submitted p a r)"
  unfolding submit_waitable_def
  by (rule submit_steps tri_waitable_probe | (rule tri_calm_binds; (intro calm_intros; simp; fail)?) |
      (rule tri_idle_calm; intro calm_intros; simp; fail))+

lemma tri_submit_pipe: "tri (acct_but p a False) (submit_pipe sys p a) (\<lambda>r. submitted p a r)"
  unfolding submit_pipe_def
  by (rule submit_steps | (rule tri_calm_binds; (intro calm_intros; simp; fail)?) |
      (rule tri_idle_calm; intro calm_intros; simp; fail))+

lemma tri_submit_fired: "tri (acct_but p a False) (submit_fired sys p a) (\<lambda>r. submitted p a r)"
  unfolding submit_fired_def
  by (rule submit_steps | (rule tri_calm_binds; (intro calm_intros; simp; fail)?) |
      (rule tri_idle_calm; intro calm_intros; simp; fail))+

lemma tri_submit_post: "tri (acct_but p a False) (submit_post sys p a) (\<lambda>r. submitted p a r)"
  unfolding submit_post_def
  by (rule tri_bind [OF tri_mark] tri_bind [OF tri_count_down] tri_bind [OF tri_set_idle] submit_steps tri_busy_return |
      (rule tri_calm_binds; (intro calm_intros; simp; fail)?) | simp)+

text \<open>An AFD request: its registration is active afterwards exactly if the request is pending.\<close>

definition requested :: "addr \<Rightarrow> addr \<Rightarrow> int \<times> bool \<Rightarrow> ('os, 'z) ep_world_scheme \<Rightarrow> bool" where
  "requested p a r s \<longleftrightarrow> acct_but p a (snd r) s \<and> (fst r \<noteq> 0 \<longrightarrow> \<not> snd r)"

lemma tri_requested: "b = snd r \<Longrightarrow> (fst r \<noteq> 0 \<longrightarrow> \<not> snd r) \<Longrightarrow>
    tri (acct_but p a b) (return r) (\<lambda>r. requested p a r)"
  by (rule tri_return) (simp add: requested_def)

lemma tri_outcome:
  "tri (acct_but p a True) (if st = STATUS_PENDING then when_do dup (ep_afd_poll_duplicate_finish sys a True)
      else do {
        sock_upd a (\<lambda>k. k \<lparr> sk_iosb_status := STATUS_SUCCESS \<rparr>);
        sock_upd a (\<lambda>k. k \<lparr> sk_poll_status := EP_POLL_IDLE \<rparr>);
        submit_release sys a dup
      }) (\<lambda>_. acct_but p a (st = STATUS_PENDING))"
proof (cases "st = STATUS_PENDING")
  case True
  then show ?thesis by (simp, intro tri_calms calm_intros)
next
  case False
  then show ?thesis
    apply simp
    apply (rule tri_calm_binds; (intro calm_intros; simp; fail)?)
    apply (rule tri_bind [OF tri_set_idle], rule tri_calms, intro calm_intros)
    done
qed

lemma tri_submit_request:
  "tri (acct_but p a False) (submit_request sys ioctl a ev afd dup) (\<lambda>r. requested p a r)"
  unfolding submit_request_def
  apply (rule tri_calm_binds; (intro calm_intros; simp; fail)?)
  apply (rule tri_let)
  apply (rule tri_calm_binds; (intro calm_intros; simp; fail)?)
  apply (rule tri_calm_binds; (intro calm_intros; simp; fail)?)
  apply (rule tri_let)
  apply (rule tri_calm_binds; (intro calm_intros; simp; fail)?)
  apply (rule tri_bind [OF tri_set_pending])
  apply (rule tri_calm_binds; (intro calm_intros; simp; fail)?)
  apply (rule tri_if)
  subgoal
    apply (rule tri_calm_binds; (intro calm_intros; simp; fail)?)
    apply (rule tri_bind [OF tri_set_idle])
    by (rule tri_requested | (rule tri_calm_binds; (intro calm_intros; simp; fail)?) | simp)+
  apply (rule tri_calm_binds; (intro calm_intros; simp; fail)?)
  apply (rule tri_calm_binds; (intro calm_intros; simp; fail)?)
  apply (rule tri_prod)
  apply (rule tri_calm_binds; (intro calm_intros; simp; fail)?)
  apply (rule tri_if)
  subgoal
    apply (rule tri_bind [OF tri_set_idle])
    by (rule tri_requested | (rule tri_calm_binds; (intro calm_intros; simp; fail)?) | simp)+
  apply (rule tri_bind [OF tri_outcome])
  apply (rule tri_requested | (rule tri_calm_binds; (intro calm_intros; simp; fail)?) | simp)+
  done

lemma tri_poll_submit:
  "tri (acct_but p a False) (ep_afd_poll_submit n sys (Some a) ev)
     (\<lambda>r. case r of None \<Rightarrow> acct_but p a False | Some v \<Rightarrow> requested p a v)"
proof -
  have r: "tri (acct_but p a False) (return (Some (v, False)))
     (\<lambda>r. case r of None \<Rightarrow> acct_but p a False | Some v \<Rightarrow> requested p a v)" for v
    by (rule tri_return) (simp add: requested_def)
  have n: "tri (acct_but p a False) (return None)
     (\<lambda>r. case r of None \<Rightarrow> acct_but p a False | Some v \<Rightarrow> requested p a v)"
    by (rule tri_return) simp
  have q: "tri (acct_but p a False) (do { v \<leftarrow> submit_request sys ioctl a ev afd dup; return (Some v) })
     (\<lambda>r. case r of None \<Rightarrow> acct_but p a False | Some v \<Rightarrow> requested p a v)" for ioctl afd dup
    by (rule tri_bind [OF tri_submit_request], rule tri_return) simp
  show ?thesis unfolding ep_afd_poll_submit_def option.case
    by (rule r n q tri_cases | (rule tri_calm_binds; (intro calm_intros; simp; fail)?))+
qed

text \<open>The submission of a socket.\<close>

abbreviation submitted' :: "addr \<Rightarrow> addr \<Rightarrow> int \<times> bool \<Rightarrow> ('os, 'z) ep_world_scheme \<Rightarrow> bool" where
  "submitted' p a r \<equiv> submitted p a (fst r)"

lemma tri_pair: "tri P m (\<lambda>r. submitted p a r) \<Longrightarrow>
    tri P (do { r \<leftarrow> m; return (r, x) }) (\<lambda>r. submitted' p a r)"
  by (erule tri_bind, rule tri_return) simp

lemma tri_idle_return': "tri (acct_but p a False) (return (r, x)) (\<lambda>r. submitted' p a r)"
  by (rule tri_return) (simp add: submitted_idle)

lemma tri_busy_return': "\<not> r < 0 \<Longrightarrow> tri (acct_busy p a) (return (r, x)) (\<lambda>r. submitted' p a r)"
  by (rule tri_return) (simp add: submitted_done acct_busy_def)

lemma tri_submit_settle:
  "tri (acct_but p a b) (submit_settle sys p a w ev b) (\<lambda>r. submitted' p a r)"
proof (cases b)
  case True
  have "tri (acct_but p a True) (submit_settle sys p a w ev True) (\<lambda>r. submitted' p a r)"
    unfolding submit_settle_def if_True
    by (rule tri_bind [OF tri_count_up] tri_busy_return' | (rule tri_calm_binds; (intro calm_intros; simp; fail)?) | simp)+
  then show ?thesis using True by simp
next
  case False
  have "tri (acct_but p a False) (submit_settle sys p a w ev False) (\<lambda>r. submitted' p a r)"
    unfolding submit_settle_def if_False
    by (rule tri_pair [OF tri_submit_post] tri_idle_return' tri_cases |
        (rule tri_calm_binds; (intro calm_intros; simp; fail)?))+
  then show ?thesis using False by simp
qed

lemma tri_submit_afd:
  "tri (acct_but p a False) (submit_afd sys p a w ev) (\<lambda>r. submitted' p a r)"
proof -
  have f: "tri (acct_but p a False) (if v \<noteq> 0 then do {
        sock_upd a (\<lambda>k. k \<lparr> sk_submitted_wait_epoch := e \<rparr>);
        error \<leftarrow> ep_last_err;
        if error = ENOTSOCK \<or> error = EBADF then do { v \<leftarrow> drop_with sys p a ENOTSOCK; return (v, False) }
        else return (- 1, False)
      } else submit_settle sys p a w ev False) (\<lambda>r. submitted' p a r)" for v e
    by (rule tri_pair [OF tri_drop_with] tri_idle_return' tri_submit_settle tri_cases |
        (rule tri_calm_binds; (intro calm_intros; simp; fail)?))+
  have g: "tri (requested p a (v, pend)) (if v \<noteq> 0 then do {
        sock_upd a (\<lambda>k. k \<lparr> sk_submitted_wait_epoch := e \<rparr>);
        error \<leftarrow> ep_last_err;
        if error = ENOTSOCK \<or> error = EBADF then do { v \<leftarrow> drop_with sys p a ENOTSOCK; return (v, False) }
        else return (- 1, False)
      } else submit_settle sys p a w ev pend) (\<lambda>r. submitted' p a r)" for v pend e
  proof (cases "pend")
    case False
    then have o: "pend = False" by simp
    show ?thesis unfolding o by (rule tri_weaken [OF f]) (auto simp: requested_def)
  next
    case True
    show ?thesis
    proof (cases "v = 0")
      case True
      have "tri (requested p a (v, pend)) (submit_settle sys p a w ev pend) (\<lambda>r. submitted' p a r)"
        by (rule tri_weaken [OF tri_submit_settle [of p a pend]]) (auto simp: requested_def)
      then show ?thesis using True by simp
    next
      case False
      show ?thesis
        by (rule tri_absurd [where P = "acct_but p a False" and Q = "\<lambda>r. submitted' p a r"])
          (use False True f [of v e] in \<open>simp_all add: requested_def\<close>)
    qed
  qed
  show ?thesis unfolding submit_afd_def
    apply (rule tri_calm_binds; (intro calm_intros; simp; fail)?)
    apply (rule tri_if, rule tri_idle_return')
    apply (rule tri_calm_binds; (intro calm_intros; simp; fail)?)
    apply (rule tri_calm_binds; (intro calm_intros; simp; fail)?)
    apply (rule tri_calm_binds; (intro calm_intros; simp; fail)?)
    apply (rule tri_bind [OF tri_poll_submit])
    subgoal for v1 v2 v3 v4 r
      apply (cases r)
       apply simp
       apply (rule tri_bad, rule calm_sound [of "{}"], intro calm_intros)
      apply (simp only: option.case)
      apply (rule tri_prod)
      apply (simp only: prod.case)
      apply (rule g)
      done
    done
qed

lemma tri_submit_socket:
  "tri (acct_but p a False) (submit_socket sys p a w) (\<lambda>r. submitted' p a r)"
  unfolding submit_socket_def
  by (rule tri_pair [OF tri_submit_fired] tri_idle_return' tri_submit_afd tri_cases |
      (rule tri_calm_binds; (intro calm_intros; simp; fail)?))+

lemma tri_submit_idle:
  "tri (acct_but p a False) (submit_idle sys p a v w) (\<lambda>r. submitted' p a r)"
  unfolding submit_idle_def
  by (rule tri_pair [OF tri_drop_with] tri_pair [OF tri_submit_waitable] tri_pair [OF tri_submit_pipe]
        tri_idle_return' tri_submit_socket tri_cases |
      (rule tri_calm_binds; (intro calm_intros; simp; fail)?))+

lemma tri_split:
  assumes i: "\<And>p. tri (acct_but p a False) (State_Monad.bind (sock_read a f) c) Q"
    and b: "\<And>p. tri (acct_busy p a) (State_Monad.bind (sock_read a f) c) Q"
  shows "tri poll_acct (State_Monad.bind (sock_read a f) c) Q"
  unfolding tri_def
proof (intro allI conjI impI)
  let ?m = "State_Monad.bind (sock_read a f) c"
  fix s :: "('a, 'b) ep_world_scheme"
  have u: "ep_ub t \<Longrightarrow> ep_ub (exec ?m t)" for t using i [of 0] by (simp add: tri_def)
  show "ep_ub s \<Longrightarrow> ep_ub (exec ?m s)" by (rule u)
  assume s: "poll_acct s"
  show "ep_ub (exec ?m s) \<or> Q (result_of ?m s) (exec ?m s)"
  proof (cases "socks s a")
    case None
    then have "exec ?m s = exec ?m (s \<lparr> ep_ub := True \<rparr>)" by (simp add: sock_read_def bad_access_def)
    then show ?thesis using u [of "s \<lparr> ep_ub := True \<rparr>"] by simp
  next
    case (Some k)
    show ?thesis
    proof (cases "active k")
      case True
      then have "acct_busy (sk_port k) a s" using s Some by (simp add: acct_busy_def)
      then show ?thesis using b [of "sk_port k"] by (simp add: tri_def)
    next
      case False
      then have "acct_but (sk_port k) a False s" using acct_idle [OF s Some] by simp
      then show ?thesis using i [of "sk_port k"] by (simp add: tri_def)
    qed
  qed
qed

lemma tri_dormant: "tri poll_acct (submit_dormant sys a) (\<lambda>_. poll_acct)"
  unfolding submit_dormant_def
  by (rule tri_bind [OF tri_if [OF tri_cancel]] tri_cases | (rule tri_calm_binds; (intro calm_intros; simp; fail)?) |
      (rule tri_calms; intro calm_intros; simp; fail))+

lemma tri_dormant_idle: "tri (acct_but p a False) (submit_dormant sys a) (\<lambda>r. submitted p a r)"
  unfolding submit_dormant_def
  apply (rule tri_but_read)
   apply (simp add: active_def)
   apply (rule tri_idle_return tri_cases | (rule tri_calm_binds; (intro calm_intros; simp; fail)?))+
  apply (rule sound_structure sound_cancel | (rule calm_sound [of "{}"]; intro calm_intros; simp))+
  done

lemma tri_retry:
  "tri (acct_busy p a) (submit_retry sys p a)
     (\<lambda>r. case r of None \<Rightarrow> acct_but p a False | Some _ \<Rightarrow> poll_acct)"
proof -
  let ?Q = "\<lambda>r. case r of None \<Rightarrow> acct_but p a False | Some (_ :: int) \<Rightarrow> poll_acct"
  have r: "tri poll_acct (return (Some v)) ?Q" for v by (rule tri_return) simp
  have d: "tri (acct_but p a False) (do { closing \<leftarrow> port_read p pt_closing; return (if closing then Some 0 else None) }) ?Q"
    by (rule tri_calm_binds, intro calm_intros, rule tri_return) (simp add: idle_acct)
  show ?thesis unfolding submit_retry_def
    apply (rule tri_at_busy)
    apply (rule tri_bind [OF tri_cancel_at])
    apply (rule tri_if)
    subgoal
      apply (rule tri_acct_at)
      by (rule r tri_bind [OF tri_drop] | (rule tri_calm_binds; (intro calm_intros; simp; fail)?))+
    apply (rule tri_at_read)
      apply (simp add: active_def)
      apply (rule d)
     apply (simp add: active_def)
     apply (rule tri_from_busy, rule r)
    apply (rule sound_structure | (rule calm_sound [of "{}"]; intro calm_intros; simp))+
    done
qed

lemma sound_submit_rest: "sound (submit_dormant sys a)" "sound (submit_retry sys p a)" "sound (submit_idle sys p a v w)"
  by (rule tri_sound [OF tri_dormant], rule tri_sound [OF tri_retry], rule tri_sound [OF tri_submit_idle])

lemma tri_submit_from_idle:
  "tri (acct_but p a False) (ep_sock_submit_locked sys a v w) (\<lambda>r. submitted' p a r)"
  unfolding ep_sock_submit_locked_def
  apply (rule tri_but_read)
  subgoal for k
    apply (rule tri_let)
    apply (rule tri_calm_binds; (intro calm_intros; simp; fail)?)
    apply (rule tri_if, rule tri_idle_return')
    apply (rule tri_if, rule tri_pair [OF tri_dormant_idle])
    apply (simp add: active_def)
    apply hypsubst
    by (rule tri_idle_return' tri_submit_idle tri_cases | (rule tri_calm_binds; (intro calm_intros; simp; fail)?))+
  apply (rule sound_structure sound_submit_rest | (rule calm_sound [of "{}"]; intro calm_intros; simp))+
  done

lemma submitted_acct: "submitted p a r s \<Longrightarrow> poll_acct s"
  by (auto simp: submitted_def idle_acct split: if_splits)

lemma tri_submitted_acct: "tri P m (\<lambda>r. submitted' p a r) \<Longrightarrow> tri P m (\<lambda>_. poll_acct)"
  by (erule tri_weaken) (auto intro: submitted_acct)

lemma tri_submit_from_busy:
  "tri (acct_busy p a) (ep_sock_submit_locked sys a v w) (\<lambda>_. poll_acct)"
  unfolding ep_sock_submit_locked_def
  apply (rule tri_busy_read)
  subgoal for k
    apply (rule tri_let)
    apply (rule tri_calm_binds; (intro calm_intros; simp; fail)?)
    apply (rule tri_if, rule tri_from_busy, rule tri_calms, intro calm_intros)
    apply (rule tri_if, rule tri_from_busy, rule tri_bind [OF tri_dormant], rule tri_calms, intro calm_intros)
    apply (rule tri_bind [where R = "\<lambda>r. case r of None \<Rightarrow> acct_but p a False | Some _ \<Rightarrow> poll_acct"])
     apply (rule tri_if, simp, rule tri_retry)
     apply (rule tri_return, simp add: active_def acct_busy_def)
    subgoal for x c r
      apply (cases r)
      subgoal
        apply simp
        apply hypsubst
        apply (rule tri_submitted_acct)
        by (rule tri_idle_return' tri_submit_idle tri_cases | (rule tri_calm_binds; (intro calm_intros; simp; fail)?))+
      apply (simp, rule tri_calms, intro calm_intros)
      done
    done
  apply (rule sound_structure sound_submit_rest | (rule calm_sound [of "{}"]; intro calm_intros; simp))+
  done

lemma tri_submit: "tri poll_acct (ep_sock_submit_locked sys a v w) (\<lambda>_. poll_acct)"
  using tri_split [OF tri_submitted_acct [OF tri_submit_from_idle [unfolded ep_sock_submit_locked_def]]
      tri_submit_from_busy [unfolded ep_sock_submit_locked_def]]
  unfolding ep_sock_submit_locked_def .

section \<open>Operations that keep the accounting\<close>

definition sane :: "(('os, 'z) ep_world_scheme, 'a) state \<Rightarrow> bool" where
  "sane m \<longleftrightarrow> tri poll_acct m (\<lambda>_. poll_acct)"

named_theorems sane_intros "operations that keep the poll accounting"

lemma sane_calm: "calm {} m \<Longrightarrow> sane m"
  unfolding sane_def by (rule tri_calms)

lemma sane_sound: "sane m \<Longrightarrow> sound m"
  unfolding sane_def by (rule tri_sound)

lemma sane_bind [sane_intros]: "sane m \<Longrightarrow> (\<And>x. sane (k x)) \<Longrightarrow> sane (State_Monad.bind m k)"
  unfolding sane_def by (rule tri_bind)

lemma sane_if [sane_intros]: "(b \<Longrightarrow> sane m) \<Longrightarrow> (\<not> b \<Longrightarrow> sane n) \<Longrightarrow> sane (if b then m else n)"
  by simp

lemma sane_when [sane_intros]: "(b \<Longrightarrow> sane m) \<Longrightarrow> sane (when_do b m)"
  unfolding sane_def by (rule tri_when, assumption, rule tri_calms, intro calm_intros)

lemma sane_option [sane_intros]:
  "sane m \<Longrightarrow> (\<And>x. sane (k x)) \<Longrightarrow> sane (case v of None \<Rightarrow> m | Some x \<Rightarrow> k x)"
  by (cases v) simp_all

lemma sane_prod [sane_intros]: "(\<And>x y. sane (k x y)) \<Longrightarrow> sane (case v of (x, y) \<Rightarrow> k x y)"
  by (cases v) simp

lemma sane_let [sane_intros]: "(\<And>x. sane (k x)) \<Longrightarrow> sane (Let v k)"
  by (simp add: Let_def)

lemma sane_locked [sane_intros]:
  "sane (ep_sock_submit_locked sys a v w)" "sane (ep_sock_cancel_locked sys a)"
  "sane (ep_sock_drop_closed_locked sys port a)" "sane (ep_sock_retire_stale_locked sys port a)"
  "sane (retire_closed sys port a)" "sane (ep_sock_validate_control_locked sys port a)"
  unfolding sane_def
  by (rule tri_submit tri_cancel tri_drop tri_retire tri_retire_closed tri_validate_control)+

subsection \<open>Deferred work\<close>

lemma sane_arm_visit [sane_intros]:
  "(\<And>p a. calm {} (move_last p a)) \<Longrightarrow> sane (arm_visit sys port a listed move_last e)"
  unfolding arm_visit_def by (rule sane_intros | (rule sane_calm; intro calm_intros; simp; fail) | (rule sane_calm; simp; fail))+

lemma sane_rearm_pass [sane_intros]: "sane (rearm_pass n sys port e)"
  by (induction n arbitrary: e)
    (simp only: rearm_pass.simps, (rule sane_intros | assumption | (rule sane_calm; intro calm_intros; simp; fail) | intro calm_intros)+)+

lemma sane_oneshot_pass [sane_intros]: "sane (oneshot_pass n sys port e)"
  by (induction n arbitrary: e)
    (simp only: oneshot_pass.simps, (rule sane_intros | assumption | (rule sane_calm; intro calm_intros; simp; fail) | intro calm_intros)+)+

lemma sane_arm_pending [sane_intros]: "sane (ep_port_arm_pending_locked sys port)"
  unfolding ep_port_arm_pending_locked_def by (rule sane_intros | (rule sane_calm; intro calm_intros; simp; fail))+

subsection \<open>Completions\<close>

lemma sane_resubmit [sane_intros]: "sane (resubmit sys port a)"
  unfolding resubmit_def by (rule sane_intros | (rule sane_calm; intro calm_intros; simp; fail))+

lemma sane_free_idle [sane_intros]:
  "sane (do { status \<leftarrow> sock_read a sk_poll_status;
     when_do (b \<and> status = EP_POLL_IDLE \<and> c) (ep_sock_free_locked sys port a) })"
  unfolding sane_def
  apply (rule tri_read)
   apply (rule tri_when, rule tri_free, rule tri_return, erule idle_acct)
  apply (rule tri_when, simp add: active_def, rule tri_return, simp add: acct_busy_def)
  done

lemma sane_disarm_failed: "sane (disarm_failed sys port a)"
  unfolding disarm_failed_def
  by (rule sane_free_idle | rule sane_intros | (rule sane_calm; intro calm_intros; simp; fail))+

lemma tri_account: "tri (acct_busy p a) (completion_account sys port a) (\<lambda>_. poll_acct)"
  unfolding completion_account_def
  apply (rule tri_bind [OF tri_complete_pending])
  apply (rule tri_calm_binds; (intro calm_intros; simp; fail)?)
  apply (rule tri_if)
   apply (rule tri_bind [where R = "\<lambda>_. poll_acct"])
    apply (rule tri_when, rule tri_free, rule tri_return, erule idle_acct)
   apply (rule tri_calms; intro calm_intros)
  apply (rule tri_from_idle)
  apply (rule tri_calms; intro calm_intros; simp)
  done

lemma sane_snapshot [sane_intros]:
  "sane (snapshot_closed sys port a st)" "sane (snapshot_refresh sys port a st)"
  unfolding snapshot_closed_def snapshot_refresh_def
  by (rule sane_intros | (rule sane_calm; intro calm_intros; simp; fail))+

lemma sane_translate_afd [sane_intros]: "sane (translate_afd sys port a)"
  unfolding translate_afd_def by (rule sane_intros | (rule sane_calm; intro calm_intros; simp; fail))+

lemma sane_translate [sane_intros]: "sane (translate_snapshot sys port a st)"
  unfolding translate_snapshot_def by (rule sane_intros | (rule sane_calm; intro calm_intros; simp; fail))+

lemma sane_deliver_nothing [sane_intros]: "sane (deliver_nothing sys port a raw)"
  unfolding deliver_nothing_def by (rule sane_intros | (rule sane_calm; intro calm_intros; simp; fail))+

lemma sane_deliver [sane_intros]: "sane (deliver_snapshot sys port a st)"
  unfolding deliver_snapshot_def by (rule sane_intros | (rule sane_calm; intro calm_intros; simp; fail))+

lemma sane_refreshed [sane_intros]:
  "sane m \<Longrightarrow> sane n \<Longrightarrow> sane r \<Longrightarrow>
   sane (case v of Snapshot_Current \<Rightarrow> r | Snapshot_Replaced \<Rightarrow> n | Snapshot_Gone \<Rightarrow> m)"
  by (cases v) simp_all

lemma sane_process [sane_intros]: "sane (process_socket_snapshot n sys port a st)"
  by (induction n)
    (simp only: process_socket_snapshot.simps, (rule sane_intros | assumption | (rule sane_calm; intro calm_intros; simp; fail))+)+

lemma sane_completion_process [sane_intros]: "sane (completion_process sys port a old st)"
  unfolding completion_process_def by (rule sane_intros | (rule sane_calm; intro calm_intros; simp; fail))+

lemma sane_handle_completion [sane_intros]: "sane (ep_sock_handle_completion sys a st)"
  unfolding sane_def ep_sock_handle_completion_def Let_def
  apply (rule tri_read)
   apply (simp add: active_def, rule tri_return, erule idle_acct)
  apply (simp only: id_apply)
  apply (rule tri_if, rule tri_return, simp add: acct_busy_def)
  apply (rule tri_calm_binds; (intro calm_intros; simp; fail)?)
  apply (rule tri_calm_binds; (intro calm_intros; simp; fail)?)
  apply (rule tri_calm_binds; (intro calm_intros; simp; fail)?)
  apply (rule tri_if)
   apply (rule tri_from_busy, rule sane_disarm_failed [unfolded sane_def])
  apply (rule tri_calm_binds; (intro calm_intros; simp; fail)?)
  apply (rule tri_bind [OF tri_account])
  apply (fold sane_def)
  apply (rule sane_intros | (rule sane_calm; intro calm_intros; simp; fail))+
  done

subsection \<open>Changing and removing a registration\<close>

lemma sane_modify_pending [sane_intros]: "sane (modify_pending sys a d e)"
  unfolding modify_pending_def by (rule sane_intros | (rule sane_calm; intro calm_intros; simp; fail))+

lemma sane_resubmit_changed [sane_intros]: "calm {} m \<Longrightarrow> sane (resubmit_changed sys a m)"
  unfolding resubmit_changed_def
  by (rule sane_intros | (rule sane_calm; assumption) | (rule sane_calm; intro calm_intros; simp; fail))+

lemma sane_modify_apply [sane_intros]: "sane (modify_apply sys port a events flags data ctx d i c)"
  unfolding modify_apply_def
  by (rule sane_intros | (rule sane_calm; intro calm_intros; simp; fail) | (intro calm_intros; fail))+

lemma sane_modify_locked [sane_intros]: "sane (modify_locked sys port fd events flags data ctx)"
  unfolding modify_locked_def by (rule sane_intros | (rule sane_calm; intro calm_intros; simp; fail))+

lemma sane_modify [sane_intros]: "sane (ep_port_modify sys port fd events flags data ctx)"
  unfolding ep_port_modify_def by (rule sane_intros | (rule sane_calm; intro calm_intros; simp; fail))+

lemma sane_free_if_idle [sane_intros]:
  "sane (do { status \<leftarrow> sock_read a sk_poll_status;
     when_do (status = EP_POLL_IDLE) (ep_sock_free_locked sys port a) })"
  using sane_free_idle [of a True True] by simp

lemma sane_detach [sane_intros]: "sane (unregister_detach sys port a)"
  unfolding unregister_detach_def
  by (rule sane_free_if_idle | rule sane_intros | (rule sane_calm; intro calm_intros; simp; fail))+

lemma sane_unregister [sane_intros]: "sane (ep_port_unregister sys port fd)"
  unfolding ep_port_unregister_def by (rule sane_intros | (rule sane_calm; intro calm_intros; simp; fail))+

lemma sane_publish [sane_intros]: "sane (shutdown_publish sys port a n)"
  unfolding shutdown_publish_def by (rule sane_intros | (rule sane_calm; intro calm_intros; simp; fail))+

lemma sane_shutdown_registered [sane_intros]: "sane (shutdown_registered sys port a fd how r)"
  unfolding shutdown_registered_def by (rule sane_intros | (rule sane_calm; intro calm_intros; simp; fail))+

lemma sane_shutdown [sane_intros]: "sane (ep_port_shutdown_socket sys port fd how)"
  unfolding ep_port_shutdown_socket_def by (rule sane_intros | (rule sane_calm; intro calm_intros; simp; fail))+

lemma sane_rearm_pending [sane_intros]: "sane (rearm_pending sys a o' e)"
  unfolding rearm_pending_def by (rule sane_intros | (rule sane_calm; intro calm_intros; simp; fail))+

lemma sane_rearm_submit [sane_intros]: "sane (rearm_submit sys port a old e)"
  unfolding rearm_submit_def
  by (rule sane_intros | (rule sane_calm; intro calm_intros; simp; fail) | (intro calm_intros; fail))+

lemma sane_rearm_locked [sane_intros]: "sane (ep_sock_rearm_classes_locked sys port a c)"
  unfolding ep_sock_rearm_classes_locked_def by (rule sane_intros | (rule sane_calm; intro calm_intros; simp; fail))+

lemma sane_rearm_found [sane_intros]: "sane (rearm_found sys port fd c)"
  unfolding rearm_found_def by (rule sane_intros | (rule sane_calm; intro calm_intros; simp; fail))+

lemma sane_rearm_classes [sane_intros]: "sane (ep_port_rearm_classes sys port fd c)"
  unfolding ep_port_rearm_classes_def by (rule sane_intros | (rule sane_calm; intro calm_intros; simp; fail))+

lemma sane_rearm_entry [sane_intros]: "sane (rearm_entry sys port fd c)"
  unfolding rearm_entry_def by (rule sane_intros | (rule sane_calm; intro calm_intros; simp; fail))+

lemma sane_rearm_chunk [sane_intros]: "sane (rearm_chunk sys port es f w)"
  by (induction es arbitrary: f w)
    (simp only: rearm_chunk.simps, (rule sane_intros | assumption | (rule sane_calm; intro calm_intros; simp; fail))+)+

lemma sane_rearm_batch [sane_intros]: "sane (rearm_batch sys port es f)"
proof (induction "length es" arbitrary: es f rule: less_induct)
  case less
  show ?case
  proof (cases "es = []")
    case True
    show ?thesis unfolding rearm_batch.simps [of sys port es f] if_P [OF True] by (intro sane_calm calm_intros)
  next
    case False
    then have "length (drop 64 es) < length es" by simp
    note ih = less [OF this]
    show ?thesis unfolding rearm_batch.simps [of sys port es f] if_not_P [OF False]
      by (rule ih sane_intros | (rule sane_calm; intro calm_intros; simp; fail))+
  qed
qed

lemma sane_rearm_batch_call [sane_intros]: "sane (ep_port_rearm_classes_batch sys port batch)"
  unfolding ep_port_rearm_classes_batch_def by (rule sane_intros | (rule sane_calm; intro calm_intros; simp; fail))+

lemma sane_rearm_oneshot [sane_intros]: "sane (rearm_oneshot_locked sys port a)"
  unfolding rearm_oneshot_locked_def
  by (rule sane_intros | (rule sane_calm; intro calm_intros; simp; fail) | (intro calm_intros; fail))+

lemma sane_rearm [sane_intros]: "sane (ep_port_rearm sys port fd)"
  unfolding ep_port_rearm_def by (rule sane_intros | (rule sane_calm; intro calm_intros; simp; fail))+

subsection \<open>Waiting\<close>

lemma sane_drain_node [sane_intros]: "sane (drain_node sys port n c)"
  unfolding drain_node_def by (rule sane_intros | (rule sane_calm; intro calm_intros; simp; fail))+

lemma sane_drain_loop [sane_intros]: "sane (drain_loop n sys port m b out)"
  by (induction n arbitrary: out)
    (simp only: drain_loop.simps, (rule sane_intros | assumption | (rule sane_calm; intro calm_intros; simp; fail))+)+

lemma sane_drain [sane_intros]: "sane (ep_drain_to_buffer sys port m b)"
  unfolding ep_drain_to_buffer_def by (rule sane_intros | (rule sane_calm; intro calm_intros; simp; fail))+

lemma sane_dispatch [sane_intros]: "sane (ep_port_dispatch_iocp_entry sys port e g)"
  unfolding ep_port_dispatch_iocp_entry_def by (rule sane_intros | (rule sane_calm; intro calm_intros; simp; fail))+

lemma sane_dispatch_all [sane_intros]: "sane (dispatch_all sys port es g)"
  by (induction es)
    (simp only: dispatch_all.simps, (rule sane_intros | assumption | (rule sane_calm; intro calm_intros; simp; fail))+)+

lemma sane_coalesce_loop [sane_intros]: "sane (coalesce_loop n sys port c g d i z out)"
  by (induction n arbitrary: i z out)
    (simp only: coalesce_loop.simps, (rule sane_intros | assumption | (rule sane_calm; intro calm_intros; simp; fail))+)+

lemma sane_wait_coalesce [sane_intros]: "sane (wait_coalesce sys port c v out)"
  unfolding wait_coalesce_def by (rule sane_intros | (rule sane_calm; intro calm_intros; simp; fail))+

lemma sane_wait_packets [sane_intros]: "sane (wait_packets sys port c v d es)"
  unfolding wait_packets_def by (rule sane_intros | (rule sane_calm; intro calm_intros; simp; fail))+

lemma sane_wait_block [sane_intros]: "sane (wait_block sys port c v)"
  unfolding wait_block_def by (rule sane_intros | (rule sane_calm; intro calm_intros; simp; fail))+

lemma sane_wait_pass [sane_intros]: "sane (wait_pass sys port c v)"
  unfolding wait_pass_def by (rule sane_intros | (rule sane_calm; intro calm_intros; simp; fail))+

lemma sane_wait_step [sane_intros]:
  "(\<And>r out. sane (f r out)) \<Longrightarrow> sane m \<Longrightarrow> sane (case v of Wait_Done r out \<Rightarrow> f r out | Wait_Again \<Rightarrow> m)"
  by (cases v) simp_all

lemma sane_wait_loop [sane_intros]: "sane (wait_loop n sys port c v)"
  by (induction n arbitrary: v)
    (simp only: wait_loop.simps, (rule sane_intros | assumption | (rule sane_calm; intro calm_intros; simp; fail))+)+

lemma sane_wait_locked [sane_intros]: "sane (wait_locked n sys port c ws)"
  unfolding wait_locked_def by (rule sane_intros | (rule sane_calm; intro calm_intros; simp; fail))+

lemma sane_wait [sane_intros]: "sane (ep_port_wait_timeout_impl n sys port o' m t b)"
  unfolding ep_port_wait_timeout_impl_def by (rule sane_intros | (rule sane_calm; intro calm_intros; simp; fail))+

subsection \<open>Closing\<close>

lemma sane_destroy_detach [sane_intros]: "sane (destroy_detach sys a)"
  unfolding destroy_detach_def by (rule sane_intros | (rule sane_calm; intro calm_intros; simp; fail))+

lemma sane_destroy_detach_all [sane_intros]: "sane (destroy_detach_all n sys cur f)"
  by (induction n arbitrary: cur f)
    (simp only: destroy_detach_all.simps, (rule sane_intros | assumption | (rule sane_calm; intro calm_intros; simp; fail))+)+

lemma bind_assoc_state: "State_Monad.bind (State_Monad.bind m f) g = State_Monad.bind m (\<lambda>x. State_Monad.bind (f x) g)"
  by (simp add: State_Monad.bind_assoc)

lemma sane_destroy_free [sane_intros]: "sane (destroy_free_idle n sys port cur)"
proof (induction n arbitrary: cur)
  case 0
  show ?case by (simp only: destroy_free_idle.simps) (rule sane_calm; intro calm_intros)
next
  case (Suc n)
  note f = sane_bind [OF sane_free_if_idle Suc.IH, unfolded bind_assoc_state]
  show ?case by (simp only: destroy_free_idle.simps)
    (rule f sane_intros | (rule sane_calm; intro calm_intros; simp; fail))+
qed

lemma sane_destroy_registrations [sane_intros]: "sane (destroy_registrations sys port)"
  unfolding destroy_registrations_def by (rule sane_intros | (rule sane_calm; intro calm_intros; simp; fail))+

lemma sane_drain_pending [sane_intros]: "sane (ep_port_drain_pending_until n sys port d)"
  by (induction n)
    (simp only: ep_port_drain_pending_until.simps, (rule sane_intros | assumption | (rule sane_calm; intro calm_intros; simp; fail))+)+

lemma sane_destroy_drain [sane_intros]: "sane (destroy_drain n sys port)"
  unfolding destroy_drain_def by (rule sane_intros | (rule sane_calm; intro calm_intros; simp; fail))+

subsection \<open>Registering\<close>

lemma acct_put_idle:
  assumes s: "poll_acct s" and o: "\<And>k. socks s a = Some k \<Longrightarrow> \<not> active k" and k: "\<not> active k'"
    and n: "a < n" "pool_next_addr s \<le> n"
  shows "acct_but (sk_port k') a False (s \<lparr> pool_next_addr := n, socks := (socks s)(a \<mapsto> k') \<rparr>)"
proof (rule acct_idle)
  let ?s = "s \<lparr> pool_next_addr := n, socks := (socks s)(a \<mapsto> k') \<rparr>"
  show "\<not> active k'" "socks ?s a = Some k'" using k by simp_all
  have e: "active_socks ?s r = active_socks s r" for r
    using o k by (auto simp: active_socks_def split: if_splits)
  have "addrs_ok ?s"
    using acct_addrs(1) [OF s] n unfolding addrs_ok_def by (auto intro: order_less_le_trans)
  then show "poll_acct ?s"
  proof (rule poll_acctI)
    show "finite (active_socks ?s r) \<and> pt_pending_poll_count q = card (active_socks ?s r)" if q: "ports ?s r = Some q" for r q
    proof -
      have "ports s r = Some q" using q by simp
      then show ?thesis using s unfolding e poll_acct_def by blast
    qed
  qed
qed

lemma tri_idle_upd:
  assumes f: "\<And>k. sk_port k = p \<Longrightarrow> sk_port (f k) = p'" "\<And>k. \<not> active k \<Longrightarrow> \<not> active (f k)"
  shows "tri (acct_but p a False) (sock_upd a f) (\<lambda>_. acct_but p' a False)"
  unfolding tri_def
proof (intro allI conjI impI)
  fix s :: "('a, 'b) ep_world_scheme"
  show "ep_ub s \<Longrightarrow> ep_ub (exec (sock_upd a f) s)" by (simp add: sock_upd_def split: option.split)
  assume s: "acct_but p a False s"
  then obtain k where k: "socks s a = Some k" "sk_port k = p" "\<not> active k" by (auto simp: acct_but_def)
  have "a < pool_next_addr s" using acct_addrs(2) [OF s] k(1) by (simp add: addrs_ok_def)
  then have "acct_but (sk_port (f k)) a False (s \<lparr> pool_next_addr := pool_next_addr s, socks := (socks s)(a \<mapsto> f k) \<rparr>)"
    using k f(2) by (intro acct_put_idle [OF idle_acct [OF s]]) auto
  then show "ep_ub (exec (sock_upd a f) s) \<or> acct_but p' a False (exec (sock_upd a f) s)"
    using k f(1) by (simp add: sock_upd_def)
qed

lemma tri_sock_new:
  assumes c: "\<And>a. tri (acct_but (sk_port ep_sock_zero) a False) (c a) Q"
  shows "tri poll_acct (do { a \<leftarrow> gets pool_next_addr;
    modify (\<lambda>s. s \<lparr> pool_next_addr := Suc a, socks := (socks s)(a \<mapsto> ep_sock_zero) \<rparr>); c a }) Q"
  unfolding tri_def
proof (intro allI conjI impI)
  fix s :: "('a, 'b) ep_world_scheme"
  let ?s = "s \<lparr> pool_next_addr := Suc (pool_next_addr s), socks := (socks s)(pool_next_addr s \<mapsto> ep_sock_zero) \<rparr>"
  let ?m = "do { a \<leftarrow> gets pool_next_addr;
    modify (\<lambda>s. s \<lparr> pool_next_addr := Suc a, socks := (socks s)(a \<mapsto> ep_sock_zero) \<rparr>); c a }"
  have e: "exec ?m s = exec (c (pool_next_addr s)) ?s" "result_of ?m s = result_of (c (pool_next_addr s)) ?s" by simp_all
  show "ep_ub (exec ?m s)" if "ep_ub s"
  proof -
    have "ep_ub ?s" using that by simp
    then show ?thesis using c [of "pool_next_addr s"] unfolding e tri_def by blast
  qed
  assume s: "poll_acct s"
  have "socks s (pool_next_addr s) = None" using acct_addrs(1) [OF s] unfolding addrs_ok_def by blast
  then have "acct_but (sk_port ep_sock_zero) (pool_next_addr s) False ?s"
    by (intro acct_put_idle [OF s]) (simp_all add: active_def ep_sock_zero_def)
  then show "ep_ub (exec ?m s) \<or> Q (result_of ?m s) (exec ?m s)"
    using c [of "pool_next_addr s"] unfolding e tri_def by blast
qed

lemma calm_alloc_socket [calm_intros]: "calm X (alloc_socket sys port a fd)"
  unfolding alloc_socket_def by (intro calm_intros; simp)

text \<open>A new registration belongs to the port and is idle.\<close>

definition new_sock :: "addr \<Rightarrow> addr option \<Rightarrow> ('os, 'z) ep_world_scheme \<Rightarrow> bool" where
  "new_sock port r s = (case r of None \<Rightarrow> poll_acct s | Some a \<Rightarrow> acct_but port a False s)"

lemma new_sock_simps: "new_sock port None = poll_acct" "new_sock port (Some a) = acct_but port a False"
  by (simp_all add: new_sock_def fun_eq_iff)

lemma tri_new_none: "tri poll_acct (do { ep_set_errno e; return None }) (new_sock port)"
  by (rule tri_calm_binds, intro calm_intros, rule tri_return) (simp add: new_sock_def)

lemma tri_sock_alloc: "tri poll_acct (ep_sock_alloc_locked sys port fd t) (new_sock port)"
  unfolding ep_sock_alloc_locked_def
  apply (rule tri_if, rule tri_new_none)
  apply (rule tri_if, rule tri_new_none)
  apply (rule tri_if, rule tri_new_none)
  apply (rule tri_calm_binds, intro calm_intros)
  apply (rule tri_if, rule tri_new_none)
  apply (rule tri_sock_new)
  apply (rule tri_calm_binds; (intro calm_intros; simp; fail)?)
  apply (rule tri_calm_binds; (intro calm_intros; simp; fail)?)
  apply (rule tri_if)
   apply (rule tri_bind [OF tri_sock_free], rule tri_return, simp add: new_sock_def)
  apply (rule tri_bind [OF tri_idle_upd [where p' = port]], simp, simp add: active_def)
  apply (rule tri_calm_binds; (intro calm_intros; simp; fail)?)
  apply (rule tri_bind [OF tri_idle_upd [where p' = port]], simp, simp add: active_def)
  apply (rule tri_return, simp add: new_sock_def)
  done

lemma tri_discard: "tri (acct_but p a False) (discard_sock sys port a) (\<lambda>_. poll_acct)"
  unfolding discard_sock_def by (rule tri_sock_free | (rule tri_calm_binds; (intro calm_intros; simp; fail)?))+

lemma tri_submitted_calm: "calm {} m \<Longrightarrow> tri (submitted p a r) m (\<lambda>_. poll_acct)"
  by (rule tri_weaken [OF tri_calms(1)]) (auto intro: submitted_acct)

lemma tri_register_submit: "tri (acct_but p a False) (register_submit sys port a) (\<lambda>_. poll_acct)"
proof -
  have f: "tri (submitted p a r) (do { e \<leftarrow> ep_get_last_error_info; ep_fd_table_remove port a;
      ep_sock_free_locked sys port a; ep_restore_last_error_info e; return x }) (\<lambda>_. poll_acct)" if "r < 0" for r x
    apply (rule tri_weaken [where P = "acct_but p a False"])
      apply (rule tri_bind [OF tri_free] | (rule tri_calm_binds; (intro calm_intros; simp; fail)?) |
        (rule tri_calms; intro calm_intros; simp; fail))+
    using that by (simp_all add: submitted_def)
  show ?thesis unfolding register_submit_def
    apply (rule tri_bind [OF tri_submit_from_idle])
    apply (rule tri_prod)
    apply (simp only: fst_conv)
    apply (rule tri_if, erule f)
    apply (rule tri_submitted_calm, intro calm_intros)
    done
qed

lemma tri_register_insert: "tri (acct_but p a False) (register_insert sys port a) (\<lambda>_. poll_acct)"
  unfolding register_insert_def
  by (rule tri_register_submit tri_bind [OF tri_discard] tri_cases | (rule tri_calm_binds; (intro calm_intros; simp; fail)?) |
      (rule tri_from_idle, rule tri_calms, intro calm_intros; simp; fail) | (rule tri_calms; intro calm_intros; simp; fail))+

lemma sane_register_new [sane_intros]: "sane (register_new sys port fd events flags data ctx)"
  unfolding sane_def register_new_def
  apply (rule tri_calm_binds; (intro calm_intros; simp; fail)?)
  apply (rule tri_option, rule tri_calms, intro calm_intros)
  apply (rule tri_bind [OF tri_sock_alloc])
  subgoal for x t r
    apply (cases r)
     apply (simp only: new_sock_simps option.case, rule tri_calms, intro calm_intros)
    apply (simp only: new_sock_simps option.case)
    by (rule tri_register_insert tri_bind [OF tri_discard] tri_option | (rule tri_calm_binds; (intro calm_intros; simp; fail)?) |
      (rule tri_calms; intro calm_intros; simp; fail))+
  done

lemma sane_register [sane_intros]: "sane (ep_port_register sys port fd events flags data ctx)"
  unfolding ep_port_register_def by (rule sane_intros | (rule sane_calm; intro calm_intros; simp; fail))+

end
