(* ===== verification/Ep_Runs.thy ===== *)
theory Ep_Runs
  imports Ep_Accounting
begin

text \<open>
  Runs of the operations of ports as a step relation, and what the accounting of polls gives for every
  state a run reaches.
\<close>

section \<open>Runs of a port\<close>

text \<open>One step with any port and any arguments: a control call, a wait, the callbacks of auxiliary waits
  and timers, and the stages of a close.  A wait gives up the lock while it blocks and between its
  regions, so the regions of a wait (arming deferred work, delivering, dequeuing, dispatching a packet)
  are steps of their own too, which other calls may interleave.  The system may change its own state in
  between.\<close>

inductive port_step ::
  "('os, 'y) ep_port_sys_scheme \<Rightarrow> ('os, 'z) ep_world_scheme \<Rightarrow> ('os, 'z) ep_world_scheme \<Rightarrow> bool" for sys where
  step_register: "port_step sys s (exec (ep_port_register sys port fd events flags data ctx) s)"
| step_modify: "port_step sys s (exec (ep_port_modify sys port fd events flags data ctx) s)"
| step_unregister: "port_step sys s (exec (ep_port_unregister sys port fd) s)"
| step_shutdown: "port_step sys s (exec (ep_port_shutdown_socket sys port fd how) s)"
| step_rearm: "port_step sys s (exec (ep_port_rearm sys port fd) s)"
| step_rearm_classes: "port_step sys s (exec (ep_port_rearm_classes sys port fd classes) s)"
| step_rearm_batch: "port_step sys s (exec (ep_port_rearm_classes_batch sys port batch) s)"
| step_wait: "port_step sys s (exec (ep_port_wait_timeout_impl n sys port has_out maxevents timeout basic) s)"
| step_arm: "port_step sys s (exec (ep_port_arm_pending_locked sys port) s)"
| step_deliver: "port_step sys s (exec (ep_drain_to_buffer sys port room basic) s)"
| step_dequeue: "port_step sys s (exec (dequeue_packets sys port wait_ms) s)"
| step_dispatch: "port_step sys s (exec (ep_port_dispatch_iocp_entry sys port entry generation) s)"
| step_waitable: "port_step sys s (exec (ep_waitable_callback sys parameter) s)"
| step_pipe_timer: "port_step sys s (exec (ep_pipe_timer_callback sys parameter) s)"
| step_deadline: "port_step sys s (exec (ep_precise_timeout_callback sys port_ptr overlapped) s)"
| step_begin_close: "port_step sys s (exec (ep_port_begin_close sys port_ptr) s)"
| step_detach: "port_step sys s (exec (destroy_registrations sys port) s)"
| step_drain: "port_step sys s (exec (ep_port_drain_pending_until n sys port deadline) s)"
| step_system: "port_step sys s (s \<lparr> os_state := os \<rparr>)"

inductive port_runs ::
  "('os, 'y) ep_port_sys_scheme \<Rightarrow> ('os, 'z) ep_world_scheme \<Rightarrow> ('os, 'z) ep_world_scheme \<Rightarrow> bool" for sys s where
  runs_refl: "port_runs sys s s"
| runs_step: "port_runs sys s t \<Longrightarrow> port_step sys t u \<Longrightarrow> port_runs sys s u"

lemma sane_exec: "sane m \<Longrightarrow> ep_ub s \<or> poll_acct s \<Longrightarrow> ep_ub (exec m s) \<or> poll_acct (exec m s)"
  unfolding sane_def tri_def by blast

lemma step_sane:
  assumes "port_step sys s t" "ep_ub s \<or> poll_acct s"
  shows "ep_ub t \<or> poll_acct t"
  using assms
proof (cases rule: port_step.cases)
  case (step_system os)
  have "polls_view {} t = polls_view {} s" "pool_next_addr s \<le> pool_next_addr t" "ep_ub t = ep_ub s"
    unfolding step_system by (simp_all add: polls_view_def)
  then show ?thesis using assms(2) stable_acct unfolding stable_def by blast
qed (simp only:, rule sane_exec, (rule sane_intros | (rule sane_calm, intro calm_intros)), assumption)+

lemma runs_sane: "port_runs sys s t \<Longrightarrow> poll_acct s \<Longrightarrow> ep_ub t \<or> poll_acct t"
  by (induction rule: port_runs.induct) (auto dest: step_sane)

text \<open>A system whose every call succeeds; its state is whether a completion packet waits.\<close>

definition port_quiet :: "bool ep_port_sys" where
  "port_quiet = \<lparr> sys_malloc = (\<lambda>_ os. (True, os)), sys_mutex_init = (\<lambda>os. (0, os)),
     sys_mutex_lock = (\<lambda>os. (0, os)), win_GetLastError = (\<lambda>os. (0, os)),
     win_SetLastError = (\<lambda>_ os. ((), os)), win_CloseHandle = (\<lambda>_ os. (True, os)),
     win_PostQueuedCompletionStatus = (\<lambda>_ _ _ os. (True, os)),
     win_QueryPerformanceCounter = (\<lambda>os. (Some 0, os)), win_GetTickCount64 = (\<lambda>os. (0, os)),
     win_query_unbiased_interrupt_time_precise = None, win_Sleep = (\<lambda>_ os. ((), os)),
     sys_mutex_trylock = (\<lambda>os. (0, os)),
     wsa_WSAIoctl = (\<lambda>_ _ os. ((False, 0, 0), os)), wsa_WSAGetLastError = (\<lambda>os. (0, os)),
     wsa_WSASetLastError = (\<lambda>_ os. ((), os)), wsa_getsockopt_protocol = (\<lambda>_ os. (None, os)),
     afd_DuplicateHandle = (\<lambda>_ os. (None, os)), afd_CreateEventW = (\<lambda>os. (0, os)),
     afd_realloc = (\<lambda>_ os. (True, os)), afd_NtCreateFile = None,
     afd_CreateIoCompletionPort = (\<lambda>_ _ os. (0, os)),
     afd_SetFileCompletionNotificationModes = (\<lambda>_ _ os. (True, os)),
     afd_NtDeviceIoControlFile = None, afd_NtCancelIoFileEx = None, afd_RtlNtStatusToDosError = None,
     ps_spins = 4, wsa_getsockopt = (\<lambda>_ _ os. (None, os)), wsa_getpeername = (\<lambda>_ os. (False, os)),
     wsa_select = (\<lambda>_ _ os. ((0, False), os)), wsa_WSAPoll = (\<lambda>_ _ os. ((False, 0), os)),
     wsa_shutdown = (\<lambda>_ _ os. (True, os)), nt_NtQueryObject = None, nt_NtQueryEvent = None,
     nt_NtQueryInformationFile = None, win_GetFileType = (\<lambda>_ os. (0, os)),
     win_WaitForSingleObject = (\<lambda>_ _ os. (0, os)), win_ResetEvent = (\<lambda>_ os. (True, os)),
     win_DeviceIoControl_recv = (\<lambda>_ _ os. (True, os)), win_CancelIoEx = (\<lambda>_ os. (True, os)),
     win_GetOverlappedResult = (\<lambda>_ os. (True, os)),
     win_RegisterWaitForSingleObject = (\<lambda>_ _ os. (None, os)), win_UnregisterWaitEx = (\<lambda>_ os. (True, os)),
     win_CreateTimerQueueTimer = (\<lambda>_ os. (None, os)), win_DeleteTimerQueueTimer = (\<lambda>_ os. (True, os)),
     win_PeekNamedPipe = (\<lambda>_ os. (None, os)), win_WriteFile_empty = (\<lambda>_ os. (True, os)),
     win_CreateWaitableTimerExW = None, win_CreateThreadpoolWait = (\<lambda>_ os. (0, os)),
     win_SetWaitableTimer = (\<lambda>_ _ os. (True, os)), win_CancelWaitableTimer = (\<lambda>_ os. (True, os)),
     win_SetThreadpoolWait = (\<lambda>_ _ os. ((), os)), win_WaitForThreadpoolWaitCallbacks = (\<lambda>_ os. ((), os)),
     win_CloseThreadpoolWait = (\<lambda>_ os. ((), os)), win_QueryPerformanceFrequency = (\<lambda>os. (None, os)),
     win_GetQueuedCompletionStatusEx = (\<lambda>_ _ _ os. (if os then Some [(0, Some 1, 0)] else None, False)),
     nt_io_result = (\<lambda>_ _. None) \<rparr>"

text \<open>A closing port at address 0 with one pending poll, that of the registration at address 1.\<close>

definition polls_demo :: "bool ep_world" where
  "polls_demo = ep_world_zero True \<lparr> pool_next_addr := 2,
     socks := [1 \<mapsto> ep_sock_zero \<lparr> sk_port := 0, sk_poll_status := EP_POLL_PENDING \<rparr>],
     ports := [0 \<mapsto> ep_port_zero \<lparr> pt_closing := True, pt_pending_poll_count := 1 \<rparr>] \<rparr>"

lemma polls_demo_acct: "poll_acct polls_demo"
proof (rule poll_acctI)
  show "addrs_ok polls_demo" by (simp add: addrs_ok_def polls_demo_def)
  show "finite (active_socks polls_demo r) \<and> pt_pending_poll_count q = card (active_socks polls_demo r)"
    if "ports polls_demo r = Some q" for r q
  proof -
    have "r = 0" "pt_pending_poll_count q = 1" using that by (auto simp: polls_demo_def split: if_splits)
    moreover have "active_socks polls_demo 0 = {1}"
      by (auto simp: active_socks_def polls_demo_def active_def split: if_splits)
    ultimately show ?thesis by simp
  qed
qed

lemma polls_demo_drain:
  "result_of (ep_port_drain_pending_until 3 port_quiet 0 5) polls_demo = Some 0"
  "ep_ub (exec (ep_port_drain_pending_until 3 port_quiet 0 5) polls_demo) = False"
  by code_simp+

section \<open>Draining a port\<close>

lemma tri_port_zero:
  assumes "\<And>n. n \<noteq> 0 \<Longrightarrow> tri poll_acct (c n) Q"
    and "\<And>s q. poll_acct s \<Longrightarrow> ports s p = Some q \<Longrightarrow> pt_pending_poll_count q = 0 \<Longrightarrow> Q (Some 0) s"
  shows "tri poll_acct (do { n \<leftarrow> ep_port_pending_count p; if n = 0 then return (Some 0) else c n }) Q"
  unfolding tri_def
proof (intro allI conjI impI)
  fix s :: "('a, 'b) ep_world_scheme"
  let ?m = "do { n \<leftarrow> ep_port_pending_count p; if n = 0 then return (Some 0) else c n }"
  let ?n = "result_of (ep_port_pending_count p) s" and ?s = "exec (ep_port_pending_count p) s"
  have e: "exec ?m s = (if ?n = 0 then ?s else exec (c ?n) ?s)"
    "result_of ?m s = (if ?n = 0 then Some 0 else result_of (c ?n) ?s)" by simp_all
  have u: "ep_ub s \<Longrightarrow> ep_ub ?s" by (simp add: ep_port_pending_count_def port_read_def bad_access_def)
  have c: "ep_ub t \<Longrightarrow> ep_ub (exec (c ?n) t)" if "?n \<noteq> 0" for t using assms(1) [OF that] unfolding tri_def by blast
  show "ep_ub (exec ?m s)" if "ep_ub s" using u [OF that] c unfolding e by (cases "?n = 0") simp_all
  assume s: "poll_acct s"
  show "ep_ub (exec ?m s) \<or> Q (result_of ?m s) (exec ?m s)"
  proof (cases "ports s p")
    case None
    then have "ep_ub ?s" by (simp add: ep_port_pending_count_def port_read_def bad_access_def)
    then show ?thesis using c unfolding e by (cases "?n = 0") simp_all
  next
    case (Some q)
    then have q: "?s = s" "?n = pt_pending_poll_count q"
      by (simp_all add: ep_port_pending_count_def port_read_def)
    show ?thesis
    proof (cases "?n = 0")
      case True
      then show ?thesis using assms(2) [OF s Some] q unfolding e by simp
    next
      case False
      then show ?thesis using assms(1) [OF False] s unfolding e q(1) tri_def by simp
    qed
  qed
qed

text \<open>After a drain.\<close>

definition drained :: "addr \<Rightarrow> int option \<Rightarrow> ('os, 'z) ep_world_scheme \<Rightarrow> bool" where
  "drained p r s \<longleftrightarrow> (r = Some 0 \<longrightarrow> poll_acct s \<and> (\<exists>q. ports s p = Some q \<and> pt_pending_poll_count q = 0))"

lemma drained_other: "r \<noteq> Some 0 \<Longrightarrow> tri poll_acct (return r) (drained p)"
  by (rule tri_return) (simp add: drained_def)

lemma tri_drain_pending: "tri poll_acct (ep_port_drain_pending_until n sys p d) (drained p)"
proof (induction n)
  case 0
  show ?case by (simp only: ep_port_drain_pending_until.simps, rule drained_other) simp
next
  case (Suc n)
  show ?case unfolding ep_port_drain_pending_until.simps
    apply (rule tri_port_zero)
    subgoal
      by (rule Suc.IH tri_cases tri_bind [OF sane_dispatch_all [unfolded sane_def]]
         | (rule drained_other; simp; fail) | (rule tri_calm_binds; (intro calm_intros; simp; fail)?))+
    by (simp add: drained_def)
qed

section \<open>Properties\<close>

text \<open>
  (C3) Pending-poll accounting.  In every run of control calls, waits, callbacks and closes over any
  number of ports, as long as no bad access happens, \<open>pending_poll_count\<close> of each port is the number of
  its registrations whose poll is pending or being cancelled.
\<close>

theorem poll_accounting:
  assumes "port_runs sys s t" "poll_acct s" "\<not> ep_ub t" "ports t p = Some q"
  shows "pt_pending_poll_count q =
    card {a. \<exists>k. socks t a = Some k \<and> sk_port k = p \<and> sk_poll_status k \<noteq> EP_POLL_IDLE}"
proof -
  have "poll_acct t" using runs_sane [OF assms(1,2)] assms(3) by blast
  then have "pt_pending_poll_count q = card (active_socks t p)" using assms(4) unfolding poll_acct_def by blast
  then show ?thesis by (simp add: active_socks_def active_def)
qed

theorem poll_accounting_witness:
  "card {a. \<exists>k. socks (exec (ep_port_drain_pending_until 3 port_quiet 0 5) polls_demo) a = Some k \<and>
     sk_port k = 0 \<and> sk_poll_status k \<noteq> EP_POLL_IDLE} = 0"
proof -
  let ?t = "exec (ep_port_drain_pending_until 3 port_quiet 0 5) polls_demo"
  have r: "port_runs port_quiet polls_demo ?t"
    by (rule runs_step [OF runs_refl step_drain])
  have "map_option pt_pending_poll_count (ports ?t 0) = Some 0" by code_simp
  then obtain q where q: "ports ?t 0 = Some q" "pt_pending_poll_count q = 0" by blast
  have "\<not> ep_ub ?t" using polls_demo_drain(2) by simp
  from poll_accounting [OF r polls_demo_acct this q(1)] q(2) show ?thesis by simp
qed

text \<open>
  (C8) The assertion of \<^verbatim>\<open>ep_sock_complete_pending_locked\<close> never fails.  In every state a run reaches,
  settling an active poll of a registration whose port is alive returns 0, counts it off and leaves it
  idle, without a bad access.
\<close>

theorem settle_never_trips:
  assumes r: "port_runs sys s t" "poll_acct s" "\<not> ep_ub t"
    and k: "socks t a = Some k" "sk_poll_status k \<noteq> EP_POLL_IDLE" and q: "ports t (sk_port k) = Some q"
  shows "result_of (ep_sock_complete_pending_locked sys a) t = 0 \<and>
    (let t' = exec (ep_sock_complete_pending_locked sys a) t in \<not> ep_ub t' \<and>
       ports t' (sk_port k) = Some (q \<lparr> pt_pending_poll_count := pt_pending_poll_count q - 1 \<rparr>) \<and>
       0 < pt_pending_poll_count q \<and> socks t' a = Some (k \<lparr> sk_poll_status := EP_POLL_IDLE \<rparr>))"
proof -
  have "poll_acct t" using runs_sane [OF r(1,2)] r(3) by blast
  then have c: "finite (active_socks t (sk_port k))" "pt_pending_poll_count q = card (active_socks t (sk_port k))"
    using q unfolding poll_acct_def by blast+
  moreover have "a \<in> active_socks t (sk_port k)" using k by (simp add: active_socks_def active_def)
  ultimately have p: "pt_pending_poll_count q \<noteq> 0" by auto
  note d = ep_sock_complete_pending_locked_def sock_read_def port_read_def sock_upd_def port_upd_def
  show ?thesis using k q p r(3) by (simp add: d Let_def)
qed

theorem settle_never_trips_witness:
  "result_of (ep_sock_complete_pending_locked port_quiet 1) polls_demo = 0"
proof -
  let ?k = "ep_sock_zero \<lparr> sk_port := 0, sk_poll_status := EP_POLL_PENDING \<rparr>"
  have k: "socks polls_demo 1 = Some ?k" "sk_poll_status ?k \<noteq> EP_POLL_IDLE"
    and q: "ports polls_demo (sk_port ?k) = Some (ep_port_zero \<lparr> pt_closing := True, pt_pending_poll_count := 1 \<rparr>)"
    and u: "\<not> ep_ub polls_demo"
    by (simp_all add: polls_demo_def ep_world_zero_def)
  from settle_never_trips [OF runs_refl polls_demo_acct u k q] show ?thesis by (rule conjunct1)
qed

text \<open>
  (C4) A drained port has no poll in flight.  When the drain of a close reports that nothing is pending,
  no registration of the port has a poll the kernel could still complete, so its storage can be released.
\<close>

theorem drained_no_poll:
  assumes "port_runs sys s t" "poll_acct s"
    and "result_of (ep_port_drain_pending_until n sys p deadline) t = Some 0"
    and "\<not> ep_ub (exec (ep_port_drain_pending_until n sys p deadline) t)"
    and "socks (exec (ep_port_drain_pending_until n sys p deadline) t) a = Some k" "sk_port k = p"
  shows "sk_poll_status k = EP_POLL_IDLE"
proof (rule ccontr)
  let ?t = "exec (ep_port_drain_pending_until n sys p deadline) t"
  assume b: "sk_poll_status k \<noteq> EP_POLL_IDLE"
  have "\<not> ep_ub t" using tri_sound [OF tri_drain_pending] assms(4) unfolding sound_def by blast
  then have "poll_acct t" using runs_sane [OF assms(1,2)] by blast
  then have "drained p (Some 0) ?t" using tri_drain_pending assms(3,4) unfolding tri_def by metis
  then obtain q where "poll_acct ?t" "ports ?t p = Some q" "pt_pending_poll_count q = 0" by (auto simp: drained_def)
  then have "finite (active_socks ?t p)" "card (active_socks ?t p) = 0" unfolding poll_acct_def by metis+
  then have "active_socks ?t p = {}" by simp
  then show False using assms(5,6) b by (auto simp: active_socks_def active_def)
qed

theorem drained_no_poll_witness:
  "sk_poll_status (the (socks (exec (ep_port_drain_pending_until 3 port_quiet 0 5) polls_demo) 1)) = EP_POLL_IDLE"
proof -
  let ?t = "exec (ep_port_drain_pending_until 3 port_quiet 0 5) polls_demo"
  have "map_option sk_port (socks ?t 1) = Some 0" by code_simp
  then obtain k where k: "socks ?t 1 = Some k" "sk_port k = 0" by blast
  have u: "\<not> ep_ub ?t" using polls_demo_drain(2) by simp
  from drained_no_poll [OF runs_refl polls_demo_acct polls_demo_drain(1) u k] k(1) show ?thesis by simp
qed

text \<open>
  (C10) A failed submission leaves nothing behind.  When submitting an idle registration fails, the
  registration is still there, belongs to the same port and is idle, so the caller may release it.
\<close>

theorem failed_submit_idle:
  assumes "port_runs sys s t" "poll_acct s" "socks t a = Some k" "sk_poll_status k = EP_POLL_IDLE"
    and "fst (result_of (ep_sock_submit_locked sys a v w) t) < 0"
    and "\<not> ep_ub (exec (ep_sock_submit_locked sys a v w) t)"
  shows "\<exists>k'. socks (exec (ep_sock_submit_locked sys a v w) t) a = Some k' \<and> sk_port k' = sk_port k \<and>
    sk_poll_status k' = EP_POLL_IDLE"
proof -
  have "\<not> ep_ub t" using tri_sound [OF tri_submit] assms(6) unfolding sound_def by blast
  then have "poll_acct t" using runs_sane [OF assms(1,2)] by blast
  then have "acct_but (sk_port k) a False t" using acct_idle assms(3,4) by (simp add: active_def)
  then have "submitted (sk_port k) a (fst (result_of (ep_sock_submit_locked sys a v w) t))
      (exec (ep_sock_submit_locked sys a v w) t)"
    using tri_submit_from_idle assms(6) unfolding tri_def by blast
  then have "acct_but (sk_port k) a False (exec (ep_sock_submit_locked sys a v w) t)"
    using assms(5) by (simp add: submitted_def)
  then show ?thesis unfolding acct_but_def active_def by blast
qed

text \<open>A pipe at address 1 without a poll, on a live port; the system has no timer for it.\<close>

definition submit_demo :: "bool ep_world" where
  "submit_demo = ep_world_zero False \<lparr> pool_next_addr := 2,
     socks := [1 \<mapsto> ep_sock_zero \<lparr> sk_kind := EP_REG_PIPE, sk_user_events := 1, sk_needs_rearm := True \<rparr>],
     ports := [0 \<mapsto> ep_port_zero] \<rparr>"

lemma submit_demo_acct: "poll_acct submit_demo"
proof (rule poll_acctI)
  show "addrs_ok submit_demo" by (simp add: addrs_ok_def submit_demo_def)
  have "active_socks submit_demo r = {}" for r
    by (auto simp: active_socks_def submit_demo_def active_def ep_sock_zero_def split: if_splits)
  moreover have "pt_pending_poll_count q = 0" if "ports submit_demo r = Some q" for r q
    using that by (auto simp: submit_demo_def ep_port_zero_def split: if_splits)
  ultimately show "finite (active_socks submit_demo r) \<and> pt_pending_poll_count q = card (active_socks submit_demo r)"
    if "ports submit_demo r = Some q" for r q using that by simp
qed

theorem failed_submit_idle_witness:
  "\<exists>k'. socks (exec (ep_sock_submit_locked port_quiet 1 True False) submit_demo) 1 = Some k' \<and>
     sk_port k' = 0 \<and> sk_poll_status k' = EP_POLL_IDLE"
proof -
  let ?m = "ep_sock_submit_locked port_quiet 1 True False"
  have r: "fst (result_of ?m submit_demo) < 0" and u: "\<not> ep_ub (exec ?m submit_demo)" by code_simp+
  have k: "socks submit_demo 1 = Some (ep_sock_zero \<lparr> sk_kind := EP_REG_PIPE, sk_user_events := 1, sk_needs_rearm := True \<rparr>)"
    "sk_poll_status (ep_sock_zero \<lparr> sk_kind := EP_REG_PIPE, sk_user_events := 1, sk_needs_rearm := True \<rparr>) = EP_POLL_IDLE"
    "sk_port (ep_sock_zero \<lparr> sk_kind := EP_REG_PIPE, sk_user_events := 1, sk_needs_rearm := True \<rparr>) = 0"
    by (simp_all add: submit_demo_def ep_sock_zero_def)
  from failed_submit_idle [OF runs_refl submit_demo_acct k(1,2) r u] show ?thesis by (simp only: k(3))
qed

end
