(* ===== verification/Ep_Results.thy ===== *)
theory Ep_Results
  imports Ep_Wait
begin

text \<open>
  What the operations return, whatever the state and the system: the events of a wait, the errors of a
  batch, the edges of an edge-triggered registration.
\<close>

section \<open>Results of programs\<close>

definition yields :: "('a \<Rightarrow> bool) \<Rightarrow> ('s, 'a) state \<Rightarrow> bool" where
  "yields R m \<longleftrightarrow> (\<forall>s. R (result_of m s))"

named_theorems yields_intros "results of programs"

lemma yields_return [yields_intros]: "R x \<Longrightarrow> yields R (return x)"
  by (simp add: yields_def)

lemma yields_bind: "(\<And>x. yields R (k x)) \<Longrightarrow> yields R (State_Monad.bind m k)"
  by (simp add: yields_def)

lemma yields_seq: "yields R' m \<Longrightarrow> (\<And>x. R' x \<Longrightarrow> yields R (k x)) \<Longrightarrow> yields R (State_Monad.bind m k)"
  by (simp add: yields_def)

lemma yields_if [yields_intros]: "(b \<Longrightarrow> yields R m) \<Longrightarrow> (\<not> b \<Longrightarrow> yields R n) \<Longrightarrow> yields R (if b then m else n)"
  by simp

lemma yields_option [yields_intros]:
  "(v = None \<Longrightarrow> yields R m) \<Longrightarrow> (\<And>x. v = Some x \<Longrightarrow> yields R (k x)) \<Longrightarrow>
   yields R (case v of None \<Rightarrow> m | Some x \<Rightarrow> k x)"
  by (cases v) simp_all

lemma yields_prod [yields_intros]: "(\<And>x y. v = (x, y) \<Longrightarrow> yields R (k x y)) \<Longrightarrow> yields R (case v of (x, y) \<Rightarrow> k x y)"
  by (cases v) simp

lemma yields_let [yields_intros]: "(\<And>x. x = v \<Longrightarrow> yields R (k x)) \<Longrightarrow> yields R (Let v k)"
  by simp

section \<open>The events of a wait\<close>

text \<open>The result of a wait: an error without events, or the number of events written, which fit.\<close>

definition fits :: "nat \<Rightarrow> int \<Rightarrow> wait_output list \<Rightarrow> bool" where
  "fits m r out \<longleftrightarrow> r = - 1 \<and> out = [] \<or> r = int (length out) \<and> length out \<le> m"

definition step_fits :: "nat \<Rightarrow> wait_step \<Rightarrow> bool" where
  "step_fits m r = (case r of Wait_Done i out \<Rightarrow> fits m i out | Wait_Again \<Rightarrow> True)"

lemma step_fits_simps [simp]:
  "step_fits m Wait_Again" "step_fits m (Wait_Done i out) = fits m i out" "fits m (- 1) []" "fits m 0 []"
  "fits m (int (length out)) out = (length out \<le> m)"
  by (auto simp: step_fits_def fits_def)

lemma drain_fits:
  "length out \<le> m \<Longrightarrow> yields (\<lambda>o'. length o' \<le> m) (drain_loop n sys port m b out)"
proof (induction n arbitrary: out)
  case 0
  then show ?case by (simp only: drain_loop.simps) ((rule yields_intros yields_bind | simp)+)
next
  case (Suc n)
  show ?case unfolding drain_loop.simps
    by ((rule yields_intros yields_bind Suc.IH | simp add: Suc.prems Suc_le_eq)+)
qed

lemma buffer_fits: "yields (\<lambda>o'. length o' \<le> m) (ep_drain_to_buffer sys port m b)"
  unfolding ep_drain_to_buffer_def by (rule yields_bind, rule drain_fits) simp

lemma coalesce_fits:
  "length out \<le> wc_maxevents c \<Longrightarrow>
   yields (\<lambda>o'. length o' \<le> wc_maxevents c) (coalesce_loop n sys port c g d i z out)"
proof (induction n arbitrary: i z out)
  case 0
  then show ?case by (simp add: yields_def)
next
  case (Suc n)
  show ?case unfolding coalesce_loop.simps
    by ((rule yields_intros Suc.IH yields_seq [OF buffer_fits] yields_bind |
      (simp add: Suc.prems; fail) | (simp; arith))+)
qed

lemma wait_coalesce_fits:
  "length out \<le> wc_maxevents c \<Longrightarrow> yields (step_fits (wc_maxevents c)) (wait_coalesce sys port c v out)"
  unfolding wait_coalesce_def
  by (rule yields_bind, rule yields_seq, erule coalesce_fits, rule yields_return) simp

lemma taken_fits: "0 < m \<Longrightarrow> step_fits m (taken_wake e)"
  by (cases e) (simp_all add: taken_wake_def fits_def)

lemma wait_fail_fits: "yields (step_fits m) (wait_fail e)"
  unfolding wait_fail_def by (rule yields_bind yields_return | simp)+

lemma arm_failed_fits: "yields (step_fits m) (arm_failed port e)"
  unfolding arm_failed_def by (rule yields_bind wait_fail_fits)+

lemma no_packet_fits: "0 < m \<Longrightarrow> yields (step_fits m) (wait_no_packet sys port c v d)"
  unfolding wait_no_packet_def
  by (rule wait_fail_fits yields_intros yields_bind | simp add: taken_fits)+

lemma after_dispatch_fits: "0 < m \<Longrightarrow> yields (step_fits m) (wait_after_dispatch sys port c v t)"
  unfolding wait_after_dispatch_def
  by (rule wait_fail_fits yields_intros yields_bind | simp add: taken_fits)+

lemma packets_fit:
  "0 < wc_maxevents c \<Longrightarrow> yields (step_fits (wc_maxevents c) \<circ> snd) (wait_packets sys port c v d es)"
  unfolding wait_packets_def
  by (rule yields_seq [OF no_packet_fits] yields_seq [OF buffer_fits]
      yields_seq [OF yields_if [OF wait_coalesce_fits after_dispatch_fits]] yields_intros |
      (rule yields_bind; fail) | assumption | (simp add: taken_fits; fail) | rule yields_bind)+

lemma block_fits:
  "0 < wc_maxevents c \<Longrightarrow> yields (step_fits (wc_maxevents c) \<circ> snd) (wait_block sys port c v)"
  unfolding wait_block_def
  by (rule packets_fit yields_intros yields_bind | assumption | (simp; fail))+

lemma pass_fits:
  "0 < wc_maxevents c \<Longrightarrow> yields (step_fits (wc_maxevents c) \<circ> snd) (wait_pass sys port c v)"
  unfolding wait_pass_def
  by (rule block_fits yields_seq [OF buffer_fits] yields_seq [OF wait_fail_fits] yields_seq [OF wait_coalesce_fits]
      yields_seq [OF yields_if [OF yields_return arm_failed_fits]] yields_intros | assumption | (simp; fail) | rule yields_bind)+

text \<open>The result of a whole wait, which may still be blocked.\<close>

definition wait_fits :: "nat \<Rightarrow> (int \<times> wait_output list) option \<Rightarrow> bool" where
  "wait_fits m r = (case r of None \<Rightarrow> True | Some (i, out) \<Rightarrow> fits m i out)"

lemma wait_fits_simps [simp]: "wait_fits m None" "wait_fits m (Some (i, out)) = fits m i out"
  by (simp_all add: wait_fits_def)

lemma yields_wait_step:
  "(\<And>i out. v = Wait_Done i out \<Longrightarrow> yields R (f i out)) \<Longrightarrow> (v = Wait_Again \<Longrightarrow> yields R m) \<Longrightarrow>
   yields R (case v of Wait_Done i out \<Rightarrow> f i out | Wait_Again \<Rightarrow> m)"
  by (cases v) simp_all

lemma loop_fits:
  "0 < wc_maxevents c \<Longrightarrow> yields (wait_fits (wc_maxevents c)) (wait_loop n sys port c v)"
proof (induction n arbitrary: v)
  case 0
  show ?case by (simp add: yields_def)
next
  case (Suc n)
  show ?case unfolding wait_loop.simps
    by ((rule yields_seq [OF pass_fits [OF Suc.prems]] yields_wait_step yields_intros Suc.IH [OF Suc.prems] |
      (simp; fail) | rule yields_bind)+)
qed

lemma locked_fits:
  "0 < wc_maxevents c \<Longrightarrow> yields (wait_fits (wc_maxevents c)) (wait_locked n sys port c ws)"
  unfolding wait_locked_def
  by (rule yields_seq [OF loop_fits] yields_intros | assumption | (simp; fail) | rule yields_bind)+

text \<open>
  (C9) A wait stays inside the caller's array.  Whatever the system does, a wait that returns either
  fails with \<open>- 1\<close> and writes nothing, or returns the number of events it wrote, which is at most
  \<open>maxevents\<close>.
\<close>

theorem wait_stays_in_array:
  "case result_of (ep_port_wait_timeout_impl fuel sys port has_out maxevents timeout basic) s of
     None \<Rightarrow> True
   | Some (r, out) \<Rightarrow> r = - 1 \<and> out = [] \<or> r = int (length out) \<and> int (length out) \<le> max 0 maxevents"
proof -
  have m: "yields (wait_fits (nat maxevents)) (ep_port_wait_timeout_impl fuel sys port has_out maxevents timeout basic)"
    unfolding ep_port_wait_timeout_impl_def
    by ((rule yields_seq [OF locked_fits] yields_intros | (rule locked_fits [of "wait_call.make _ _ _ _", unfolded wait_call.make_def wait_call.simps]; simp; fail) |
      (simp; fail) | rule yields_bind)+)
  show ?thesis
    using m [unfolded yields_def, rule_format, of s] by (auto simp: fits_def split: option.split)
qed

section \<open>The errors of a batch\<close>

text \<open>One error per entry; if no error was noted, every entry succeeded.\<close>

definition reported :: "nat \<Rightarrow> 'e option \<Rightarrow> int list \<Rightarrow> 'e option \<Rightarrow> bool" where
  "reported n f errors f' \<longleftrightarrow> length errors = n \<and> (f' = None \<longrightarrow> f = None \<and> errors = replicate n 0)"

lemma reported_append:
  "reported n f es g \<Longrightarrow> h = None \<longrightarrow> g = None \<Longrightarrow> reported m h es' f' \<Longrightarrow> reported (n + m) f (es @ es') f'"
  by (auto simp: reported_def replicate_add)

lemma note_failure_yields: "yields (\<lambda>f'. f' = None \<longrightarrow> f = None \<and> \<not> b) (note_failure f b)"
  unfolding note_failure_def by (rule yields_intros yields_bind | (auto; fail))+

lemma chunk_reported:
  "yields (\<lambda>(errors, f', w'). reported (length es) f errors f') (rearm_chunk sys port es f w)"
proof (induction es arbitrary: f w)
  case Nil
  show ?case by (simp add: yields_def reported_def)
next
  case (Cons e es)
  show ?case unfolding rearm_chunk.simps
    by ((rule yields_seq [OF note_failure_yields] yields_seq [OF Cons.IH] yields_intros |
      (auto simp: reported_def; fail) | rule yields_bind)+)
qed

lemma batch_reported:
  "yields (\<lambda>(errors, f'). reported (length es) f errors f') (rearm_batch sys port es f)"
proof (induction "length es" arbitrary: es f rule: less_induct)
  case less
  show ?case
  proof (cases "es = []")
    case True
    show ?thesis unfolding rearm_batch.simps [of sys port es f] if_P [OF True]
      by (simp add: yields_def reported_def True)
  next
    case False
    then have "length (drop 64 es) < length es" by simp
    note ih = less [OF this]
    have l: "length es = length (take 64 es) + length (drop 64 es)" by simp
    show ?thesis unfolding rearm_batch.simps [of sys port es f] if_not_P [OF False] l
      apply (rule yields_seq [OF chunk_reported])
      apply (rule yields_prod)+
      apply (rule yields_bind)
      apply (rule yields_seq [OF note_failure_yields])
      apply (rule yields_seq [OF ih])
      apply (rule yields_prod, rule yields_return)
      apply (clarsimp simp del: length_take length_drop)
      apply (rule reported_append, assumption)
       prefer 2 apply assumption
      apply blast
      done
  qed
qed

text \<open>
  (C12) A batch rearm answers every entry.  The call returns one error per entry of the batch, and it
  returns 0 only if all of them are 0; otherwise it returns \<open>- 1\<close>.
\<close>

theorem rearm_batch_answers:
  "case result_of (ep_port_rearm_classes_batch sys port batch) s of (r, errors) \<Rightarrow>
     length errors = length batch \<and> (r = - 1 \<or> r = 0 \<and> errors = replicate (length batch) 0)"
proof -
  have "yields (\<lambda>(r, errors). length errors = length batch \<and> (r = - 1 \<or> r = 0 \<and> errors = replicate (length batch) 0))
      (ep_port_rearm_classes_batch sys port batch)"
    unfolding ep_port_rearm_classes_batch_def
    by ((rule yields_seq [OF batch_reported] yields_intros | (auto simp: reported_def; fail) | rule yields_bind)+)
  then show ?thesis unfolding yields_def by (rule spec)
qed

unbundle bit_operations_syntax

section \<open>The edge latch\<close>

text \<open>The latch over a sequence of levels, and the rising edges of that sequence.\<close>

primrec latch_run :: "uint32 \<Rightarrow> uint32 \<Rightarrow> uint32 list \<Rightarrow> uint32 list" where
  "latch_run observed interest [] = []"
| "latch_run observed interest (level # levels) =
    (case edge_latch observed interest level of (edge, observed') \<Rightarrow> edge # latch_run observed' interest levels)"

primrec rising :: "uint32 \<Rightarrow> uint32 list \<Rightarrow> uint32 list" where
  "rising previous [] = []"
| "rising previous (level # levels) = (level AND NOT previous) # rising level levels"

lemma latch_step:
  assumes "level AND NOT interest = 0"
  shows "edge_latch observed interest level = (level AND NOT observed, level)"
proof -
  have i: "bit level n \<Longrightarrow> n < 32 \<Longrightarrow> bit interest n" for n
    using assms [THEN arg_cong, of "\<lambda>w. bit w n"] by (simp add: bit_simps)
  have "level AND NOT (observed AND level AND interest) = level AND NOT observed"
    using i by (intro bit_word_eqI) (auto simp: bit_simps)
  moreover have "observed AND level AND interest OR level AND NOT observed = level"
    using i by (intro bit_word_eqI) (auto simp: bit_simps)
  ultimately show ?thesis by (simp add: edge_latch_def Let_def)
qed

text \<open>
  (C11) Edge-triggered delivery reports rising edges.  Over any sequence of levels inside the interest
  mask, the latch of an edge-triggered registration delivers exactly the bits that were clear in the
  level before.
\<close>

theorem latch_reports_rising_edges:
  "\<forall>level\<in>set levels. level AND NOT interest = 0 \<Longrightarrow>
   latch_run observed interest levels = rising observed levels"
  by (induction levels arbitrary: observed) (simp_all add: latch_step)

theorem latch_reports_rising_edges_witness:
  "latch_run 0 0x1D [1, 5, 4, 5, 0, 1] = [1, 4, 0, 1, 0, 1]"
proof -
  have "\<forall>level\<in>set [1, 5, 4, 5, 0, 1]. level AND NOT (0x1D :: uint32) = 0" by simp
  from latch_reports_rising_edges [OF this] show ?thesis by simp
qed

end
