(* ===== verification/Spec2Isabelle.thy ===== *)
theory Spec2Isabelle
  imports Ep_Exclusive Ep_Api Ep_Afd Ep_Runs Ep_Results
begin

text \<open>
  A verification development of \<^bold>\<open>wepoll-ex\<close>, an implementation of the Linux epoll interface on
  Windows I/O completion ports and the AFD driver (\<^verbatim>\<open>src/src/*.c\<close>, \<^verbatim>\<open>src/include/wepoll_ex.h\<close>).

  \<^bold>\<open>The program.\<close>  An application holds virtual epoll descriptors.  The public calls
  (\<^verbatim>\<open>wepoll_ex_api.c\<close>) map a descriptor to a shared instance, take a reference, dispatch to the
  port (\<^verbatim>\<open>wepoll_ex_port.c\<close>) and give the reference back.  A port owns an open-addressing table from
  sockets to registrations, a list of its live registrations, two work lists, a lock-free queue of
  ready nodes, two buffer pools (\<^verbatim>\<open>wepoll_ex_pool.c\<close>) and a completion port.  A registration is polled
  through AFD on the provider socket found by \<^verbatim>\<open>wepoll_ex_afd.c\<close>; a completion becomes a ready node
  that a wait drains.  Errors are reported through a per-thread channel (\<^verbatim>\<open>wepoll_ex_errno.c\<close>), and
  test builds inject faults (\<^verbatim>\<open>wepoll_ex_fault.c\<close>).  The build modelled is the default Windows one:
  endpoint identity checks on, the small AFD index, 64-bit pointers.

  \<^bold>\<open>How it is modelled.\<close>  The state is an extensible record that grows with the components: error
  channel, fault slots, system state and the flag \<open>ep_ub\<close>, pools, and the blocks of the program
  (registrations, ports, groups), keyed by address; the public calls add the descriptor table.  An
  operation is a program of the state monad, written in the order of the C function.  A pointer is an
  optional address; reading or writing through a dead one, a failed assertion and a loop that outruns
  its bound set \<open>ep_ub\<close>, so \<open>\<not> ep_ub\<close> in a theorem says that none of these happens.  Machine integers
  are words of their width.  The C library, Windows and Winsock are records of functions on an opaque
  system state, passed to the operations.  A region under a lock is one step; where a property is
  about what happens between regions, the steps are an inductive relation.

  \<^bold>\<open>Theories.\<close>
  \<^item> \<open>Prelude\<close>: C types, the weakest-precondition calculus \<open>wp\<close>, frame rules \<open>keeps\<close> and
    \<open>preserves\<close>.  \<open>Linked\<close>: doubly linked chains in memory.
  \<^item> \<open>Ep_Codes\<close>, \<open>Ep_Errno\<close>: error codes, their translation and the error channel.  \<open>Ep_Fault\<close>: the
    fault injector; an armed point fails exactly at its chosen hit.  \<open>Ep_Env\<close>: the system interface.
  \<^item> \<open>Pool_Spec\<close>, \<open>Ep_Pool\<close>: the free-list pools; no buffer is handed out twice, the counters account
    for every buffer, initialisation is all or nothing, a busy pool is not torn down.
  \<^item> \<open>Queue_Contract\<close>, \<open>Ep_Ready\<close>: the multi-producer ready queue as interleaved atomic steps; it is
    first-in first-out, never written after it is closed, and a drain takes a prefix.
  \<^item> \<open>Ep_Events\<close>: event masks and readiness classes; the mask computed from an AFD completion is exact.
  \<^item> \<open>Ep_Types\<close>: the structures of \<^verbatim>\<open>wepoll_ex_internal.h\<close> and the program state.
  \<^item> \<open>Fd_Contract\<close>, \<open>Ep_Fd_Table\<close>: the fd table refines a finite map, with growth and deletion.
  \<^item> \<open>Ep_Worklist\<close>: the live list and the two work lists; flags, membership and counts move in
    lockstep, and the invariant checker accepts exactly the intact states.
  \<^item> \<open>Ep_Exclusive\<close>: EPOLLEXCLUSIVE claims; a class of a provider socket never has two owners, and a
    claim is granted, filtered or refused exactly as its peers' claims demand.
  \<^item> \<open>Ep_Win\<close>, \<open>Ep_Timeout\<close>: Windows calls; timeouts round up and saturate, timestamps are exact, and
    a finite wait obtains the waiters' lock or gives up within a bounded number of passes.
  \<^item> \<open>Ep_Wake\<close>: posts to the completion port and wake-up requests; under every interleaving no
    wake-up is lost and each is returned once.
  \<^item> \<open>Ep_Provider\<close>: the walk through layered providers; it unwraps stacks of up to 32 handles and is
    never stopped by its depth bound.
  \<^item> \<open>Ep_Afd\<close>: the index of active poll targets, control handles, submission and cancellation; no two
    active polls carry the same numeric target.
  \<^item> \<open>Ep_Target\<close>: what a descriptor is, its current level, endpoint identity and the UDP probe.
    \<open>Ep_Aux\<close>: registered waits, pipe snapshots and the precise timer.
  \<^item> \<open>Ep_Sock\<close>: AFD groups and the life of a registration.  \<open>Ep_Submit\<close>: local shutdown levels and the
    submission of a poll.  \<open>Ep_Completion\<close>: the handler of a completion packet.
  \<^item> \<open>Ep_Control\<close>: register, modify, unregister, shutdown and rearm.  \<open>Ep_Wait\<close>: draining the ready
    queue and the wait loop.  \<open>Ep_Close\<close>: closing a port and draining its polls.
  \<^item> \<open>Ep_Frame\<close>, \<open>Ep_Accounting\<close>, \<open>Ep_Runs\<close>: the count of pending polls of a port; it is exact in every
    run of control calls, waits, callbacks and closes, settling a poll never fails its assertion, a
    failed submission leaves the registration idle, and a drained port has no poll in flight.
  \<^item> \<open>Ep_Results\<close>: a wait stays inside the caller's array, a batch rearm answers every entry, the edge
    latch delivers exactly the rising edges.
  \<^item> \<open>Ep_Api\<close>: the public calls, parametric in the port operations they dispatch to; under every
    interleaving of calls and closes no instance is used after release or released twice.

  \<^bold>\<open>Bounds.\<close>  Loops over tables and chains carry a bound taken from the state (the table size, the
  number of addresses in use) that is proved sufficient; the retry loop for the waiters' lock has fuel,
  with a theorem that enough fuel for the timeout and the clock resolution exists; the passes of a wait
  and of the drain at close are bounded by a parameter, because the code may block for ever there;
  the loop that duplicates a poll target has fuel and reports its exhaustion; the loop that picks a
  descriptor has the bound of the source.  Reference and alias counters have 32 bits: the interleaving
  theorem assumes fewer than \<open>2 ^ 32 - 1\<close> simultaneous calls and aliases per instance.

  \<^bold>\<open>Not modelled.\<close>  Creating a port, its final release, the quarantine of a port whose polls do not
  settle and the reaper thread; one-time initialisation, which resolves entry points; the POSIX
  backend, which is not part of the Windows build; the nginx module, which needs the sources of nginx;
  benchmarks and tests.
\<close>

end
